(* ===== verification/Ubpf_Prelude.thy ===== *)
theory Ubpf_Prelude
  imports Main "HOL-Library.Word"
begin

text \<open>
  Shared vocabulary of the development: the machine integer types of the C sources, little-endian
  byte sequences, consecutive byte accesses to an indexed store (the flat memory of the process and
  the code buffer of the JIT are its two instances), address ranges, and the lemma collections the
  component theories add to.
\<close>

unbundle bit_operations_syntax

section \<open>Machine integers\<close>

type_synonym u8 = "8 word"
type_synonym u16 = "16 word"
type_synonym u32 = "32 word"
type_synonym u64 = "64 word"

text \<open>Values of the opcode constants, one equation per constant.\<close>

named_theorems opcode_defs \<open>definitions of the eBPF opcode constants\<close>

text \<open>Frame facts: which fields an operation leaves alone.\<close>

named_theorems frame_simps \<open>fields an operation does not touch\<close>

lemma unat_u64_lt [simp]: "unat (w :: u64) < 2 ^ 64"
  using unsigned_less [where ?'a = nat, of w] by simp

lemma unat_u16_lt: "unat (w :: u16) < 65536"
  using unsigned_less [where ?'a = nat, of w] by simp

lemma unat_u32_lt: "unat (w :: u32) < 4294967296"
  using unsigned_less [where ?'a = nat, of w] by simp

lemma sint_nonneg_unat: "0 \<le> sint w \<Longrightarrow> sint w = int (unat w)" for w :: "'a::len word"
proof -
  assume "0 \<le> sint w"
  moreover have "sint w < 2 ^ LENGTH('a)"
    by (rule less_le_trans [OF sint_lt power_increasing]) simp_all
  ultimately have "uint w = sint w" by (simp add: uint_sint take_bit_int_eq_self)
  then show ?thesis by simp
qed

lemma take_bit_32_bound: "unat (take_bit 32 (x :: u64)) < 2 ^ 32"
  using take_bit_nat_less_exp [of 32 "unat x"] by (simp add: unsigned_take_bit_eq)

lemma and_mask32_eq: "(x :: u64) AND 0xFFFFFFFF = take_bit 32 x"
proof -
  have "(0xFFFFFFFF :: u64) = mask 32" by (simp add: mask_eq_exp_minus_1)
  then show ?thesis by (simp add: take_bit_eq_mask)
qed

lemma and_mask32_bound: "unat ((x :: u64) AND 0xFFFFFFFF) < 2 ^ 32"
  unfolding and_mask32_eq by (rule take_bit_32_bound)

lemma and_mask32_idem: "unat (x :: u64) < 2 ^ 32 \<Longrightarrow> x AND 0xFFFFFFFF = x"
  by (simp add: and_mask32_eq word_unat_eq_iff unsigned_take_bit_eq take_bit_nat_eq_self)

lemma ucast_u16_add: "(ucast (a + b :: u32) :: u16) = ucast a + ucast b"
proof -
  have "uint (ucast (a + b) :: u16) = (uint a + uint b) mod 2 ^ 16"
    by (simp add: uint_word_ariths unsigned_ucast_eq unsigned_take_bit_eq take_bit_eq_mod
        mod_mod_cancel)
  moreover have "uint (ucast a + ucast b :: u16) = (uint a + uint b) mod 2 ^ 16"
    by (simp add: uint_word_ariths unsigned_ucast_eq unsigned_take_bit_eq take_bit_eq_mod mod_simps)
  ultimately show ?thesis by (simp add: word_uint_eq_iff)
qed

lemma ucast_u16_u32 [simp]: "ucast (ucast (p :: u16) :: u32) = p"
  by (rule bit_word_eqI) (simp add: bit_simps)

section \<open>Little-endian byte sequences\<close>

text \<open>The bytes of an object of \<open>n\<close> bytes, as \<open>memcpy\<close> from it reads them on x86-64.\<close>

definition le_bytes :: "nat \<Rightarrow> 'a::len word \<Rightarrow> u8 list" where
  "le_bytes n w = map (\<lambda>i. ucast (drop_bit (8 * i) w)) [0..<n]"

text \<open>The object a byte sequence holds.\<close>

fun le_word :: "u8 list \<Rightarrow> 'a::len word" where
  "le_word [] = 0"
| "le_word (b # bs) = ucast b OR push_bit 8 (le_word bs)"

lemma length_le_bytes [simp]: "length (le_bytes n w) = n"
  by (simp add: le_bytes_def)

lemma nth_le_bytes [simp]: "i < n \<Longrightarrow> le_bytes n w ! i = ucast (drop_bit (8 * i) w)"
  by (simp add: le_bytes_def)

lemma le_bytes_eq_Nil_iff [simp]: "le_bytes n w = [] \<longleftrightarrow> n = 0"
  by (simp add: le_bytes_def)

lemma le_bytes_Suc: "le_bytes (Suc n) w = ucast w # le_bytes n (drop_bit 8 w)"
  by (rule nth_equalityI) (auto simp: nth_Cons' drop_bit_drop_bit algebra_simps)

lemma bit_le_word_iff:
  "bit (le_word bs :: 'a::len word) n \<longleftrightarrow>
     n < LENGTH('a) \<and> n div 8 < length bs \<and> bit (bs ! (n div 8)) (n mod 8)"
proof (induction bs arbitrary: n)
  case Nil
  then show ?case by simp
next
  case (Cons b bs)
  show ?case
  proof (cases "n < 8")
    case True
    then show ?thesis
      by (auto simp: bit_simps possible_bit_word)
  next
    case False
    then have "n div 8 = Suc ((n - 8) div 8)" "n mod 8 = (n - 8) mod 8"
      by (auto simp: le_div_geq le_mod_geq)
    moreover have "\<not> bit b n" using False by (auto dest: bit_imp_le_length)
    ultimately show ?thesis
      using False Cons.IH [of "n - 8"] by (auto simp: bit_simps possible_bit_word)
  qed
qed

lemma le_word_le_bytes:
  "le_word (le_bytes n w) = take_bit (8 * n) w" for w :: "'a::len word"
  by (rule bit_word_eqI)
    (auto simp: bit_le_word_iff bit_simps less_mult_imp_div_less mult.commute div_less_iff_less_mult
      possible_bit_word dest: bit_imp_le_length)

lemma le_word_le_bytes_full [simp]:
  "LENGTH('a) = 8 * n \<Longrightarrow> le_word (le_bytes n w) = (w :: 'a::len word)"
  by (simp add: le_word_le_bytes take_bit_word_eq_self)

lemma le_bytes_le_word:
  assumes "8 * length bs \<le> LENGTH('a)"
  shows "le_bytes (length bs) (le_word bs :: 'a::len word) = bs"
proof (rule nth_equalityI)
  show "length (le_bytes (length bs) (le_word bs :: 'a word)) = length bs" by simp
next
  fix i
  assume "i < length (le_bytes (length bs) (le_word bs :: 'a word))"
  then have i: "i < length bs" by simp
  show "le_bytes (length bs) (le_word bs :: 'a word) ! i = bs ! i"
  proof (rule bit_word_eqI)
    fix n
    assume "n < LENGTH(8)"
    then have n: "n < 8" by simp
    have "8 * i + n < LENGTH('a)" using i n assms by linarith
    with i n show "bit (le_bytes (length bs) (le_word bs :: 'a word) ! i) n = bit (bs ! i) n"
      by (simp add: bit_simps bit_le_word_iff possible_bit_word)
  qed
qed

section \<open>Consecutive bytes of an indexed store\<close>

text \<open>
  A store gives some indices a byte. \<open>read_bytes\<close> and \<open>write_bytes\<close> access consecutive
  indices as \<open>memcpy\<close> does; touching an index that has no byte is \<open>None\<close> (an access outside
  every object, a fault).
\<close>

fun read_bytes :: "('s \<Rightarrow> 'i \<Rightarrow> u8 option) \<Rightarrow> ('i \<Rightarrow> 'i) \<Rightarrow> 's \<Rightarrow> 'i \<Rightarrow> nat \<Rightarrow> u8 list option" where
  "read_bytes get nxt s i 0 = Some []"
| "read_bytes get nxt s i (Suc n) =
     (case get s i of
        None \<Rightarrow> None
      | Some b \<Rightarrow> (case read_bytes get nxt s (nxt i) n of None \<Rightarrow> None | Some bs \<Rightarrow> Some (b # bs)))"

fun write_bytes ::
  "('s \<Rightarrow> 'i \<Rightarrow> u8 option) \<Rightarrow> ('s \<Rightarrow> 'i \<Rightarrow> u8 \<Rightarrow> 's) \<Rightarrow> ('i \<Rightarrow> 'i) \<Rightarrow> 's \<Rightarrow> 'i \<Rightarrow> u8 list \<Rightarrow> 's option"
where
  "write_bytes get put nxt s i [] = Some s"
| "write_bytes get put nxt s i (b # bs) =
     (case get s i of None \<Rightarrow> None | Some _ \<Rightarrow> write_bytes get put nxt (put s i b) (nxt i) bs)"

text \<open>The indices an access of \<open>n\<close> bytes at \<open>i\<close> touches.\<close>

definition span :: "('i \<Rightarrow> 'i) \<Rightarrow> 'i \<Rightarrow> nat \<Rightarrow> 'i set" where
  "span nxt i n = (\<lambda>k. (nxt ^^ k) i) ` {..<n}"

lemma span_0 [simp]: "span nxt i 0 = {}"
  by (simp add: span_def)

lemma span_Suc: "span nxt i (Suc n) = insert i (span nxt (nxt i) n)"
proof -
  have "{..<Suc n} = insert 0 (Suc ` {..<n})"
    by (rule lessThan_Suc_eq_insert_0)
  moreover have "(nxt ^^ Suc k) i = (nxt ^^ k) (nxt i)" for k
    by (simp only: funpow_Suc_right comp_apply)
  ultimately show ?thesis
    by (simp only: span_def image_insert image_image) simp
qed

lemma read_bytes_length: "read_bytes get nxt s i n = Some bs \<Longrightarrow> length bs = n"
  by (induction n arbitrary: i bs) (auto split: option.splits)

lemma read_bytes_eq_None_iff:
  "read_bytes get nxt s i n = None \<longleftrightarrow> (\<exists>j \<in> span nxt i n. get s j = None)"
proof (induction n arbitrary: i)
  case 0
  then show ?case by simp
next
  case (Suc n)
  show ?case
    by (simp add: span_Suc Suc.IH [symmetric] split: option.split)
qed

lemma read_bytes_cong:
  "(\<And>j. j \<in> span nxt i n \<Longrightarrow> get s j = get t j) \<Longrightarrow>
     read_bytes get nxt s i n = read_bytes get nxt t i n"
  by (induction n arbitrary: i) (auto simp: span_Suc split: option.splits)

text \<open>
  The interface of a store: a put changes one index that already has a byte, and the \<open>width\<close>
  indices from any start are pairwise different (a 64-bit address wraps only after \<open>2^64\<close> bytes).
\<close>

locale byte_store =
  fixes get :: "'s \<Rightarrow> 'i \<Rightarrow> u8 option"
    and put :: "'s \<Rightarrow> 'i \<Rightarrow> u8 \<Rightarrow> 's"
    and nxt :: "'i \<Rightarrow> 'i"
    and width :: nat
  assumes get_put: "get s i \<noteq> None \<Longrightarrow> get (put s i b) j = (if j = i then Some b else get s j)"
    and nxt_fresh: "n < width \<Longrightarrow> i \<notin> span nxt (nxt i) n"
begin

lemma write_bytes_total:
  "(\<And>j. j \<in> span nxt i (length bs) \<Longrightarrow> get s j \<noteq> None) \<Longrightarrow>
     \<exists>s'. write_bytes get put nxt s i bs = Some s'"
proof (induction bs arbitrary: s i)
  case Nil
  then show ?case by simp
next
  case (Cons b bs)
  then have i: "get s i \<noteq> None" by (simp add: span_Suc)
  have "\<exists>s'. write_bytes get put nxt (put s i b) (nxt i) bs = Some s'"
  proof (rule Cons.IH)
    fix j
    assume "j \<in> span nxt (nxt i) (length bs)"
    then have "get s j \<noteq> None" using Cons.prems by (simp add: span_Suc)
    then show "get (put s i b) j \<noteq> None" by (simp add: get_put [OF i])
  qed
  with i show ?case by auto
qed

lemma write_bytes_eq_None_iff:
  "write_bytes get put nxt s i bs = None \<longleftrightarrow> (\<exists>j \<in> span nxt i (length bs). get s j = None)"
proof (induction bs arbitrary: s i)
  case Nil
  then show ?case by simp
next
  case (Cons b bs)
  show ?case
  proof (cases "get s i")
    case None
    then show ?thesis by (simp add: span_Suc)
  next
    case (Some c)
    have "get (put s i b) j = None \<longleftrightarrow> get s j = None" for j
      using Some by (simp add: get_put)
    with Some Cons.IH show ?thesis by (simp add: span_Suc)
  qed
qed

lemma write_bytes_outside:
  "write_bytes get put nxt s i bs = Some s' \<Longrightarrow> j \<notin> span nxt i (length bs) \<Longrightarrow> get s' j = get s j"
  by (induction bs arbitrary: s i) (auto simp: span_Suc get_put split: option.splits)

lemma write_bytes_domain:
  "write_bytes get put nxt s i bs = Some s' \<Longrightarrow> get s' j = None \<longleftrightarrow> get s j = None"
  by (induction bs arbitrary: s i) (auto simp: get_put split: option.splits if_splits)

lemma read_write_bytes:
  "write_bytes get put nxt s i bs = Some s' \<Longrightarrow> length bs \<le> width \<Longrightarrow>
     read_bytes get nxt s' i (length bs) = Some bs"
proof (induction bs arbitrary: s i)
  case Nil
  then show ?case by simp
next
  case (Cons b bs)
  then obtain c where c: "get s i = Some c"
    and w: "write_bytes get put nxt (put s i b) (nxt i) bs = Some s'"
    by (auto split: option.splits)
  have "i \<notin> span nxt (nxt i) (length bs)"
    using Cons.prems(2) by (intro nxt_fresh) simp
  then have "get s' i = get (put s i b) i"
    by (rule write_bytes_outside [OF w])
  then have "get s' i = Some b" using c by (simp add: get_put)
  moreover have "read_bytes get nxt s' (nxt i) (length bs) = Some bs"
    using Cons.IH [OF w] Cons.prems(2) by simp
  ultimately show ?case by simp
qed

lemma read_bytes_after_disjoint_write:
  assumes "write_bytes get put nxt s i bs = Some s'"
    and "span nxt i (length bs) \<inter> span nxt j n = {}"
  shows "read_bytes get nxt s' j n = read_bytes get nxt s j n"
  using assms by (intro read_bytes_cong) (auto intro: write_bytes_outside)

end

section \<open>The flat memory of the process\<close>

text \<open>Mapped addresses hold a byte; an access to any other address faults.\<close>

type_synonym memory = "u64 \<Rightarrow> u8 option"

definition mem_put :: "memory \<Rightarrow> u64 \<Rightarrow> u8 \<Rightarrow> memory" where
  "mem_put m a b = m(a := Some b)"

definition next_addr :: "u64 \<Rightarrow> u64" where
  "next_addr a = a + 1"

definition mem_read :: "memory \<Rightarrow> u64 \<Rightarrow> nat \<Rightarrow> u8 list option" where
  "mem_read = read_bytes (\<lambda>m. m) next_addr"

definition mem_write :: "memory \<Rightarrow> u64 \<Rightarrow> u8 list \<Rightarrow> memory option" where
  "mem_write = write_bytes (\<lambda>m. m) mem_put next_addr"

lemma mem_read_code [code]:
  "mem_read m a n = (if n = 0 then Some []
     else case m a of None \<Rightarrow> None
       | Some b \<Rightarrow> (case mem_read m (a + 1) (n - 1) of None \<Rightarrow> None | Some bs \<Rightarrow> Some (b # bs)))"
  by (cases n) (simp_all add: mem_read_def next_addr_def split: option.split)

lemma mem_write_simps [simp, code]:
  "mem_write m a [] = Some m"
  "mem_write m a (b # bs) =
     (case m a of None \<Rightarrow> None | Some _ \<Rightarrow> mem_write (mem_put m a b) (a + 1) bs)"
  by (simp_all add: mem_write_def next_addr_def split: option.split)

lemma next_addr_funpow: "(next_addr ^^ n) a = a + of_nat n"
  by (induction n) (simp_all add: next_addr_def)

text \<open>The \<open>n\<close> addresses from \<open>a\<close> on.\<close>

definition region :: "u64 \<Rightarrow> nat \<Rightarrow> u64 set" where
  "region a n = {x. unat (x - a) < n}"

lemma span_next_addr: "n \<le> 2 ^ 64 \<Longrightarrow> span next_addr a n = region a n"
proof
  assume n: "n \<le> 2 ^ 64"
  show "span next_addr a n \<subseteq> region a n"
    using n by (auto simp: span_def region_def next_addr_funpow unat_of_nat)
  show "region a n \<subseteq> span next_addr a n"
  proof
    fix x
    assume "x \<in> region a n"
    then have "unat (x - a) \<in> {..<n}" by (simp add: region_def)
    moreover have "x = (next_addr ^^ unat (x - a)) a" by (simp add: next_addr_funpow)
    ultimately show "x \<in> span next_addr a n" by (auto simp: span_def)
  qed
qed

lemma region_iff_nowrap:
  "unat a + n \<le> 2 ^ 64 \<Longrightarrow> x \<in> region a n \<longleftrightarrow> unat a \<le> unat x \<and> unat x < unat a + n"
  using unat_u64_lt [of x] by (auto simp: region_def unat_sub_if' split: if_splits)

lemma next_addr_fresh: "n < 2 ^ 64 \<Longrightarrow> a \<notin> span next_addr (next_addr a) n"
proof -
  assume n: "n < 2 ^ 64"
  have "unat (- 1 :: u64) = 2 ^ 64 - 1"
    by (simp add: unsigned_minus_1_eq_mask mask_eq_exp_minus_1)
  with n show ?thesis by (simp add: span_next_addr region_def next_addr_def)
qed

interpretation flat: byte_store "\<lambda>m. m" mem_put next_addr "2 ^ 64"
  by unfold_locales (simp add: mem_put_def, rule next_addr_fresh)

lemmas mem_write_total = flat.write_bytes_total [folded mem_write_def]
  and mem_write_outside = flat.write_bytes_outside [folded mem_write_def]
  and mem_write_domain = flat.write_bytes_domain [folded mem_write_def]
  and mem_write_eq_None_iff = flat.write_bytes_eq_None_iff [folded mem_write_def]
  and mem_read_after_write = flat.read_write_bytes [folded mem_write_def mem_read_def]
  and mem_read_disjoint = flat.read_bytes_after_disjoint_write [folded mem_write_def mem_read_def]
  and mem_read_length = read_bytes_length [of "\<lambda>m. m" next_addr, folded mem_read_def]
  and mem_read_eq_None_iff = read_bytes_eq_None_iff [of "\<lambda>m. m" next_addr, folded mem_read_def]

end
