(* ===== verification/Ebpf_ISA.thy ===== *)
theory Ebpf_ISA
  imports Ubpf_Prelude
begin

text \<open>
  The eBPF instruction format and opcode constants of \<open>src/libs/ubpf/vm/ebpf.h\<close>, and the 64-bit
  encoding of an instruction that the union \<open>ebpf_encoded_inst\<close> of \<open>ubpf_vm.c\<close> gives on a
  little-endian host (bit fields from the least significant bit on, as the x86-64 and AArch64 ABIs
  lay them out).
\<close>

section \<open>Instructions\<close>

text \<open>
  \<open>dst\<close> and \<open>src\<close> are 4-bit fields; \<open>offset\<close> and \<open>imm\<close> are the two's-complement bit patterns of
  \<open>int16_t\<close> and \<open>int32_t\<close>, read with \<^const>\<open>sint\<close> or \<^const>\<open>scast\<close> where the code reads them.
\<close>

record ebpf_inst =
  opcode :: u8
  dst :: "4 word"
  src :: "4 word"
  offset :: u16
  imm :: u32

text \<open>The register numbers \<open>enum bpf_register\<close> names.\<close>

abbreviation (input) BPF_REG_0 :: "4 word" where "BPF_REG_0 \<equiv> 0"
abbreviation (input) BPF_REG_6 :: "4 word" where "BPF_REG_6 \<equiv> 6"
abbreviation (input) BPF_REG_7 :: "4 word" where "BPF_REG_7 \<equiv> 7"
abbreviation (input) BPF_REG_8 :: "4 word" where "BPF_REG_8 \<equiv> 8"
abbreviation (input) BPF_REG_9 :: "4 word" where "BPF_REG_9 \<equiv> 9"
abbreviation (input) BPF_REG_10 :: "4 word" where "BPF_REG_10 \<equiv> 10"

section \<open>Opcode constants\<close>

definition EBPF_CLS_MASK :: u8 where [opcode_defs]:
  "EBPF_CLS_MASK = 0x07"

definition EBPF_ALU_OP_MASK :: u8 where [opcode_defs]:
  "EBPF_ALU_OP_MASK = 0xf0"

definition EBPF_JMP_OP_MASK :: u8 where [opcode_defs]:
  "EBPF_JMP_OP_MASK = 0xf0"

definition EBPF_CLS_LD :: u8 where [opcode_defs]:
  "EBPF_CLS_LD = 0x00"

definition EBPF_CLS_LDX :: u8 where [opcode_defs]:
  "EBPF_CLS_LDX = 0x01"

definition EBPF_CLS_ST :: u8 where [opcode_defs]:
  "EBPF_CLS_ST = 0x02"

definition EBPF_CLS_STX :: u8 where [opcode_defs]:
  "EBPF_CLS_STX = 0x03"

definition EBPF_CLS_ALU :: u8 where [opcode_defs]:
  "EBPF_CLS_ALU = 0x04"

definition EBPF_CLS_JMP :: u8 where [opcode_defs]:
  "EBPF_CLS_JMP = 0x05"

definition EBPF_CLS_JMP32 :: u8 where [opcode_defs]:
  "EBPF_CLS_JMP32 = 0x06"

definition EBPF_CLS_ALU64 :: u8 where [opcode_defs]:
  "EBPF_CLS_ALU64 = 0x07"

definition EBPF_SRC_IMM :: u8 where [opcode_defs]:
  "EBPF_SRC_IMM = 0x00"

definition EBPF_SRC_REG :: u8 where [opcode_defs]:
  "EBPF_SRC_REG = 0x08"

definition EBPF_SIZE_W :: u8 where [opcode_defs]:
  "EBPF_SIZE_W = 0x00"

definition EBPF_SIZE_H :: u8 where [opcode_defs]:
  "EBPF_SIZE_H = 0x08"

definition EBPF_SIZE_B :: u8 where [opcode_defs]:
  "EBPF_SIZE_B = 0x10"

definition EBPF_SIZE_DW :: u8 where [opcode_defs]:
  "EBPF_SIZE_DW = 0x18"

definition EBPF_MODE_IMM :: u8 where [opcode_defs]:
  "EBPF_MODE_IMM = 0x00"

definition EBPF_MODE_MEM :: u8 where [opcode_defs]:
  "EBPF_MODE_MEM = 0x60"

definition EBPF_OP_ADD_IMM :: u8 where [opcode_defs]:
  "EBPF_OP_ADD_IMM = EBPF_CLS_ALU OR EBPF_SRC_IMM OR 0x00"

definition EBPF_OP_ADD_REG :: u8 where [opcode_defs]:
  "EBPF_OP_ADD_REG = EBPF_CLS_ALU OR EBPF_SRC_REG OR 0x00"

definition EBPF_OP_SUB_IMM :: u8 where [opcode_defs]:
  "EBPF_OP_SUB_IMM = EBPF_CLS_ALU OR EBPF_SRC_IMM OR 0x10"

definition EBPF_OP_SUB_REG :: u8 where [opcode_defs]:
  "EBPF_OP_SUB_REG = EBPF_CLS_ALU OR EBPF_SRC_REG OR 0x10"

definition EBPF_OP_MUL_IMM :: u8 where [opcode_defs]:
  "EBPF_OP_MUL_IMM = EBPF_CLS_ALU OR EBPF_SRC_IMM OR 0x20"

definition EBPF_OP_MUL_REG :: u8 where [opcode_defs]:
  "EBPF_OP_MUL_REG = EBPF_CLS_ALU OR EBPF_SRC_REG OR 0x20"

definition EBPF_OP_DIV_IMM :: u8 where [opcode_defs]:
  "EBPF_OP_DIV_IMM = EBPF_CLS_ALU OR EBPF_SRC_IMM OR 0x30"

definition EBPF_OP_DIV_REG :: u8 where [opcode_defs]:
  "EBPF_OP_DIV_REG = EBPF_CLS_ALU OR EBPF_SRC_REG OR 0x30"

definition EBPF_OP_OR_IMM :: u8 where [opcode_defs]:
  "EBPF_OP_OR_IMM = EBPF_CLS_ALU OR EBPF_SRC_IMM OR 0x40"

definition EBPF_OP_OR_REG :: u8 where [opcode_defs]:
  "EBPF_OP_OR_REG = EBPF_CLS_ALU OR EBPF_SRC_REG OR 0x40"

definition EBPF_OP_AND_IMM :: u8 where [opcode_defs]:
  "EBPF_OP_AND_IMM = EBPF_CLS_ALU OR EBPF_SRC_IMM OR 0x50"

definition EBPF_OP_AND_REG :: u8 where [opcode_defs]:
  "EBPF_OP_AND_REG = EBPF_CLS_ALU OR EBPF_SRC_REG OR 0x50"

definition EBPF_OP_LSH_IMM :: u8 where [opcode_defs]:
  "EBPF_OP_LSH_IMM = EBPF_CLS_ALU OR EBPF_SRC_IMM OR 0x60"

definition EBPF_OP_LSH_REG :: u8 where [opcode_defs]:
  "EBPF_OP_LSH_REG = EBPF_CLS_ALU OR EBPF_SRC_REG OR 0x60"

definition EBPF_OP_RSH_IMM :: u8 where [opcode_defs]:
  "EBPF_OP_RSH_IMM = EBPF_CLS_ALU OR EBPF_SRC_IMM OR 0x70"

definition EBPF_OP_RSH_REG :: u8 where [opcode_defs]:
  "EBPF_OP_RSH_REG = EBPF_CLS_ALU OR EBPF_SRC_REG OR 0x70"

definition EBPF_OP_NEG :: u8 where [opcode_defs]:
  "EBPF_OP_NEG = EBPF_CLS_ALU OR 0x80"

definition EBPF_OP_MOD_IMM :: u8 where [opcode_defs]:
  "EBPF_OP_MOD_IMM = EBPF_CLS_ALU OR EBPF_SRC_IMM OR 0x90"

definition EBPF_OP_MOD_REG :: u8 where [opcode_defs]:
  "EBPF_OP_MOD_REG = EBPF_CLS_ALU OR EBPF_SRC_REG OR 0x90"

definition EBPF_OP_XOR_IMM :: u8 where [opcode_defs]:
  "EBPF_OP_XOR_IMM = EBPF_CLS_ALU OR EBPF_SRC_IMM OR 0xa0"

definition EBPF_OP_XOR_REG :: u8 where [opcode_defs]:
  "EBPF_OP_XOR_REG = EBPF_CLS_ALU OR EBPF_SRC_REG OR 0xa0"

definition EBPF_OP_MOV_IMM :: u8 where [opcode_defs]:
  "EBPF_OP_MOV_IMM = EBPF_CLS_ALU OR EBPF_SRC_IMM OR 0xb0"

definition EBPF_OP_MOV_REG :: u8 where [opcode_defs]:
  "EBPF_OP_MOV_REG = EBPF_CLS_ALU OR EBPF_SRC_REG OR 0xb0"

definition EBPF_OP_ARSH_IMM :: u8 where [opcode_defs]:
  "EBPF_OP_ARSH_IMM = EBPF_CLS_ALU OR EBPF_SRC_IMM OR 0xc0"

definition EBPF_OP_ARSH_REG :: u8 where [opcode_defs]:
  "EBPF_OP_ARSH_REG = EBPF_CLS_ALU OR EBPF_SRC_REG OR 0xc0"

definition EBPF_OP_LE :: u8 where [opcode_defs]:
  "EBPF_OP_LE = EBPF_CLS_ALU OR EBPF_SRC_IMM OR 0xd0"

definition EBPF_OP_BE :: u8 where [opcode_defs]:
  "EBPF_OP_BE = EBPF_CLS_ALU OR EBPF_SRC_REG OR 0xd0"

definition EBPF_OP_ADD64_IMM :: u8 where [opcode_defs]:
  "EBPF_OP_ADD64_IMM = EBPF_CLS_ALU64 OR EBPF_SRC_IMM OR 0x00"

definition EBPF_OP_ADD64_REG :: u8 where [opcode_defs]:
  "EBPF_OP_ADD64_REG = EBPF_CLS_ALU64 OR EBPF_SRC_REG OR 0x00"

definition EBPF_OP_SUB64_IMM :: u8 where [opcode_defs]:
  "EBPF_OP_SUB64_IMM = EBPF_CLS_ALU64 OR EBPF_SRC_IMM OR 0x10"

definition EBPF_OP_SUB64_REG :: u8 where [opcode_defs]:
  "EBPF_OP_SUB64_REG = EBPF_CLS_ALU64 OR EBPF_SRC_REG OR 0x10"

definition EBPF_OP_MUL64_IMM :: u8 where [opcode_defs]:
  "EBPF_OP_MUL64_IMM = EBPF_CLS_ALU64 OR EBPF_SRC_IMM OR 0x20"

definition EBPF_OP_MUL64_REG :: u8 where [opcode_defs]:
  "EBPF_OP_MUL64_REG = EBPF_CLS_ALU64 OR EBPF_SRC_REG OR 0x20"

definition EBPF_OP_DIV64_IMM :: u8 where [opcode_defs]:
  "EBPF_OP_DIV64_IMM = EBPF_CLS_ALU64 OR EBPF_SRC_IMM OR 0x30"

definition EBPF_OP_DIV64_REG :: u8 where [opcode_defs]:
  "EBPF_OP_DIV64_REG = EBPF_CLS_ALU64 OR EBPF_SRC_REG OR 0x30"

definition EBPF_OP_OR64_IMM :: u8 where [opcode_defs]:
  "EBPF_OP_OR64_IMM = EBPF_CLS_ALU64 OR EBPF_SRC_IMM OR 0x40"

definition EBPF_OP_OR64_REG :: u8 where [opcode_defs]:
  "EBPF_OP_OR64_REG = EBPF_CLS_ALU64 OR EBPF_SRC_REG OR 0x40"

definition EBPF_OP_AND64_IMM :: u8 where [opcode_defs]:
  "EBPF_OP_AND64_IMM = EBPF_CLS_ALU64 OR EBPF_SRC_IMM OR 0x50"

definition EBPF_OP_AND64_REG :: u8 where [opcode_defs]:
  "EBPF_OP_AND64_REG = EBPF_CLS_ALU64 OR EBPF_SRC_REG OR 0x50"

definition EBPF_OP_LSH64_IMM :: u8 where [opcode_defs]:
  "EBPF_OP_LSH64_IMM = EBPF_CLS_ALU64 OR EBPF_SRC_IMM OR 0x60"

definition EBPF_OP_LSH64_REG :: u8 where [opcode_defs]:
  "EBPF_OP_LSH64_REG = EBPF_CLS_ALU64 OR EBPF_SRC_REG OR 0x60"

definition EBPF_OP_RSH64_IMM :: u8 where [opcode_defs]:
  "EBPF_OP_RSH64_IMM = EBPF_CLS_ALU64 OR EBPF_SRC_IMM OR 0x70"

definition EBPF_OP_RSH64_REG :: u8 where [opcode_defs]:
  "EBPF_OP_RSH64_REG = EBPF_CLS_ALU64 OR EBPF_SRC_REG OR 0x70"

definition EBPF_OP_NEG64 :: u8 where [opcode_defs]:
  "EBPF_OP_NEG64 = EBPF_CLS_ALU64 OR 0x80"

definition EBPF_OP_MOD64_IMM :: u8 where [opcode_defs]:
  "EBPF_OP_MOD64_IMM = EBPF_CLS_ALU64 OR EBPF_SRC_IMM OR 0x90"

definition EBPF_OP_MOD64_REG :: u8 where [opcode_defs]:
  "EBPF_OP_MOD64_REG = EBPF_CLS_ALU64 OR EBPF_SRC_REG OR 0x90"

definition EBPF_OP_XOR64_IMM :: u8 where [opcode_defs]:
  "EBPF_OP_XOR64_IMM = EBPF_CLS_ALU64 OR EBPF_SRC_IMM OR 0xa0"

definition EBPF_OP_XOR64_REG :: u8 where [opcode_defs]:
  "EBPF_OP_XOR64_REG = EBPF_CLS_ALU64 OR EBPF_SRC_REG OR 0xa0"

definition EBPF_OP_MOV64_IMM :: u8 where [opcode_defs]:
  "EBPF_OP_MOV64_IMM = EBPF_CLS_ALU64 OR EBPF_SRC_IMM OR 0xb0"

definition EBPF_OP_MOV64_REG :: u8 where [opcode_defs]:
  "EBPF_OP_MOV64_REG = EBPF_CLS_ALU64 OR EBPF_SRC_REG OR 0xb0"

definition EBPF_OP_ARSH64_IMM :: u8 where [opcode_defs]:
  "EBPF_OP_ARSH64_IMM = EBPF_CLS_ALU64 OR EBPF_SRC_IMM OR 0xc0"

definition EBPF_OP_ARSH64_REG :: u8 where [opcode_defs]:
  "EBPF_OP_ARSH64_REG = EBPF_CLS_ALU64 OR EBPF_SRC_REG OR 0xc0"

definition EBPF_OP_LDXW :: u8 where [opcode_defs]:
  "EBPF_OP_LDXW = EBPF_CLS_LDX OR EBPF_MODE_MEM OR EBPF_SIZE_W"

definition EBPF_OP_LDXH :: u8 where [opcode_defs]:
  "EBPF_OP_LDXH = EBPF_CLS_LDX OR EBPF_MODE_MEM OR EBPF_SIZE_H"

definition EBPF_OP_LDXB :: u8 where [opcode_defs]:
  "EBPF_OP_LDXB = EBPF_CLS_LDX OR EBPF_MODE_MEM OR EBPF_SIZE_B"

definition EBPF_OP_LDXDW :: u8 where [opcode_defs]:
  "EBPF_OP_LDXDW = EBPF_CLS_LDX OR EBPF_MODE_MEM OR EBPF_SIZE_DW"

definition EBPF_OP_STW :: u8 where [opcode_defs]:
  "EBPF_OP_STW = EBPF_CLS_ST OR EBPF_MODE_MEM OR EBPF_SIZE_W"

definition EBPF_OP_STH :: u8 where [opcode_defs]:
  "EBPF_OP_STH = EBPF_CLS_ST OR EBPF_MODE_MEM OR EBPF_SIZE_H"

definition EBPF_OP_STB :: u8 where [opcode_defs]:
  "EBPF_OP_STB = EBPF_CLS_ST OR EBPF_MODE_MEM OR EBPF_SIZE_B"

definition EBPF_OP_STDW :: u8 where [opcode_defs]:
  "EBPF_OP_STDW = EBPF_CLS_ST OR EBPF_MODE_MEM OR EBPF_SIZE_DW"

definition EBPF_OP_STXW :: u8 where [opcode_defs]:
  "EBPF_OP_STXW = EBPF_CLS_STX OR EBPF_MODE_MEM OR EBPF_SIZE_W"

definition EBPF_OP_STXH :: u8 where [opcode_defs]:
  "EBPF_OP_STXH = EBPF_CLS_STX OR EBPF_MODE_MEM OR EBPF_SIZE_H"

definition EBPF_OP_STXB :: u8 where [opcode_defs]:
  "EBPF_OP_STXB = EBPF_CLS_STX OR EBPF_MODE_MEM OR EBPF_SIZE_B"

definition EBPF_OP_STXDW :: u8 where [opcode_defs]:
  "EBPF_OP_STXDW = EBPF_CLS_STX OR EBPF_MODE_MEM OR EBPF_SIZE_DW"

definition EBPF_OP_LDDW :: u8 where [opcode_defs]:
  "EBPF_OP_LDDW = EBPF_CLS_LD OR EBPF_MODE_IMM OR EBPF_SIZE_DW"

definition EBPF_MODE_JA :: u8 where [opcode_defs]:
  "EBPF_MODE_JA = 0x00"

definition EBPF_MODE_JEQ :: u8 where [opcode_defs]:
  "EBPF_MODE_JEQ = 0x10"

definition EBPF_MODE_JGT :: u8 where [opcode_defs]:
  "EBPF_MODE_JGT = 0x20"

definition EBPF_MODE_JGE :: u8 where [opcode_defs]:
  "EBPF_MODE_JGE = 0x30"

definition EBPF_MODE_JSET :: u8 where [opcode_defs]:
  "EBPF_MODE_JSET = 0x40"

definition EBPF_MODE_JNE :: u8 where [opcode_defs]:
  "EBPF_MODE_JNE = 0x50"

definition EBPF_MODE_JSGT :: u8 where [opcode_defs]:
  "EBPF_MODE_JSGT = 0x60"

definition EBPF_MODE_JSGE :: u8 where [opcode_defs]:
  "EBPF_MODE_JSGE = 0x70"

definition EBPF_MODE_CALL :: u8 where [opcode_defs]:
  "EBPF_MODE_CALL = 0x80"

definition EBPF_MODE_EXIT :: u8 where [opcode_defs]:
  "EBPF_MODE_EXIT = 0x90"

definition EBPF_MODE_JLT :: u8 where [opcode_defs]:
  "EBPF_MODE_JLT = 0xa0"

definition EBPF_MODE_JLE :: u8 where [opcode_defs]:
  "EBPF_MODE_JLE = 0xb0"

definition EBPF_MODE_JSLT :: u8 where [opcode_defs]:
  "EBPF_MODE_JSLT = 0xc0"

definition EBPF_MODE_JSLE :: u8 where [opcode_defs]:
  "EBPF_MODE_JSLE = 0xd0"

definition EBPF_OP_JA :: u8 where [opcode_defs]:
  "EBPF_OP_JA = EBPF_CLS_JMP OR EBPF_MODE_JA"

definition EBPF_OP_JEQ_IMM :: u8 where [opcode_defs]:
  "EBPF_OP_JEQ_IMM = EBPF_CLS_JMP OR EBPF_SRC_IMM OR EBPF_MODE_JEQ"

definition EBPF_OP_JEQ_REG :: u8 where [opcode_defs]:
  "EBPF_OP_JEQ_REG = EBPF_CLS_JMP OR EBPF_SRC_REG OR EBPF_MODE_JEQ"

definition EBPF_OP_JGT_IMM :: u8 where [opcode_defs]:
  "EBPF_OP_JGT_IMM = EBPF_CLS_JMP OR EBPF_SRC_IMM OR EBPF_MODE_JGT"

definition EBPF_OP_JGT_REG :: u8 where [opcode_defs]:
  "EBPF_OP_JGT_REG = EBPF_CLS_JMP OR EBPF_SRC_REG OR EBPF_MODE_JGT"

definition EBPF_OP_JGE_IMM :: u8 where [opcode_defs]:
  "EBPF_OP_JGE_IMM = EBPF_CLS_JMP OR EBPF_SRC_IMM OR EBPF_MODE_JGE"

definition EBPF_OP_JGE_REG :: u8 where [opcode_defs]:
  "EBPF_OP_JGE_REG = EBPF_CLS_JMP OR EBPF_SRC_REG OR EBPF_MODE_JGE"

definition EBPF_OP_JSET_REG :: u8 where [opcode_defs]:
  "EBPF_OP_JSET_REG = EBPF_CLS_JMP OR EBPF_SRC_REG OR EBPF_MODE_JSET"

definition EBPF_OP_JSET_IMM :: u8 where [opcode_defs]:
  "EBPF_OP_JSET_IMM = EBPF_CLS_JMP OR EBPF_SRC_IMM OR EBPF_MODE_JSET"

definition EBPF_OP_JNE_IMM :: u8 where [opcode_defs]:
  "EBPF_OP_JNE_IMM = EBPF_CLS_JMP OR EBPF_SRC_IMM OR EBPF_MODE_JNE"

definition EBPF_OP_JNE_REG :: u8 where [opcode_defs]:
  "EBPF_OP_JNE_REG = EBPF_CLS_JMP OR EBPF_SRC_REG OR EBPF_MODE_JNE"

definition EBPF_OP_JSGT_IMM :: u8 where [opcode_defs]:
  "EBPF_OP_JSGT_IMM = EBPF_CLS_JMP OR EBPF_SRC_IMM OR EBPF_MODE_JSGT"

definition EBPF_OP_JSGT_REG :: u8 where [opcode_defs]:
  "EBPF_OP_JSGT_REG = EBPF_CLS_JMP OR EBPF_SRC_REG OR EBPF_MODE_JSGT"

definition EBPF_OP_JSGE_IMM :: u8 where [opcode_defs]:
  "EBPF_OP_JSGE_IMM = EBPF_CLS_JMP OR EBPF_SRC_IMM OR EBPF_MODE_JSGE"

definition EBPF_OP_JSGE_REG :: u8 where [opcode_defs]:
  "EBPF_OP_JSGE_REG = EBPF_CLS_JMP OR EBPF_SRC_REG OR EBPF_MODE_JSGE"

definition EBPF_OP_CALL :: u8 where [opcode_defs]:
  "EBPF_OP_CALL = EBPF_CLS_JMP OR EBPF_MODE_CALL"

definition EBPF_OP_EXIT :: u8 where [opcode_defs]:
  "EBPF_OP_EXIT = EBPF_CLS_JMP OR EBPF_MODE_EXIT"

definition EBPF_OP_JLT_IMM :: u8 where [opcode_defs]:
  "EBPF_OP_JLT_IMM = EBPF_CLS_JMP OR EBPF_SRC_IMM OR EBPF_MODE_JLT"

definition EBPF_OP_JLT_REG :: u8 where [opcode_defs]:
  "EBPF_OP_JLT_REG = EBPF_CLS_JMP OR EBPF_SRC_REG OR EBPF_MODE_JLT"

definition EBPF_OP_JLE_IMM :: u8 where [opcode_defs]:
  "EBPF_OP_JLE_IMM = EBPF_CLS_JMP OR EBPF_SRC_IMM OR EBPF_MODE_JLE"

definition EBPF_OP_JLE_REG :: u8 where [opcode_defs]:
  "EBPF_OP_JLE_REG = EBPF_CLS_JMP OR EBPF_SRC_REG OR EBPF_MODE_JLE"

definition EBPF_OP_JSLT_IMM :: u8 where [opcode_defs]:
  "EBPF_OP_JSLT_IMM = EBPF_CLS_JMP OR EBPF_SRC_IMM OR EBPF_MODE_JSLT"

definition EBPF_OP_JSLT_REG :: u8 where [opcode_defs]:
  "EBPF_OP_JSLT_REG = EBPF_CLS_JMP OR EBPF_SRC_REG OR EBPF_MODE_JSLT"

definition EBPF_OP_JSLE_IMM :: u8 where [opcode_defs]:
  "EBPF_OP_JSLE_IMM = EBPF_CLS_JMP OR EBPF_SRC_IMM OR EBPF_MODE_JSLE"

definition EBPF_OP_JSLE_REG :: u8 where [opcode_defs]:
  "EBPF_OP_JSLE_REG = EBPF_CLS_JMP OR EBPF_SRC_REG OR EBPF_MODE_JSLE"

definition EBPF_OP_JEQ32_IMM :: u8 where [opcode_defs]:
  "EBPF_OP_JEQ32_IMM = EBPF_CLS_JMP32 OR EBPF_SRC_IMM OR EBPF_MODE_JEQ"

definition EBPF_OP_JEQ32_REG :: u8 where [opcode_defs]:
  "EBPF_OP_JEQ32_REG = EBPF_CLS_JMP32 OR EBPF_SRC_REG OR EBPF_MODE_JEQ"

definition EBPF_OP_JGT32_IMM :: u8 where [opcode_defs]:
  "EBPF_OP_JGT32_IMM = EBPF_CLS_JMP32 OR EBPF_SRC_IMM OR EBPF_MODE_JGT"

definition EBPF_OP_JGT32_REG :: u8 where [opcode_defs]:
  "EBPF_OP_JGT32_REG = EBPF_CLS_JMP32 OR EBPF_SRC_REG OR EBPF_MODE_JGT"

definition EBPF_OP_JGE32_IMM :: u8 where [opcode_defs]:
  "EBPF_OP_JGE32_IMM = EBPF_CLS_JMP32 OR EBPF_SRC_IMM OR EBPF_MODE_JGE"

definition EBPF_OP_JGE32_REG :: u8 where [opcode_defs]:
  "EBPF_OP_JGE32_REG = EBPF_CLS_JMP32 OR EBPF_SRC_REG OR EBPF_MODE_JGE"

definition EBPF_OP_JSET32_REG :: u8 where [opcode_defs]:
  "EBPF_OP_JSET32_REG = EBPF_CLS_JMP32 OR EBPF_SRC_REG OR EBPF_MODE_JSET"

definition EBPF_OP_JSET32_IMM :: u8 where [opcode_defs]:
  "EBPF_OP_JSET32_IMM = EBPF_CLS_JMP32 OR EBPF_SRC_IMM OR EBPF_MODE_JSET"

definition EBPF_OP_JNE32_IMM :: u8 where [opcode_defs]:
  "EBPF_OP_JNE32_IMM = EBPF_CLS_JMP32 OR EBPF_SRC_IMM OR EBPF_MODE_JNE"

definition EBPF_OP_JNE32_REG :: u8 where [opcode_defs]:
  "EBPF_OP_JNE32_REG = EBPF_CLS_JMP32 OR EBPF_SRC_REG OR EBPF_MODE_JNE"

definition EBPF_OP_JSGT32_IMM :: u8 where [opcode_defs]:
  "EBPF_OP_JSGT32_IMM = EBPF_CLS_JMP32 OR EBPF_SRC_IMM OR EBPF_MODE_JSGT"

definition EBPF_OP_JSGT32_REG :: u8 where [opcode_defs]:
  "EBPF_OP_JSGT32_REG = EBPF_CLS_JMP32 OR EBPF_SRC_REG OR EBPF_MODE_JSGT"

definition EBPF_OP_JSGE32_IMM :: u8 where [opcode_defs]:
  "EBPF_OP_JSGE32_IMM = EBPF_CLS_JMP32 OR EBPF_SRC_IMM OR EBPF_MODE_JSGE"

definition EBPF_OP_JSGE32_REG :: u8 where [opcode_defs]:
  "EBPF_OP_JSGE32_REG = EBPF_CLS_JMP32 OR EBPF_SRC_REG OR EBPF_MODE_JSGE"

definition EBPF_OP_JLT32_IMM :: u8 where [opcode_defs]:
  "EBPF_OP_JLT32_IMM = EBPF_CLS_JMP32 OR EBPF_SRC_IMM OR EBPF_MODE_JLT"

definition EBPF_OP_JLT32_REG :: u8 where [opcode_defs]:
  "EBPF_OP_JLT32_REG = EBPF_CLS_JMP32 OR EBPF_SRC_REG OR EBPF_MODE_JLT"

definition EBPF_OP_JLE32_IMM :: u8 where [opcode_defs]:
  "EBPF_OP_JLE32_IMM = EBPF_CLS_JMP32 OR EBPF_SRC_IMM OR EBPF_MODE_JLE"

definition EBPF_OP_JLE32_REG :: u8 where [opcode_defs]:
  "EBPF_OP_JLE32_REG = EBPF_CLS_JMP32 OR EBPF_SRC_REG OR EBPF_MODE_JLE"

definition EBPF_OP_JSLT32_IMM :: u8 where [opcode_defs]:
  "EBPF_OP_JSLT32_IMM = EBPF_CLS_JMP32 OR EBPF_SRC_IMM OR EBPF_MODE_JSLT"

definition EBPF_OP_JSLT32_REG :: u8 where [opcode_defs]:
  "EBPF_OP_JSLT32_REG = EBPF_CLS_JMP32 OR EBPF_SRC_REG OR EBPF_MODE_JSLT"

definition EBPF_OP_JSLE32_IMM :: u8 where [opcode_defs]:
  "EBPF_OP_JSLE32_IMM = EBPF_CLS_JMP32 OR EBPF_SRC_IMM OR EBPF_MODE_JSLE"

definition EBPF_OP_JSLE32_REG :: u8 where [opcode_defs]:
  "EBPF_OP_JSLE32_REG = EBPF_CLS_JMP32 OR EBPF_SRC_REG OR EBPF_MODE_JSLE"

text \<open>The value of each constant.\<close>

lemma opcode_values:
  "EBPF_CLS_MASK = 0x07"
  "EBPF_ALU_OP_MASK = 0xF0"
  "EBPF_JMP_OP_MASK = 0xF0"
  "EBPF_CLS_LD = 0x00"
  "EBPF_CLS_LDX = 0x01"
  "EBPF_CLS_ST = 0x02"
  "EBPF_CLS_STX = 0x03"
  "EBPF_CLS_ALU = 0x04"
  "EBPF_CLS_JMP = 0x05"
  "EBPF_CLS_JMP32 = 0x06"
  "EBPF_CLS_ALU64 = 0x07"
  "EBPF_SRC_IMM = 0x00"
  "EBPF_SRC_REG = 0x08"
  "EBPF_SIZE_W = 0x00"
  "EBPF_SIZE_H = 0x08"
  "EBPF_SIZE_B = 0x10"
  "EBPF_SIZE_DW = 0x18"
  "EBPF_MODE_IMM = 0x00"
  "EBPF_MODE_MEM = 0x60"
  "EBPF_OP_ADD_IMM = 0x04"
  "EBPF_OP_ADD_REG = 0x0C"
  "EBPF_OP_SUB_IMM = 0x14"
  "EBPF_OP_SUB_REG = 0x1C"
  "EBPF_OP_MUL_IMM = 0x24"
  "EBPF_OP_MUL_REG = 0x2C"
  "EBPF_OP_DIV_IMM = 0x34"
  "EBPF_OP_DIV_REG = 0x3C"
  "EBPF_OP_OR_IMM = 0x44"
  "EBPF_OP_OR_REG = 0x4C"
  "EBPF_OP_AND_IMM = 0x54"
  "EBPF_OP_AND_REG = 0x5C"
  "EBPF_OP_LSH_IMM = 0x64"
  "EBPF_OP_LSH_REG = 0x6C"
  "EBPF_OP_RSH_IMM = 0x74"
  "EBPF_OP_RSH_REG = 0x7C"
  "EBPF_OP_NEG = 0x84"
  "EBPF_OP_MOD_IMM = 0x94"
  "EBPF_OP_MOD_REG = 0x9C"
  "EBPF_OP_XOR_IMM = 0xA4"
  "EBPF_OP_XOR_REG = 0xAC"
  "EBPF_OP_MOV_IMM = 0xB4"
  "EBPF_OP_MOV_REG = 0xBC"
  "EBPF_OP_ARSH_IMM = 0xC4"
  "EBPF_OP_ARSH_REG = 0xCC"
  "EBPF_OP_LE = 0xD4"
  "EBPF_OP_BE = 0xDC"
  "EBPF_OP_ADD64_IMM = 0x07"
  "EBPF_OP_ADD64_REG = 0x0F"
  "EBPF_OP_SUB64_IMM = 0x17"
  "EBPF_OP_SUB64_REG = 0x1F"
  "EBPF_OP_MUL64_IMM = 0x27"
  "EBPF_OP_MUL64_REG = 0x2F"
  "EBPF_OP_DIV64_IMM = 0x37"
  "EBPF_OP_DIV64_REG = 0x3F"
  "EBPF_OP_OR64_IMM = 0x47"
  "EBPF_OP_OR64_REG = 0x4F"
  "EBPF_OP_AND64_IMM = 0x57"
  "EBPF_OP_AND64_REG = 0x5F"
  "EBPF_OP_LSH64_IMM = 0x67"
  "EBPF_OP_LSH64_REG = 0x6F"
  "EBPF_OP_RSH64_IMM = 0x77"
  "EBPF_OP_RSH64_REG = 0x7F"
  "EBPF_OP_NEG64 = 0x87"
  "EBPF_OP_MOD64_IMM = 0x97"
  "EBPF_OP_MOD64_REG = 0x9F"
  "EBPF_OP_XOR64_IMM = 0xA7"
  "EBPF_OP_XOR64_REG = 0xAF"
  "EBPF_OP_MOV64_IMM = 0xB7"
  "EBPF_OP_MOV64_REG = 0xBF"
  "EBPF_OP_ARSH64_IMM = 0xC7"
  "EBPF_OP_ARSH64_REG = 0xCF"
  "EBPF_OP_LDXW = 0x61"
  "EBPF_OP_LDXH = 0x69"
  "EBPF_OP_LDXB = 0x71"
  "EBPF_OP_LDXDW = 0x79"
  "EBPF_OP_STW = 0x62"
  "EBPF_OP_STH = 0x6A"
  "EBPF_OP_STB = 0x72"
  "EBPF_OP_STDW = 0x7A"
  "EBPF_OP_STXW = 0x63"
  "EBPF_OP_STXH = 0x6B"
  "EBPF_OP_STXB = 0x73"
  "EBPF_OP_STXDW = 0x7B"
  "EBPF_OP_LDDW = 0x18"
  "EBPF_MODE_JA = 0x00"
  "EBPF_MODE_JEQ = 0x10"
  "EBPF_MODE_JGT = 0x20"
  "EBPF_MODE_JGE = 0x30"
  "EBPF_MODE_JSET = 0x40"
  "EBPF_MODE_JNE = 0x50"
  "EBPF_MODE_JSGT = 0x60"
  "EBPF_MODE_JSGE = 0x70"
  "EBPF_MODE_CALL = 0x80"
  "EBPF_MODE_EXIT = 0x90"
  "EBPF_MODE_JLT = 0xA0"
  "EBPF_MODE_JLE = 0xB0"
  "EBPF_MODE_JSLT = 0xC0"
  "EBPF_MODE_JSLE = 0xD0"
  "EBPF_OP_JA = 0x05"
  "EBPF_OP_JEQ_IMM = 0x15"
  "EBPF_OP_JEQ_REG = 0x1D"
  "EBPF_OP_JGT_IMM = 0x25"
  "EBPF_OP_JGT_REG = 0x2D"
  "EBPF_OP_JGE_IMM = 0x35"
  "EBPF_OP_JGE_REG = 0x3D"
  "EBPF_OP_JSET_REG = 0x4D"
  "EBPF_OP_JSET_IMM = 0x45"
  "EBPF_OP_JNE_IMM = 0x55"
  "EBPF_OP_JNE_REG = 0x5D"
  "EBPF_OP_JSGT_IMM = 0x65"
  "EBPF_OP_JSGT_REG = 0x6D"
  "EBPF_OP_JSGE_IMM = 0x75"
  "EBPF_OP_JSGE_REG = 0x7D"
  "EBPF_OP_CALL = 0x85"
  "EBPF_OP_EXIT = 0x95"
  "EBPF_OP_JLT_IMM = 0xA5"
  "EBPF_OP_JLT_REG = 0xAD"
  "EBPF_OP_JLE_IMM = 0xB5"
  "EBPF_OP_JLE_REG = 0xBD"
  "EBPF_OP_JSLT_IMM = 0xC5"
  "EBPF_OP_JSLT_REG = 0xCD"
  "EBPF_OP_JSLE_IMM = 0xD5"
  "EBPF_OP_JSLE_REG = 0xDD"
  "EBPF_OP_JEQ32_IMM = 0x16"
  "EBPF_OP_JEQ32_REG = 0x1E"
  "EBPF_OP_JGT32_IMM = 0x26"
  "EBPF_OP_JGT32_REG = 0x2E"
  "EBPF_OP_JGE32_IMM = 0x36"
  "EBPF_OP_JGE32_REG = 0x3E"
  "EBPF_OP_JSET32_REG = 0x4E"
  "EBPF_OP_JSET32_IMM = 0x46"
  "EBPF_OP_JNE32_IMM = 0x56"
  "EBPF_OP_JNE32_REG = 0x5E"
  "EBPF_OP_JSGT32_IMM = 0x66"
  "EBPF_OP_JSGT32_REG = 0x6E"
  "EBPF_OP_JSGE32_IMM = 0x76"
  "EBPF_OP_JSGE32_REG = 0x7E"
  "EBPF_OP_JLT32_IMM = 0xA6"
  "EBPF_OP_JLT32_REG = 0xAE"
  "EBPF_OP_JLE32_IMM = 0xB6"
  "EBPF_OP_JLE32_REG = 0xBE"
  "EBPF_OP_JSLT32_IMM = 0xC6"
  "EBPF_OP_JSLT32_REG = 0xCE"
  "EBPF_OP_JSLE32_IMM = 0xD6"
  "EBPF_OP_JSLE32_REG = 0xDE"
  by (simp_all add: opcode_defs)

text \<open>Every opcode \<open>ebpf.h\<close> defines.\<close>

definition all_opcodes :: "u8 list" where
  "all_opcodes = [
    EBPF_OP_ADD_IMM, EBPF_OP_ADD_REG, EBPF_OP_SUB_IMM, EBPF_OP_SUB_REG,
    EBPF_OP_MUL_IMM, EBPF_OP_MUL_REG, EBPF_OP_DIV_IMM, EBPF_OP_DIV_REG,
    EBPF_OP_OR_IMM, EBPF_OP_OR_REG, EBPF_OP_AND_IMM, EBPF_OP_AND_REG,
    EBPF_OP_LSH_IMM, EBPF_OP_LSH_REG, EBPF_OP_RSH_IMM, EBPF_OP_RSH_REG,
    EBPF_OP_NEG, EBPF_OP_MOD_IMM, EBPF_OP_MOD_REG, EBPF_OP_XOR_IMM,
    EBPF_OP_XOR_REG, EBPF_OP_MOV_IMM, EBPF_OP_MOV_REG, EBPF_OP_ARSH_IMM,
    EBPF_OP_ARSH_REG, EBPF_OP_LE, EBPF_OP_BE, EBPF_OP_ADD64_IMM,
    EBPF_OP_ADD64_REG, EBPF_OP_SUB64_IMM, EBPF_OP_SUB64_REG, EBPF_OP_MUL64_IMM,
    EBPF_OP_MUL64_REG, EBPF_OP_DIV64_IMM, EBPF_OP_DIV64_REG, EBPF_OP_OR64_IMM,
    EBPF_OP_OR64_REG, EBPF_OP_AND64_IMM, EBPF_OP_AND64_REG, EBPF_OP_LSH64_IMM,
    EBPF_OP_LSH64_REG, EBPF_OP_RSH64_IMM, EBPF_OP_RSH64_REG, EBPF_OP_NEG64,
    EBPF_OP_MOD64_IMM, EBPF_OP_MOD64_REG, EBPF_OP_XOR64_IMM, EBPF_OP_XOR64_REG,
    EBPF_OP_MOV64_IMM, EBPF_OP_MOV64_REG, EBPF_OP_ARSH64_IMM, EBPF_OP_ARSH64_REG,
    EBPF_OP_LDXW, EBPF_OP_LDXH, EBPF_OP_LDXB, EBPF_OP_LDXDW,
    EBPF_OP_STW, EBPF_OP_STH, EBPF_OP_STB, EBPF_OP_STDW,
    EBPF_OP_STXW, EBPF_OP_STXH, EBPF_OP_STXB, EBPF_OP_STXDW,
    EBPF_OP_LDDW, EBPF_OP_JA, EBPF_OP_JEQ_IMM, EBPF_OP_JEQ_REG,
    EBPF_OP_JGT_IMM, EBPF_OP_JGT_REG, EBPF_OP_JGE_IMM, EBPF_OP_JGE_REG,
    EBPF_OP_JSET_REG, EBPF_OP_JSET_IMM, EBPF_OP_JNE_IMM, EBPF_OP_JNE_REG,
    EBPF_OP_JSGT_IMM, EBPF_OP_JSGT_REG, EBPF_OP_JSGE_IMM, EBPF_OP_JSGE_REG,
    EBPF_OP_CALL, EBPF_OP_EXIT, EBPF_OP_JLT_IMM, EBPF_OP_JLT_REG,
    EBPF_OP_JLE_IMM, EBPF_OP_JLE_REG, EBPF_OP_JSLT_IMM, EBPF_OP_JSLT_REG,
    EBPF_OP_JSLE_IMM, EBPF_OP_JSLE_REG, EBPF_OP_JEQ32_IMM, EBPF_OP_JEQ32_REG,
    EBPF_OP_JGT32_IMM, EBPF_OP_JGT32_REG, EBPF_OP_JGE32_IMM, EBPF_OP_JGE32_REG,
    EBPF_OP_JSET32_REG, EBPF_OP_JSET32_IMM, EBPF_OP_JNE32_IMM, EBPF_OP_JNE32_REG,
    EBPF_OP_JSGT32_IMM, EBPF_OP_JSGT32_REG, EBPF_OP_JSGE32_IMM, EBPF_OP_JSGE32_REG,
    EBPF_OP_JLT32_IMM, EBPF_OP_JLT32_REG, EBPF_OP_JLE32_IMM, EBPF_OP_JLE32_REG,
    EBPF_OP_JSLT32_IMM, EBPF_OP_JSLT32_REG, EBPF_OP_JSLE32_IMM, EBPF_OP_JSLE32_REG]"

lemma all_opcodes_distinct: "distinct all_opcodes"
  unfolding all_opcodes_def opcode_values by simp

section \<open>Encoding an instruction as a 64-bit value\<close>

text \<open>Member \<open>value\<close> of the union, given member \<open>inst\<close>.\<close>

definition inst_to_value :: "ebpf_inst \<Rightarrow> u64" where
  "inst_to_value i = ucast (opcode i) OR push_bit 8 (ucast (dst i)) OR push_bit 12 (ucast (src i))
     OR push_bit 16 (ucast (offset i)) OR push_bit 32 (ucast (imm i))"

text \<open>Member \<open>inst\<close> of the union, given member \<open>value\<close>.\<close>

definition value_to_inst :: "u64 \<Rightarrow> ebpf_inst" where
  "value_to_inst v = \<lparr> opcode = ucast v, dst = ucast (drop_bit 8 v), src = ucast (drop_bit 12 v),
     offset = ucast (drop_bit 16 v), imm = ucast (drop_bit 32 v) \<rparr>"

lemma bit_imp_lt_length: "bit (w :: 'a::len word) n \<Longrightarrow> n < LENGTH('a)"
  by (rule bit_imp_le_length)

lemma value_to_inst_inverse [simp]: "value_to_inst (inst_to_value i) = i"
proof -
  have "ucast (inst_to_value i) = opcode i"
    by (rule bit_word_eqI) (simp add: inst_to_value_def bit_simps)
  moreover have "ucast (drop_bit 8 (inst_to_value i)) = dst i"
    by (rule bit_word_eqI) (auto simp: inst_to_value_def bit_simps dest: bit_imp_lt_length)
  moreover have "ucast (drop_bit 12 (inst_to_value i)) = src i"
    by (rule bit_word_eqI) (auto simp: inst_to_value_def bit_simps dest: bit_imp_lt_length)
  moreover have "ucast (drop_bit 16 (inst_to_value i)) = offset i"
    by (rule bit_word_eqI) (auto simp: inst_to_value_def bit_simps dest: bit_imp_lt_length)
  moreover have "ucast (drop_bit 32 (inst_to_value i)) = imm i"
    by (rule bit_word_eqI) (auto simp: inst_to_value_def bit_simps dest: bit_imp_lt_length)
  ultimately show ?thesis by (simp add: value_to_inst_def)
qed

lemma inst_to_value_inverse [simp]: "inst_to_value (value_to_inst v) = v"
proof (rule bit_word_eqI)
  fix n
  assume n: "n < LENGTH(64)"
  consider "n < 8" | "8 \<le> n" "n < 12" | "12 \<le> n" "n < 16" | "16 \<le> n" "n < 32"
    | "32 \<le> n" "n < 64"
    using n by fastforce
  then show "bit (inst_to_value (value_to_inst v)) n = bit v n"
    by cases (simp_all add: inst_to_value_def value_to_inst_def bit_simps less_diff_conv2)
qed

text \<open>
  The instructions in a byte buffer: what \<open>const struct ebpf_inst* source_inst = code\<close> reads from it,
  eight bytes at a time.
\<close>

fun insts_of_bytes :: "u8 list \<Rightarrow> ebpf_inst list" where
  "insts_of_bytes (b0 # b1 # b2 # b3 # b4 # b5 # b6 # b7 # bs) =
     value_to_inst (le_word [b0, b1, b2, b3, b4, b5, b6, b7]) # insts_of_bytes bs"
| "insts_of_bytes _ = []"

definition bytes_of_insts :: "ebpf_inst list \<Rightarrow> u8 list" where
  "bytes_of_insts is = concat (map (\<lambda>i. le_bytes 8 (inst_to_value i)) is)"

lemma length_insts_of_bytes: "length (insts_of_bytes bs) = length bs div 8"
  by (induction bs rule: insts_of_bytes.induct) auto

lemma length_bytes_of_insts: "length (bytes_of_insts is) = 8 * length is"
  by (induction "is") (simp_all add: bytes_of_insts_def)

lemma le_bytes_8_eq:
  "le_bytes 8 (w :: u64) =
     [ucast w, ucast (drop_bit 8 w), ucast (drop_bit 16 w), ucast (drop_bit 24 w),
      ucast (drop_bit 32 w), ucast (drop_bit 40 w), ucast (drop_bit 48 w), ucast (drop_bit 56 w)]"
  by (simp add: le_bytes_def upt_rec)

lemma insts_of_bytes_of_insts: "insts_of_bytes (bytes_of_insts is) = is"
proof (induction "is")
  case Nil
  then show ?case by (simp add: bytes_of_insts_def)
next
  case (Cons i "is")
  obtain b0 b1 b2 b3 b4 b5 b6 b7
    where b: "le_bytes 8 (inst_to_value i) = [b0, b1, b2, b3, b4, b5, b6, b7]"
    by (simp add: le_bytes_8_eq)
  then have "bytes_of_insts (i # is) = b0 # b1 # b2 # b3 # b4 # b5 # b6 # b7 # bytes_of_insts is"
    by (simp add: bytes_of_insts_def)
  moreover have "le_word [b0, b1, b2, b3, b4, b5, b6, b7] = inst_to_value i"
    unfolding b [symmetric] by (rule le_word_le_bytes_full) simp
  ultimately show ?case
    using Cons.IH by (simp del: le_word.simps)
qed

end
