(* ===== verification/Jit_Buffer.thy ===== *)
theory Jit_Buffer
  imports Ebpf_ISA
begin

text \<open>
  The code buffer of the JIT as a list of bytes, the second instance of the byte store, and the
  routines that patch the function pointers embedded in already generated code
  (\<open>ubpf_jit_update_dispatcher_*\<close>, \<open>ubpf_jit_update_helper_*\<close> of \<open>ubpf_jit_x86_64.c\<close>,
  \<open>ubpf_jit_arm64.c\<close> and \<open>ubpf_jit.c\<close>).
\<close>

section \<open>Byte buffers\<close>

definition buf_get :: "u8 list \<Rightarrow> nat \<Rightarrow> u8 option" where
  "buf_get buf i = (if i < length buf then Some (buf ! i) else None)"

definition buf_put :: "u8 list \<Rightarrow> nat \<Rightarrow> u8 \<Rightarrow> u8 list" where
  "buf_put buf i b = buf[i := b]"

text \<open>\<open>memcpy(buf + i, bs, length bs)\<close>; \<^const>\<open>None\<close> when it leaves the buffer.\<close>

definition buf_write :: "u8 list \<Rightarrow> nat \<Rightarrow> u8 list \<Rightarrow> u8 list option" where
  "buf_write = write_bytes buf_get buf_put Suc"

definition buf_read :: "u8 list \<Rightarrow> nat \<Rightarrow> nat \<Rightarrow> u8 list option" where
  "buf_read = read_bytes buf_get Suc"

lemma Suc_funpow: "(Suc ^^ n) i = i + n"
  by (induction n) simp_all

lemma span_Suc_nat: "span Suc i n = {i..<i + n}"
proof -
  have "span Suc i n = (\<lambda>k. i + k) ` {0..<n}"
    by (simp add: span_def Suc_funpow lessThan_atLeast0)
  then show ?thesis by (simp add: add.commute)
qed

interpretation buffer: byte_store buf_get buf_put Suc "2 ^ 64"
  by unfold_locales (auto simp: buf_get_def buf_put_def span_Suc_nat split: if_splits)

lemma buf_write_eq:
  "buf_write buf i bs =
     (if bs = [] \<or> i + length bs \<le> length buf
      then Some (take i buf @ bs @ drop (i + length bs) buf) else None)"
proof (induction bs arbitrary: buf i)
  case Nil
  then show ?case by (simp add: buf_write_def)
next
  case (Cons b bs)
  show ?case
  proof (cases "i < length buf")
    case True
    have "buf_write buf i (b # bs) = buf_write (buf[i := b]) (Suc i) bs"
      using True by (simp add: buf_write_def buf_get_def buf_put_def)
    also have "\<dots> = (if bs = [] \<or> Suc i + length bs \<le> length buf
      then Some (take (Suc i) (buf[i := b]) @ bs @ drop (Suc i + length bs) (buf[i := b])) else None)"
      by (simp add: Cons.IH)
    also have "take (Suc i) (buf[i := b]) = take i buf @ [b]"
      using True by (simp add: take_Suc_conv_app_nth)
    also have "drop (Suc i + length bs) (buf[i := b]) = drop (i + length (b # bs)) buf"
      by simp
    finally show ?thesis using True by auto
  next
    case False
    then show ?thesis by (simp add: buf_write_def buf_get_def)
  qed
qed

declare buf_write_eq [code]

lemma buf_read_eq:
  "buf_read buf i n = (if n = 0 \<or> i + n \<le> length buf then Some (take n (drop i buf)) else None)"
proof (induction n arbitrary: i)
  case 0
  then show ?case by (simp add: buf_read_def)
next
  case (Suc n)
  have "buf_read buf i (Suc n) =
      (case buf_get buf i of None \<Rightarrow> None
       | Some b \<Rightarrow> (case buf_read buf (Suc i) n of None \<Rightarrow> None | Some bs \<Rightarrow> Some (b # bs)))"
    by (simp add: buf_read_def split: option.split)
  then show ?case
    by (auto simp: Suc.IH buf_get_def Cons_nth_drop_Suc [symmetric])
qed

declare buf_read_eq [code]

lemma buf_write_length: "buf_write buf i bs = Some buf' \<Longrightarrow> length buf' = length buf"
  by (auto simp: buf_write_eq split: if_splits)

lemmas buf_read_after_write = buffer.read_write_bytes [folded buf_write_def buf_read_def]
  and buf_read_disjoint = buffer.read_bytes_after_disjoint_write [folded buf_write_def buf_read_def]

section \<open>Patching the pointers embedded in generated code\<close>

text \<open>
  \<open>code\<close> is the \<open>sz\<close>-byte object at address \<open>buffer\<close>. The result is the C result and the new
  contents; \<^const>\<open>None\<close> is a write outside the object.
\<close>

definition ubpf_jit_update_dispatcher_x86_64 ::
  "u64 \<Rightarrow> u64 \<Rightarrow> u8 list \<Rightarrow> u64 \<Rightarrow> u32 \<Rightarrow> (bool \<times> u8 list) option"
where
  "ubpf_jit_update_dispatcher_x86_64 new_dispatcher buffer code sz off =
     (let jit_upper_bound = buffer + sz;
          dispatcher_address = buffer + ucast off
      in if dispatcher_address + 8 < jit_upper_bound
         then map_option (Pair True)
                (buf_write code (unat (dispatcher_address - buffer)) (le_bytes 8 new_dispatcher))
         else Some (False, code))"

definition ubpf_jit_update_helper_x86_64 ::
  "u64 \<Rightarrow> u32 \<Rightarrow> u64 \<Rightarrow> u8 list \<Rightarrow> u64 \<Rightarrow> u32 \<Rightarrow> (bool \<times> u8 list) option"
where
  "ubpf_jit_update_helper_x86_64 new_helper idx buffer code sz off =
     (let jit_upper_bound = buffer + sz;
          dispatcher_address = buffer + ucast off + ucast (8 * idx)
      in if dispatcher_address + 8 < jit_upper_bound
         then map_option (Pair True)
                (buf_write code (unat (dispatcher_address - buffer)) (le_bytes 8 new_helper))
         else Some (False, code))"

definition ubpf_jit_update_dispatcher_arm64 ::
  "u64 \<Rightarrow> u64 \<Rightarrow> u8 list \<Rightarrow> u64 \<Rightarrow> u32 \<Rightarrow> (bool \<times> u8 list) option"
where
  "ubpf_jit_update_dispatcher_arm64 new_dispatcher buffer code sz off =
     (let jit_upper_bound = buffer + sz;
          dispatcher_address = buffer + ucast off
      in if dispatcher_address + 8 < jit_upper_bound
         then map_option (Pair True)
                (buf_write code (unat (dispatcher_address - buffer)) (le_bytes 8 new_dispatcher))
         else Some (False, code))"

definition ubpf_jit_update_helper_arm64 ::
  "u64 \<Rightarrow> u32 \<Rightarrow> u64 \<Rightarrow> u8 list \<Rightarrow> u64 \<Rightarrow> u32 \<Rightarrow> (bool \<times> u8 list) option"
where
  "ubpf_jit_update_helper_arm64 new_helper idx buffer code sz off =
     (let jit_upper_bound = buffer + sz;
          dispatcher_address = buffer + ucast off + ucast (8 * idx)
      in if dispatcher_address + 8 < jit_upper_bound
         then map_option (Pair True)
                (buf_write code (unat (dispatcher_address - buffer)) (le_bytes 8 new_helper))
         else Some (False, code))"

definition ubpf_jit_update_dispatcher_null ::
  "u64 \<Rightarrow> u64 \<Rightarrow> u8 list \<Rightarrow> u64 \<Rightarrow> u32 \<Rightarrow> (bool \<times> u8 list) option"
where
  "ubpf_jit_update_dispatcher_null new_dispatcher buffer code sz off = Some (False, code)"

definition ubpf_jit_update_helper_null ::
  "u64 \<Rightarrow> u32 \<Rightarrow> u64 \<Rightarrow> u8 list \<Rightarrow> u64 \<Rightarrow> u32 \<Rightarrow> (bool \<times> u8 list) option"
where
  "ubpf_jit_update_helper_null new_helper idx buffer code sz off = Some (False, code)"

subsection \<open>The pointer slot of a patch\<close>

text \<open>Where the object does not wrap around the address space, addresses are list positions.\<close>

lemma patch_guard_iff:
  fixes buffer sz d :: u64
  assumes "unat buffer + unat sz < 2 ^ 64" "unat d + 8 < 2 ^ 64 - unat buffer"
  shows "buffer + d + 8 < buffer + sz \<longleftrightarrow> unat d + 8 < unat sz"
proof -
  have "unat (buffer + d + 8) = unat buffer + unat d + 8"
    using assms(2) by (simp add: unat_word_ariths)
  moreover have "unat (buffer + sz) = unat buffer + unat sz"
    using assms(1) by (simp add: unat_word_ariths)
  ultimately show ?thesis by (simp add: word_less_nat_alt)
qed

lemma helper_slot_offset:
  fixes off idx :: u32
  assumes "unat off + 512 < 2 ^ 32" "unat idx < 64"
  shows "unat (ucast off + ucast (8 * idx) :: u64) = unat off + 8 * unat idx"
proof -
  have "unat (8 * idx) = 8 * unat idx"
    using assms(2) by (simp add: unat_word_ariths)
  moreover have "unat (ucast off :: u64) = unat off" "unat (ucast (8 * idx) :: u64) = unat (8 * idx)"
    by (simp_all add: unsigned_ucast_eq unsigned_take_bit_eq take_bit_nat_eq_self
        less_trans [OF unat_u32_lt])
  ultimately show ?thesis
    using assms by (simp add: unat_word_ariths)
qed

end
