(* ===== verification/Ubpf_VM.thy ===== *)
theory Ubpf_VM
  imports Jit_Buffer
begin

text \<open>
  The virtual machine object: \<open>struct ubpf_vm\<close> of \<open>ubpf_int.h\<close>, its creation and configuration
  (\<open>ubpf_vm.c\<close>), the registration of external functions, the obfuscated instruction store and the
  per-function stack usage table.

  Function pointers are addresses; the code behind them belongs to the embedding application and is
  the record \<open>host\<close>, a parameter of every operation that calls through a pointer.
\<close>

section \<open>Limits\<close>

definition UBPF_MAX_INSTS :: nat where "UBPF_MAX_INSTS = 65536"

definition UBPF_EBPF_STACK_SIZE :: nat where "UBPF_EBPF_STACK_SIZE = 512"

definition UBPF_MAX_CALL_DEPTH :: nat where "UBPF_MAX_CALL_DEPTH = 10"

definition MAX_EXT_FUNCS :: nat where "MAX_EXT_FUNCS = 64"

definition DEFAULT_JITTER_BUFFER_SIZE :: u64 where "DEFAULT_JITTER_BUFFER_SIZE = 65536"

lemmas limit_defs = UBPF_MAX_INSTS_def UBPF_EBPF_STACK_SIZE_def UBPF_MAX_CALL_DEPTH_def
  MAX_EXT_FUNCS_def DEFAULT_JITTER_BUFFER_SIZE_def

section \<open>Data\<close>

datatype upbf_jit_result_t = UBPF_JIT_COMPILE_SUCCESS | UBPF_JIT_COMPILE_FAILURE

datatype JitMode = ExtendedJitMode | BasicJitMode

text \<open>The messages the JIT leaves in \<open>errmsg\<close>.\<close>

datatype jit_error =
    JitNoSpaceForState
  | JitUnknownInstruction nat u8
  | JitUnexpectedInstruction nat u8 u32
  | JitTooManyJumps | JitTooManyLoads | JitTooManyLeas | JitTooManyLocalCalls
  | JitBufferTooSmall
  | JitCouldNotPatch
  | JitNoTarget

record ubpf_jit_result =
  external_dispatcher_offset :: u32
  external_helper_offset :: u32
  compile_result :: upbf_jit_result_t
  jit_mode :: JitMode
  errmsg :: "jit_error option"

record ubpf_stack_usage =
  stack_usage_calculated :: bool
  stack_usage :: u16

text \<open>Which back end the build selects for \<open>jit_translate\<close> and the two update hooks.\<close>

datatype jit_target = Target_x86_64 | Target_arm64 | Target_null

datatype error_printf_fn = Fprintf | Custom_printf u64

text \<open>
  \<open>insts\<close> is the base address and the contents of the instruction array, \<open>jitted\<close> those of the
  generated code; \<^const>\<open>None\<close> is NULL. A NULL function pointer is \<open>0\<close>. The stack usage table has one
  entry for each \<open>uint16_t\<close>, so it is a function on \<^typ>\<open>u16\<close>.
\<close>

record ubpf_vm =
  insts :: "(u64 \<times> ebpf_inst list) option"
  num_insts :: u16
  jitted :: "(u64 \<times> u8 list) option"
  jitted_size :: u64
  jitter_buffer_size :: u64
  jitted_result :: ubpf_jit_result
  ext_funcs :: "u64 list"
  int_funcs :: "bool list option"
  ext_func_names :: "string option list"
  local_func_stack_usage :: "u16 \<Rightarrow> ubpf_stack_usage"
  stack_usage_calculator_cookie :: u64
  stack_usage_calculator :: u64
  dispatcher :: u64
  dispatcher_validate :: u64
  bounds_check_enabled :: bool
  undefined_behavior_check_enabled :: bool
  error_printf :: error_printf_fn
  jit_backend :: jit_target
  unwind_stack_extension_index :: u32
  pointer_secret :: u64
  data_relocation_function :: u64
  data_relocation_user_data :: u64
  bounds_check_function :: u64
  bounds_check_user_data :: u64
  instruction_limit :: u32

datatype page_protection = Prot_read_write | Prot_read_exec

text \<open>
  The code behind function pointers. A helper gets its five arguments and the memory of the process
  and returns a value and the memory it leaves. \<open>mprotect\<close> gives the result of the system call.
\<close>

record host =
  call_ext :: "u64 \<Rightarrow> u64 \<Rightarrow> u64 \<Rightarrow> u64 \<Rightarrow> u64 \<Rightarrow> u64 \<Rightarrow> memory \<Rightarrow> u64 \<times> memory"
  call_dispatcher ::
    "u64 \<Rightarrow> u64 \<Rightarrow> u64 \<Rightarrow> u64 \<Rightarrow> u64 \<Rightarrow> u64 \<Rightarrow> u32 \<Rightarrow> u64 \<Rightarrow> memory \<Rightarrow> u64 \<times> memory"
  call_validate :: "u64 \<Rightarrow> u32 \<Rightarrow> ubpf_vm \<Rightarrow> bool"
  call_bounds_check :: "u64 \<Rightarrow> u64 \<Rightarrow> u64 \<Rightarrow> u64 \<Rightarrow> bool"
  call_stack_usage :: "u64 \<Rightarrow> ubpf_vm \<Rightarrow> u16 \<Rightarrow> u64 \<Rightarrow> u32"
  mprotect :: "u64 \<Rightarrow> u64 \<Rightarrow> page_protection \<Rightarrow> int"

section \<open>Creation and configuration\<close>

text \<open>
  \<open>calloc\<close> can fail for each of the four objects; \<open>allocs\<close> says which calls succeed, in order. On
  failure the partly built object is destroyed and NULL is returned.
\<close>

definition fresh_vm :: "jit_target \<Rightarrow> ubpf_vm" where
  "fresh_vm target = \<lparr> insts = None, num_insts = 0, jitted = None, jitted_size = 0,
     jitter_buffer_size = DEFAULT_JITTER_BUFFER_SIZE,
     jitted_result = \<lparr> external_dispatcher_offset = 0, external_helper_offset = 0,
       compile_result = UBPF_JIT_COMPILE_FAILURE, jit_mode = ExtendedJitMode, errmsg = None \<rparr>,
     ext_funcs = replicate MAX_EXT_FUNCS 0, int_funcs = None,
     ext_func_names = replicate MAX_EXT_FUNCS None,
     local_func_stack_usage = (\<lambda>_. \<lparr> stack_usage_calculated = False, stack_usage = 0 \<rparr>),
     stack_usage_calculator_cookie = 0, stack_usage_calculator = 0,
     dispatcher = 0, dispatcher_validate = 0,
     bounds_check_enabled = True, undefined_behavior_check_enabled = False,
     error_printf = Fprintf, jit_backend = target,
     unwind_stack_extension_index = - 1, pointer_secret = 0,
     data_relocation_function = 0, data_relocation_user_data = 0,
     bounds_check_function = 0, bounds_check_user_data = 0, instruction_limit = 0 \<rparr>"

definition ubpf_create :: "jit_target \<Rightarrow> bool \<times> bool \<times> bool \<times> bool \<Rightarrow> ubpf_vm option" where
  "ubpf_create target allocs =
     (let (vm_ok, ext_funcs_ok, names_ok, usage_ok) = allocs
      in if \<not> vm_ok then None
         else if \<not> ext_funcs_ok then None
         else if \<not> names_ok then None
         else if \<not> usage_ok then None
         else Some (fresh_vm target))"

definition ubpf_toggle_bounds_check :: "ubpf_vm \<Rightarrow> bool \<Rightarrow> bool \<times> ubpf_vm" where
  "ubpf_toggle_bounds_check vm enable =
     (bounds_check_enabled vm, vm\<lparr> bounds_check_enabled := enable \<rparr>)"

definition ubpf_toggle_undefined_behavior_check :: "ubpf_vm \<Rightarrow> bool \<Rightarrow> bool \<times> ubpf_vm" where
  "ubpf_toggle_undefined_behavior_check vm enable =
     (undefined_behavior_check_enabled vm, vm\<lparr> undefined_behavior_check_enabled := enable \<rparr>)"

definition ubpf_set_error_print :: "ubpf_vm \<Rightarrow> u64 \<Rightarrow> ubpf_vm" where
  "ubpf_set_error_print vm f =
     (if f \<noteq> 0 then vm\<lparr> error_printf := Custom_printf f \<rparr> else vm\<lparr> error_printf := Fprintf \<rparr>)"

definition ubpf_set_unwind_function_index :: "ubpf_vm \<Rightarrow> u32 \<Rightarrow> int \<times> ubpf_vm" where
  "ubpf_set_unwind_function_index vm idx =
     (if unwind_stack_extension_index vm \<noteq> - 1 then (- 1, vm)
      else (0, vm\<lparr> unwind_stack_extension_index := idx \<rparr>))"

definition ubpf_set_pointer_secret :: "ubpf_vm \<Rightarrow> u64 \<Rightarrow> int \<times> ubpf_vm" where
  "ubpf_set_pointer_secret vm secret =
     (if insts vm \<noteq> None then (- 1, vm) else (0, vm\<lparr> pointer_secret := secret \<rparr>))"

definition ubpf_register_data_relocation :: "ubpf_vm \<Rightarrow> u64 \<Rightarrow> u64 \<Rightarrow> int \<times> ubpf_vm" where
  "ubpf_register_data_relocation vm user_context relocation =
     (if data_relocation_function vm \<noteq> 0 then (- 1, vm)
      else (0, vm\<lparr> data_relocation_function := relocation,
                   data_relocation_user_data := user_context \<rparr>))"

definition ubpf_register_data_bounds_check :: "ubpf_vm \<Rightarrow> u64 \<Rightarrow> u64 \<Rightarrow> int \<times> ubpf_vm" where
  "ubpf_register_data_bounds_check vm user_context bounds_check =
     (if bounds_check_function vm \<noteq> 0 then (- 1, vm)
      else (0, vm\<lparr> bounds_check_function := bounds_check,
                   bounds_check_user_data := user_context \<rparr>))"

text \<open>The result, the previous limit stored through the optional pointer, and the new object.\<close>

definition ubpf_set_instruction_limit :: "ubpf_vm \<Rightarrow> u32 \<Rightarrow> bool \<Rightarrow> int \<times> u32 option \<times> ubpf_vm" where
  "ubpf_set_instruction_limit vm limit want_previous =
     (0, if want_previous then Some (instruction_limit vm) else None,
      vm\<lparr> instruction_limit := limit \<rparr>)"

definition ubpf_register_stack_usage_calculator :: "ubpf_vm \<Rightarrow> u64 \<Rightarrow> u64 \<Rightarrow> int \<times> ubpf_vm" where
  "ubpf_register_stack_usage_calculator vm calculator cookie =
     (0, vm\<lparr> stack_usage_calculator_cookie := cookie, stack_usage_calculator := calculator \<rparr>)"

definition ubpf_set_jit_code_size :: "ubpf_vm \<Rightarrow> u64 \<Rightarrow> int \<times> ubpf_vm" where
  "ubpf_set_jit_code_size vm code_size = (0, vm\<lparr> jitter_buffer_size := code_size \<rparr>)"

section \<open>External functions\<close>

definition jit_update_helper ::
  "ubpf_vm \<Rightarrow> u64 \<Rightarrow> u32 \<Rightarrow> u64 \<Rightarrow> u8 list \<Rightarrow> u64 \<Rightarrow> u32 \<Rightarrow> (bool \<times> u8 list) option"
where
  "jit_update_helper vm fn idx buffer code sz off =
     (case jit_backend vm of
        Target_x86_64 \<Rightarrow> ubpf_jit_update_helper_x86_64 fn idx buffer code sz off
      | Target_arm64 \<Rightarrow> ubpf_jit_update_helper_arm64 fn idx buffer code sz off
      | Target_null \<Rightarrow> ubpf_jit_update_helper_null fn idx buffer code sz off)"

definition jit_update_dispatcher ::
  "ubpf_vm \<Rightarrow> u64 \<Rightarrow> u64 \<Rightarrow> u8 list \<Rightarrow> u64 \<Rightarrow> u32 \<Rightarrow> (bool \<times> u8 list) option"
where
  "jit_update_dispatcher vm fn buffer code sz off =
     (case jit_backend vm of
        Target_x86_64 \<Rightarrow> ubpf_jit_update_dispatcher_x86_64 fn buffer code sz off
      | Target_arm64 \<Rightarrow> ubpf_jit_update_dispatcher_arm64 fn buffer code sz off
      | Target_null \<Rightarrow> ubpf_jit_update_dispatcher_null fn buffer code sz off)"

text \<open>
  The address and contents of the generated code as the patching code sees them: after
  \<open>ubpf_unload_code\<close> the pointer is NULL while \<open>compile_result\<close> still says success.
\<close>

definition jitted_object :: "ubpf_vm \<Rightarrow> u64 \<times> u8 list" where
  "jitted_object vm = (case jitted vm of None \<Rightarrow> (0, []) | Some obj \<Rightarrow> obj)"

definition set_jitted_code :: "ubpf_vm \<Rightarrow> u8 list \<Rightarrow> ubpf_vm" where
  "set_jitted_code vm code = vm\<lparr> jitted := map_option (\<lambda>(a, _). (a, code)) (jitted vm) \<rparr>"

text \<open>
  The sequence shared by both registration functions once generated code exists: make it writable,
  patch, make it executable again. \<^const>\<open>None\<close> is a write outside the generated code.
\<close>

definition repatch ::
  "host \<Rightarrow> ubpf_vm \<Rightarrow> (u64 \<Rightarrow> u8 list \<Rightarrow> (bool \<times> u8 list) option) \<Rightarrow> (int \<times> ubpf_vm) option"
where
  "repatch h vm update =
     (let (buffer, code) = jitted_object vm
      in if mprotect h buffer (jitted_size vm) Prot_read_write < 0 then Some (- 1, vm)
         else case update buffer code of
             None \<Rightarrow> None
           | Some (ok, code') \<Rightarrow>
               let vm' = set_jitted_code vm code'
               in if mprotect h buffer (jitted_size vm) Prot_read_exec < 0 then Some (- 1, vm')
                  else Some (if ok then 0 else - 1, vm'))"

definition ubpf_register ::
  "host \<Rightarrow> ubpf_vm \<Rightarrow> u32 \<Rightarrow> string \<Rightarrow> u64 \<Rightarrow> (int \<times> ubpf_vm) option"
where
  "ubpf_register h vm idx name fn =
     (if MAX_EXT_FUNCS \<le> unat idx then Some (- 1, vm)
      else
        let vm1 = vm\<lparr> ext_funcs := (ext_funcs vm)[unat idx := fn],
                      ext_func_names := (ext_func_names vm)[unat idx := Some name] \<rparr>
        in if compile_result (jitted_result vm1) = UBPF_JIT_COMPILE_SUCCESS
           then repatch h vm1 (\<lambda>buffer code. jit_update_helper vm1 fn idx buffer code
                  (jitted_size vm1) (external_helper_offset (jitted_result vm1)))
           else Some (0, vm1))"

definition ubpf_register_external_dispatcher ::
  "host \<Rightarrow> ubpf_vm \<Rightarrow> u64 \<Rightarrow> u64 \<Rightarrow> (int \<times> ubpf_vm) option"
where
  "ubpf_register_external_dispatcher h vm disp validater =
     (let vm1 = vm\<lparr> dispatcher := disp, dispatcher_validate := validater \<rparr>
      in if compile_result (jitted_result vm1) = UBPF_JIT_COMPILE_SUCCESS
         then repatch h vm1 (\<lambda>buffer code. jit_update_dispatcher vm1 disp buffer code
                (jitted_size vm1) (external_dispatcher_offset (jitted_result vm1)))
         else Some (0, vm1))"

text \<open>The loop over the registered names; \<^const>\<open>None\<close> stands for the result \<open>-1\<close>.\<close>

fun lookup_name :: "string option list \<Rightarrow> nat \<Rightarrow> string \<Rightarrow> nat option" where
  "lookup_name [] i name = None"
| "lookup_name (other # names) i name =
     (if other = Some name then Some i else lookup_name names (Suc i) name)"

definition ubpf_lookup_registered_function :: "ubpf_vm \<Rightarrow> string \<Rightarrow> u32" where
  "ubpf_lookup_registered_function vm name =
     (case lookup_name (take MAX_EXT_FUNCS (ext_func_names vm)) 0 name of
        Some i \<Rightarrow> of_nat i | None \<Rightarrow> - 1)"

section \<open>The instruction store\<close>

text \<open>The key both directions use: the base address of the array and the pointer secret.\<close>

definition ubpf_fetch_instruction :: "ubpf_vm \<Rightarrow> u16 \<Rightarrow> ebpf_inst option" where
  "ubpf_fetch_instruction vm pc =
     (case insts vm of
        None \<Rightarrow> None
      | Some (base, code) \<Rightarrow>
          if unat pc < length code
          then Some (value_to_inst
                 ((inst_to_value (code ! unat pc) XOR base) XOR pointer_secret vm))
          else None)"

definition ubpf_store_instruction :: "ubpf_vm \<Rightarrow> u16 \<Rightarrow> ebpf_inst \<Rightarrow> ubpf_vm option" where
  "ubpf_store_instruction vm pc inst =
     (case insts vm of
        None \<Rightarrow> None
      | Some (base, code) \<Rightarrow>
          if unat pc < length code
          then Some (vm\<lparr> insts := Some (base,
                 code[unat pc := value_to_inst
                   ((inst_to_value inst XOR base) XOR pointer_secret vm)]) \<rparr>)
          else None)"

section \<open>Stack usage of local functions\<close>

datatype load_error =
    StackSizeNotMultipleOf8
  | AlreadyLoaded
  | CodeLenNotMultipleOf8
  | TooManyInstructions
  | ImproperStackUse u16 u16
  | InvalidEndianImmediate nat
  | InvalidLddwSource nat
  | IncompleteLddw nat
  | InfiniteLoop nat
  | JumpOutOfBounds nat
  | JumpToMiddleOfLddw nat
  | InvalidCallImmediate nat
  | NonexistentFunction u32 nat
  | LocalCallOutOfBounds nat u32
  | BtfCallUnsupported nat
  | InvalidCallType nat
  | UnknownOpcode u8 nat
  | InvalidSourceRegister nat
  | InvalidDestinationRegister nat
  | OutOfMemory

definition ubpf_calculate_stack_usage_for_local_func ::
  "host \<Rightarrow> ubpf_vm \<Rightarrow> u16 \<Rightarrow> ubpf_vm \<times> load_error option"
where
  "ubpf_calculate_stack_usage_for_local_func h vm pc =
     (let su = local_func_stack_usage vm pc;
          su1 = (if stack_usage_calculator vm \<noteq> 0 \<and> \<not> stack_usage_calculated su
                 then su\<lparr> stack_usage := ucast (call_stack_usage h (stack_usage_calculator vm) vm pc
                        (stack_usage_calculator_cookie vm)) \<rparr>
                 else su);
          su2 = su1\<lparr> stack_usage_calculated := True \<rparr>;
          vm' = vm\<lparr> local_func_stack_usage := (local_func_stack_usage vm)(pc := su2) \<rparr>
      in if stack_usage su2 mod 16 \<noteq> 0
         then (vm', Some (ImproperStackUse pc (stack_usage su2)))
         else (vm', None))"

definition ubpf_stack_usage_for_local_func :: "ubpf_vm \<Rightarrow> u16 \<Rightarrow> u16" where
  "ubpf_stack_usage_for_local_func vm pc =
     (if stack_usage_calculated (local_func_stack_usage vm pc)
      then stack_usage (local_func_stack_usage vm pc)
      else of_nat UBPF_EBPF_STACK_SIZE)"

section \<open>Unloading and destroying\<close>

definition ubpf_unload_code :: "ubpf_vm \<Rightarrow> ubpf_vm" where
  "ubpf_unload_code vm =
     (let vm1 = (if jitted vm \<noteq> None then vm\<lparr> jitted := None, jitted_size := 0 \<rparr> else vm)
      in if insts vm1 \<noteq> None then vm1\<lparr> insts := None, num_insts := 0 \<rparr> else vm1)"

section \<open>Well-formed objects\<close>

text \<open>
  The tables have their fixed sizes, a loaded program has one word and one local-function mark for
  each of its instructions, and the recorded size of the generated code is its size.
\<close>

fun wf_insts :: "(u64 \<times> ebpf_inst list) option \<Rightarrow> u16 \<Rightarrow> bool list option \<Rightarrow> bool" where
  "wf_insts None n funcs = (n = 0)"
| "wf_insts (Some (base, code)) n (Some funcs) = (length code = unat n \<and> length funcs = unat n)"
| "wf_insts (Some obj) n None = False"

fun wf_jitted :: "(u64 \<times> u8 list) option \<Rightarrow> u64 \<Rightarrow> bool" where
  "wf_jitted None n = (n = 0)"
| "wf_jitted (Some (a, code)) n = (length code = unat n)"

definition wf_vm :: "ubpf_vm \<Rightarrow> bool" where
  "wf_vm vm \<longleftrightarrow>
     length (ext_funcs vm) = MAX_EXT_FUNCS \<and> length (ext_func_names vm) = MAX_EXT_FUNCS \<and>
     wf_insts (insts vm) (num_insts vm) (int_funcs vm) \<and> wf_jitted (jitted vm) (jitted_size vm)"

lemma update_buffer_length:
  "jit_update_helper vm fn idx buffer code sz off = Some (ok, code') \<Longrightarrow> length code' = length code"
  "jit_update_dispatcher vm fn buffer code sz off = Some (ok, code') \<Longrightarrow> length code' = length code"
  by (auto simp: jit_update_helper_def jit_update_dispatcher_def Let_def
      ubpf_jit_update_helper_x86_64_def ubpf_jit_update_helper_arm64_def ubpf_jit_update_helper_null_def
      ubpf_jit_update_dispatcher_x86_64_def ubpf_jit_update_dispatcher_arm64_def
      ubpf_jit_update_dispatcher_null_def
      split: jit_target.splits if_splits dest: buf_write_length)

lemma repatch_wf:
  assumes "wf_vm vm" and "repatch h vm update = Some (rc, vm')"
    and "\<And>b c ok c'. update b c = Some (ok, c') \<Longrightarrow> length c' = length c"
  shows "wf_vm vm'"
  using assms
  by (auto simp: repatch_def wf_vm_def set_jitted_code_def jitted_object_def Let_def
      split: option.splits if_splits prod.splits)

lemma fresh_vm_wf: "wf_vm (fresh_vm target)"
  by (simp add: wf_vm_def fresh_vm_def)

lemma ubpf_register_wf:
  assumes wf: "wf_vm vm" and reg: "ubpf_register h vm idx name fn = Some (rc, vm')"
  shows "wf_vm vm'"
proof -
  let ?vm1 = "vm\<lparr> ext_funcs := (ext_funcs vm)[unat idx := fn],
                ext_func_names := (ext_func_names vm)[unat idx := Some name] \<rparr>"
  have wf1: "wf_vm ?vm1" using wf by (simp add: wf_vm_def)
  show ?thesis
  proof (cases "unat idx < MAX_EXT_FUNCS \<and>
      compile_result (jitted_result vm) = UBPF_JIT_COMPILE_SUCCESS")
    case True
    then have "repatch h ?vm1 (\<lambda>buffer code. jit_update_helper ?vm1 fn idx buffer code
        (jitted_size vm) (external_helper_offset (jitted_result vm))) = Some (rc, vm')"
      using reg by (simp add: ubpf_register_def Let_def)
    then show ?thesis
      by (rule repatch_wf [OF wf1]) (rule update_buffer_length(1))
  next
    case False
    then have "vm' = vm \<or> vm' = ?vm1"
      using reg by (auto simp: ubpf_register_def Let_def split: if_splits)
    then show ?thesis using wf wf1 by auto
  qed
qed

lemma ubpf_register_external_dispatcher_wf:
  assumes wf: "wf_vm vm" and reg: "ubpf_register_external_dispatcher h vm d v = Some (rc, vm')"
  shows "wf_vm vm'"
proof -
  let ?vm1 = "vm\<lparr> dispatcher := d, dispatcher_validate := v \<rparr>"
  have wf1: "wf_vm ?vm1" using wf by (simp add: wf_vm_def)
  show ?thesis
  proof (cases "compile_result (jitted_result vm) = UBPF_JIT_COMPILE_SUCCESS")
    case True
    then have "repatch h ?vm1 (\<lambda>buffer code. jit_update_dispatcher ?vm1 d buffer code
        (jitted_size vm) (external_dispatcher_offset (jitted_result vm))) = Some (rc, vm')"
      using reg by (simp add: ubpf_register_external_dispatcher_def Let_def)
    then show ?thesis
      by (rule repatch_wf [OF wf1]) (rule update_buffer_length(2))
  next
    case False
    then show ?thesis
      using reg wf1 by (simp add: ubpf_register_external_dispatcher_def)
  qed
qed

lemma ubpf_unload_code_wf: "wf_vm vm \<Longrightarrow> wf_vm (ubpf_unload_code vm)"
  by (auto simp: ubpf_unload_code_def wf_vm_def Let_def split: option.splits)

lemma ubpf_calculate_stack_usage_wf:
  "wf_vm vm \<Longrightarrow> wf_vm (fst (ubpf_calculate_stack_usage_for_local_func h vm pc))"
  by (simp add: ubpf_calculate_stack_usage_for_local_func_def wf_vm_def Let_def)

text \<open>What calculating a stack usage leaves alone.\<close>

lemma calculate_stack_usage_frame [frame_simps]:
  "insts (fst (ubpf_calculate_stack_usage_for_local_func h vm pc)) = insts vm"
  "num_insts (fst (ubpf_calculate_stack_usage_for_local_func h vm pc)) = num_insts vm"
  "ext_funcs (fst (ubpf_calculate_stack_usage_for_local_func h vm pc)) = ext_funcs vm"
  "dispatcher (fst (ubpf_calculate_stack_usage_for_local_func h vm pc)) = dispatcher vm"
  "pointer_secret (fst (ubpf_calculate_stack_usage_for_local_func h vm pc)) = pointer_secret vm"
  "stack_usage_calculator (fst (ubpf_calculate_stack_usage_for_local_func h vm pc)) =
     stack_usage_calculator vm"
  by (simp_all add: ubpf_calculate_stack_usage_for_local_func_def Let_def)

section \<open>Registered names\<close>

lemma lookup_name_eq:
  "lookup_name names i name =
     (if Some name \<in> set names
      then Some (i + length (takeWhile (\<lambda>x. x \<noteq> Some name) names)) else None)"
  by (induction names arbitrary: i) auto

lemma lookup_name_first:
  assumes "k < length names" "names ! k = Some name" "\<And>j. j < k \<Longrightarrow> names ! j \<noteq> Some name"
  shows "lookup_name names i name = Some (i + k)"
proof -
  have "takeWhile (\<lambda>x. x \<noteq> Some name) names = take k names"
    using assms by (intro takeWhile_eq_take_P_nth) auto
  moreover have "Some name \<in> set names" using assms(1,2) by (metis nth_mem)
  ultimately show ?thesis using assms(1) by (simp add: lookup_name_eq)
qed

end
