(* ===== verification/Jit_Support.thy ===== *)
theory Jit_Support
  imports Ubpf_VM "HOL-Library.State_Monad"
begin

text \<open>
  The state of a JIT compilation and its bookkeeping: \<open>ubpf_jit_support.h\<close> and
  \<open>ubpf_jit_support.c\<close>. Code generation is a sequence of calls that change the state; it is written
  in the state monad.
\<close>

section \<open>Data\<close>

datatype JitProgress =
    NoError | TooManyJumps | TooManyLoads | TooManyLeas | TooManyLocalCalls
  | NotEnoughSpace | UnexpectedInstruction | UnknownInstruction

record patchable_relative =
  offset_loc :: u32
  target_pc :: u32
  target_offset :: u32
  near :: bool

definition TARGET_PC_EXIT :: u32 where "TARGET_PC_EXIT = NOT 0"

definition TARGET_PC_ENTER :: u32 where "TARGET_PC_ENTER = NOT 0 AND 0x01"

definition TARGET_PC_RETPOLINE :: u32 where "TARGET_PC_RETPOLINE = NOT 0 AND 0x0101"

definition TARGET_PC_EXTERNAL_DISPATCHER :: u32 where
  "TARGET_PC_EXTERNAL_DISPATCHER = NOT 0 AND 0x010101"

definition TARGET_LOAD_HELPER_TABLE :: u32 where
  "TARGET_LOAD_HELPER_TABLE = NOT 0 AND 0x01010101"

lemma target_values:
  "TARGET_PC_EXIT = 0xFFFFFFFF" "TARGET_PC_RETPOLINE = 257"
  "TARGET_PC_EXTERNAL_DISPATCHER = 0x010101" "TARGET_LOAD_HELPER_TABLE = 0x01010101"
  by (simp_all add: TARGET_PC_EXIT_def TARGET_PC_RETPOLINE_def TARGET_PC_EXTERNAL_DISPATCHER_def
      TARGET_LOAD_HELPER_TABLE_def)

text \<open>Why a compilation kills the process: an access outside an array, or a failed \<open>assert\<close>.\<close>

datatype jit_crash = OutsideArray | AssertionFailed

text \<open>
  The four tables are lists of the entries in use, so \<open>num_jumps\<close> is a length. \<open>js_pc_locs\<close> is the
  array of \<open>UBPF_MAX_INSTS + 1\<close> locations, zeroed at the start. \<open>js_local_calls_ok\<close>: the table of local
  calls is not NULL (its allocation is the one whose result nobody checks). \<open>js_entry_loc\<close> and
  \<open>js_stack_size\<close> belong to the AArch64 back end, which sets them before it reads them. \<open>js_errmsg\<close> is the message the code
  generator has left through its \<open>errmsg\<close> parameter, \<open>js_crash\<close> what has killed the process.
\<close>

record jit_state =
  js_buf :: "u8 list"
  js_offset :: u32
  js_size :: u32
  js_pc_locs :: "nat \<Rightarrow> u32"
  js_exit_loc :: u32
  js_entry_loc :: u32
  js_retpoline_loc :: u32
  js_dispatcher_loc :: u32
  js_helper_table_loc :: u32
  js_status :: JitProgress
  js_mode :: JitMode
  js_jumps :: "patchable_relative list"
  js_loads :: "patchable_relative list"
  js_leas :: "patchable_relative list"
  js_local_calls :: "patchable_relative list"
  js_local_calls_ok :: bool
  js_stack_size :: u32
  js_prolog_size :: u64
  js_errmsg :: "jit_error option"
  js_crash :: "jit_crash option"

type_synonym 'a jit = "(jit_state, 'a) state"

abbreviation jit_return :: "'a \<Rightarrow> 'a jit" where "jit_return \<equiv> State_Monad.return"

abbreviation jit_get :: "jit_state jit" where "jit_get \<equiv> State_Monad.get"

abbreviation jit_update :: "(jit_state \<Rightarrow> jit_state) \<Rightarrow> unit jit" where
  "jit_update \<equiv> State_Monad.update"

text \<open>What a piece of code generation returns and the state it leaves.\<close>

definition jit_value :: "'a jit \<Rightarrow> jit_state \<Rightarrow> 'a" where "jit_value m st = fst (run_state m st)"

definition jit_exec :: "'a jit \<Rightarrow> jit_state \<Rightarrow> jit_state" where "jit_exec m st = snd (run_state m st)"

lemma jit_run_simps [simp]:
  "jit_exec (State_Monad.bind m f) st = jit_exec (f (jit_value m st)) (jit_exec m st)"
  "jit_value (State_Monad.bind m f) st = jit_value (f (jit_value m st)) (jit_exec m st)"
  "jit_exec (jit_return x) st = st" "jit_value (jit_return x) st = x"
  "jit_exec jit_get st = st" "jit_value jit_get st = st"
  "jit_exec (jit_update g) st = g st"
  by (simp_all add: jit_exec_def jit_value_def State_Monad.bind_def State_Monad.return_def
      State_Monad.get_def State_Monad.update_def State_Monad.set_def split: prod.split)

lemma run_state_jit: "run_state m st = (jit_value m st, jit_exec m st)"
  by (simp add: jit_exec_def jit_value_def)

definition jit_fail :: "jit_crash \<Rightarrow> unit jit" where
  "jit_fail c = jit_update (\<lambda>st. if js_crash st = None then st\<lparr> js_crash := Some c \<rparr> else st)"

definition jit_set_status :: "JitProgress \<Rightarrow> unit jit" where
  "jit_set_status s = jit_update (\<lambda>st. st\<lparr> js_status := s \<rparr>)"

section \<open>Operations\<close>

text \<open>
  \<open>allocs\<close> says which of the five \<open>calloc\<close> calls succeed; \<open>locs0\<close> is what the four location fields
  hold before they are set, \<open>helper_offset0\<close> what \<open>external_helper_offset\<close> holds. The result is the C
  result, the state, and the result record.
\<close>

definition initialize_jit_state_result ::
  "u8 list \<Rightarrow> u32 \<Rightarrow> JitMode \<Rightarrow> bool \<times> bool \<times> bool \<times> bool \<times> bool \<Rightarrow> u32 \<times> u32 \<times> u32 \<times> u32 \<Rightarrow> u32 \<Rightarrow> int \<times> jit_state \<times> ubpf_jit_result"
where
  "initialize_jit_state_result buffer sz mode allocs locs0 helper_offset0 =
     (let (pc_locs_ok, jumps_ok, loads_ok, leas_ok, local_calls_ok) = allocs;
          (exit0, retpoline0, dispatcher0, helpers0) = locs0;
          result = \<lparr> external_dispatcher_offset = 0, external_helper_offset = helper_offset0,
            compile_result = UBPF_JIT_COMPILE_FAILURE, jit_mode = mode, errmsg = None \<rparr>;
          state = \<lparr> js_buf = buffer, js_offset = 0, js_size = sz, js_pc_locs = (\<lambda>_. 0),
            js_exit_loc = exit0, js_entry_loc = 0, js_retpoline_loc = retpoline0, js_dispatcher_loc = dispatcher0,
            js_helper_table_loc = helpers0, js_status = NoError, js_mode = mode,
            js_jumps = [], js_loads = [], js_leas = [], js_local_calls = [], js_local_calls_ok = local_calls_ok,
            js_stack_size = 0, js_prolog_size = 0, js_errmsg = None, js_crash = None \<rparr>
      in if \<not> pc_locs_ok \<or> \<not> jumps_ok \<or> \<not> loads_ok \<or> \<not> leas_ok
         then (- 1, state, result\<lparr> errmsg := Some JitNoSpaceForState \<rparr>)
         else (0, state, result))"

definition emit_patchable_relative_ex ::
  "u32 \<Rightarrow> u32 \<Rightarrow> u32 \<Rightarrow> patchable_relative list \<Rightarrow> nat \<Rightarrow> bool \<Rightarrow> patchable_relative list option"
where
  "emit_patchable_relative_ex off target manual table index is_near =
     (let entry = \<lparr> offset_loc = off, target_pc = target, target_offset = manual, near = is_near \<rparr>
      in if UBPF_MAX_INSTS \<le> index then None
         else Some (if index < length table then table[index := entry] else table @ [entry]))"

definition emit_patchable_relative ::
  "u32 \<Rightarrow> u32 \<Rightarrow> u32 \<Rightarrow> patchable_relative list \<Rightarrow> nat \<Rightarrow> patchable_relative list option"
where
  "emit_patchable_relative off target manual table index =
     emit_patchable_relative_ex off target manual table index False"

definition note_load :: "u32 \<Rightarrow> unit jit" where
  "note_load target = do {
     st \<leftarrow> jit_get;
     case emit_patchable_relative (js_offset st) target 0 (js_loads st) (length (js_loads st)) of
       None \<Rightarrow> jit_fail OutsideArray
     | Some table \<Rightarrow> jit_update (\<lambda>st. st\<lparr> js_loads := table \<rparr>)
   }"

definition note_lea :: "u32 \<Rightarrow> unit jit" where
  "note_lea target = do {
     st \<leftarrow> jit_get;
     case emit_patchable_relative (js_offset st) target 0 (js_leas st) (length (js_leas st)) of
       None \<Rightarrow> jit_fail OutsideArray
     | Some table \<Rightarrow> jit_update (\<lambda>st. st\<lparr> js_leas := table \<rparr>)
   }"

definition fixup_jump_target ::
  "patchable_relative list \<Rightarrow> u32 \<Rightarrow> u32 \<Rightarrow> patchable_relative list"
where
  "fixup_jump_target table src_offset dest_offset =
     map (\<lambda>entry. if offset_loc entry = src_offset then entry\<lparr> target_offset := dest_offset \<rparr> else entry)
       table"

definition emit_jump_target :: "u32 \<Rightarrow> unit jit" where
  "emit_jump_target jump_src =
     jit_update (\<lambda>st. st\<lparr> js_jumps := fixup_jump_target (js_jumps st) jump_src (js_offset st) \<rparr>)"

end
