(* ===== verification/Jit_X86_Emit.thy ===== *)
theory Jit_X86_Emit
  imports Jit_Support
begin

text \<open>
  The x86-64 instruction emitters of \<open>ubpf_jit_x86_64.h\<close>, for a System V target built with
  \<open>UBPF_DISABLE_RETPOLINES\<close> (\<open>inc/ubpf_config.h\<close>). A C \<open>int\<close> is its 32-bit pattern; \<open>assert\<close> is
  enabled and a failed one is recorded in the state.
\<close>

section \<open>Registers and operand sizes\<close>

abbreviation (input) RAX :: u32 where "RAX \<equiv> 0"
abbreviation (input) RCX :: u32 where "RCX \<equiv> 1"
abbreviation (input) RDX :: u32 where "RDX \<equiv> 2"
abbreviation (input) RBX :: u32 where "RBX \<equiv> 3"
abbreviation (input) RSP :: u32 where "RSP \<equiv> 4"
abbreviation (input) RBP :: u32 where "RBP \<equiv> 5"
abbreviation (input) RSI :: u32 where "RSI \<equiv> 6"
abbreviation (input) RDI :: u32 where "RDI \<equiv> 7"
abbreviation (input) R8 :: u32 where "R8 \<equiv> 8"
abbreviation (input) R9 :: u32 where "R9 \<equiv> 9"
abbreviation (input) R10 :: u32 where "R10 \<equiv> 10"
abbreviation (input) R11 :: u32 where "R11 \<equiv> 11"
abbreviation (input) R12 :: u32 where "R12 \<equiv> 12"
abbreviation (input) R13 :: u32 where "R13 \<equiv> 13"
abbreviation (input) R14 :: u32 where "R14 \<equiv> 14"
abbreviation (input) R15 :: u32 where "R15 \<equiv> 15"
abbreviation (input) VOLATILE_CTXT :: u32 where "VOLATILE_CTXT \<equiv> 11"

datatype operand_size = S8 | S16 | S32 | S64

section \<open>Bytes\<close>

definition jit_assert :: "bool \<Rightarrow> unit jit" where
  "jit_assert c = (if c then jit_return () else jit_fail AssertionFailed)"

definition emit_bytes :: "u8 list \<Rightarrow> unit jit" where
  "emit_bytes data = do {
     st \<leftarrow> jit_get;
     let len = (of_nat (length data) :: u32);
     if js_status st \<noteq> NoError then jit_return ()
     else if js_offset st + len > js_size st then jit_set_status NotEnoughSpace
     else case buf_write (js_buf st) (unat (js_offset st)) data of
         None \<Rightarrow> jit_fail OutsideArray
       | Some buf \<Rightarrow> jit_update (\<lambda>st. st\<lparr> js_buf := buf, js_offset := js_offset st + len \<rparr>)
   }"

definition emit1 :: "u8 \<Rightarrow> unit jit" where "emit1 x = emit_bytes (le_bytes 1 x)"

definition emit2 :: "u16 \<Rightarrow> unit jit" where "emit2 x = emit_bytes (le_bytes 2 x)"

definition emit4 :: "u32 \<Rightarrow> unit jit" where "emit4 x = emit_bytes (le_bytes 4 x)"

definition emit8 :: "u64 \<Rightarrow> unit jit" where "emit8 x = emit_bytes (le_bytes 8 x)"

definition emit_4byte_offset_placeholder :: "unit jit" where
  "emit_4byte_offset_placeholder = emit4 0"

section \<open>Relocations\<close>

definition note_jump :: "u32 \<Rightarrow> bool \<Rightarrow> unit jit" where
  "note_jump target is_near = do {
     st \<leftarrow> jit_get;
     case emit_patchable_relative_ex (js_offset st) target 0 (js_jumps st) (length (js_jumps st)) is_near of
       None \<Rightarrow> jit_fail OutsideArray
     | Some table \<Rightarrow> jit_update (\<lambda>st. st\<lparr> js_jumps := table \<rparr>)
   }"

definition note_local_call :: "u32 \<Rightarrow> unit jit" where
  "note_local_call target = do {
     st \<leftarrow> jit_get;
     case (if js_local_calls_ok st
           then emit_patchable_relative (js_offset st) target 0 (js_local_calls st)
             (length (js_local_calls st))
           else None) of
       None \<Rightarrow> jit_fail OutsideArray
     | Some table \<Rightarrow> jit_update (\<lambda>st. st\<lparr> js_local_calls := table \<rparr>)
   }"

definition emit_jump_address_reloc :: "u32 \<Rightarrow> u32 jit" where
  "emit_jump_address_reloc target = do {
     st \<leftarrow> jit_get;
     if length (js_jumps st) = UBPF_MAX_INSTS then do { jit_set_status TooManyJumps; jit_return 0 }
     else do {
       note_jump target False;
       emit_4byte_offset_placeholder;
       jit_return (js_offset st)
     }
   }"

definition emit_near_jump_address_reloc :: "u32 \<Rightarrow> u32 jit" where
  "emit_near_jump_address_reloc target = do {
     st \<leftarrow> jit_get;
     if length (js_jumps st) = UBPF_MAX_INSTS then do { jit_set_status TooManyJumps; jit_return 0 }
     else do {
       note_jump target True;
       emit1 0;
       jit_return (js_offset st)
     }
   }"

definition emit_local_call_address_reloc :: "u32 \<Rightarrow> u32 jit" where
  "emit_local_call_address_reloc target = do {
     st \<leftarrow> jit_get;
     if length (js_local_calls st) = UBPF_MAX_INSTS
     then do { jit_set_status TooManyLocalCalls; jit_return 0 }
     else do {
       note_local_call target;
       emit_4byte_offset_placeholder;
       jit_return (js_offset st)
     }
   }"

section \<open>Prefixes and operand bytes\<close>

definition emit_modrm :: "u32 \<Rightarrow> u32 \<Rightarrow> u32 \<Rightarrow> unit jit" where
  "emit_modrm md r m = do {
     jit_assert (md AND NOT 0xc0 = 0);
     emit1 (ucast ((md AND 0xc0) OR push_bit 3 (r AND 7) OR (m AND 7)))
   }"

definition emit_modrm_reg2reg :: "u32 \<Rightarrow> u32 \<Rightarrow> unit jit" where
  "emit_modrm_reg2reg r m = emit_modrm 0xc0 r m"

definition emit_modrm_and_displacement :: "u32 \<Rightarrow> u32 \<Rightarrow> u32 \<Rightarrow> unit jit" where
  "emit_modrm_and_displacement r m d =
     (if d = 0 \<and> m AND 7 \<noteq> RBP then emit_modrm 0x00 r m
      else if - 128 \<le> sint d \<and> sint d \<le> 127 then do { emit_modrm 0x40 r m; emit1 (ucast d) }
      else do { emit_modrm 0x80 r m; emit4 d })"

definition emit_rex :: "u32 \<Rightarrow> u32 \<Rightarrow> u32 \<Rightarrow> u32 \<Rightarrow> unit jit" where
  "emit_rex w r x b = do {
     jit_assert (w AND NOT 1 = 0);
     jit_assert (r AND NOT 1 = 0);
     jit_assert (x AND NOT 1 = 0);
     jit_assert (b AND NOT 1 = 0);
     emit1 (ucast (0x40 OR push_bit 3 w OR push_bit 2 r OR push_bit 1 x OR b))
   }"

definition emit_basic_rex :: "u32 \<Rightarrow> u32 \<Rightarrow> u32 \<Rightarrow> unit jit" where
  "emit_basic_rex w s d =
     (if w \<noteq> 0 \<or> s AND 8 \<noteq> 0 \<or> d AND 8 \<noteq> 0
      then emit_rex w (of_bool (s AND 8 \<noteq> 0)) 0 (of_bool (d AND 8 \<noteq> 0))
      else jit_return ())"

section \<open>Instructions\<close>

definition emit_push :: "u32 \<Rightarrow> unit jit" where
  "emit_push r = do { emit_basic_rex 0 0 r; emit1 (ucast (0x50 OR (r AND 7))) }"

definition emit_pop :: "u32 \<Rightarrow> unit jit" where
  "emit_pop r = do { emit_basic_rex 0 0 r; emit1 (ucast (0x58 OR (r AND 7))) }"

definition emit_alu32 :: "u32 \<Rightarrow> u32 \<Rightarrow> u32 \<Rightarrow> unit jit" where
  "emit_alu32 op s d = do { emit_basic_rex 0 s d; emit1 (ucast op); emit_modrm_reg2reg s d }"

definition emit_alu32_imm32 :: "u32 \<Rightarrow> u32 \<Rightarrow> u32 \<Rightarrow> u32 \<Rightarrow> unit jit" where
  "emit_alu32_imm32 op s d i = do { emit_alu32 op s d; emit4 i }"

definition emit_alu32_imm8 :: "u32 \<Rightarrow> u32 \<Rightarrow> u32 \<Rightarrow> u8 \<Rightarrow> unit jit" where
  "emit_alu32_imm8 op s d i = do { emit_alu32 op s d; emit1 i }"

definition emit_truncate_u32 :: "u32 \<Rightarrow> unit jit" where
  "emit_truncate_u32 destination = emit_alu32_imm32 0x81 4 destination 0xFFFFFFFF"

definition emit_alu64 :: "u32 \<Rightarrow> u32 \<Rightarrow> u32 \<Rightarrow> unit jit" where
  "emit_alu64 op s d = do { emit_basic_rex 1 s d; emit1 (ucast op); emit_modrm_reg2reg s d }"

definition emit_alu64_imm32 :: "u32 \<Rightarrow> u32 \<Rightarrow> u32 \<Rightarrow> u32 \<Rightarrow> unit jit" where
  "emit_alu64_imm32 op s d i = do { emit_alu64 op s d; emit4 i }"

definition emit_alu64_imm8 :: "u32 \<Rightarrow> u32 \<Rightarrow> u32 \<Rightarrow> u8 \<Rightarrow> unit jit" where
  "emit_alu64_imm8 op s d i = do { emit_alu64 op s d; emit1 i }"

definition emit_mov :: "u32 \<Rightarrow> u32 \<Rightarrow> unit jit" where
  "emit_mov s d = emit_alu64 0x89 s d"

definition emit_cmp_imm32 :: "u32 \<Rightarrow> u32 \<Rightarrow> unit jit" where
  "emit_cmp_imm32 d i = emit_alu64_imm32 0x81 7 d i"

definition emit_cmp32_imm32 :: "u32 \<Rightarrow> u32 \<Rightarrow> unit jit" where
  "emit_cmp32_imm32 d i = emit_alu32_imm32 0x81 7 d i"

definition emit_cmp :: "u32 \<Rightarrow> u32 \<Rightarrow> unit jit" where
  "emit_cmp s d = emit_alu64 0x39 s d"

definition emit_cmp32 :: "u32 \<Rightarrow> u32 \<Rightarrow> unit jit" where
  "emit_cmp32 s d = emit_alu32 0x39 s d"

definition emit_jcc :: "u32 \<Rightarrow> u32 \<Rightarrow> u32 jit" where
  "emit_jcc code target = do { emit1 0x0f; emit1 (ucast code); emit_jump_address_reloc target }"

definition emit_load :: "operand_size \<Rightarrow> u32 \<Rightarrow> u32 \<Rightarrow> u32 \<Rightarrow> unit jit" where
  "emit_load sz s d off = do {
     emit_basic_rex (of_bool (sz = S64)) d s;
     (if sz = S8 \<or> sz = S16 then do { emit1 0x0f; emit1 (if sz = S8 then 0xb6 else 0xb7) }
      else if sz = S32 \<or> sz = S64 then emit1 0x8b
      else jit_return ());
     emit_modrm_and_displacement d s off
   }"

definition emit_load_imm :: "u32 \<Rightarrow> u64 \<Rightarrow> unit jit" where
  "emit_load_imm d i =
     (if - 2147483648 \<le> sint i \<and> sint i \<le> 2147483647 then emit_alu64_imm32 0xc7 0 d (ucast i)
      else do { emit_basic_rex 1 0 d; emit1 (ucast (0xb8 OR (d AND 7))); emit8 i })"

definition emit_rip_relative_load :: "u32 \<Rightarrow> u32 \<Rightarrow> u32 jit" where
  "emit_rip_relative_load d relative_load_tgt = do {
     st \<leftarrow> jit_get;
     if length (js_loads st) = UBPF_MAX_INSTS then do { jit_set_status TooManyLoads; jit_return 0 }
     else do {
       emit_rex 1 0 0 0;
       emit1 0x8b;
       emit_modrm 0 d 0x05;
       st' \<leftarrow> jit_get;
       note_load relative_load_tgt;
       emit_4byte_offset_placeholder;
       jit_return (js_offset st')
     }
   }"

definition emit_rip_relative_lea :: "u32 \<Rightarrow> u32 \<Rightarrow> unit jit" where
  "emit_rip_relative_lea d lea_tgt = do {
     st \<leftarrow> jit_get;
     if length (js_leas st) = UBPF_MAX_INSTS then jit_set_status TooManyLeas
     else do {
       emit_rex 1 1 0 0;
       emit1 0x8d;
       emit_modrm 0 d 0x05;
       note_lea lea_tgt;
       emit_4byte_offset_placeholder
     }
   }"

definition emit_store :: "operand_size \<Rightarrow> u32 \<Rightarrow> u32 \<Rightarrow> u32 \<Rightarrow> unit jit" where
  "emit_store sz s d off = do {
     (if sz = S16 then emit1 0x66 else jit_return ());
     (if sz = S64 \<or> s AND 8 \<noteq> 0 \<or> d AND 8 \<noteq> 0 \<or> sz = S8
      then emit_rex (of_bool (sz = S64)) (of_bool (s AND 8 \<noteq> 0)) 0 (of_bool (d AND 8 \<noteq> 0))
      else jit_return ());
     emit1 (if sz = S8 then 0x88 else 0x89);
     emit_modrm_and_displacement s d off
   }"

definition emit_store_imm32 :: "operand_size \<Rightarrow> u32 \<Rightarrow> u32 \<Rightarrow> u32 \<Rightarrow> unit jit" where
  "emit_store_imm32 sz d off i = do {
     (if sz = S16 then emit1 0x66 else jit_return ());
     emit_basic_rex (of_bool (sz = S64)) 0 d;
     emit1 (if sz = S8 then 0xc6 else 0xc7);
     emit_modrm_and_displacement 0 d off;
     (if sz = S32 \<or> sz = S64 then emit4 i
      else if sz = S16 then emit2 (ucast i)
      else if sz = S8 then emit1 (ucast i)
      else jit_return ())
   }"

definition emit_ret :: "unit jit" where "emit_ret = emit1 0xc3"

definition emit_jmp :: "u32 \<Rightarrow> u32 jit" where
  "emit_jmp target = do { emit1 0xe9; emit_jump_address_reloc target }"

definition emit_near_jmp :: "u32 \<Rightarrow> u32 jit" where
  "emit_near_jmp target = do { emit1 0xeb; emit_near_jump_address_reloc target }"

definition emit_call :: "u32 \<Rightarrow> u32 jit" where
  "emit_call target = do {
     emit1 0xe8;
     st \<leftarrow> jit_get;
     _ \<leftarrow> emit_jump_address_reloc target;
     jit_return (js_offset st)
   }"

definition emit_pause :: "unit jit" where
  "emit_pause = do { emit1 0xf3; emit1 0x90 }"

definition emit_dispatched_external_helper_call :: "u32 \<Rightarrow> unit jit" where
  "emit_dispatched_external_helper_call idx = do {
     emit_push VOLATILE_CTXT;
     emit_push VOLATILE_CTXT;
     _ \<leftarrow> emit_rip_relative_load RAX TARGET_PC_EXTERNAL_DISPATCHER;
     emit_cmp_imm32 RAX 0;
     skip_default_dispatcher_source \<leftarrow> emit_jcc 0x85 0;
     emit_alu32 0xc7 0 RAX;
     emit4 idx;
     emit_alu64_imm8 0xc1 4 RAX 3;
     emit_rip_relative_lea R10 TARGET_LOAD_HELPER_TABLE;
     emit_alu64 0x01 R10 RAX;
     emit_load S64 RAX RAX 0;
     emit_mov VOLATILE_CTXT R9;
     emit1 0xe9;
     st \<leftarrow> jit_get;
     let skip_external_dispatcher_source = js_offset st;
     emit_4byte_offset_placeholder;
     emit_jump_target skip_default_dispatcher_source;
     emit_load_imm R9 (ucast idx);
     emit_jump_target skip_external_dispatcher_source;
     emit1 0xff;
     emit1 0xd0;
     emit_pop VOLATILE_CTXT;
     emit_pop VOLATILE_CTXT
   }"

end
