(* ===== verification/Jit_X86.thy ===== *)
theory Jit_X86
  imports Jit_X86_Emit
begin

text \<open>
  The x86-64 code generator \<open>ubpf_jit_x86_64.c\<close>: the register map, the code for each eBPF
  instruction, the layout of the generated code and the resolution of its relative addresses. The
  switch over the opcode is split into the parts the source groups by blank lines; a part returns
  \<^const>\<open>None\<close> for an opcode that is not among its cases.
\<close>

section \<open>The register map\<close>

text \<open>The global array \<open>register_map\<close> is an argument of the functions that read it.\<close>

definition register_map :: "u32 list" where
  "register_map = [RAX, RDI, RSI, RDX, R10, R8, RBX, R12, R13, R14, R15]"

definition platform_nonvolatile_registers :: "u32 list" where
  "platform_nonvolatile_registers = [RBP, RBX, R12, R13, R14, R15]"

definition platform_parameter_registers :: "u32 list" where
  "platform_parameter_registers = [RDI, RSI, RDX, RCX, R8, R9]"

abbreviation (input) RCX_ALT :: u32 where "RCX_ALT \<equiv> R10"

definition mapped :: "u32 list \<Rightarrow> 4 word \<Rightarrow> u32" where
  "mapped rm r = rm ! (unat r mod 11)"

definition map_register :: "u32 list \<Rightarrow> 4 word \<Rightarrow> u32 jit" where
  "map_register rm r = do { jit_assert (r < 11); jit_return (mapped rm r) }"

text \<open>
  \<open>ubpf_set_register_offset\<close>: a rotation, or a shuffle driven by \<open>rand_r\<close>, a parameter that returns
  the value and the new seed. \<^const>\<open>None\<close> is the read at a negative index (a negative argument, whose
  \<open>%\<close> is negative or zero in C).
\<close>

function shuffle_map :: "(u32 \<Rightarrow> nat \<times> u32) \<Rightarrow> u32 \<Rightarrow> nat \<Rightarrow> u32 list \<Rightarrow> u32 list" where
  "shuffle_map rand_r seed i rm =
     (if i < 10 then
        let (r, seed') = rand_r seed;
            j = i + r mod (11 - i)
        in shuffle_map rand_r seed' (Suc i) (rm[j := rm ! i, i := rm ! j])
      else rm)"
  by pat_completeness auto
termination by (relation "measure (\<lambda>(rand_r, seed, i, rm). 10 - i)") auto

declare shuffle_map.simps [simp del]

definition ubpf_set_register_offset ::
  "(u32 \<Rightarrow> nat \<times> u32) \<Rightarrow> u32 list \<Rightarrow> u32 \<Rightarrow> u32 list option"
where
  "ubpf_set_register_offset rand_r rm x =
     (if sint x < 11 then
        if sint x < 0 then None else Some (map (\<lambda>i. rm ! ((i + nat (sint x)) mod 11)) [0..<11])
      else Some (shuffle_map rand_r x 0 rm))"

section \<open>Calls\<close>

definition emit_local_call :: "u32 list \<Rightarrow> u32 \<Rightarrow> unit jit" where
  "emit_local_call rm target = do {
     emit1 0x4c; emit1 0x2B; emit1 0x3C; emit1 0x24;
     r6 \<leftarrow> map_register rm BPF_REG_6; emit_push r6;
     r7 \<leftarrow> map_register rm BPF_REG_7; emit_push r7;
     r8 \<leftarrow> map_register rm BPF_REG_8; emit_push r8;
     r9 \<leftarrow> map_register rm BPF_REG_9; emit_push r9;
     emit1 0xe8;
     _ \<leftarrow> emit_local_call_address_reloc target;
     emit_pop r9;
     emit_pop r8;
     emit_pop r7;
     emit_pop r6;
     emit1 0x4c; emit1 0x03; emit1 0x3C; emit1 0x24
   }"

definition emit_dispatched_external_helper_address :: "ubpf_vm \<Rightarrow> u32 jit" where
  "emit_dispatched_external_helper_address vm = do {
     st \<leftarrow> jit_get;
     emit8 (dispatcher vm);
     jit_return (js_offset st)
   }"

primrec emit_pointers :: "u64 list \<Rightarrow> unit jit" where
  "emit_pointers [] = jit_return ()"
| "emit_pointers (f # fs) = do { emit8 f; emit_pointers fs }"

definition emit_helper_table :: "ubpf_vm \<Rightarrow> u32 jit" where
  "emit_helper_table vm = do {
     st \<leftarrow> jit_get;
     emit_pointers (take MAX_EXT_FUNCS (ext_funcs vm));
     jit_return (js_offset st)
   }"

definition emit_retpoline :: "u32 jit" where
  "emit_retpoline = do {
     st0 \<leftarrow> jit_get;
     let retpoline_target = js_offset st0;
     label1_call_offset \<leftarrow> emit_call 0;
     st1 \<leftarrow> jit_get;
     let capture_ret_spec = js_offset st1;
     emit_pause;
     _ \<leftarrow> emit_jmp capture_ret_spec;
     st2 \<leftarrow> jit_get;
     let label1 = js_offset st2;
     emit1 0x48; emit1 0x89; emit1 0x04; emit1 0x24;
     emit_ret;
     jit_update (\<lambda>st. st\<lparr> js_jumps := fixup_jump_target (js_jumps st) label1_call_offset label1 \<rparr>);
     jit_return retpoline_target
   }"

section \<open>Multiplication and division\<close>

definition jit_when :: "bool \<Rightarrow> unit jit \<Rightarrow> unit jit" where
  "jit_when c m = (if c then m else jit_return ())"

definition muldivmod :: "u8 \<Rightarrow> u32 \<Rightarrow> u32 \<Rightarrow> u32 \<Rightarrow> unit jit" where
  "muldivmod opc s d im =
     (let mul = (opc AND EBPF_ALU_OP_MASK = EBPF_OP_MUL_IMM AND EBPF_ALU_OP_MASK);
          dv = (opc AND EBPF_ALU_OP_MASK = EBPF_OP_DIV_IMM AND EBPF_ALU_OP_MASK);
          md = (opc AND EBPF_ALU_OP_MASK = EBPF_OP_MOD_IMM AND EBPF_ALU_OP_MASK);
          is64 = (opc AND EBPF_CLS_MASK = EBPF_CLS_ALU64);
          reg = (opc AND EBPF_SRC_REG = EBPF_SRC_REG)
      in if \<not> reg \<and> im = 0 then
           if dv \<or> mul then emit_alu32 0x31 d d else emit_mov d d
         else do {
           jit_when (d \<noteq> RAX) (emit_push RAX);
           jit_when (d \<noteq> RDX) (emit_push RDX);
           (if \<not> reg then emit_load_imm RCX (scast im) else emit_mov s RCX);
           emit_mov d RAX;
           jit_when (dv \<or> md) (do {
             (if is64 then emit_alu64 0x85 RCX RCX else emit_alu32 0x85 RCX RCX);
             jit_when md (emit_push RAX);
             emit1 0x9c;
             emit_load_imm RDX 1;
             emit1 0x48; emit1 0x0f; emit1 0x44; emit1 0xca;
             emit_alu32 0x31 RDX RDX
           });
           jit_when is64 (emit_rex 1 0 0 0);
           emit_alu32 0xf7 (if mul then 4 else 6) RCX;
           jit_when (dv \<or> md) (do {
             emit1 0x9d;
             (if dv then do {
                emit_load_imm RCX 0;
                emit1 0x48; emit1 0x0f; emit1 0x44; emit1 0xc1
              } else do {
                emit_pop RCX;
                emit1 0x48; emit1 0x0f; emit1 0x44; emit1 0xd1
              })
           });
           jit_when (d \<noteq> RDX) (do {
             jit_when md (emit_mov RDX d);
             emit_pop RDX
           });
           jit_when (d \<noteq> RAX) (do {
             jit_when (dv \<or> mul) (emit_mov RAX d);
             emit_pop RAX
           })
         })"

section \<open>The parts of the switch\<close>

text \<open>
  \<open>s\<close> and \<open>d\<close> are the x86 registers of the source and the destination, \<open>im\<close> is \<open>inst.imm\<close>, \<open>off\<close>
  the sign-extended \<open>inst.offset\<close> and \<open>t\<close> the eBPF index of the jump target.
\<close>

definition translate_alu32 :: "u8 \<Rightarrow> u32 \<Rightarrow> u32 \<Rightarrow> u32 \<Rightarrow> unit jit option" where
  "translate_alu32 opc s d im =
     (if opc = EBPF_OP_ADD_IMM then Some (emit_alu32_imm32 0x81 0 d im)
      else if opc = EBPF_OP_ADD_REG then Some (emit_alu32 0x01 s d)
      else if opc = EBPF_OP_SUB_IMM then Some (emit_alu32_imm32 0x81 5 d im)
      else if opc = EBPF_OP_SUB_REG then Some (emit_alu32 0x29 s d)
      else if opc = EBPF_OP_MUL_IMM \<or> opc = EBPF_OP_MUL_REG \<or> opc = EBPF_OP_DIV_IMM \<or>
         opc = EBPF_OP_DIV_REG \<or> opc = EBPF_OP_MOD_IMM \<or> opc = EBPF_OP_MOD_REG then Some (muldivmod opc s d im)
      else if opc = EBPF_OP_OR_IMM then Some (emit_alu32_imm32 0x81 1 d im)
      else if opc = EBPF_OP_OR_REG then Some (emit_alu32 0x09 s d)
      else if opc = EBPF_OP_AND_IMM then Some (emit_alu32_imm32 0x81 4 d im)
      else if opc = EBPF_OP_AND_REG then Some (emit_alu32 0x21 s d)
      else if opc = EBPF_OP_LSH_IMM then Some (emit_alu32_imm8 0xc1 4 d (ucast im))
      else if opc = EBPF_OP_LSH_REG then
        Some (do { emit_mov s RCX; emit_alu32 0xd3 4 d })
      else if opc = EBPF_OP_RSH_IMM then Some (emit_alu32_imm8 0xc1 5 d (ucast im))
      else if opc = EBPF_OP_RSH_REG then
        Some (do { emit_mov s RCX; emit_alu32 0xd3 5 d })
      else if opc = EBPF_OP_NEG then Some (emit_alu32 0xf7 3 d)
      else if opc = EBPF_OP_XOR_IMM then Some (emit_alu32_imm32 0x81 6 d im)
      else if opc = EBPF_OP_XOR_REG then Some (emit_alu32 0x31 s d)
      else if opc = EBPF_OP_MOV_IMM then Some (emit_alu32_imm32 0xc7 0 d im)
      else if opc = EBPF_OP_MOV_REG then Some (emit_mov s d)
      else if opc = EBPF_OP_ARSH_IMM then Some (emit_alu32_imm8 0xc1 7 d (ucast im))
      else if opc = EBPF_OP_ARSH_REG then
        Some (do { emit_mov s RCX; emit_alu32 0xd3 7 d })
      else None)"

definition translate_endian :: "u8 \<Rightarrow> u32 \<Rightarrow> u32 \<Rightarrow> unit jit option" where
  "translate_endian opc d im =
     (if opc = EBPF_OP_LE then
        Some (if im = 16 then emit_alu32_imm32 0x81 4 d 0xffff
              else if im = 32 then emit_alu32_imm32 0x81 4 d 0xffffffff
              else jit_return ())
      else if opc = EBPF_OP_BE then
        Some (if im = 16 then do {
                emit1 0x66;
                emit_alu32_imm8 0xc1 0 d 8;
                emit_alu32_imm32 0x81 4 d 0xffff
              } else if im = 32 \<or> im = 64 then do {
                emit_basic_rex (of_bool (im = 64)) 0 d;
                emit1 0x0f;
                emit1 (ucast (0xc8 OR (d AND 7)))
              } else jit_return ())
      else None)"

definition translate_alu64 :: "u8 \<Rightarrow> u32 \<Rightarrow> u32 \<Rightarrow> u32 \<Rightarrow> unit jit option" where
  "translate_alu64 opc s d im =
     (if opc = EBPF_OP_ADD64_IMM then Some (emit_alu64_imm32 0x81 0 d im)
      else if opc = EBPF_OP_ADD64_REG then Some (emit_alu64 0x01 s d)
      else if opc = EBPF_OP_SUB64_IMM then Some (emit_alu64_imm32 0x81 5 d im)
      else if opc = EBPF_OP_SUB64_REG then Some (emit_alu64 0x29 s d)
      else if opc = EBPF_OP_MUL64_IMM \<or> opc = EBPF_OP_MUL64_REG \<or> opc = EBPF_OP_DIV64_IMM \<or>
         opc = EBPF_OP_DIV64_REG \<or> opc = EBPF_OP_MOD64_IMM \<or> opc = EBPF_OP_MOD64_REG then Some (muldivmod opc s d im)
      else if opc = EBPF_OP_OR64_IMM then Some (emit_alu64_imm32 0x81 1 d im)
      else if opc = EBPF_OP_OR64_REG then Some (emit_alu64 0x09 s d)
      else if opc = EBPF_OP_AND64_IMM then Some (emit_alu64_imm32 0x81 4 d im)
      else if opc = EBPF_OP_AND64_REG then Some (emit_alu64 0x21 s d)
      else if opc = EBPF_OP_LSH64_IMM then Some (emit_alu64_imm8 0xc1 4 d (ucast im))
      else if opc = EBPF_OP_LSH64_REG then
        Some (do { emit_mov s RCX; emit_alu64 0xd3 4 d })
      else if opc = EBPF_OP_RSH64_IMM then Some (emit_alu64_imm8 0xc1 5 d (ucast im))
      else if opc = EBPF_OP_RSH64_REG then
        Some (do { emit_mov s RCX; emit_alu64 0xd3 5 d })
      else if opc = EBPF_OP_NEG64 then Some (emit_alu64 0xf7 3 d)
      else if opc = EBPF_OP_XOR64_IMM then Some (emit_alu64_imm32 0x81 6 d im)
      else if opc = EBPF_OP_XOR64_REG then Some (emit_alu64 0x31 s d)
      else if opc = EBPF_OP_MOV64_IMM then Some (emit_load_imm d (scast im))
      else if opc = EBPF_OP_MOV64_REG then Some (emit_mov s d)
      else if opc = EBPF_OP_ARSH64_IMM then Some (emit_alu64_imm8 0xc1 7 d (ucast im))
      else if opc = EBPF_OP_ARSH64_REG then
        Some (do { emit_mov s RCX; emit_alu64 0xd3 7 d })
      else None)"

definition translate_jump64 :: "u8 \<Rightarrow> u32 \<Rightarrow> u32 \<Rightarrow> u32 \<Rightarrow> u32 \<Rightarrow> unit jit option" where
  "translate_jump64 opc s d im t =
     (if opc = EBPF_OP_JA then
        Some (do { emit_jmp t; jit_return () })
      else if opc = EBPF_OP_JEQ_IMM then
        Some (do { emit_cmp_imm32 d im; emit_jcc 0x84 t; jit_return () })
      else if opc = EBPF_OP_JEQ_REG then
        Some (do { emit_cmp s d; emit_jcc 0x84 t; jit_return () })
      else if opc = EBPF_OP_JGT_IMM then
        Some (do { emit_cmp_imm32 d im; emit_jcc 0x87 t; jit_return () })
      else if opc = EBPF_OP_JGT_REG then
        Some (do { emit_cmp s d; emit_jcc 0x87 t; jit_return () })
      else if opc = EBPF_OP_JGE_IMM then
        Some (do { emit_cmp_imm32 d im; emit_jcc 0x83 t; jit_return () })
      else if opc = EBPF_OP_JGE_REG then
        Some (do { emit_cmp s d; emit_jcc 0x83 t; jit_return () })
      else if opc = EBPF_OP_JLT_IMM then
        Some (do { emit_cmp_imm32 d im; emit_jcc 0x82 t; jit_return () })
      else if opc = EBPF_OP_JLT_REG then
        Some (do { emit_cmp s d; emit_jcc 0x82 t; jit_return () })
      else if opc = EBPF_OP_JLE_IMM then
        Some (do { emit_cmp_imm32 d im; emit_jcc 0x86 t; jit_return () })
      else if opc = EBPF_OP_JLE_REG then
        Some (do { emit_cmp s d; emit_jcc 0x86 t; jit_return () })
      else if opc = EBPF_OP_JSET_IMM then
        Some (do { emit_alu64_imm32 0xf7 0 d im; emit_jcc 0x85 t; jit_return () })
      else if opc = EBPF_OP_JSET_REG then
        Some (do { emit_alu64 0x85 s d; emit_jcc 0x85 t; jit_return () })
      else if opc = EBPF_OP_JNE_IMM then
        Some (do { emit_cmp_imm32 d im; emit_jcc 0x85 t; jit_return () })
      else if opc = EBPF_OP_JNE_REG then
        Some (do { emit_cmp s d; emit_jcc 0x85 t; jit_return () })
      else if opc = EBPF_OP_JSGT_IMM then
        Some (do { emit_cmp_imm32 d im; emit_jcc 0x8f t; jit_return () })
      else if opc = EBPF_OP_JSGT_REG then
        Some (do { emit_cmp s d; emit_jcc 0x8f t; jit_return () })
      else if opc = EBPF_OP_JSGE_IMM then
        Some (do { emit_cmp_imm32 d im; emit_jcc 0x8d t; jit_return () })
      else if opc = EBPF_OP_JSGE_REG then
        Some (do { emit_cmp s d; emit_jcc 0x8d t; jit_return () })
      else if opc = EBPF_OP_JSLT_IMM then
        Some (do { emit_cmp_imm32 d im; emit_jcc 0x8c t; jit_return () })
      else if opc = EBPF_OP_JSLT_REG then
        Some (do { emit_cmp s d; emit_jcc 0x8c t; jit_return () })
      else if opc = EBPF_OP_JSLE_IMM then
        Some (do { emit_cmp_imm32 d im; emit_jcc 0x8e t; jit_return () })
      else if opc = EBPF_OP_JSLE_REG then
        Some (do { emit_cmp s d; emit_jcc 0x8e t; jit_return () })
      else None)"

definition translate_jump32 :: "u8 \<Rightarrow> u32 \<Rightarrow> u32 \<Rightarrow> u32 \<Rightarrow> u32 \<Rightarrow> unit jit option" where
  "translate_jump32 opc s d im t =
     (if opc = EBPF_OP_JEQ32_IMM then
        Some (do { emit_cmp32_imm32 d im; emit_jcc 0x84 t; jit_return () })
      else if opc = EBPF_OP_JEQ32_REG then
        Some (do { emit_cmp32 s d; emit_jcc 0x84 t; jit_return () })
      else if opc = EBPF_OP_JGT32_IMM then
        Some (do { emit_cmp32_imm32 d im; emit_jcc 0x87 t; jit_return () })
      else if opc = EBPF_OP_JGT32_REG then
        Some (do { emit_cmp32 s d; emit_jcc 0x87 t; jit_return () })
      else if opc = EBPF_OP_JGE32_IMM then
        Some (do { emit_cmp32_imm32 d im; emit_jcc 0x83 t; jit_return () })
      else if opc = EBPF_OP_JGE32_REG then
        Some (do { emit_cmp32 s d; emit_jcc 0x83 t; jit_return () })
      else if opc = EBPF_OP_JLT32_IMM then
        Some (do { emit_cmp32_imm32 d im; emit_jcc 0x82 t; jit_return () })
      else if opc = EBPF_OP_JLT32_REG then
        Some (do { emit_cmp32 s d; emit_jcc 0x82 t; jit_return () })
      else if opc = EBPF_OP_JLE32_IMM then
        Some (do { emit_cmp32_imm32 d im; emit_jcc 0x86 t; jit_return () })
      else if opc = EBPF_OP_JLE32_REG then
        Some (do { emit_cmp32 s d; emit_jcc 0x86 t; jit_return () })
      else if opc = EBPF_OP_JSET32_IMM then
        Some (do { emit_alu32_imm32 0xf7 0 d im; emit_jcc 0x85 t; jit_return () })
      else if opc = EBPF_OP_JSET32_REG then
        Some (do { emit_alu32 0x85 s d; emit_jcc 0x85 t; jit_return () })
      else if opc = EBPF_OP_JNE32_IMM then
        Some (do { emit_cmp32_imm32 d im; emit_jcc 0x85 t; jit_return () })
      else if opc = EBPF_OP_JNE32_REG then
        Some (do { emit_cmp32 s d; emit_jcc 0x85 t; jit_return () })
      else if opc = EBPF_OP_JSGT32_IMM then
        Some (do { emit_cmp32_imm32 d im; emit_jcc 0x8f t; jit_return () })
      else if opc = EBPF_OP_JSGT32_REG then
        Some (do { emit_cmp32 s d; emit_jcc 0x8f t; jit_return () })
      else if opc = EBPF_OP_JSGE32_IMM then
        Some (do { emit_cmp32_imm32 d im; emit_jcc 0x8d t; jit_return () })
      else if opc = EBPF_OP_JSGE32_REG then
        Some (do { emit_cmp32 s d; emit_jcc 0x8d t; jit_return () })
      else if opc = EBPF_OP_JSLT32_IMM then
        Some (do { emit_cmp32_imm32 d im; emit_jcc 0x8c t; jit_return () })
      else if opc = EBPF_OP_JSLT32_REG then
        Some (do { emit_cmp32 s d; emit_jcc 0x8c t; jit_return () })
      else if opc = EBPF_OP_JSLE32_IMM then
        Some (do { emit_cmp32_imm32 d im; emit_jcc 0x8e t; jit_return () })
      else if opc = EBPF_OP_JSLE32_REG then
        Some (do { emit_cmp32 s d; emit_jcc 0x8e t; jit_return () })
      else None)"

definition translate_call :: "u32 list \<Rightarrow> ubpf_vm \<Rightarrow> nat \<Rightarrow> ebpf_inst \<Rightarrow> unit jit" where
  "translate_call rm vm i inst =
     (if src inst = 0 then do {
        emit_mov RCX_ALT RCX;
        emit_dispatched_external_helper_call (imm inst);
        (if imm inst = unwind_stack_extension_index vm then do {
           r0 \<leftarrow> map_register rm BPF_REG_0;
           emit_cmp_imm32 r0 0;
           emit_jcc 0x84 TARGET_PC_EXIT;
           jit_return ()
         } else jit_return ())
      } else if src inst = 1 then emit_local_call rm (of_nat i + imm inst + 1)
      else jit_return ())"

definition translate_exit :: "unit jit" where
  "translate_exit = do { emit_alu64_imm32 0x81 0 RSP 8; emit_ret }"

definition translate_memory :: "u8 \<Rightarrow> u32 \<Rightarrow> u32 \<Rightarrow> u32 \<Rightarrow> u32 \<Rightarrow> unit jit option" where
  "translate_memory opc s d off im =
     (if opc = EBPF_OP_LDXW then Some (emit_load S32 s d off)
      else if opc = EBPF_OP_LDXH then Some (emit_load S16 s d off)
      else if opc = EBPF_OP_LDXB then Some (emit_load S8 s d off)
      else if opc = EBPF_OP_LDXDW then Some (emit_load S64 s d off)
      else if opc = EBPF_OP_STW then Some (emit_store_imm32 S32 d off im)
      else if opc = EBPF_OP_STH then Some (emit_store_imm32 S16 d off im)
      else if opc = EBPF_OP_STB then Some (emit_store_imm32 S8 d off im)
      else if opc = EBPF_OP_STDW then Some (emit_store_imm32 S64 d off im)
      else if opc = EBPF_OP_STXW then Some (emit_store S32 s d off)
      else if opc = EBPF_OP_STXH then Some (emit_store S16 s d off)
      else if opc = EBPF_OP_STXB then Some (emit_store S8 s d off)
      else if opc = EBPF_OP_STXDW then Some (emit_store S64 s d off)
      else None)"

text \<open>The two halves of LDDW, and the index of the last slot the instruction uses.\<close>

definition translate_lddw :: "ubpf_vm \<Rightarrow> nat \<Rightarrow> ebpf_inst \<Rightarrow> u32 \<Rightarrow> unit jit" where
  "translate_lddw vm i inst d =
     (case ubpf_fetch_instruction vm (of_nat (Suc i)) of
        None \<Rightarrow> jit_fail OutsideArray
      | Some inst2 \<Rightarrow>
          emit_load_imm d (ucast (imm inst) OR push_bit 32 (scast (imm inst2))))"

text \<open>The first part that has the opcode.\<close>

fun first_part :: "unit jit option list \<Rightarrow> unit jit option" where
  "first_part [] = None"
| "first_part (Some m # parts) = Some m"
| "first_part (None # parts) = first_part parts"

definition translate_simple ::
  "u8 \<Rightarrow> u32 \<Rightarrow> u32 \<Rightarrow> u32 \<Rightarrow> u32 \<Rightarrow> u32 \<Rightarrow> unit jit option"
where
  "translate_simple opc s d off im t =
     first_part [translate_alu32 opc s d im, translate_endian opc d im, translate_alu64 opc s d im,
       translate_jump64 opc s d im t, translate_jump32 opc s d im t,
       translate_memory opc s d off im]"

definition translate_switch ::
  "u32 list \<Rightarrow> ubpf_vm \<Rightarrow> nat \<Rightarrow> ebpf_inst \<Rightarrow> u32 \<Rightarrow> u32 \<Rightarrow> u32 \<Rightarrow> nat jit"
where
  "translate_switch rm vm i inst s d t =
     (case translate_simple (opcode inst) s d (scast (offset inst)) (imm inst) t of
        Some m \<Rightarrow> do { m; jit_return i }
      | None \<Rightarrow>
          if opcode inst = EBPF_OP_CALL then do { translate_call rm vm i inst; jit_return i }
          else if opcode inst = EBPF_OP_EXIT then do { translate_exit; jit_return i }
          else if opcode inst = EBPF_OP_LDDW then do { translate_lddw vm i inst d; jit_return (Suc i) }
          else do {
            jit_update (\<lambda>st. st\<lparr> js_status := UnknownInstruction,
              js_errmsg := Some (JitUnknownInstruction i (opcode inst)) \<rparr>);
            jit_return i
          })"

section \<open>The loop over the program\<close>

definition ubpf_instruction_has_fallthrough :: "ebpf_inst \<Rightarrow> bool" where
  "ubpf_instruction_has_fallthrough inst \<longleftrightarrow> opcode inst \<noteq> EBPF_OP_EXIT"

text \<open>\<open>vm->int_funcs[i]\<close>; \<^const>\<open>None\<close> is a read outside the table.\<close>

definition int_func_at :: "ubpf_vm \<Rightarrow> nat \<Rightarrow> bool option" where
  "int_func_at vm i =
     (case int_funcs vm of
        None \<Rightarrow> None
      | Some funcs \<Rightarrow> if i < length funcs then Some (funcs ! i) else None)"

text \<open>The jump around a function prolog, for the path that falls through into the function.\<close>

definition emit_fallthrough_jump :: "ubpf_vm \<Rightarrow> nat \<Rightarrow> u32 option jit" where
  "emit_fallthrough_jump vm i =
     (if i \<noteq> 0 then
        case int_func_at vm i of
          None \<Rightarrow> do { jit_fail OutsideArray; jit_return None }
        | Some False \<Rightarrow> jit_return None
        | Some True \<Rightarrow>
            (case ubpf_fetch_instruction vm (of_nat (i - 1)) of
               None \<Rightarrow> do { jit_fail OutsideArray; jit_return None }
             | Some prev_inst \<Rightarrow>
                 if ubpf_instruction_has_fallthrough prev_inst then do {
                   source \<leftarrow> emit_near_jmp 0;
                   jit_return (Some source)
                 } else jit_return None)
      else jit_return None)"

definition emit_function_prolog :: "ubpf_vm \<Rightarrow> nat \<Rightarrow> unit jit" where
  "emit_function_prolog vm i = do {
     st0 \<leftarrow> jit_get;
     let prolog_start = js_offset st0;
     let usage = ubpf_stack_usage_for_local_func vm (of_nat i);
     emit_alu64_imm32 0x81 5 RSP 8;
     emit1 0x48; emit1 0xC7; emit1 0x04; emit1 0x24;
     emit4 (ucast usage);
     st \<leftarrow> jit_get;
     let prolog_size = (ucast (js_offset st) - ucast prolog_start :: u64);
     if js_prolog_size st = 0
     then jit_update (\<lambda>st. st\<lparr> js_prolog_size := prolog_size \<rparr>)
     else jit_assert (js_prolog_size st = prolog_size)
   }"

text \<open>What precedes the code of instruction \<open>i\<close>.\<close>

definition emit_function_entry :: "ubpf_vm \<Rightarrow> nat \<Rightarrow> unit jit" where
  "emit_function_entry vm i = do {
     fallthrough \<leftarrow> emit_fallthrough_jump vm i;
     jit_when (i = 0 \<or> int_func_at vm i = Some True) (emit_function_prolog vm i);
     (case fallthrough of
        None \<Rightarrow> jit_return ()
      | Some source \<Rightarrow> jit_update (\<lambda>st. st\<lparr> js_jumps :=
          fixup_jump_target (js_jumps st) source (js_offset st) \<rparr>))
   }"

text \<open>The body of the loop; the result is the index after the \<open>i++\<close> of the loop header.\<close>

definition translate_inst :: "u32 list \<Rightarrow> ubpf_vm \<Rightarrow> nat \<Rightarrow> nat jit" where
  "translate_inst rm vm i =
     (case ubpf_fetch_instruction vm (of_nat i) of
        None \<Rightarrow> do { jit_fail OutsideArray; jit_return (Suc i) }
      | Some inst \<Rightarrow> do {
          d \<leftarrow> map_register rm (dst inst);
          s \<leftarrow> map_register rm (src inst);
          let t = of_nat i + scast (offset inst) + 1;
          emit_function_entry vm i;
          jit_update (\<lambda>st. st\<lparr> js_pc_locs := (js_pc_locs st)(i := js_offset st) \<rparr>);
          i' \<leftarrow> translate_switch rm vm i inst s d t;
          jit_when (opcode inst AND EBPF_CLS_MASK = EBPF_CLS_ALU \<and>
              opcode inst AND EBPF_ALU_OP_MASK \<noteq> 0xd0)
            (emit_truncate_u32 d);
          jit_return (Suc i')
        })"

text \<open>Every iteration advances the index, so the loop ends.\<close>

lemma translate_switch_next: "i \<le> jit_value (translate_switch rm vm i inst s d t) st"
  by (simp add: translate_switch_def Let_def split: option.split)

lemma translate_inst_next: "i < jit_value (translate_inst rm vm i) st"
  by (simp add: translate_inst_def Let_def less_Suc_eq_le translate_switch_next split: option.split)

function translate_loop :: "u32 list \<Rightarrow> ubpf_vm \<Rightarrow> nat \<Rightarrow> jit_state \<Rightarrow> jit_state" where
  "translate_loop rm vm i st =
     (if i < unat (num_insts vm) \<and> js_status st = NoError
      then translate_loop rm vm (jit_value (translate_inst rm vm i) st)
        (jit_exec (translate_inst rm vm i) st)
      else st)"
  by pat_completeness auto
termination
  by (relation "measure (\<lambda>(rm, vm, i, st). unat (num_insts vm) - i)")
    (simp_all add: translate_inst_next diff_less_mono2)

declare translate_loop.simps [simp del]

section \<open>The whole translation\<close>

primrec emit_pushes :: "u32 list \<Rightarrow> unit jit" where
  "emit_pushes [] = jit_return ()"
| "emit_pushes (r # rs) = do { emit_push r; emit_pushes rs }"

primrec emit_pops :: "u32 list \<Rightarrow> unit jit" where
  "emit_pops [] = jit_return ()"
| "emit_pops (r # rs) = do { emit_pop r; emit_pops rs }"

definition translate_prolog :: "u32 list \<Rightarrow> unit jit" where
  "translate_prolog rm = do {
     emit_pushes platform_nonvolatile_registers;
     r1 \<leftarrow> map_register rm 1;
     jit_when (r1 \<noteq> platform_parameter_registers ! 0) (emit_mov (platform_parameter_registers ! 0) r1);
     emit_mov (platform_parameter_registers ! 0) VOLATILE_CTXT;
     jit_when (even (length platform_nonvolatile_registers)) (emit_alu64_imm32 0x81 5 RSP 0x8);
     emit_mov RSP RBP;
     st \<leftarrow> jit_get;
     r10 \<leftarrow> map_register rm BPF_REG_10;
     (if js_mode st = BasicJitMode then do {
        emit_mov RSP r10;
        emit_alu64_imm32 0x81 5 RSP (of_nat UBPF_EBPF_STACK_SIZE)
      } else do {
        emit_mov (platform_parameter_registers ! 2) r10;
        emit_alu64 0x01 (platform_parameter_registers ! 3) r10
      });
     emit1 0xe8;
     emit4 5;
     _ \<leftarrow> emit_jmp TARGET_PC_EXIT;
     jit_return ()
   }"

text \<open>The message each error status leaves; the two statuses that carry a PC have left theirs.\<close>

definition status_errmsg :: "JitProgress \<Rightarrow> jit_error option \<Rightarrow> jit_error option" where
  "status_errmsg status msg =
     (case status of
        TooManyJumps \<Rightarrow> Some JitTooManyJumps
      | TooManyLoads \<Rightarrow> Some JitTooManyLoads
      | TooManyLeas \<Rightarrow> Some JitTooManyLeas
      | TooManyLocalCalls \<Rightarrow> Some JitTooManyLocalCalls
      | NotEnoughSpace \<Rightarrow> Some JitBufferTooSmall
      | UnexpectedInstruction \<Rightarrow> msg
      | UnknownInstruction \<Rightarrow> msg
      | NoError \<Rightarrow> msg)"

definition translate_epilogue :: "u32 list \<Rightarrow> ubpf_vm \<Rightarrow> unit jit" where
  "translate_epilogue rm vm = do {
     jit_update (\<lambda>st. st\<lparr> js_exit_loc := js_offset st \<rparr>);
     r0 \<leftarrow> map_register rm BPF_REG_0;
     jit_when (r0 \<noteq> RAX) (emit_mov r0 RAX);
     emit_mov RBP RSP;
     jit_when (even (length platform_nonvolatile_registers)) (emit_alu64_imm32 0x81 0 RSP 0x8);
     emit_pops (rev platform_nonvolatile_registers);
     emit1 0xc3;
     retpoline \<leftarrow> emit_retpoline;
     jit_update (\<lambda>st. st\<lparr> js_retpoline_loc := retpoline \<rparr>);
     dispatcher_at \<leftarrow> emit_dispatched_external_helper_address vm;
     jit_update (\<lambda>st. st\<lparr> js_dispatcher_loc := dispatcher_at \<rparr>);
     helpers_at \<leftarrow> emit_helper_table vm;
     jit_update (\<lambda>st. st\<lparr> js_helper_table_loc := helpers_at \<rparr>)
   }"

text \<open>\<open>translate\<close>: the C result and the state.\<close>

definition translate :: "u32 list \<Rightarrow> ubpf_vm \<Rightarrow> jit_state \<Rightarrow> int \<times> jit_state" where
  "translate rm vm st0 =
     (let st1 = jit_exec (translate_prolog rm) st0;
          st2 = translate_loop rm vm 0 st1
      in if js_status st2 \<noteq> NoError
         then (- 1, st2\<lparr> js_errmsg := status_errmsg (js_status st2) (js_errmsg st2) \<rparr>)
         else (0, jit_exec (translate_epilogue rm vm) st2))"

section \<open>Resolving relative addresses\<close>

definition pc_loc :: "u32 \<Rightarrow> u32 jit" where
  "pc_loc target = do {
     st \<leftarrow> jit_get;
     if unat target \<le> UBPF_MAX_INSTS then jit_return (js_pc_locs st (unat target))
     else do { jit_fail OutsideArray; jit_return 0 }
   }"

definition patch_bytes :: "u32 \<Rightarrow> u8 list \<Rightarrow> unit jit" where
  "patch_bytes loc bytes = do {
     st \<leftarrow> jit_get;
     case buf_write (js_buf st) (unat loc) bytes of
       None \<Rightarrow> jit_fail OutsideArray
     | Some buf \<Rightarrow> jit_update (\<lambda>st. st\<lparr> js_buf := buf \<rparr>)
   }"

definition jump_target_loc :: "patchable_relative \<Rightarrow> u32 jit" where
  "jump_target_loc jump = do {
     st \<leftarrow> jit_get;
     if target_offset jump \<noteq> 0 then jit_return (target_offset jump)
     else if target_pc jump = TARGET_PC_EXIT then jit_return (js_exit_loc st)
     else if target_pc jump = TARGET_PC_RETPOLINE then jit_return (js_retpoline_loc st)
     else pc_loc (target_pc jump)
   }"

definition resolve_jump :: "patchable_relative \<Rightarrow> bool jit" where
  "resolve_jump jump = do {
     target_loc \<leftarrow> jump_target_loc jump;
     if near jump then
       let rel = target_loc - (offset_loc jump + 1)
       in if \<not> (- 128 \<le> sint rel \<and> sint rel < 128) then jit_return False
          else do { patch_bytes (offset_loc jump) (le_bytes 1 rel); jit_return True }
     else
       let rel = target_loc - (offset_loc jump + 4)
       in do { patch_bytes (offset_loc jump) (le_bytes 4 rel); jit_return True }
   }"

definition resolve_local_call :: "patchable_relative \<Rightarrow> bool jit" where
  "resolve_local_call local_call = do {
     jit_assert (target_offset local_call = 0);
     jit_assert (target_pc local_call \<noteq> TARGET_PC_EXIT);
     jit_assert (target_pc local_call \<noteq> TARGET_PC_RETPOLINE);
     target_loc \<leftarrow> pc_loc (target_pc local_call);
     st \<leftarrow> jit_get;
     let rel = target_loc - (offset_loc local_call + 4) - ucast (js_prolog_size st);
     patch_bytes (offset_loc local_call) (le_bytes 4 rel);
     jit_return True
   }"

definition resolve_load :: "patchable_relative \<Rightarrow> bool jit" where
  "resolve_load ld =
     (if target_pc ld = TARGET_PC_EXTERNAL_DISPATCHER then do {
        st \<leftarrow> jit_get;
        let rel = js_dispatcher_loc st - (offset_loc ld + 4);
        patch_bytes (offset_loc ld) (le_bytes 4 rel);
        jit_return True
      } else jit_return False)"

definition resolve_lea :: "patchable_relative \<Rightarrow> bool jit" where
  "resolve_lea lea =
     (if target_pc lea = TARGET_LOAD_HELPER_TABLE then do {
        st \<leftarrow> jit_get;
        let rel = js_helper_table_loc st - (offset_loc lea + 4);
        patch_bytes (offset_loc lea) (le_bytes 4 rel);
        jit_return True
      } else jit_return False)"

text \<open>Each of the four loops stops at the first entry that cannot be resolved.\<close>

fun resolve_table :: "(patchable_relative \<Rightarrow> bool jit) \<Rightarrow> patchable_relative list \<Rightarrow> bool jit" where
  "resolve_table resolve [] = jit_return True"
| "resolve_table resolve (entry # entries) = do {
     ok \<leftarrow> resolve entry;
     if ok then resolve_table resolve entries else jit_return False
   }"

definition resolve_patchable_relatives :: "bool jit" where
  "resolve_patchable_relatives = do {
     st \<leftarrow> jit_get;
     jumps_ok \<leftarrow> resolve_table resolve_jump (js_jumps st);
     if \<not> jumps_ok then jit_return False
     else do {
       calls_ok \<leftarrow> resolve_table resolve_local_call (js_local_calls st);
       if \<not> calls_ok then jit_return False
       else do {
         loads_ok \<leftarrow> resolve_table resolve_load (js_loads st);
         if \<not> loads_ok then jit_return False
         else resolve_table resolve_lea (js_leas st)
       }
     }
   }"

section \<open>The entry point\<close>

text \<open>
  The outcome of a compilation: the result record, the new \<open>*size\<close>, the contents of the buffer, and
  what has killed the process, if anything. The fields of the result that the code never sets before
  it fails are the values the parameters give.
\<close>

record compilation =
  comp_result :: ubpf_jit_result
  comp_size :: u64
  comp_buf :: "u8 list"
  comp_crash :: "jit_crash option"

definition ubpf_translate_x86_64 ::
  "u32 list \<Rightarrow> bool \<times> bool \<times> bool \<times> bool \<times> bool \<Rightarrow> u32 \<times> u32 \<times> u32 \<times> u32 \<Rightarrow> u32 \<Rightarrow>
     ubpf_vm \<Rightarrow> u8 list \<Rightarrow> u64 \<Rightarrow> JitMode \<Rightarrow> compilation"
where
  "ubpf_translate_x86_64 rm allocs locs0 helper_offset0 vm buffer sz mode =
     (let (rc0, st0, result0) =
            initialize_jit_state_result buffer (ucast sz) mode allocs locs0 helper_offset0;
          outcome = (\<lambda>result sz st. \<lparr> comp_result = result, comp_size = sz, comp_buf = js_buf st,
            comp_crash = js_crash st \<rparr>)
      in if rc0 < 0 then outcome result0 sz st0
         else
           let (rc1, st1) = translate rm vm st0
           in if rc1 < 0 then outcome (result0\<lparr> errmsg := js_errmsg st1 \<rparr>) sz st1
              else
                let ok = jit_value resolve_patchable_relatives st1;
                    st2 = jit_exec resolve_patchable_relatives st1
                in if \<not> ok then outcome (result0\<lparr> errmsg := Some JitCouldNotPatch \<rparr>) sz st2
                   else outcome (result0\<lparr> errmsg := js_errmsg st2,
                          compile_result := UBPF_JIT_COMPILE_SUCCESS,
                          external_dispatcher_offset := js_dispatcher_loc st2,
                          external_helper_offset := js_helper_table_loc st2,
                          jit_mode := mode \<rparr>) (ucast (js_offset st2)) st2)"

end
