(* ===== verification/Jit_Grow.thy ===== *)
theory Jit_Grow
  imports Jit_X86 "HOL-Library.Multiset"
begin

text \<open>
  Code generation only appends: a relation between the states before and after a piece of code
  generation that says what it may do to the buffer, the tables of relative addresses and the status,
  and how many bytes and table entries it uses at most. A locale carries the rules for sequencing and
  branching for any such relation.
\<close>

section \<open>Relations kept by code generation\<close>

definition keeps :: "(nat \<Rightarrow> nat \<Rightarrow> jit_state \<Rightarrow> jit_state \<Rightarrow> bool) \<Rightarrow> nat \<Rightarrow> nat \<Rightarrow> 'a jit \<Rightarrow> bool" where
  "keeps R n k m \<longleftrightarrow> (\<forall>st. R n k st (jit_exec m st))"

lemma keepsI: "(\<And>st. R n k st (jit_exec m st)) \<Longrightarrow> keeps R n k m"
  by (simp add: keeps_def)

lemma keepsD: "keeps R n k m \<Longrightarrow> R n k st (jit_exec m st)"
  by (simp add: keeps_def)

text \<open>
  The two indices measure bytes and table entries. Sequencing needs reflexivity and transitivity;
  branching also needs that the indices are upper bounds.
\<close>

locale jit_seq =
  fixes R :: "nat \<Rightarrow> nat \<Rightarrow> jit_state \<Rightarrow> jit_state \<Rightarrow> bool"
  assumes refl: "R 0 0 st st"
    and trans: "R n k a b \<Longrightarrow> R n' k' b c \<Longrightarrow> R (n + n') (k + k') a c"
begin

lemma keeps_return: "keeps R 0 0 (jit_return x)"
  by (simp add: keeps_def refl)

lemma keeps_bind:
  "keeps R n k m \<Longrightarrow> (\<And>x. keeps R n' k' (f x)) \<Longrightarrow> keeps R (n + n') (k + k') (State_Monad.bind m f)"
  by (auto simp: keeps_def intro: trans)

lemma keeps_get: "(\<And>st. keeps R n k (f st)) \<Longrightarrow> keeps R n k (State_Monad.bind jit_get f)"
  by (simp add: keeps_def)

lemma keeps_bind_return:
  "keeps R n k m \<Longrightarrow> keeps R n k (State_Monad.bind m (\<lambda>x. jit_return (f x)))"
  by (simp add: keeps_def)

lemma keeps_assert: "c \<Longrightarrow> keeps R 0 0 (jit_assert c)"
  by (simp add: jit_assert_def keeps_return)

lemma keeps_map_register: "r < 11 \<Longrightarrow> keeps R 0 0 (map_register rm r)"
  unfolding map_register_def by (intro keeps_bind_return keeps_assert)

end

locale jit_relation = jit_seq +
  assumes mono: "R n k a b \<Longrightarrow> n \<le> n' \<Longrightarrow> k \<le> k' \<Longrightarrow> R n' k' a b"
begin

lemma keeps_mono: "keeps R n k m \<Longrightarrow> n \<le> n' \<Longrightarrow> k \<le> k' \<Longrightarrow> keeps R n' k' m"
  by (auto simp: keeps_def intro: mono)

lemma keeps_if:
  "(c \<Longrightarrow> keeps R n k m) \<Longrightarrow> (\<not> c \<Longrightarrow> keeps R n' k' m') \<Longrightarrow>
     keeps R (max n n') (max k k') (if c then m else m')"
  by (cases c) (simp_all add: keeps_mono [OF _ max.cobounded1 max.cobounded1]
      keeps_mono [OF _ max.cobounded2 max.cobounded2])

lemma keeps_when: "(c \<Longrightarrow> keeps R n k m) \<Longrightarrow> keeps R n k (jit_when c m)"
  by (simp add: jit_when_def keeps_mono [OF keeps_return])

end

section \<open>What emitting bytes leaves alone\<close>

definition same_tables :: "nat \<Rightarrow> nat \<Rightarrow> jit_state \<Rightarrow> jit_state \<Rightarrow> bool" where
  "same_tables n k st st' \<longleftrightarrow>
     js_jumps st' = js_jumps st \<and> js_loads st' = js_loads st \<and> js_leas st' = js_leas st \<and>
     js_local_calls st' = js_local_calls st"

interpretation tables: jit_relation same_tables
  by unfold_locales (simp_all add: same_tables_def)

lemma emit_bytes_tables: "keeps same_tables 0 0 (emit_bytes bs)"
  by (rule keepsI)
    (simp add: same_tables_def emit_bytes_def Let_def jit_set_status_def jit_fail_def split: option.split)

lemma emit_tables: "keeps same_tables 0 0 (emit1 x)" "keeps same_tables 0 0 (emit4 y)"
  by (simp_all only: emit1_def emit4_def emit_bytes_tables)

lemma jit_assert_tables: "keeps same_tables 0 0 (jit_assert c)"
  by (rule keepsI) (simp add: same_tables_def jit_assert_def jit_fail_def)

lemmas table_rules = tables.keeps_bind jit_assert_tables emit_tables

lemma emit_modrm_tables: "keeps same_tables 0 0 (emit_modrm md r m)"
  unfolding emit_modrm_def by (rule tables.keeps_mono, (rule table_rules)+) simp_all

lemma emit_rex_tables: "keeps same_tables 0 0 (emit_rex w r x b)"
  unfolding emit_rex_def by (rule tables.keeps_mono, (rule table_rules)+) simp_all

section \<open>The bytes a table entry stands for\<close>

definition slot :: "patchable_relative \<Rightarrow> nat list" where
  "slot e = (let a = unat (offset_loc e) in [a..<a + (if near e then 1 else 4)])"

definition slots :: "patchable_relative list \<Rightarrow> nat list" where
  "slots es = concat (map slot es)"

lemma slots_simps [simp]:
  "slots [] = []" "slots (e # es) = slot e @ slots es" "slots (es @ es') = slots es @ slots es'"
  by (simp_all add: slots_def)

text \<open>
  Entries that can be resolved. A jump with a fixed target needs nothing else; a near one must have a
  target in reach. The last alternative covers the jump of the retpoline, whose target field holds a
  code offset.
\<close>

definition good_jump :: "patchable_relative \<Rightarrow> bool" where
  "good_jump e \<longleftrightarrow>
     (near e \<longrightarrow> target_offset e = offset_loc e + 16) \<and>
     (target_offset e = 0 \<longrightarrow> target_pc e = TARGET_PC_EXIT \<or> unat (target_pc e) \<le> UBPF_MAX_INSTS \<or>
        target_pc e \<le> offset_loc e)"

definition good_call :: "patchable_relative \<Rightarrow> bool" where
  "good_call e \<longleftrightarrow> target_offset e = 0 \<and> unat (target_pc e) \<le> UBPF_MAX_INSTS \<and>
     target_pc e \<noteq> TARGET_PC_RETPOLINE \<and> \<not> near e"

definition good_load :: "patchable_relative \<Rightarrow> bool" where
  "good_load e \<longleftrightarrow> target_pc e = TARGET_PC_EXTERNAL_DISPATCHER \<and> \<not> near e"

definition good_lea :: "patchable_relative \<Rightarrow> bool" where
  "good_lea e \<longleftrightarrow> target_pc e = TARGET_LOAD_HELPER_TABLE \<and> \<not> near e"

text \<open>The new entries of the four tables occupy disjoint bytes of the new code.\<close>

definition segment ::
  "(patchable_relative \<Rightarrow> bool) \<Rightarrow> nat \<Rightarrow> nat \<Rightarrow> patchable_relative list \<Rightarrow> patchable_relative list \<Rightarrow> patchable_relative list \<Rightarrow>
     patchable_relative list \<Rightarrow> bool"
where
  "segment G a b js cs ls xs \<longleftrightarrow>
     distinct (slots (js @ cs @ ls @ xs)) \<and> set (slots (js @ cs @ ls @ xs)) \<subseteq> {a..<b} \<and>
     list_all G js \<and> list_all good_call cs \<and> list_all good_load ls \<and> list_all good_lea xs"

lemma segment_Nil [simp]: "segment G a b [] [] [] []"
  by (simp add: segment_def)

lemma segment_append:
  assumes "segment G a b js cs ls xs" "segment G b c js' cs' ls' xs'" "a \<le> b" "b \<le> c"
  shows "segment G a c (js @ js') (cs @ cs') (ls @ ls') (xs @ xs')"
proof -
  let ?A = "slots (js @ cs @ ls @ xs)" and ?B = "slots (js' @ cs' @ ls' @ xs')"
  have sub: "set ?A \<subseteq> {a..<b}" "set ?B \<subseteq> {b..<c}"
    using assms by (simp_all only: segment_def)
  then have "set ?A \<inter> set ?B = {}" by fastforce
  moreover have "distinct ?A" "distinct ?B" using assms by (simp_all only: segment_def)
  ultimately have "distinct (?A @ ?B)" by (simp only: distinct_append)
  moreover have perm: "mset (slots ((js @ js') @ (cs @ cs') @ (ls @ ls') @ (xs @ xs'))) = mset (?A @ ?B)"
    by (simp add: ac_simps)
  ultimately have "distinct (slots ((js @ js') @ (cs @ cs') @ (ls @ ls') @ (xs @ xs')))"
    using mset_eq_imp_distinct_iff by blast
  moreover have "set (slots ((js @ js') @ (cs @ cs') @ (ls @ ls') @ (xs @ xs'))) = set (?A @ ?B)"
    by (rule mset_eq_setD [OF perm])
  moreover have "set (?A @ ?B) \<subseteq> {a..<c}" using sub assms(3,4) by (simp only: set_append) fastforce
  ultimately show ?thesis using assms by (simp add: segment_def)
qed

section \<open>Growing code\<close>

text \<open>
  Well-formed states: the recorded size is that of the buffer and far enough from \<open>2^32\<close> that no
  offset wraps, the tables fit their arrays, the prolog of a function has a fixed size and the jumps
  noted so far lie in the code emitted so far.
\<close>

definition wf_jit :: "jit_state \<Rightarrow> bool" where
  "wf_jit st \<longleftrightarrow>
     length (js_buf st) = unat (js_size st) \<and> unat (js_size st) + 16 < 2 ^ 32 \<and>
     js_offset st \<le> js_size st \<and> js_local_calls_ok st \<and>
     length (js_jumps st) \<le> UBPF_MAX_INSTS \<and> length (js_local_calls st) \<le> UBPF_MAX_INSTS \<and>
     length (js_loads st) \<le> UBPF_MAX_INSTS \<and> length (js_leas st) \<le> UBPF_MAX_INSTS \<and>
     (js_status st = NoError \<longrightarrow> js_prolog_size st \<in> {0, 15} \<and>
        (\<forall>e \<in> set (js_jumps st). offset_loc e \<le> js_offset st))"

definition entries :: "jit_state \<Rightarrow> nat" where
  "entries st = length (js_jumps st) + length (js_local_calls st) + length (js_loads st)
     + length (js_leas st)"

definition placed :: "(patchable_relative \<Rightarrow> bool) \<Rightarrow> nat \<Rightarrow> jit_state \<Rightarrow> jit_state \<Rightarrow> bool" where
  "placed G k st st' \<longleftrightarrow>
     (\<exists>js cs ls xs. js_jumps st' = js_jumps st @ js \<and> js_local_calls st' = js_local_calls st @ cs \<and>
        js_loads st' = js_loads st @ ls \<and> js_leas st' = js_leas st @ xs \<and>
        segment G (unat (js_offset st)) (unat (js_offset st')) js cs ls xs \<and>
        length js + length cs + length ls + length xs \<le> k)"

definition grows :: "(patchable_relative \<Rightarrow> bool) \<Rightarrow> nat \<Rightarrow> nat \<Rightarrow> jit_state \<Rightarrow> jit_state \<Rightarrow> bool" where
  "grows G n k st st' \<longleftrightarrow> (wf_jit st \<longrightarrow>
     wf_jit st' \<and> js_size st' = js_size st \<and> js_mode st' = js_mode st \<and>
     js_offset st \<le> js_offset st' \<and>
     take (unat (js_offset st)) (js_buf st') = take (unat (js_offset st)) (js_buf st) \<and>
     (js_status st \<noteq> NoError \<longrightarrow>
        js_status st' \<noteq> NoError \<and> js_offset st' = js_offset st \<and> js_buf st' = js_buf st) \<and>
     (js_status st' = NoError \<longrightarrow>
        js_crash st' = js_crash st \<and> js_errmsg st' = js_errmsg st \<and>
        unat (js_offset st') \<le> unat (js_offset st) + n \<and> placed G k st st') \<and>
     (js_status st = NoError \<and> unat (js_offset st) + n \<le> unat (js_size st) \<and>
        entries st + k \<le> UBPF_MAX_INSTS \<longrightarrow> js_status st' = NoError))"

lemma placed_refl: "placed G 0 st st"
  by (simp add: placed_def)

lemma placed_mono: "placed G k st st' \<Longrightarrow> k \<le> k' \<Longrightarrow> placed G k' st st'"
  by (fastforce simp: placed_def)

lemma placed_trans:
  assumes "placed G k a b" "placed G k' b c" "js_offset a \<le> js_offset b" "js_offset b \<le> js_offset c"
  shows "placed G (k + k') a c"
proof -
  obtain js cs ls xs where 1: "js_jumps b = js_jumps a @ js" "js_local_calls b = js_local_calls a @ cs"
      "js_loads b = js_loads a @ ls" "js_leas b = js_leas a @ xs"
    and s1: "segment G (unat (js_offset a)) (unat (js_offset b)) js cs ls xs"
    and l1: "length js + length cs + length ls + length xs \<le> k"
    using assms(1) by (auto simp: placed_def)
  obtain js' cs' ls' xs' where 2: "js_jumps c = js_jumps b @ js'"
      "js_local_calls c = js_local_calls b @ cs'" "js_loads c = js_loads b @ ls'"
      "js_leas c = js_leas b @ xs'"
    and s2: "segment G (unat (js_offset b)) (unat (js_offset c)) js' cs' ls' xs'"
    and l2: "length js' + length cs' + length ls' + length xs' \<le> k'"
    using assms(2) by (auto simp: placed_def)
  have "segment G (unat (js_offset a)) (unat (js_offset c)) (js @ js') (cs @ cs') (ls @ ls') (xs @ xs')"
    using assms(3,4) by (intro segment_append [OF s1 s2]) (simp_all add: word_le_nat_alt)
  with 1 2 l1 l2 show ?thesis
    by (auto simp: placed_def intro!: exI [of _ "js @ js'"] exI [of _ "cs @ cs'"] exI [of _ "ls @ ls'"]
        exI [of _ "xs @ xs'"])
qed

lemma placed_entries: "placed G k a b \<Longrightarrow> entries b \<le> entries a + k"
  by (auto simp: placed_def entries_def)

lemma grows_trans:
  assumes ab: "grows G n k a b" and bc: "grows G n' k' b c"
  shows "grows G (n + n') (k + k') a c"
  unfolding grows_def
proof (intro impI)
  assume wf: "wf_jit a"
  note 1 = ab [unfolded grows_def, rule_format, OF wf]
  then have "wf_jit b" by blast
  note 2 = bc [unfolded grows_def, rule_format, OF this]
  have sizes: "js_size c = js_size a" "js_mode c = js_mode a" and "wf_jit c" using 1 2 by simp_all
  have le: "js_offset a \<le> js_offset b" "js_offset b \<le> js_offset c" using 1 2 by blast+
  have "unat (js_offset a) \<le> unat (js_offset b)" using le(1) by (simp add: word_le_nat_alt)
  then have pre: "take (unat (js_offset a)) (js_buf c) = take (unat (js_offset a)) (js_buf a)"
    using 1 2 by (metis min.absorb1 take_take)
  have sticky: "js_status b = NoError" if "js_status c = NoError" using that 2 by metis
  have "placed G (k + k') a c" if "js_status c = NoError"
    using placed_trans [OF _ _ le] that sticky 1 2 by blast
  moreover have "js_status c = NoError"
    if ok: "js_status a = NoError" "unat (js_offset a) + (n + n') \<le> unat (js_size a)"
      "entries a + (k + k') \<le> UBPF_MAX_INSTS"
  proof -
    have b: "js_status b = NoError" using 1 ok by simp
    then have "unat (js_offset b) \<le> unat (js_offset a) + n" "entries b \<le> entries a + k"
      using 1 placed_entries by blast+
    with b ok 2 1 show ?thesis by simp
  qed
  moreover have "js_crash c = js_crash a \<and> js_errmsg c = js_errmsg a \<and> unat (js_offset c) \<le> unat (js_offset a) + (n + n')"
    if "js_status c = NoError"
    using sticky [OF that] that 1 2 by auto
  moreover have "js_status c \<noteq> NoError \<and> js_offset c = js_offset a \<and> js_buf c = js_buf a"
    if "js_status a \<noteq> NoError"
    using that 1 2 by simp
  ultimately show "wf_jit c \<and> js_size c = js_size a \<and> js_mode c = js_mode a \<and>
     js_offset a \<le> js_offset c \<and>
     take (unat (js_offset a)) (js_buf c) = take (unat (js_offset a)) (js_buf a) \<and>
     (js_status a \<noteq> NoError \<longrightarrow>
        js_status c \<noteq> NoError \<and> js_offset c = js_offset a \<and> js_buf c = js_buf a) \<and>
     (js_status c = NoError \<longrightarrow>
        js_crash c = js_crash a \<and> js_errmsg c = js_errmsg a \<and>
        unat (js_offset c) \<le> unat (js_offset a) + (n + n') \<and> placed G (k + k') a c) \<and>
     (js_status a = NoError \<and> unat (js_offset a) + (n + n') \<le> unat (js_size a) \<and>
        entries a + (k + k') \<le> UBPF_MAX_INSTS \<longrightarrow> js_status c = NoError)"
    using sizes \<open>wf_jit c\<close> order_trans [OF le] pre by blast
qed

interpretation code: jit_relation "grows G" for G
proof
  show "grows G 0 0 st st" for st by (simp add: grows_def placed_refl)
  show "grows G n k a b \<Longrightarrow> grows G n' k' b c \<Longrightarrow> grows G (n + n') (k + k') a c" for n k n' k' a b c
    by (rule grows_trans)
  show "grows G n k a b \<Longrightarrow> n \<le> n' \<Longrightarrow> k \<le> k' \<Longrightarrow> grows G n' k' a b" for n k n' k' a b
    by (auto simp: grows_def intro: placed_mono)
qed

text \<open>\<open>emits n k m\<close>: \<open>m\<close> appends at most \<open>n\<close> bytes and \<open>k\<close> resolvable table entries.\<close>

abbreviation emits :: "nat \<Rightarrow> nat \<Rightarrow> 'a jit \<Rightarrow> bool" where
  "emits \<equiv> keeps (grows good_jump)"

section \<open>Bytes\<close>

lemma offset_after:
  assumes "wf_jit st" "unat (js_offset st) + n \<le> unat (js_size st)"
  shows "unat (js_offset st + of_nat n) = unat (js_offset st) + n"
proof -
  have "unat (js_offset st) + n < 2 ^ 32" using assms by (auto simp: wf_jit_def)
  then show ?thesis by (simp add: unat_word_ariths unat_of_nat)
qed

lemma fits_iff:
  assumes "wf_jit st" "n \<le> 16"
  shows "js_offset st + of_nat n > js_size st \<longleftrightarrow> unat (js_offset st) + n > unat (js_size st)"
proof -
  have "unat (js_offset st) + n < 2 ^ 32"
    using assms by (auto simp: wf_jit_def word_le_nat_alt)
  then have "unat (js_offset st + of_nat n) = unat (js_offset st) + n"
    by (simp add: unat_word_ariths unat_of_nat)
  then show ?thesis by (simp add: word_less_nat_alt)
qed

definition put_bytes :: "u8 list \<Rightarrow> jit_state \<Rightarrow> jit_state" where
  "put_bytes bs st = st\<lparr>
     js_buf := take (unat (js_offset st)) (js_buf st) @ bs
       @ drop (unat (js_offset st) + length bs) (js_buf st),
     js_offset := js_offset st + of_nat (length bs) \<rparr>"

lemma put_bytes_simps [simp]:
  "js_size (put_bytes bs st) = js_size st" "js_status (put_bytes bs st) = js_status st"
  "js_mode (put_bytes bs st) = js_mode st" "js_jumps (put_bytes bs st) = js_jumps st"
  "js_loads (put_bytes bs st) = js_loads st" "js_leas (put_bytes bs st) = js_leas st"
  "js_local_calls (put_bytes bs st) = js_local_calls st" "js_crash (put_bytes bs st) = js_crash st"
  "js_errmsg (put_bytes bs st) = js_errmsg st"
  "js_local_calls_ok (put_bytes bs st) = js_local_calls_ok st"
  "js_prolog_size (put_bytes bs st) = js_prolog_size st" "js_pc_locs (put_bytes bs st) = js_pc_locs st"
  "js_offset (put_bytes bs st) = js_offset st + of_nat (length bs)"
  by (simp_all add: put_bytes_def)

text \<open>The three outcomes of an emission.\<close>

lemma emit_bytes_exec:
  assumes wf: "wf_jit st" and len: "length bs \<le> 16"
  shows "jit_exec (emit_bytes bs) st =
    (if js_status st \<noteq> NoError then st
     else if unat (js_offset st) + length bs > unat (js_size st) then st\<lparr> js_status := NotEnoughSpace \<rparr>
     else put_bytes bs st)"
proof -
  have "buf_write (js_buf st) (unat (js_offset st)) bs = Some (take (unat (js_offset st)) (js_buf st) @ bs
      @ drop (unat (js_offset st) + length bs) (js_buf st))"
    if "\<not> unat (js_offset st) + length bs > unat (js_size st)"
    using wf that by (simp add: buf_write_eq wf_jit_def)
  then show ?thesis
    using fits_iff [OF wf len]
    by (simp add: emit_bytes_def Let_def jit_set_status_def put_bytes_def)
qed

lemma put_bytes_grows:
  assumes wf: "wf_jit st" and fits: "unat (js_offset st) + length bs \<le> unat (js_size st)"
  shows "wf_jit (put_bytes bs st)" "js_offset st \<le> js_offset (put_bytes bs st)"
    "take (unat (js_offset st)) (js_buf (put_bytes bs st)) = take (unat (js_offset st)) (js_buf st)"
    "unat (js_offset (put_bytes bs st)) = unat (js_offset st) + length bs"
proof -
  note off = offset_after [OF wf fits]
  show "unat (js_offset (put_bytes bs st)) = unat (js_offset st) + length bs" by (simp add: off)
  show "wf_jit (put_bytes bs st)"
    using wf fits off by (auto simp: wf_jit_def word_le_nat_alt put_bytes_def intro: trans_le_add1)
  show "js_offset st \<le> js_offset (put_bytes bs st)"
    using off by (simp add: word_le_nat_alt)
  show "take (unat (js_offset st)) (js_buf (put_bytes bs st)) = take (unat (js_offset st)) (js_buf st)"
    using wf fits by (simp add: put_bytes_def wf_jit_def)
qed

lemma put_bytes_append:
  assumes wf: "wf_jit st" and fits: "unat (js_offset st) + length a + length b \<le> unat (js_size st)"
  shows "put_bytes b (put_bytes a st) = put_bytes (a @ b) st"
proof -
  have off: "unat (js_offset st + of_nat (length a)) = unat (js_offset st) + length a"
    using offset_after [OF wf, of "length a"] fits by simp
  have "unat (js_offset st) \<le> length (js_buf st)" using wf by (simp add: wf_jit_def word_le_nat_alt)
  then show ?thesis
    by (simp add: put_bytes_def off algebra_simps)
qed

lemma emit_bytes_keeps:
  assumes "length bs \<le> 16"
  shows "keeps (grows G) (length bs) 0 (emit_bytes bs)"
proof (rule keepsI)
  fix st
  show "grows G (length bs) 0 st (jit_exec (emit_bytes bs) st)"
  proof (cases "wf_jit st")
    case False
    then show ?thesis by (simp add: grows_def)
  next
    case wf: True
    note ex = emit_bytes_exec [OF wf assms]
    consider "js_status st \<noteq> NoError" | "js_status st = NoError" "unat (js_offset st) + length bs > unat (js_size st)"
      | "js_status st = NoError" "unat (js_offset st) + length bs \<le> unat (js_size st)" by linarith
    then show ?thesis
    proof cases
      case 1
      then show ?thesis using ex by (simp add: grows_def)
    next
      case 2
      then have "jit_exec (emit_bytes bs) st = st\<lparr> js_status := NotEnoughSpace \<rparr>" using ex by simp
      moreover have "wf_jit (st\<lparr> js_status := NotEnoughSpace \<rparr>)" using wf by (simp add: wf_jit_def)
      ultimately show ?thesis using 2 by (simp add: grows_def)
    next
      case 3
      then have "jit_exec (emit_bytes bs) st = put_bytes bs st" using ex by simp
      moreover have "placed G 0 st (put_bytes bs st)" by (simp add: placed_def)
      ultimately show ?thesis
        using put_bytes_grows [OF wf 3(2)] 3(1) by (simp add: grows_def)
    qed
  qed
qed

lemma emit_keeps:
  "emits 1 0 (emit1 a)" "emits 2 0 (emit2 b)" "emits 4 0 (emit4 c)"
  "emits 8 0 (emit8 d)" "emits 4 0 emit_4byte_offset_placeholder"
  using emit_bytes_keeps [of "le_bytes 1 a"] emit_bytes_keeps [of "le_bytes 2 b"]
    emit_bytes_keeps [of "le_bytes 4 c"] emit_bytes_keeps [of "le_bytes 4 (0 :: u32)"]
    emit_bytes_keeps [of "le_bytes 8 d"]
  by (simp_all add: emit1_def emit2_def emit4_def emit8_def emit_4byte_offset_placeholder_def)

section \<open>Table entries\<close>

text \<open>New table entries followed by the bytes they stand for.\<close>

lemma entry_grows:
  assumes same: "js_buf st1 = js_buf st" "js_offset st1 = js_offset st" "js_size st1 = js_size st"
      "js_mode st1 = js_mode st" "js_status st1 = js_status st" "js_crash st1 = js_crash st" "js_errmsg st1 = js_errmsg st"
      "js_local_calls_ok st1 = js_local_calls_ok st" "js_prolog_size st1 = js_prolog_size st"
    and new: "js_jumps st1 = js_jumps st @ js" "js_local_calls st1 = js_local_calls st @ cs"
      "js_loads st1 = js_loads st @ ls" "js_leas st1 = js_leas st @ xs"
    and room: "wf_jit st \<Longrightarrow> wf_jit st1"
    and seg: "segment G (unat (js_offset st)) (unat (js_offset st) + length bs) js cs ls xs"
    and k: "length js + length cs + length ls + length xs \<le> k" and len: "length bs \<le> 16"
  shows "grows G (length bs) k st (jit_exec (emit_bytes bs) st1)"
proof (cases "wf_jit st")
  case False
  then show ?thesis by (simp add: grows_def)
next
  case wf: True
  then have wf1: "wf_jit st1" by (rule room)
  note ex = emit_bytes_exec [OF wf1 len]
  consider "js_status st \<noteq> NoError" | "js_status st = NoError" "unat (js_offset st) + length bs > unat (js_size st)"
    | "js_status st = NoError" "unat (js_offset st) + length bs \<le> unat (js_size st)" by linarith
  then show ?thesis
  proof cases
    case 1
    then show ?thesis using ex wf1 same by (simp add: grows_def)
  next
    case 2
    then have "jit_exec (emit_bytes bs) st1 = st1\<lparr> js_status := NotEnoughSpace \<rparr>" using ex same by simp
    moreover have "wf_jit (st1\<lparr> js_status := NotEnoughSpace \<rparr>)" using wf1 by (simp add: wf_jit_def)
    ultimately show ?thesis using 2 same by (simp add: grows_def)
  next
    case 3
    then have eq: "jit_exec (emit_bytes bs) st1 = put_bytes bs st1" using ex same by simp
    note put = put_bytes_grows [OF wf1, of bs]
    have "unat (js_offset (put_bytes bs st1)) = unat (js_offset st) + length bs"
      using put(4) 3 same by simp
    then have "placed G k st (put_bytes bs st1)"
      unfolding placed_def using new seg k
      by (intro exI [of _ js] exI [of _ cs] exI [of _ ls] exI [of _ xs]) simp
    then show ?thesis unfolding eq
      using put 3 same by (simp add: grows_def)
  qed
qed

abbreviation entry_at :: "u32 \<Rightarrow> u32 \<Rightarrow> bool \<Rightarrow> patchable_relative" where
  "entry_at off t is_near \<equiv>
     \<lparr> offset_loc = off, target_pc = t, target_offset = 0, near = is_near \<rparr>"

lemma slot_entry:
  "slot (entry_at off t False) = [unat off..<unat off + 4]"
  "slot (entry_at off t True) = [unat off..<unat off + 1]"
  by (simp_all add: slot_def Let_def)

lemma note_exec:
  assumes "wf_jit st"
  shows "length (js_jumps st) \<noteq> UBPF_MAX_INSTS \<Longrightarrow>
      jit_exec (note_jump t nr) st = st\<lparr> js_jumps := js_jumps st @ [entry_at (js_offset st) t nr] \<rparr>"
    "length (js_local_calls st) \<noteq> UBPF_MAX_INSTS \<Longrightarrow>
      jit_exec (note_local_call t) st =
        st\<lparr> js_local_calls := js_local_calls st @ [entry_at (js_offset st) t False] \<rparr>"
    "length (js_loads st) \<noteq> UBPF_MAX_INSTS \<Longrightarrow>
      jit_exec (note_load t) st = st\<lparr> js_loads := js_loads st @ [entry_at (js_offset st) t False] \<rparr>"
    "length (js_leas st) \<noteq> UBPF_MAX_INSTS \<Longrightarrow>
      jit_exec (note_lea t) st = st\<lparr> js_leas := js_leas st @ [entry_at (js_offset st) t False] \<rparr>"
  using assms
  by (simp_all add: note_jump_def note_local_call_def note_load_def note_lea_def
      emit_patchable_relative_def emit_patchable_relative_ex_def Let_def wf_jit_def)

text \<open>A table that is full makes the compilation fail.\<close>

lemma full_table_grows:
  assumes "wf_jit st \<Longrightarrow> entries st + k > UBPF_MAX_INSTS" "s \<noteq> NoError"
  shows "grows G n k st (jit_exec (jit_set_status s) st)"
  using assms by (auto simp: grows_def jit_set_status_def wf_jit_def)

lemma grows_if_wf: "(wf_jit st \<Longrightarrow> grows G n k st st') \<Longrightarrow> grows G n k st st'"
  by (auto simp: grows_def)

lemma bytes4: "jit_exec emit_4byte_offset_placeholder st = jit_exec (emit_bytes (le_bytes 4 (0 :: u32))) st"
  by (simp add: emit_4byte_offset_placeholder_def emit4_def)

lemma wf_note:
  "wf_jit st \<Longrightarrow> length (js_jumps st) < UBPF_MAX_INSTS \<Longrightarrow> offset_loc e \<le> js_offset st \<Longrightarrow>
     wf_jit (st\<lparr> js_jumps := js_jumps st @ [e] \<rparr>)"
  "wf_jit st \<Longrightarrow> length (js_local_calls st) < UBPF_MAX_INSTS \<Longrightarrow>
     wf_jit (st\<lparr> js_local_calls := js_local_calls st @ [e] \<rparr>)"
  "wf_jit st \<Longrightarrow> length (js_loads st) < UBPF_MAX_INSTS \<Longrightarrow> wf_jit (st\<lparr> js_loads := js_loads st @ [e] \<rparr>)"
  "wf_jit st \<Longrightarrow> length (js_leas st) < UBPF_MAX_INSTS \<Longrightarrow> wf_jit (st\<lparr> js_leas := js_leas st @ [e] \<rparr>)"
  by (simp_all add: wf_jit_def)

lemma note_grows:
  assumes "wf_jit st"
  shows "length (js_jumps st) < UBPF_MAX_INSTS \<Longrightarrow> G (entry_at (js_offset st) t False) \<Longrightarrow>
      grows G 4 1 st (jit_exec emit_4byte_offset_placeholder
        (st\<lparr> js_jumps := js_jumps st @ [entry_at (js_offset st) t False] \<rparr>))"
    "length (js_local_calls st) < UBPF_MAX_INSTS \<Longrightarrow> good_call (entry_at (js_offset st) t False) \<Longrightarrow>
      grows G 4 1 st (jit_exec emit_4byte_offset_placeholder
        (st\<lparr> js_local_calls := js_local_calls st @ [entry_at (js_offset st) t False] \<rparr>))"
    "length (js_loads st) < UBPF_MAX_INSTS \<Longrightarrow> good_load (entry_at (js_offset st) t False) \<Longrightarrow>
      grows G 4 1 st (jit_exec emit_4byte_offset_placeholder
        (st\<lparr> js_loads := js_loads st @ [entry_at (js_offset st) t False] \<rparr>))"
    "length (js_leas st) < UBPF_MAX_INSTS \<Longrightarrow> good_lea (entry_at (js_offset st) t False) \<Longrightarrow>
      grows G 4 1 st (jit_exec emit_4byte_offset_placeholder
        (st\<lparr> js_leas := js_leas st @ [entry_at (js_offset st) t False] \<rparr>))"
  unfolding bytes4
  using assms
    entry_grows [of "st\<lparr> js_jumps := js_jumps st @ [entry_at (js_offset st) t False] \<rparr>" st
      "[entry_at (js_offset st) t False]" "[]" "[]" "[]" G "le_bytes 4 (0 :: u32)" 1]
    entry_grows [of "st\<lparr> js_local_calls := js_local_calls st @ [entry_at (js_offset st) t False] \<rparr>" st
      "[]" "[entry_at (js_offset st) t False]" "[]" "[]" G "le_bytes 4 (0 :: u32)" 1]
    entry_grows [of "st\<lparr> js_loads := js_loads st @ [entry_at (js_offset st) t False] \<rparr>" st
      "[]" "[]" "[entry_at (js_offset st) t False]" "[]" G "le_bytes 4 (0 :: u32)" 1]
    entry_grows [of "st\<lparr> js_leas := js_leas st @ [entry_at (js_offset st) t False] \<rparr>" st
      "[]" "[]" "[]" "[entry_at (js_offset st) t False]" G "le_bytes 4 (0 :: u32)" 1]
  by (simp_all add: wf_note segment_def slot_entry)

lemma table_room:
  assumes "wf_jit st"
  shows "length (js_jumps st) \<noteq> UBPF_MAX_INSTS \<longleftrightarrow> length (js_jumps st) < UBPF_MAX_INSTS"
    "length (js_local_calls st) \<noteq> UBPF_MAX_INSTS \<longleftrightarrow> length (js_local_calls st) < UBPF_MAX_INSTS"
    "length (js_loads st) \<noteq> UBPF_MAX_INSTS \<longleftrightarrow> length (js_loads st) < UBPF_MAX_INSTS"
    "length (js_leas st) \<noteq> UBPF_MAX_INSTS \<longleftrightarrow> length (js_leas st) < UBPF_MAX_INSTS"
  using assms by (auto simp: wf_jit_def)

text \<open>Where a jump may go when its target is given as an eBPF index.\<close>

definition jump_index :: "u32 \<Rightarrow> bool" where
  "jump_index t \<longleftrightarrow> t = TARGET_PC_EXIT \<or> unat t \<le> UBPF_MAX_INSTS"

definition call_index :: "u32 \<Rightarrow> bool" where
  "call_index t \<longleftrightarrow> unat t \<le> UBPF_MAX_INSTS \<and> t \<noteq> TARGET_PC_RETPOLINE"

lemma good_entry:
  "jump_index t \<Longrightarrow> good_jump (entry_at off t False)"
  "call_index t \<Longrightarrow> good_call (entry_at off t False)"
  "good_load (entry_at off TARGET_PC_EXTERNAL_DISPATCHER False)"
  "good_lea (entry_at off TARGET_LOAD_HELPER_TABLE False)"
  by (auto simp: jump_index_def call_index_def good_jump_def good_call_def good_load_def good_lea_def)

lemma emit_jump_address_reloc_grows:
  assumes "G (entry_at (js_offset st) t False)"
  shows "grows G 4 1 st (jit_exec (emit_jump_address_reloc t) st)"
proof (rule grows_if_wf)
  assume wf: "wf_jit st"
  show ?thesis
  proof (cases "length (js_jumps st) = UBPF_MAX_INSTS")
    case True
    then have "grows G 4 1 st (jit_exec (jit_set_status TooManyJumps) st)"
      by (intro full_table_grows) (simp_all add: entries_def)
    with True show ?thesis by (simp add: emit_jump_address_reloc_def)
  next
    case False
    with note_exec(1) [OF wf False, of t False] note_grows(1) [of st G t, OF wf] assms table_room(1) [OF wf]
    show ?thesis by (simp add: emit_jump_address_reloc_def)
  qed
qed

lemma emit_local_call_address_reloc_keeps:
  assumes "call_index t"
  shows "emits 4 1 (emit_local_call_address_reloc t)"
proof (rule keepsI, rule grows_if_wf)
  fix st
  assume wf: "wf_jit st"
  show "grows good_jump 4 1 st (jit_exec (emit_local_call_address_reloc t) st)"
  proof (cases "length (js_local_calls st) = UBPF_MAX_INSTS")
    case True
    then have "grows good_jump 4 1 st (jit_exec (jit_set_status TooManyLocalCalls) st)"
      by (intro full_table_grows) (simp_all add: entries_def)
    with True show ?thesis by (simp add: emit_local_call_address_reloc_def)
  next
    case False
    with note_exec(2) [OF wf False, of t] note_grows(2) [OF wf _ good_entry(2) [OF assms]]
      table_room(2) [OF wf]
    show ?thesis by (simp add: emit_local_call_address_reloc_def)
  qed
qed

lemma emit_jump_address_reloc_keeps: "jump_index t \<Longrightarrow> emits 4 1 (emit_jump_address_reloc t)"
  by (intro keepsI emit_jump_address_reloc_grows good_entry)

section \<open>Instructions\<close>

named_theorems grow_rules \<open>budgets of the emitters\<close>

declare emit_keeps [grow_rules] emit_jump_address_reloc_keeps [grow_rules]
  emit_local_call_address_reloc_keeps [grow_rules]

lemmas seq_rules = code.keeps_get code.keeps_bind code.keeps_return code.keeps_if code.keeps_when

lemma emit_modrm_keeps: "md AND NOT 0xc0 = 0 \<Longrightarrow> emits 1 0 (emit_modrm md r m)"
  unfolding emit_modrm_def
  by (rule code.keeps_mono, (assumption | rule seq_rules code.keeps_assert grow_rules)+) simp_all

lemma emit_modrm_mod_keeps [grow_rules]:
  "emits 1 0 (emit_modrm 0 r m)" "emits 1 0 (emit_modrm 0x40 r m)"
  "emits 1 0 (emit_modrm 0x80 r m)"
  by (rule emit_modrm_keeps; simp)+

lemma emit_modrm_reg2reg_keeps [grow_rules]: "emits 1 0 (emit_modrm_reg2reg r m)"
  unfolding emit_modrm_reg2reg_def by (rule emit_modrm_keeps) simp

lemma emit_modrm_and_displacement_keeps [grow_rules]:
  "emits 5 0 (emit_modrm_and_displacement r m d)"
  unfolding emit_modrm_and_displacement_def
  by (rule code.keeps_mono, (assumption | rule seq_rules grow_rules)+) simp_all

lemma emit_rex_keeps:
  "w AND NOT 1 = 0 \<Longrightarrow> r AND NOT 1 = 0 \<Longrightarrow> x AND NOT 1 = 0 \<Longrightarrow> b AND NOT 1 = 0 \<Longrightarrow>
     emits 1 0 (emit_rex w r x b)"
  unfolding emit_rex_def
  by (rule code.keeps_mono, (assumption | rule seq_rules code.keeps_assert grow_rules)+) simp_all

lemma emit_rex_bits_keeps [grow_rules]:
  "emits 1 0 (emit_rex 1 0 0 0)" "emits 1 0 (emit_rex 1 1 0 0)"
  "emits 1 0 (emit_rex (of_bool p) (of_bool q) 0 (of_bool r))"
  by (rule emit_rex_keeps; simp)+

lemma emit_basic_rex_keeps [grow_rules]:
  "emits 1 0 (emit_basic_rex 0 s d)" "emits 1 0 (emit_basic_rex 1 s d)"
  "emits 1 0 (emit_basic_rex (of_bool p) s d)"
  using emit_rex_bits_keeps(3) [of False] emit_rex_bits_keeps(3) [of True] emit_rex_bits_keeps(3) [of p]
  by (simp_all add: emit_basic_rex_def code.keeps_mono [OF code.keeps_return])

lemma emit_push_keeps [grow_rules]: "emits 2 0 (emit_push r)"
  unfolding emit_push_def by (rule code.keeps_mono, (assumption | rule seq_rules grow_rules)+) simp_all

lemma emit_pop_keeps [grow_rules]: "emits 2 0 (emit_pop r)"
  unfolding emit_pop_def by (rule code.keeps_mono, (assumption | rule seq_rules grow_rules)+) simp_all

lemma emit_alu32_keeps [grow_rules]: "emits 3 0 (emit_alu32 op s d)"
  unfolding emit_alu32_def by (rule code.keeps_mono, (assumption | rule seq_rules grow_rules)+) simp_all

lemma emit_alu64_keeps [grow_rules]: "emits 3 0 (emit_alu64 op s d)"
  unfolding emit_alu64_def by (rule code.keeps_mono, (assumption | rule seq_rules grow_rules)+) simp_all

lemma emit_alu_imm_keeps [grow_rules]:
  "emits 7 0 (emit_alu32_imm32 op s d i)" "emits 7 0 (emit_alu64_imm32 op s d i)"
  "emits 4 0 (emit_alu32_imm8 op s d j)" "emits 4 0 (emit_alu64_imm8 op s d j)"
  unfolding emit_alu32_imm32_def emit_alu64_imm32_def emit_alu32_imm8_def emit_alu64_imm8_def
  by (rule code.keeps_mono, (assumption | rule seq_rules grow_rules)+, simp_all)+

lemma emit_mov_cmp_keeps [grow_rules]:
  "emits 7 0 (emit_truncate_u32 d)" "emits 3 0 (emit_mov s d)"
  "emits 7 0 (emit_cmp_imm32 d i)" "emits 7 0 (emit_cmp32_imm32 d i)"
  "emits 3 0 (emit_cmp s d)" "emits 3 0 (emit_cmp32 s d)"
  by (simp_all add: emit_truncate_u32_def emit_mov_def emit_cmp_imm32_def emit_cmp32_imm32_def
      emit_cmp_def emit_cmp32_def emit_alu_imm_keeps emit_alu32_keeps emit_alu64_keeps)

lemma emit_jcc_keeps [grow_rules]: "jump_index t \<Longrightarrow> emits 6 1 (emit_jcc c t)"
  unfolding emit_jcc_def by (rule code.keeps_mono, (assumption | rule seq_rules grow_rules)+) simp_all

lemma emit_jmp_keeps [grow_rules]: "jump_index t \<Longrightarrow> emits 5 1 (emit_jmp t)"
  unfolding emit_jmp_def by (rule code.keeps_mono, (assumption | rule seq_rules grow_rules)+) simp_all

lemma emit_load_keeps [grow_rules]: "emits 8 0 (emit_load sz s d off)"
  unfolding emit_load_def by (rule code.keeps_mono, (assumption | rule seq_rules grow_rules)+) simp_all

lemma emit_store_keeps [grow_rules]: "emits 8 0 (emit_store sz s d off)"
  unfolding emit_store_def by (rule code.keeps_mono, (assumption | rule seq_rules grow_rules)+) simp_all

lemma emit_store_imm32_keeps [grow_rules]: "emits 12 0 (emit_store_imm32 sz d off i)"
  unfolding emit_store_imm32_def by (rule code.keeps_mono, (assumption | rule seq_rules grow_rules)+) simp_all

lemma emit_load_imm_keeps [grow_rules]: "emits 10 0 (emit_load_imm d i)"
  unfolding emit_load_imm_def by (rule code.keeps_mono, (assumption | rule seq_rules grow_rules)+) simp_all

lemma emit_ret_pause_keeps [grow_rules]: "emits 1 0 emit_ret" "emits 2 0 emit_pause"
  unfolding emit_ret_def emit_pause_def
  by (rule code.keeps_mono, (assumption | rule seq_rules grow_rules)+, simp_all)+

lemma muldivmod_keeps [grow_rules]: "emits 73 0 (muldivmod opc s d im)"
  unfolding muldivmod_def Let_def by (rule code.keeps_mono, (assumption | rule seq_rules grow_rules)+) simp_all

section \<open>Forward jumps\<close>

lemma length_fixup [simp]: "length (fixup_jump_target es loc dest) = length es"
  by (simp add: fixup_jump_target_def)

lemma fixup_append:
  "fixup_jump_target (es @ es') loc dest = fixup_jump_target es loc dest @ fixup_jump_target es' loc dest"
  by (simp add: fixup_jump_target_def)

lemma fixup_id: "(\<And>e. e \<in> set es \<Longrightarrow> offset_loc e \<noteq> loc) \<Longrightarrow> fixup_jump_target es loc dest = es"
  unfolding fixup_jump_target_def by (intro map_idI) simp

lemma offset_loc_fixup: "map offset_loc (fixup_jump_target es loc dest) = map offset_loc es"
  by (simp add: fixup_jump_target_def)

lemma offset_loc_fixup_set: "offset_loc ` set (fixup_jump_target es loc dest) = offset_loc ` set es"
  using offset_loc_fixup [of es loc dest] by (metis list.set_map)

lemma fixup_wf:
  assumes "wf_jit st"
  shows "wf_jit (st\<lparr> js_jumps := fixup_jump_target (js_jumps st) loc dest \<rparr>)"
proof -
  have "(\<forall>e \<in> set (fixup_jump_target (js_jumps st) loc dest). offset_loc e \<le> js_offset st) \<longleftrightarrow>
      (\<forall>e \<in> set (js_jumps st). offset_loc e \<le> js_offset st)"
    using offset_loc_fixup_set [of "js_jumps st" loc dest] by (metis (no_types, opaque_lifting) image_iff)
  with assms show ?thesis by (simp add: wf_jit_def)
qed

lemma slot_start: "unat (offset_loc e) \<in> set (slot e)"
  by (simp add: slot_def Let_def)

lemma segment_start: "segment G a b js cs ls xs \<Longrightarrow> e \<in> set js \<Longrightarrow> a \<le> unat (offset_loc e) \<and> unat (offset_loc e) < b"
  using slot_start [of e] by (fastforce simp: segment_def slots_def)

lemma segment_weaken: "segment good_jump a b js cs ls xs \<Longrightarrow> segment (\<lambda>_. True) a b js cs ls xs"
  by (simp add: segment_def list_all_iff)

lemma slots_fixed: "slots (js @ [e\<lparr> target_offset := d \<rparr>] @ js') = slots (js @ [e] @ js')"
  by (simp add: slot_def Let_def)

text \<open>
  A jump emitted at \<open>a\<close> without its target, the code it jumps over, and the fixing of its target: the
  whole is well-behaved when the fixed entry is resolvable.
\<close>

lemma fixup_grows:
  assumes ab: "grows (\<lambda>_. True) n 1 a b" and bc: "grows good_jump n' k b c"
    and jump: "wf_jit a \<Longrightarrow> js_status b = NoError \<Longrightarrow> js_jumps b = js_jumps a @ [e] \<and>
      js_offset a < offset_loc e \<and> loc = offset_loc e"
    and good: "wf_jit a \<Longrightarrow> js_status c = NoError \<Longrightarrow> good_jump (e\<lparr> target_offset := dest \<rparr>)"
  shows "grows good_jump (n + n') (1 + k) a
    (c\<lparr> js_jumps := fixup_jump_target (js_jumps c) loc dest \<rparr>)" (is "grows _ _ _ a ?d")
proof (rule grows_if_wf)
  assume wf: "wf_jit a"
  note 1 = ab [unfolded grows_def, rule_format, OF wf]
  then have wfb: "wf_jit b" by blast
  have "grows (\<lambda>_. True) n' k b c"
    using bc by (auto simp: grows_def placed_def dest: segment_weaken)
  with ab have ac: "grows (\<lambda>_. True) (n + n') (1 + k) a c" by (rule grows_trans)
  note 2 = ac [unfolded grows_def, rule_format, OF wf]
  have "placed good_jump (1 + k) a ?d" if ok: "js_status c = NoError"
  proof -
    have okb: "js_status b = NoError" using bc wfb ok by (auto simp: grows_def)
    have j: "js_jumps b = js_jumps a @ [e]" "js_offset a < offset_loc e" "loc = offset_loc e"
      using jump [OF wf okb] by simp_all
    from 1 okb have "placed (\<lambda>_. True) 1 a b" by blast
    then obtain cs ls xs where s1: "segment (\<lambda>_. True) (unat (js_offset a)) (unat (js_offset b)) [e] cs ls xs"
      and t1: "js_local_calls b = js_local_calls a @ cs" "js_loads b = js_loads a @ ls"
        "js_leas b = js_leas a @ xs"
      and l1: "length cs + length ls + length xs = 0"
      using j(1) by (auto simp: placed_def)
    have le: "js_offset a \<le> js_offset b" "js_offset b \<le> js_offset c"
      and "placed good_jump k b c" using 1 bc wfb ok by (auto simp: grows_def)
    then obtain js' cs' ls' xs' where t2: "js_jumps c = js_jumps b @ js'"
        "js_local_calls c = js_local_calls b @ cs'" "js_loads c = js_loads b @ ls'"
        "js_leas c = js_leas b @ xs'"
      and s2: "segment good_jump (unat (js_offset b)) (unat (js_offset c)) js' cs' ls' xs'"
      and l2: "length js' + length cs' + length ls' + length xs' \<le> k"
      by (auto simp: placed_def)
    have "fixup_jump_target (js_jumps a) loc dest = js_jumps a"
      using 1 wf okb j by (intro fixup_id) (auto simp: wf_jit_def grows_def)
    moreover have "fixup_jump_target js' loc dest = js'"
      using segment_start [OF s1, of e] segment_start [OF s2] j(3) by (intro fixup_id) fastforce
    moreover have "fixup_jump_target [e] loc dest = [e\<lparr> target_offset := dest \<rparr>]"
      using j(3) by (simp add: fixup_jump_target_def)
    ultimately have d: "js_jumps ?d = js_jumps a @ [e\<lparr> target_offset := dest \<rparr>] @ js'"
      using t2(1) j(1) fixup_append [of "[e]" js' loc dest] by (simp add: fixup_append)
    have seg: "segment (\<lambda>_. True) (unat (js_offset a)) (unat (js_offset c)) ([e] @ js') (cs @ cs') (ls @ ls') (xs @ xs')"
      using segment_append [OF s1 segment_weaken [OF s2]] le by (simp add: word_le_nat_alt)
    have "segment good_jump (unat (js_offset a)) (unat (js_offset c))
        ([e\<lparr> target_offset := dest \<rparr>] @ js') (cs @ cs') (ls @ ls') (xs @ xs')"
      using seg s2 good [OF wf ok] slots_fixed [of "[]" dest e "js' @ (cs @ cs') @ (ls @ ls') @ (xs @ xs')"]
      by (simp add: segment_def)
    with d t1 t2 l1 l2 show ?thesis
      by (auto simp: placed_def intro!: exI [of _ "[e\<lparr> target_offset := dest \<rparr>] @ js'"]
          exI [of _ "cs @ cs'"] exI [of _ "ls @ ls'"] exI [of _ "xs @ xs'"])
  qed
  moreover have "wf_jit ?d" using 2 by (intro fixup_wf) blast
  ultimately show ?thesis using 2 by (simp add: grows_def)
qed

text \<open>The three emitters whose result is the place of a jump displacement.\<close>

lemma reloc_exact:
  assumes wf: "wf_jit st"
  shows "js_status (jit_exec (emit_jump_address_reloc t) st) = NoError \<Longrightarrow>
      js_jumps (jit_exec (emit_jump_address_reloc t) st) = js_jumps st @ [entry_at (js_offset st) t False] \<and>
      jit_value (emit_jump_address_reloc t) st = js_offset st"
    "js_status (jit_exec (emit_near_jump_address_reloc t) st) = NoError \<Longrightarrow>
      js_jumps (jit_exec (emit_near_jump_address_reloc t) st) = js_jumps st @ [entry_at (js_offset st) t True] \<and>
      jit_value (emit_near_jump_address_reloc t) st = js_offset st"
  using note_exec(1) [OF wf, of t] keepsD [OF emit_tables(1)] keepsD [OF emit_tables(2)]
  by (auto simp: emit_jump_address_reloc_def emit_near_jump_address_reloc_def jit_set_status_def
      same_tables_def emit_4byte_offset_placeholder_def split: if_splits)

lemma emit1_exact:
  assumes "wf_jit st" "js_status (jit_exec (emit1 x) st) = NoError"
  shows "js_offset (jit_exec (emit1 x) st) = js_offset st + 1 \<and> js_jumps (jit_exec (emit1 x) st) = js_jumps st \<and>
    js_offset st < js_offset (jit_exec (emit1 x) st)"
proof -
  note ex = emit_bytes_exec [OF assms(1), of "le_bytes 1 x"]
  have fits: "js_status st = NoError" "unat (js_offset st) + 1 \<le> unat (js_size st)"
    and st': "jit_exec (emit1 x) st = put_bytes (le_bytes 1 x) st"
    using assms(2) ex by (auto simp: emit1_def split: if_splits)
  show ?thesis unfolding st'
    using put_bytes_grows(4) [OF assms(1), of "le_bytes 1 x"] fits by (simp add: word_less_nat_alt)
qed

lemma grows_wf: "grows G n k st st' \<Longrightarrow> wf_jit st \<Longrightarrow> wf_jit st'"
  by (simp add: grows_def)

lemma grows_no_error: "grows G n k st st' \<Longrightarrow> wf_jit st \<Longrightarrow> js_status st' = NoError \<Longrightarrow> js_status st = NoError"
  by (auto simp: grows_def)

lemma emit1_wf: "wf_jit st \<Longrightarrow> wf_jit (jit_exec (emit1 x) st)"
  by (rule grows_wf [OF keepsD [OF emit_keeps(1)]])

lemma near_reloc_grows: "grows (\<lambda>_. True) 1 1 st (jit_exec (emit_near_jump_address_reloc t) st)"
proof (rule grows_if_wf)
  assume wf: "wf_jit st"
  show ?thesis
  proof (cases "length (js_jumps st) = UBPF_MAX_INSTS")
    case True
    then have "grows (\<lambda>_. True) 1 1 st (jit_exec (jit_set_status TooManyJumps) st)"
      by (intro full_table_grows) (simp_all add: entries_def)
    with True show ?thesis by (simp add: emit_near_jump_address_reloc_def)
  next
    case False
    let ?st1 = "st\<lparr> js_jumps := js_jumps st @ [entry_at (js_offset st) t True] \<rparr>"
    have "grows (\<lambda>_. True) (length (le_bytes 1 (0 :: u8))) 1 st (jit_exec (emit_bytes (le_bytes 1 (0 :: u8))) ?st1)"
      using table_room(1) [OF wf] False
      by (intro entry_grows [of ?st1 st "[entry_at (js_offset st) t True]" "[]" "[]" "[]"])
        (simp_all add: wf_note segment_def slot_entry)
    with False note_exec(1) [OF wf False, of t True] show ?thesis
      by (simp add: emit_near_jump_address_reloc_def emit1_def)
  qed
qed

definition forward :: "nat \<Rightarrow> u32 \<Rightarrow> bool \<Rightarrow> u32 jit \<Rightarrow> bool" where
  "forward n t nr m \<longleftrightarrow> (\<forall>st. grows (\<lambda>_. True) n 1 st (jit_exec m st) \<and>
     (wf_jit st \<longrightarrow> js_status (jit_exec m st) = NoError \<longrightarrow>
        js_offset st < jit_value m st \<and>
        js_jumps (jit_exec m st) = js_jumps st @ [entry_at (jit_value m st) t nr] \<and>
        unat (js_offset (jit_exec m st)) = unat (jit_value m st) + (if nr then 1 else 4)))"

lemma reloc_offset:
  assumes wf: "wf_jit st"
  shows "js_status (jit_exec (emit_jump_address_reloc t) st) = NoError \<Longrightarrow>
      unat (js_offset (jit_exec (emit_jump_address_reloc t) st)) = unat (js_offset st) + 4"
    "js_status (jit_exec (emit_near_jump_address_reloc t) st) = NoError \<Longrightarrow>
      unat (js_offset (jit_exec (emit_near_jump_address_reloc t) st)) = unat (js_offset st) + 1"
proof -
  have wf1: "length (js_jumps st) \<noteq> UBPF_MAX_INSTS \<Longrightarrow>
      wf_jit (st\<lparr> js_jumps := js_jumps st @ [entry_at (js_offset st) t nr] \<rparr>)" for nr
    using wf table_room(1) [OF wf] by (simp add: wf_note)
  let ?st1 = "\<lambda>nr. st\<lparr> js_jumps := js_jumps st @ [entry_at (js_offset st) t nr] \<rparr>"
  show "js_status (jit_exec (emit_jump_address_reloc t) st) = NoError \<Longrightarrow>
      unat (js_offset (jit_exec (emit_jump_address_reloc t) st)) = unat (js_offset st) + 4"
    using note_exec(1) [OF wf, of t False] emit_bytes_exec [OF wf1 [of False], of "le_bytes 4 (0 :: u32)"]
      put_bytes_grows(4) [OF wf1 [of False], of "le_bytes 4 (0 :: u32)"]
    by (auto simp: emit_jump_address_reloc_def bytes4 jit_set_status_def split: if_splits)
  show "js_status (jit_exec (emit_near_jump_address_reloc t) st) = NoError \<Longrightarrow>
      unat (js_offset (jit_exec (emit_near_jump_address_reloc t) st)) = unat (js_offset st) + 1"
    using note_exec(1) [OF wf, of t True] emit_bytes_exec [OF wf1 [of True], of "le_bytes 1 (0 :: u8)"]
      put_bytes_grows(4) [OF wf1 [of True], of "le_bytes 1 (0 :: u8)"]
    by (auto simp: emit_near_jump_address_reloc_def emit1_def jit_set_status_def split: if_splits)
qed

lemma any_emit1: "keeps (grows G) 1 0 (emit1 a)"
  using emit_bytes_keeps [of "le_bytes 1 a" G] by (simp add: emit1_def)

lemma forward_reloc:
  assumes pre: "keeps (grows (\<lambda>_. True)) n 0 m"
    and off: "\<And>st. wf_jit st \<Longrightarrow> js_status (jit_exec m st) = NoError \<Longrightarrow>
      js_jumps (jit_exec m st) = js_jumps st \<and> js_offset st < js_offset (jit_exec m st)"
  shows "forward (n + 4) t False (State_Monad.bind m (\<lambda>_. emit_jump_address_reloc t))"
    "forward (n + 1) t True (State_Monad.bind m (\<lambda>_. emit_near_jump_address_reloc t))"
proof -
  have "grows (\<lambda>_. True) (n + 4) 1 st (jit_exec (emit_jump_address_reloc t) (jit_exec m st))"
    "grows (\<lambda>_. True) (n + 1) 1 st (jit_exec (emit_near_jump_address_reloc t) (jit_exec m st))" for st
    using code.trans [OF keepsD [OF pre] emit_jump_address_reloc_grows [of "\<lambda>_. True"]]
      code.trans [OF keepsD [OF pre] near_reloc_grows] by simp_all
  moreover have wf: "wf_jit (jit_exec m st)" if "wf_jit st" for st
    using keepsD [OF pre] that by (rule grows_wf)
  moreover have "js_status (jit_exec m st) = NoError"
    if "wf_jit st" "js_status (jit_exec (emit_jump_address_reloc t) (jit_exec m st)) = NoError \<or>
      js_status (jit_exec (emit_near_jump_address_reloc t) (jit_exec m st)) = NoError" for st
    using grows_no_error [OF emit_jump_address_reloc_grows [of "\<lambda>_. True"] wf [OF that(1)]]
      grows_no_error [OF near_reloc_grows wf [OF that(1)]] that(2) by blast
  ultimately show "forward (n + 4) t False (State_Monad.bind m (\<lambda>_. emit_jump_address_reloc t))"
    "forward (n + 1) t True (State_Monad.bind m (\<lambda>_. emit_near_jump_address_reloc t))"
    using off reloc_exact [OF wf] reloc_offset [OF wf] by (simp_all add: forward_def)
qed

lemma forward_jcc: "forward 6 t False (emit_jcc c t)"
proof -
  let ?m = "State_Monad.bind (emit1 0x0f) (\<lambda>_. emit1 (ucast c))"
  have "forward (1 + 1 + 4) t False (State_Monad.bind ?m (\<lambda>_. emit_jump_address_reloc t))"
  proof (rule forward_reloc)
    show "keeps (grows (\<lambda>_. True)) (1 + 1) 0 ?m"
      using code.keeps_bind [OF any_emit1 any_emit1] by simp
  next
    fix st
    assume wf: "wf_jit st" and ok: "js_status (jit_exec ?m st) = NoError"
    then have "js_status (jit_exec (emit1 0x0f) st) = NoError"
      using grows_no_error [OF keepsD [OF emit_keeps(1)] emit1_wf [OF wf]] by simp
    then show "js_jumps (jit_exec ?m st) = js_jumps st \<and> js_offset st < js_offset (jit_exec ?m st)"
      using emit1_exact [OF wf, of "0x0f"] emit1_exact [OF emit1_wf [OF wf], of "ucast c" "0x0f"] ok by auto
  qed
  then show ?thesis by (simp add: emit_jcc_def)
qed

lemma forward_call: "forward 5 t False (emit_call t)"
proof -
  have "forward (1 + 4) t False (State_Monad.bind (emit1 0xe8) (\<lambda>_. emit_jump_address_reloc t))"
    by (intro forward_reloc any_emit1) (blast dest: emit1_exact)
  then show ?thesis
    using reloc_exact(1) [OF emit1_wf] by (simp add: forward_def emit_call_def)
qed

lemma forward_near_jmp: "forward 2 t True (emit_near_jmp t)"
proof -
  have "forward (1 + 1) t True (State_Monad.bind (emit1 0xeb) (\<lambda>_. emit_near_jump_address_reloc t))"
    by (intro forward_reloc any_emit1) (blast dest: emit1_exact)
  then show ?thesis by (simp add: emit_near_jmp_def numeral_2_eq_2)
qed

text \<open>A forward jump over \<open>body\<close>, with its target fixed after it.\<close>

lemma forward_grows:
  assumes fwd: "forward n t nr m" and body: "grows good_jump n' k (jit_exec m st) c"
    and good: "wf_jit st \<Longrightarrow> js_status c = NoError \<Longrightarrow>
      good_jump ((entry_at (jit_value m st) t nr)\<lparr> target_offset := dest \<rparr>)"
  shows "grows good_jump (n + n') (1 + k) st
    (c\<lparr> js_jumps := fixup_jump_target (js_jumps c) (jit_value m st) dest \<rparr>)"
proof (rule fixup_grows [OF _ body])
  show "grows (\<lambda>_. True) n 1 st (jit_exec m st)" using fwd by (simp add: forward_def)
next
  assume "wf_jit st" "js_status (jit_exec m st) = NoError"
  then show "js_jumps (jit_exec m st) = js_jumps st @ [entry_at (jit_value m st) t nr] \<and>
      js_offset st < offset_loc (entry_at (jit_value m st) t nr) \<and>
      jit_value m st = offset_loc (entry_at (jit_value m st) t nr)"
    using fwd by (simp add: forward_def)
qed (use good in simp)

end
