(* ===== verification/Ubpf_Memory.thy ===== *)
theory Ubpf_Memory
  imports Ubpf_VM
begin

text \<open>
  The memory accesses of the interpreter (\<open>ubpf_vm.c\<close>): loads and stores of 1, 2, 4 or 8 bytes at any
  alignment, the run-time bounds check, and the shadow state of the undefined-behaviour check: one
  bit per stack byte and one bit per register, set once it has been written.
\<close>

section \<open>Errors\<close>

text \<open>How the process itself can die inside an access.\<close>

datatype crash = Fault | Aborted

datatype access_type = Load_access | Store_access

text \<open>Why \<open>ubpf_exec_ex\<close> returns \<open>-1\<close>, one value per exit.\<close>

datatype exec_error =
    NoCodeLoaded
  | ShadowStackAllocation
  | PcOutOfRange u16
  | InstructionLimitReached
  | NotFromCallInstruction u16
  | SourceNotInitialized "4 word"
  | DestinationNotInitialized "4 word"
  | ReturnValueNotInitialized
  | UninitializedStackRead u16
  | InvalidAccess access_type u16 u64 nat
  | OutOfBounds access_type u16 u64 nat
  | CallDepthExceeded u16
  | BtfCall
  | UnknownOpcodeAt u8 u16

section \<open>Loads and stores\<close>

definition IS_ALIGNED :: "u64 \<Rightarrow> u64 \<Rightarrow> bool" where
  "IS_ALIGNED x a \<longleftrightarrow> x AND (a - 1) = 0"

text \<open>A dereference of an \<open>n\<close>-byte integer type and a \<open>memcpy\<close> into a zeroed \<open>uint64_t\<close>.\<close>

definition load_bytes :: "memory \<Rightarrow> u64 \<Rightarrow> nat \<Rightarrow> (u8 list \<Rightarrow> u64) \<Rightarrow> crash + u64" where
  "load_bytes m a n f = (case mem_read m a n of None \<Rightarrow> Inl Fault | Some bs \<Rightarrow> Inr (f bs))"

definition ubpf_mem_load :: "memory \<Rightarrow> u64 \<Rightarrow> nat \<Rightarrow> crash + u64" where
  "ubpf_mem_load m address n =
     (if \<not> IS_ALIGNED address (of_nat n)
      then if 8 < n then Inl Fault
           else load_bytes m address n (\<lambda>bs. le_word (bs @ replicate (8 - n) 0))
      else if n = 1 then load_bytes m address 1 (\<lambda>bs. ucast (le_word bs :: u8))
      else if n = 2 then load_bytes m address 2 (\<lambda>bs. ucast (le_word bs :: u16))
      else if n = 4 then load_bytes m address 4 (\<lambda>bs. ucast (le_word bs :: u32))
      else if n = 8 then load_bytes m address 8 (\<lambda>bs. le_word bs)
      else Inl Aborted)"

definition store_bytes :: "memory \<Rightarrow> u64 \<Rightarrow> u8 list \<Rightarrow> crash + memory" where
  "store_bytes m a bs = (case mem_write m a bs of None \<Rightarrow> Inl Fault | Some m' \<Rightarrow> Inr m')"

definition ubpf_mem_store :: "memory \<Rightarrow> u64 \<Rightarrow> u64 \<Rightarrow> nat \<Rightarrow> crash + memory" where
  "ubpf_mem_store m address v n =
     (if \<not> IS_ALIGNED address (of_nat n)
      then if 8 < n then Inl Fault else store_bytes m address (le_bytes n v)
      else if n = 1 then store_bytes m address (le_bytes 1 (ucast v :: u8))
      else if n = 2 then store_bytes m address (le_bytes 2 (ucast v :: u16))
      else if n = 4 then store_bytes m address (le_bytes 4 (ucast v :: u32))
      else if n = 8 then store_bytes m address (le_bytes 8 v)
      else Inl Aborted)"

section \<open>The bounds check\<close>

text \<open>\<^const>\<open>None\<close> is the result \<open>true\<close>; an error is the message printed before \<open>false\<close>.\<close>

definition bounds_check ::
  "host \<Rightarrow> ubpf_vm \<Rightarrow> u64 \<Rightarrow> nat \<Rightarrow> access_type \<Rightarrow> u16 \<Rightarrow> u64 \<Rightarrow> u64 \<Rightarrow> u64 \<Rightarrow> u64 \<Rightarrow> exec_error option"
where
  "bounds_check h vm addr n ty cur_pc mem mem_len stack stack_len =
     (if \<not> bounds_check_enabled vm then None
      else
        let access_start = addr; access_end = access_start + of_nat n;
            stack_start = stack; stack_end = stack_start + stack_len;
            mem_start = mem; mem_end = mem_start + mem_len
        in if access_start > access_end then Some (InvalidAccess ty cur_pc addr n)
           else if access_start \<ge> mem_start \<and> access_end \<le> mem_end then None
           else if access_start \<ge> stack_start \<and> access_end \<le> stack_end then None
           else if bounds_check_function vm \<noteq> 0 \<and>
                   call_bounds_check h (bounds_check_function vm) (bounds_check_user_data vm)
                     access_start (of_nat n)
             then None
           else Some (OutOfBounds ty cur_pc addr n))"

section \<open>The shadow stack\<close>

text \<open>
  A bit array over the stack bytes. An index past the allocation is a fault. When the check is
  disabled the array is NULL, the empty list.
\<close>

fun set_shadow_bits :: "u8 list \<Rightarrow> nat \<Rightarrow> nat \<Rightarrow> u8 list option" where
  "set_shadow_bits ss test_bit 0 = Some ss"
| "set_shadow_bits ss test_bit (Suc n) =
     (let bit_offset = test_bit div 8; bit_mask = push_bit (test_bit mod 8) 1
      in if bit_offset < length ss
         then set_shadow_bits (ss[bit_offset := ss ! bit_offset OR bit_mask]) (Suc test_bit) n
         else None)"

fun test_shadow_bits :: "u8 list \<Rightarrow> nat \<Rightarrow> nat \<Rightarrow> bool option" where
  "test_shadow_bits ss test_bit 0 = Some True"
| "test_shadow_bits ss test_bit (Suc n) =
     (let bit_offset = test_bit div 8; bit_mask = push_bit (test_bit mod 8) 1
      in if bit_offset < length ss
         then if ss ! bit_offset AND bit_mask = 0 then Some False
              else test_shadow_bits ss (Suc test_bit) n
         else None)"

definition ubpf_mark_shadow_stack ::
  "ubpf_vm \<Rightarrow> u64 \<Rightarrow> u64 \<Rightarrow> u8 list \<Rightarrow> u64 \<Rightarrow> nat \<Rightarrow> u8 list option"
where
  "ubpf_mark_shadow_stack vm stack stack_length shadow_stack address n =
     (if \<not> undefined_behavior_check_enabled vm then Some shadow_stack
      else
        let access_start = address; access_end = access_start + of_nat n;
            stack_start = stack; stack_end = stack_start + stack_length
        in if access_start > access_end then Some shadow_stack
           else if access_start \<ge> stack_start \<and> access_end \<le> stack_end
             then set_shadow_bits shadow_stack (unat (access_start - stack_start)) n
           else Some shadow_stack)"

definition ubpf_check_shadow_stack ::
  "ubpf_vm \<Rightarrow> u64 \<Rightarrow> u64 \<Rightarrow> u8 list \<Rightarrow> u64 \<Rightarrow> nat \<Rightarrow> bool option"
where
  "ubpf_check_shadow_stack vm stack stack_length shadow_stack address n =
     (if \<not> undefined_behavior_check_enabled vm then Some True
      else
        let access_start = address; access_end = access_start + of_nat n;
            stack_start = stack; stack_end = stack_start + stack_length
        in if access_start > access_end then Some True
           else if access_start \<ge> stack_start \<and> access_end \<le> stack_end
             then test_shadow_bits shadow_stack (unat (access_start - stack_start)) n
           else Some True)"

section \<open>The shadow registers\<close>

definition REGISTER_TO_SHADOW_MASK :: "4 word \<Rightarrow> u16" where
  "REGISTER_TO_SHADOW_MASK r = push_bit (unat r) 1"

text \<open>Registers \<open>r1\<close> to \<open>r5\<close>, the ones a call and an exit invalidate.\<close>

definition caller_saved_mask :: u16 where
  "caller_saved_mask = REGISTER_TO_SHADOW_MASK 1 OR REGISTER_TO_SHADOW_MASK 2
     OR REGISTER_TO_SHADOW_MASK 3 OR REGISTER_TO_SHADOW_MASK 4 OR REGISTER_TO_SHADOW_MASK 5"

text \<open>
  The first switch of \<open>ubpf_validate_shadow_register\<close>: whether the source is required, whether the
  destination is required, whether the destination becomes initialised.
\<close>

definition shadow_requirements :: "u8 \<Rightarrow> bool \<times> bool \<times> bool" where
  "shadow_requirements opc =
     (let cls = opc AND EBPF_CLS_MASK
      in if cls = EBPF_CLS_LD then (False, False, True)
         else if cls = EBPF_CLS_LDX then (True, False, True)
         else if cls = EBPF_CLS_ST then (False, True, False)
         else if cls = EBPF_CLS_STX then (True, True, False)
         else if cls = EBPF_CLS_ALU \<or> cls = EBPF_CLS_ALU64 then
           (opc AND EBPF_SRC_REG \<noteq> 0,
            opc AND EBPF_ALU_OP_MASK
              \<in> {0x00, 0x10, 0x20, 0x30, 0x40, 0x50, 0x60, 0x70, 0x80, 0x90, 0xa0, 0xc0, 0xd0},
            True)
         else if cls = EBPF_CLS_JMP \<or> cls = EBPF_CLS_JMP32 then
           (let mode = opc AND EBPF_JMP_OP_MASK
            in (if mode \<in> {EBPF_MODE_JA, EBPF_MODE_CALL, EBPF_MODE_EXIT} then False
                else opc AND EBPF_SRC_REG \<noteq> 0,
                mode \<in> {EBPF_MODE_JEQ, EBPF_MODE_JGT, EBPF_MODE_JGE, EBPF_MODE_JSET, EBPF_MODE_JNE,
                  EBPF_MODE_JSGT, EBPF_MODE_JSGE, EBPF_MODE_JLT, EBPF_MODE_JLE, EBPF_MODE_JSLT,
                  EBPF_MODE_JSLE},
                False))
         else (False, False, False))"

definition ubpf_validate_shadow_register :: "ubpf_vm \<Rightarrow> u16 \<Rightarrow> ebpf_inst \<Rightarrow> exec_error + u16" where
  "ubpf_validate_shadow_register vm shadow_registers inst =
     (if \<not> undefined_behavior_check_enabled vm then Inr shadow_registers
      else
        let (src_register_required, dst_register_required, dst_register_initialized) =
              shadow_requirements (opcode inst)
        in if src_register_required \<and> shadow_registers AND REGISTER_TO_SHADOW_MASK (src inst) = 0
           then Inl (SourceNotInitialized (src inst))
           else if dst_register_required \<and> shadow_registers AND REGISTER_TO_SHADOW_MASK (dst inst) = 0
           then Inl (DestinationNotInitialized (dst inst))
           else
             let sr1 = (if dst_register_initialized
                        then shadow_registers OR REGISTER_TO_SHADOW_MASK (dst inst)
                        else shadow_registers);
                 sr2 = (if opcode inst = EBPF_OP_CALL \<and> src inst = 0
                        then (sr1 OR REGISTER_TO_SHADOW_MASK 0) AND NOT caller_saved_mask
                        else sr1)
             in if opcode inst = EBPF_OP_EXIT
                then if sr2 AND REGISTER_TO_SHADOW_MASK 0 = 0 then Inl ReturnValueNotInitialized
                     else Inr (sr2 AND NOT caller_saved_mask)
                else Inr sr2)"

section \<open>Facts about loads and stores\<close>

abbreviation access_sizes :: "nat set" where "access_sizes \<equiv> {1, 2, 4, 8}"

lemma le_word_append_zeros: "le_word (bs @ replicate k 0) = (le_word bs :: 'a::len word)"
  by (rule bit_word_eqI) (auto simp: bit_le_word_iff nth_append)

lemma ucast_le_word:
  assumes "8 * length bs \<le> LENGTH('a)" "LENGTH('a) \<le> LENGTH('b)"
  shows "ucast (le_word bs :: 'a::len word) = (le_word bs :: 'b::len word)"
proof (rule bit_word_eqI)
  fix n
  assume "n < LENGTH('b)"
  moreover have "n div 8 < length bs \<Longrightarrow> n < LENGTH('a)" using assms(1) by linarith
  ultimately show "bit (ucast (le_word bs :: 'a word) :: 'b word) n = bit (le_word bs :: 'b word) n"
    by (auto simp: bit_simps bit_le_word_iff)
qed

lemma le_bytes_ucast:
  assumes "8 * n \<le> LENGTH('b)"
  shows "le_bytes n (ucast (w :: 'a::len word) :: 'b::len word) = le_bytes n w"
proof (rule nth_equalityI)
  show "length (le_bytes n (ucast w :: 'b word)) = length (le_bytes n w)" by simp
next
  fix i
  assume "i < length (le_bytes n (ucast w :: 'b word))"
  then have "i < n" by simp
  then show "le_bytes n (ucast w :: 'b word) ! i = le_bytes n w ! i"
    using assms by (intro bit_word_eqI) (auto simp: bit_simps dest: bit_imp_le_length)
qed

text \<open>The aligned fast paths agree with the byte-wise access.\<close>

lemma ubpf_mem_load_eq:
  assumes "n \<in> access_sizes"
  shows "ubpf_mem_load m a n = (case mem_read m a n of None \<Rightarrow> Inl Fault | Some bs \<Rightarrow> Inr (le_word bs))"
proof (cases "mem_read m a n")
  case None
  then show ?thesis using assms by (auto simp: ubpf_mem_load_def load_bytes_def)
next
  case (Some bs)
  then have "length bs = n" by (rule mem_read_length)
  with Some assms show ?thesis
    by (auto simp: ubpf_mem_load_def load_bytes_def le_word_append_zeros ucast_le_word)
qed

lemma ubpf_mem_store_eq:
  "n \<in> access_sizes \<Longrightarrow> ubpf_mem_store m a v n = store_bytes m a (le_bytes n v)"
  by (auto simp: ubpf_mem_store_def le_bytes_ucast)

lemma access_size_le: "n \<in> access_sizes \<Longrightarrow> n \<le> 8 \<and> 0 < n"
  by auto

lemma ubpf_mem_load_store:
  assumes "n \<in> access_sizes" "ubpf_mem_store m a v n = Inr m'"
  shows "ubpf_mem_load m' a n = Inr (take_bit (8 * n) v)"
proof -
  have w: "mem_write m a (le_bytes n v) = Some m'"
    using assms by (auto simp: ubpf_mem_store_eq store_bytes_def split: option.splits)
  have "mem_read m' a n = Some (le_bytes n v)"
    using mem_read_after_write [OF w] access_size_le [OF assms(1)] by simp
  then show ?thesis
    by (simp add: ubpf_mem_load_eq [OF assms(1)] le_word_le_bytes)
qed

lemma ubpf_mem_load_store_disjoint:
  assumes "n \<in> access_sizes" "k \<in> access_sizes" "ubpf_mem_store m a v n = Inr m'"
    and "region a n \<inter> region b k = {}"
  shows "ubpf_mem_load m' b k = ubpf_mem_load m b k"
proof -
  have w: "mem_write m a (le_bytes n v) = Some m'"
    using assms(1,3) by (auto simp: ubpf_mem_store_eq store_bytes_def split: option.splits)
  have "mem_read m' b k = mem_read m b k"
    using assms(1,2,4) by (intro mem_read_disjoint [OF w]) (auto simp: span_next_addr)
  then show ?thesis by (simp add: ubpf_mem_load_eq [OF assms(2)])
qed

lemma ubpf_mem_load_total:
  assumes "n \<in> access_sizes" "\<And>x. x \<in> region a n \<Longrightarrow> m x \<noteq> None"
  shows "\<exists>v. ubpf_mem_load m a n = Inr v"
proof -
  have "span next_addr a n = region a n"
    using access_size_le [OF assms(1)] by (intro span_next_addr) simp
  then have "mem_read m a n \<noteq> None"
    unfolding mem_read_eq_None_iff using assms(2) by auto
  then show ?thesis by (auto simp: ubpf_mem_load_eq [OF assms(1)])
qed

lemma ubpf_mem_store_total:
  assumes "n \<in> access_sizes" "\<And>x. x \<in> region a n \<Longrightarrow> m x \<noteq> None"
  shows "\<exists>m'. ubpf_mem_store m a v n = Inr m'"
proof -
  have "span next_addr a n = region a n"
    using access_size_le [OF assms(1)] by (intro span_next_addr) simp
  then have "mem_write m a (le_bytes n v) \<noteq> None"
    unfolding mem_write_eq_None_iff using assms(2) by auto
  then show ?thesis by (auto simp: ubpf_mem_store_eq [OF assms(1)] store_bytes_def)
qed

lemma ubpf_mem_store_domain:
  "n \<in> access_sizes \<Longrightarrow> ubpf_mem_store m a v n = Inr m' \<Longrightarrow> (m' x = None \<longleftrightarrow> m x = None)"
  by (auto simp: ubpf_mem_store_eq store_bytes_def split: option.splits dest: mem_write_domain)

lemma ubpf_mem_store_outside:
  assumes "n \<in> access_sizes" "ubpf_mem_store m a v n = Inr m'" "x \<notin> region a n"
  shows "m' x = m x"
proof -
  have w: "mem_write m a (le_bytes n v) = Some m'"
    using assms(1,2) by (auto simp: ubpf_mem_store_eq store_bytes_def split: option.splits)
  have "x \<notin> span next_addr a (length (le_bytes n v))"
    using assms(1,3) by (auto simp: span_next_addr)
  then show ?thesis by (rule mem_write_outside [OF w])
qed

lemma ubpf_mem_store_cases:
  assumes "n \<in> access_sizes" "k \<in> access_sizes" "region a n \<inter> region b k = {}"
  shows "(case ubpf_mem_store m a v n of
      Inr m' \<Rightarrow> (\<forall>x \<in> region a n. m x \<noteq> None) \<and> ubpf_mem_load m' b k = ubpf_mem_load m b k
    | Inl c \<Rightarrow> c = Fault \<and> (\<exists>x \<in> region a n. m x = None))"
proof (cases "mem_write m a (le_bytes n v)")
  case None
  moreover have "span next_addr a (length (le_bytes n v)) = region a n"
    using access_size_le [OF assms(1)] by (simp add: span_next_addr)
  ultimately show ?thesis
    using mem_write_eq_None_iff [of m a "le_bytes n v"]
    by (auto simp: ubpf_mem_store_eq [OF assms(1)] store_bytes_def)
next
  case (Some m')
  then have store: "ubpf_mem_store m a v n = Inr m'"
    by (simp add: ubpf_mem_store_eq [OF assms(1)] store_bytes_def)
  have "span next_addr a (length (le_bytes n v)) = region a n"
    using access_size_le [OF assms(1)] by (simp add: span_next_addr)
  then have "\<forall>x \<in> region a n. m x \<noteq> None"
    using Some mem_write_eq_None_iff [of m a "le_bytes n v"] by auto
  with store ubpf_mem_load_store_disjoint [OF assms(1,2) store assms(3)] show ?thesis by simp
qed

section \<open>Facts about the bounds check\<close>

text \<open>A C object of \<open>len\<close> bytes at \<open>a\<close> does not wrap around the address space.\<close>

definition object_fits :: "u64 \<Rightarrow> u64 \<Rightarrow> bool" where
  "object_fits a len \<longleftrightarrow> unat a + unat len < 2 ^ 64"

lemma access_end_nowrap:
  assumes "0 < n" "n \<le> 8" "\<not> a > a + of_nat n"
  shows "unat (a + of_nat n :: u64) = unat a + n"
proof (rule ccontr)
  assume "unat (a + of_nat n) \<noteq> unat a + n"
  then have over: "2 ^ 64 \<le> unat a + n"
    using assms(2) by (intro leI notI) (simp add: unat_word_ariths unat_of_nat)
  then have "unat (a + of_nat n) = unat a + n - 2 ^ 64"
    using assms(2) unat_u64_lt [of a] by (simp add: unat_word_ariths unat_of_nat mod_if)
  then have "unat (a + of_nat n) < unat a" using assms(2) over by simp
  with assms(3) show False by (simp add: word_less_nat_alt)
qed

lemma object_end: "object_fits base len \<Longrightarrow> unat (base + len) = unat base + unat len"
  by (simp add: object_fits_def unat_word_ariths)

lemma region_subset_iff:
  assumes fits: "object_fits base len" and n: "0 < n" and a: "unat a + n < 2 ^ 64"
  shows "region a n \<subseteq> region base (unat len) \<longleftrightarrow>
    unat base \<le> unat a \<and> unat a + n \<le> unat base + unat len"
proof
  assume sub: "region a n \<subseteq> region base (unat len)"
  obtain k where k: "n = Suc k" using n by (cases n) auto
  have "a \<in> region a n" using n by (simp add: region_def)
  then have lo: "unat base \<le> unat a"
    using sub fits by (auto simp: object_fits_def region_iff_nowrap)
  have "a + of_nat k \<in> region a n" using a k by (simp add: region_def unat_of_nat)
  then have "unat (a + of_nat k) < unat base + unat len"
    using sub fits by (auto simp: object_fits_def region_iff_nowrap)
  moreover have "unat (a + of_nat k) = unat a + k"
    using a k by (simp add: unat_word_ariths unat_of_nat)
  ultimately show "unat base \<le> unat a \<and> unat a + n \<le> unat base + unat len"
    using lo k by simp
next
  assume "unat base \<le> unat a \<and> unat a + n \<le> unat base + unat len"
  then show "region a n \<subseteq> region base (unat len)"
    using fits a by (auto simp: object_fits_def region_iff_nowrap)
qed

lemma wrapping_not_within:
  assumes fits: "object_fits base len" and n: "0 < n" "n \<le> 8" and wrap: "a > a + of_nat n"
  shows "\<not> region a n \<subseteq> region base (unat len)"
proof -
  have "\<not> unat a + n < 2 ^ 64"
  proof
    assume "unat a + n < 2 ^ 64"
    then have "unat (a + of_nat n) = unat a + n" by (simp add: unat_word_ariths unat_of_nat)
    with wrap show False by (simp add: word_less_nat_alt)
  qed
  moreover have max: "unat (- 1 :: u64) = 2 ^ 64 - 1"
    by (simp add: unsigned_minus_1_eq_mask mask_eq_exp_minus_1)
  then have "unat (- 1 - a) = 2 ^ 64 - 1 - unat a"
    using unat_u64_lt [of a] by (simp add: unat_sub_if')
  ultimately have "- 1 \<in> region a n" using unat_u64_lt [of a] by (simp add: region_def)
  moreover have "- 1 \<notin> region base (unat len)"
    using fits max by (auto simp: object_fits_def region_iff_nowrap)
  ultimately show ?thesis by blast
qed

text \<open>The two address comparisons of the C code decide inclusion of the accessed bytes.\<close>

lemma within_object_iff:
  assumes "object_fits base len" "0 < n" "n \<le> 8" "\<not> a > a + of_nat n"
  shows "a \<ge> base \<and> a + of_nat n \<le> base + len \<longleftrightarrow> region a n \<subseteq> region base (unat len)"
proof -
  have an: "unat (a + of_nat n) = unat a + n" using assms(2-4) by (rule access_end_nowrap)
  then have "unat a + n < 2 ^ 64" using unat_u64_lt [of "a + of_nat n"] by simp
  then show ?thesis
    using region_subset_iff [OF assms(1,2), of a] object_end [OF assms(1)]
    by (simp add: word_le_nat_alt an)
qed

lemma bounds_check_sound:
  assumes "bounds_check h vm a n ty pc mem mem_len stack stack_len = None"
    and "bounds_check_enabled vm" "object_fits mem mem_len" "object_fits stack stack_len"
    and "0 < n" "n \<le> 8"
  shows "region a n \<subseteq> region mem (unat mem_len) \<or> region a n \<subseteq> region stack (unat stack_len) \<or>
    bounds_check_function vm \<noteq> 0 \<and>
    call_bounds_check h (bounds_check_function vm) (bounds_check_user_data vm) a (of_nat n)"
proof -
  have "\<not> a > a + of_nat n"
    using assms(1,2) by (auto simp: bounds_check_def Let_def split: if_splits)
  note within = within_object_iff [OF _ assms(5,6) this, symmetric]
  show ?thesis
    using assms(1,2) by (auto simp: within [OF assms(3)] within [OF assms(4)] bounds_check_def Let_def
        split: if_splits)
qed

lemma access_wraps_iff:
  assumes "0 < n" "n \<le> 8"
  shows "a > a + of_nat n \<longleftrightarrow> \<not> unat (a :: u64) + n < 2 ^ 64"
proof
  show "\<not> unat a + n < 2 ^ 64" if "a > a + of_nat n"
  proof
    assume "unat a + n < 2 ^ 64"
    then have "unat (a + of_nat n) = unat a + n" by (simp add: unat_word_ariths unat_of_nat)
    with that show False by (simp add: word_less_nat_alt)
  qed
  show "a > a + of_nat n" if "\<not> unat a + n < 2 ^ 64"
    using that access_end_nowrap [OF assms, of a] unat_u64_lt [of "a + of_nat n"] by (metis)
qed

lemma bounds_check_None_iff:
  assumes "object_fits mem mem_len" "object_fits stack stack_len" "n \<in> access_sizes"
  shows "bounds_check h vm a n ty pc mem mem_len stack stack_len = None \<longleftrightarrow>
    \<not> bounds_check_enabled vm \<or> unat a + n < 2 ^ 64 \<and>
      (region a n \<subseteq> region mem (unat mem_len) \<or> region a n \<subseteq> region stack (unat stack_len) \<or>
       bounds_check_function vm \<noteq> 0 \<and>
       call_bounds_check h (bounds_check_function vm) (bounds_check_user_data vm) a (of_nat n))"
proof (cases "a > a + of_nat n")
  case True
  then show ?thesis using access_wraps_iff [of n a] access_size_le [OF assms(3)]
    by (simp add: bounds_check_def Let_def)
next
  case False
  have n: "0 < n" "n \<le> 8" using access_size_le [OF assms(3)] by simp_all
  have "unat a + n < 2 ^ 64" using False access_wraps_iff [OF n, of a] by simp
  then show ?thesis
    using False unfolding within_object_iff [OF assms(1) n False, symmetric]
      within_object_iff [OF assms(2) n False, symmetric]
    by (simp add: bounds_check_def Let_def)
qed

section \<open>Facts about the shadow stack\<close>

text \<open>
  What a tracker of initialised bytes promises, over the set of bytes it has marked. \<open>cap\<close> is how
  many bytes it can track.
\<close>

locale byte_tracker =
  fixes mark :: "'s \<Rightarrow> nat \<Rightarrow> nat \<Rightarrow> 's option"
    and test :: "'s \<Rightarrow> nat \<Rightarrow> nat \<Rightarrow> bool option"
    and marked :: "'s \<Rightarrow> nat set"
    and cap :: "'s \<Rightarrow> nat"
  assumes mark_ok: "i + n \<le> cap s \<Longrightarrow>
      \<exists>s'. mark s i n = Some s' \<and> marked s' = marked s \<union> {i..<i + n} \<and> cap s' = cap s"
    and test_ok: "i + n \<le> cap s \<Longrightarrow> test s i n = Some ({i..<i + n} \<subseteq> marked s)"
begin

lemma test_after_mark:
  assumes "mark s i n = Some s'" "i + n \<le> cap s" "j + k \<le> cap s"
  shows "test s' j k = Some ({j..<j + k} \<subseteq> marked s \<union> {i..<i + n})"
  using mark_ok [OF assms(2)] test_ok [of j k s'] assms by auto

lemma mark_idempotent:
  assumes "mark s i n = Some s'" "i + n \<le> cap s"
  shows "test s' i n = Some True"
  using test_after_mark [OF assms assms(2)] by auto

lemma mark_keeps_cap: "mark s i n = Some s' \<Longrightarrow> i + n \<le> cap s \<Longrightarrow> cap s' = cap s"
  using mark_ok by fastforce

end

definition shadow_set :: "u8 list \<Rightarrow> nat set" where
  "shadow_set ss = {i. i div 8 < length ss \<and> bit (ss ! (i div 8)) (i mod 8)}"

lemma div_mod_8_eqI: "(i :: nat) div 8 = j div 8 \<Longrightarrow> i mod 8 = j mod 8 \<Longrightarrow> i = j"
  by (metis div_mult_mod_eq)

lemma shadow_set_update:
  assumes "t div 8 < length ss"
  shows "shadow_set (ss[t div 8 := ss ! (t div 8) OR 2 ^ (t mod 8)]) = insert t (shadow_set ss)"
  using assms
  by (auto simp: shadow_set_def nth_list_update bit_simps possible_bit_word
      split: if_splits intro: div_mod_8_eqI)

lemma set_shadow_bits_ok:
  "t + n \<le> 8 * length ss \<Longrightarrow>
     \<exists>ss'. set_shadow_bits ss t n = Some ss' \<and> shadow_set ss' = shadow_set ss \<union> {t..<t + n} \<and>
       length ss' = length ss"
proof (induction n arbitrary: ss t)
  case 0
  then show ?case by simp
next
  case (Suc n)
  then have t: "t div 8 < length ss" by (simp add: div_less_iff_less_mult)
  let ?ss = "ss[t div 8 := ss ! (t div 8) OR push_bit (t mod 8) 1]"
  have "Suc t + n \<le> 8 * length ?ss" using Suc.prems by simp
  from Suc.IH [OF this] obtain ss' where "set_shadow_bits ?ss (Suc t) n = Some ss'"
    "shadow_set ss' = shadow_set ?ss \<union> {Suc t..<Suc t + n}" "length ss' = length ?ss"
    by blast
  moreover have "{t..<t + Suc n} = insert t {Suc t..<Suc t + n}" by auto
  ultimately show ?case using t by (simp add: Let_def shadow_set_update)
qed

lemma test_shadow_bits_ok:
  "t + n \<le> 8 * length ss \<Longrightarrow> test_shadow_bits ss t n = Some ({t..<t + n} \<subseteq> shadow_set ss)"
proof (induction n arbitrary: t)
  case 0
  then show ?case by simp
next
  case (Suc n)
  then have t: "t div 8 < length ss" by (simp add: div_less_iff_less_mult)
  have "ss ! (t div 8) AND 2 ^ (t mod 8) = 0 \<longleftrightarrow> t \<notin> shadow_set ss"
    using t by (auto simp: shadow_set_def bit_eq_iff [of _ 0] bit_simps possible_bit_word
        dest: spec [of _ "t mod 8"])
  moreover have "{t..<t + Suc n} = insert t {Suc t..<Suc t + n}" by auto
  ultimately show ?case using t Suc.IH [of "Suc t"] Suc.prems by (simp add: Let_def)
qed

interpretation shadow: byte_tracker set_shadow_bits test_shadow_bits shadow_set "\<lambda>ss. 8 * length ss"
proof unfold_locales
  fix i n :: nat and s :: "u8 list"
  assume fits: "i + n \<le> 8 * length s"
  show "\<exists>s'. set_shadow_bits s i n = Some s' \<and> shadow_set s' = shadow_set s \<union> {i..<i + n} \<and>
      8 * length s' = 8 * length s"
    using set_shadow_bits_ok [OF fits] by auto
  show "test_shadow_bits s i n = Some ({i..<i + n} \<subseteq> shadow_set s)"
    by (rule test_shadow_bits_ok [OF fits])
qed

subsection \<open>The shadow stack over addresses\<close>

text \<open>The stack bytes that count as initialised.\<close>

definition initialised_bytes :: "u64 \<Rightarrow> u8 list \<Rightarrow> u64 set" where
  "initialised_bytes stack ss = {x. unat (x - stack) \<in> shadow_set ss}"

lemma region_as_offsets:
  assumes fits: "object_fits stack len" and n: "0 < n" "n \<le> 8"
    and within: "region a n \<subseteq> region stack (unat len)"
  shows "region a n = {x. unat (x - stack) \<in> {unat (a - stack)..<unat (a - stack) + n}}"
    and "unat (a - stack) + n \<le> unat len"
proof -
  have "\<not> a > a + of_nat n" using wrapping_not_within [OF fits n] within by blast
  then have an: "unat (a + of_nat n) = unat a + n" by (rule access_end_nowrap [OF n])
  then have a: "unat a + n < 2 ^ 64" using unat_u64_lt [of "a + of_nat n"] by simp
  have lo: "unat stack \<le> unat a" and hi: "unat a + n \<le> unat stack + unat len"
    using within region_subset_iff [OF fits n(1) a] by auto
  have off: "unat (a - stack) = unat a - unat stack"
    using lo by (simp add: unat_sub_if')
  show "unat (a - stack) + n \<le> unat len" using off lo hi by simp
  have "x \<in> region a n \<longleftrightarrow> unat (x - stack) \<in> {unat (a - stack)..<unat (a - stack) + n}" for x
  proof (cases "unat stack \<le> unat x")
    case True
    then have "unat (x - stack) = unat x - unat stack" by (simp add: unat_sub_if')
    then show ?thesis using a True lo off by (auto simp: region_iff_nowrap)
  next
    case False
    then have "unat (x - stack) = 2 ^ 64 + unat x - unat stack"
      by (simp add: unat_sub_if')
    moreover have "unat stack + unat len < 2 ^ 64" using fits by (simp add: object_fits_def)
    ultimately show ?thesis using a False lo hi off by (auto simp: region_iff_nowrap)
  qed
  then show "region a n = {x. unat (x - stack) \<in> {unat (a - stack)..<unat (a - stack) + n}}"
    by blast
qed

lemma offsets_subset_iff:
  assumes "object_fits stack len" "0 < n" "n \<le> 8" "region a n \<subseteq> region stack (unat len)"
  shows "{unat (a - stack)..<unat (a - stack) + n} \<subseteq> shadow_set ss \<longleftrightarrow>
    region a n \<subseteq> initialised_bytes stack ss"
proof -
  note off = region_as_offsets [OF assms]
  have "\<exists>x. unat (x - stack) = i" if "i < unat (a - stack) + n" for i
  proof
    have "i < 2 ^ 64" using that off(2) unat_u64_lt [of len] by linarith
    then show "unat ((stack + of_nat i) - stack) = i" by (simp add: unat_of_nat)
  qed
  then show ?thesis unfolding off(1) initialised_bytes_def by fastforce
qed

lemma check_shadow_stack_eq:
  assumes "undefined_behavior_check_enabled vm" "object_fits stack len" "8 * length ss = unat len"
    and "0 < n" "n \<le> 8"
  shows "ubpf_check_shadow_stack vm stack len ss a n =
    Some (region a n \<subseteq> region stack (unat len) \<longrightarrow> region a n \<subseteq> initialised_bytes stack ss)"
proof (cases "region a n \<subseteq> region stack (unat len)")
  case True
  then have nowrap: "\<not> a > a + of_nat n" using wrapping_not_within assms by blast
  then have "ubpf_check_shadow_stack vm stack len ss a n = test_shadow_bits ss (unat (a - stack)) n"
    using True within_object_iff [OF assms(2,4,5) nowrap] assms(1)
    by (simp add: ubpf_check_shadow_stack_def Let_def)
  moreover have "unat (a - stack) + n \<le> 8 * length ss"
    using region_as_offsets(2) [OF assms(2,4,5) True] assms(3) by simp
  ultimately show ?thesis
    using shadow.test_ok offsets_subset_iff [OF assms(2,4,5) True] True by simp
next
  case False
  then show ?thesis
    using within_object_iff [OF assms(2,4,5), of a] assms(1)
    by (auto simp: ubpf_check_shadow_stack_def Let_def)
qed

lemma mark_shadow_stack_eq:
  assumes "undefined_behavior_check_enabled vm" "object_fits stack len" "8 * length ss = unat len"
    and "0 < n" "n \<le> 8"
  shows "\<exists>ss'. ubpf_mark_shadow_stack vm stack len ss a n = Some ss' \<and> length ss' = length ss \<and>
    initialised_bytes stack ss' = initialised_bytes stack ss \<union>
      (if region a n \<subseteq> region stack (unat len) then region a n else {})"
proof (cases "region a n \<subseteq> region stack (unat len)")
  case True
  then have nowrap: "\<not> a > a + of_nat n" using wrapping_not_within assms by blast
  then have mark: "ubpf_mark_shadow_stack vm stack len ss a n = set_shadow_bits ss (unat (a - stack)) n"
    using True within_object_iff [OF assms(2,4,5) nowrap] assms(1)
    by (simp add: ubpf_mark_shadow_stack_def Let_def)
  have "unat (a - stack) + n \<le> 8 * length ss"
    using region_as_offsets(2) [OF assms(2,4,5) True] assms(3) by simp
  from shadow.mark_ok [OF this] obtain ss' where
    "set_shadow_bits ss (unat (a - stack)) n = Some ss'" "length ss' = length ss"
    "shadow_set ss' = shadow_set ss \<union> {unat (a - stack)..<unat (a - stack) + n}"
    by auto
  with mark True region_as_offsets(1) [OF assms(2,4,5) True] show ?thesis
    by (auto simp: initialised_bytes_def)
next
  case False
  then show ?thesis
    using within_object_iff [OF assms(2,4,5), of a] assms(1)
    by (auto simp: ubpf_mark_shadow_stack_def Let_def)
qed

lemma mark_then_check:
  assumes "undefined_behavior_check_enabled vm" "object_fits stack len" "8 * length ss = unat len"
    and "n \<in> access_sizes" "k \<in> access_sizes"
  shows "\<exists>ss'. ubpf_mark_shadow_stack vm stack len ss a n = Some ss' \<and> length ss' = length ss \<and>
    ubpf_check_shadow_stack vm stack len ss' b k =
      Some (region b k \<subseteq> region stack (unat len) \<longrightarrow>
        region b k \<subseteq> initialised_bytes stack ss \<union>
          (if region a n \<subseteq> region stack (unat len) then region a n else {}))"
proof -
  have n: "0 < n" "n \<le> 8" and k: "0 < k" "k \<le> 8"
    using access_size_le [OF assms(4)] access_size_le [OF assms(5)] by simp_all
  obtain ss' where ss': "ubpf_mark_shadow_stack vm stack len ss a n = Some ss'" "length ss' = length ss"
    "initialised_bytes stack ss' = initialised_bytes stack ss \<union>
      (if region a n \<subseteq> region stack (unat len) then region a n else {})"
    using mark_shadow_stack_eq [OF assms(1-3) n] by blast
  have "8 * length ss' = unat len" using ss'(2) assms(3) by simp
  from check_shadow_stack_eq [OF assms(1,2) this k] ss' show ?thesis by auto
qed

end
