(* ===== verification/Ubpf_Exec.thy ===== *)
theory Ubpf_Exec
  imports Ubpf_Memory
begin

text \<open>
  The interpreter: \<open>ubpf_exec_ex\<close> and \<open>ubpf_exec\<close> of \<open>ubpf_vm.c\<close>. The body of its loop is
  \<open>exec_step\<close>, the switch over the opcode is split into the parts the source groups by comments and
  blank lines; a part returns \<^const>\<open>None\<close> for an opcode that is not among its cases.
\<close>

section \<open>Casts and masks\<close>

definition UINT32_MAX :: u64 where "UINT32_MAX = 0xFFFFFFFF"

definition u32 :: "u64 \<Rightarrow> u32" where "u32 x = ucast x"

text \<open>The bit pattern of the \<open>int32_t\<close> result; read with \<^const>\<open>sint\<close>.\<close>

definition i32 :: "u64 \<Rightarrow> u32" where "i32 x = ucast x"

definition i64 :: "u32 \<Rightarrow> u64" where "i64 immediate = scast immediate"

definition SHIFT_MASK_32_BIT :: "u64 \<Rightarrow> nat" where "SHIFT_MASK_32_BIT x = unat (x AND 0x1f)"

definition SHIFT_MASK_64_BIT :: "u64 \<Rightarrow> nat" where "SHIFT_MASK_64_BIT x = unat (x AND 0x3f)"

lemmas cast_defs = u32_def i32_def i64_def SHIFT_MASK_32_BIT_def SHIFT_MASK_64_BIT_def

text \<open>\<open>htole*\<close> and \<open>htobe*\<close> of \<open>endian.h\<close> on a little-endian host.\<close>

definition htole :: "nat \<Rightarrow> u64 \<Rightarrow> u64" where
  "htole n x = le_word (le_bytes n x)"

definition htobe :: "nat \<Rightarrow> u64 \<Rightarrow> u64" where
  "htobe n x = le_word (rev (le_bytes n x))"

section \<open>State\<close>

record ubpf_stack_frame =
  frame_stack_usage :: u16
  return_address :: u16
  saved_registers :: "u64 list"

text \<open>
  The local variables of \<open>ubpf_exec_ex\<close> and the memory of the process. Register numbers are 4-bit
  fields and the array has 16 elements, so it is a function on \<^typ>\<open>4 word\<close>. \<open>ex_limit\<close> is the bit
  pattern of the \<open>int\<close> counter \<open>instruction_limit\<close>.
\<close>

record exec_state =
  ex_pc :: u16
  ex_reg :: "4 word \<Rightarrow> u64"
  ex_frame_index :: nat
  ex_frames :: "ubpf_stack_frame list"
  ex_shadow_registers :: u16
  ex_shadow_stack :: "u8 list"
  ex_memory :: memory
  ex_limit :: u32
  ex_previous :: ebpf_inst

text \<open>The arguments: the memory passed to the program and the stack it runs on.\<close>

record exec_args =
  arg_mem :: u64
  arg_mem_len :: u64
  arg_stack_start :: u64
  arg_stack_length :: u64

text \<open>How a run ends: result \<open>0\<close> with the value of \<open>r0\<close>, result \<open>-1\<close>, or death of the process.\<close>

datatype exec_stop =
    Returned u64 memory
  | Failed exec_error memory
  | Crashed crash

definition set_reg :: "exec_state \<Rightarrow> 4 word \<Rightarrow> u64 \<Rightarrow> exec_state" where
  "set_reg s r v = s\<lparr> ex_reg := (ex_reg s)(r := v) \<rparr>"

section \<open>The parts of the switch\<close>

text \<open>
  32-bit arithmetic: \<open>d\<close> and \<open>s\<close> are \<open>reg[inst.dst]\<close> and \<open>reg[inst.src]\<close>, the result is the new
  \<open>reg[inst.dst]\<close>.
\<close>

definition exec_alu32 :: "u8 \<Rightarrow> u64 \<Rightarrow> u64 \<Rightarrow> u32 \<Rightarrow> u64 option" where
  "exec_alu32 opc d s im =
     (if opc = EBPF_OP_ADD_IMM then Some ((d + scast im) AND UINT32_MAX)
      else if opc = EBPF_OP_ADD_REG then Some ((d + s) AND UINT32_MAX)
      else if opc = EBPF_OP_SUB_IMM then Some ((d - scast im) AND UINT32_MAX)
      else if opc = EBPF_OP_SUB_REG then Some ((d - s) AND UINT32_MAX)
      else if opc = EBPF_OP_MUL_IMM then Some ((d * scast im) AND UINT32_MAX)
      else if opc = EBPF_OP_MUL_REG then Some ((d * s) AND UINT32_MAX)
      else if opc = EBPF_OP_DIV_IMM then Some ((if u32 (scast im) \<noteq> 0 then ucast (u32 d div u32 (scast im)) else 0) AND UINT32_MAX)
      else if opc = EBPF_OP_DIV_REG then Some ((if u32 s \<noteq> 0 then ucast (u32 d div u32 s) else 0) AND UINT32_MAX)
      else if opc = EBPF_OP_OR_IMM then Some ((d OR scast im) AND UINT32_MAX)
      else if opc = EBPF_OP_OR_REG then Some ((d OR s) AND UINT32_MAX)
      else if opc = EBPF_OP_AND_IMM then Some ((d AND scast im) AND UINT32_MAX)
      else if opc = EBPF_OP_AND_REG then Some ((d AND s) AND UINT32_MAX)
      else if opc = EBPF_OP_LSH_IMM then Some (ucast (push_bit (SHIFT_MASK_32_BIT (scast im)) (u32 d)) AND UINT32_MAX)
      else if opc = EBPF_OP_LSH_REG then Some (ucast (push_bit (SHIFT_MASK_32_BIT s) (u32 d)) AND UINT32_MAX)
      else if opc = EBPF_OP_RSH_IMM then Some (ucast (drop_bit (SHIFT_MASK_32_BIT (scast im)) (u32 d)) AND UINT32_MAX)
      else if opc = EBPF_OP_RSH_REG then Some (ucast (drop_bit (SHIFT_MASK_32_BIT s) (u32 d)) AND UINT32_MAX)
      else if opc = EBPF_OP_NEG then Some ((- d) AND UINT32_MAX)
      else if opc = EBPF_OP_MOD_IMM then Some (ucast (if u32 (scast im) \<noteq> 0 then u32 d mod u32 (scast im) else u32 d) AND UINT32_MAX)
      else if opc = EBPF_OP_MOD_REG then Some (ucast (if u32 s \<noteq> 0 then u32 d mod u32 s else u32 d))
      else if opc = EBPF_OP_XOR_IMM then Some ((d XOR scast im) AND UINT32_MAX)
      else if opc = EBPF_OP_XOR_REG then Some ((d XOR s) AND UINT32_MAX)
      else if opc = EBPF_OP_MOV_IMM then Some (scast im AND UINT32_MAX)
      else if opc = EBPF_OP_MOV_REG then Some (s AND UINT32_MAX)
      else if opc = EBPF_OP_ARSH_IMM then Some (scast (signed_drop_bit (SHIFT_MASK_32_BIT (scast im)) (i32 d)) AND UINT32_MAX)
      else if opc = EBPF_OP_ARSH_REG then Some (scast (signed_drop_bit (SHIFT_MASK_32_BIT s) (i32 d)) AND UINT32_MAX)
      else None)"

definition exec_endian :: "u8 \<Rightarrow> u64 \<Rightarrow> u32 \<Rightarrow> u64 option" where
  "exec_endian opc d im =
     (if opc = EBPF_OP_LE then
        Some (if im = 16 then htole 2 d else if im = 32 then htole 4 d
              else if im = 64 then htole 8 d else d)
      else if opc = EBPF_OP_BE then
        Some (if im = 16 then htobe 2 d else if im = 32 then htobe 4 d
              else if im = 64 then htobe 8 d else d)
      else None)"

definition exec_alu64 :: "u8 \<Rightarrow> u64 \<Rightarrow> u64 \<Rightarrow> u32 \<Rightarrow> u64 option" where
  "exec_alu64 opc d s im =
     (if opc = EBPF_OP_ADD64_IMM then Some (d + scast im)
      else if opc = EBPF_OP_ADD64_REG then Some (d + s)
      else if opc = EBPF_OP_SUB64_IMM then Some (d - scast im)
      else if opc = EBPF_OP_SUB64_REG then Some (d - s)
      else if opc = EBPF_OP_MUL64_IMM then Some (d * scast im)
      else if opc = EBPF_OP_MUL64_REG then Some (d * s)
      else if opc = EBPF_OP_DIV64_IMM then Some (if im \<noteq> 0 then d div scast im else 0)
      else if opc = EBPF_OP_DIV64_REG then Some (if s \<noteq> 0 then d div s else 0)
      else if opc = EBPF_OP_OR64_IMM then Some (d OR scast im)
      else if opc = EBPF_OP_OR64_REG then Some (d OR s)
      else if opc = EBPF_OP_AND64_IMM then Some (d AND scast im)
      else if opc = EBPF_OP_AND64_REG then Some (d AND s)
      else if opc = EBPF_OP_LSH64_IMM then Some (push_bit (SHIFT_MASK_64_BIT (scast im)) d)
      else if opc = EBPF_OP_LSH64_REG then Some (push_bit (SHIFT_MASK_64_BIT s) d)
      else if opc = EBPF_OP_RSH64_IMM then Some (drop_bit (SHIFT_MASK_64_BIT (scast im)) d)
      else if opc = EBPF_OP_RSH64_REG then Some (drop_bit (SHIFT_MASK_64_BIT s) d)
      else if opc = EBPF_OP_NEG64 then Some (- d)
      else if opc = EBPF_OP_MOD64_IMM then Some (if im \<noteq> 0 then d mod scast im else d)
      else if opc = EBPF_OP_MOD64_REG then Some (if s \<noteq> 0 then d mod s else d)
      else if opc = EBPF_OP_XOR64_IMM then Some (d XOR scast im)
      else if opc = EBPF_OP_XOR64_REG then Some (d XOR s)
      else if opc = EBPF_OP_MOV64_IMM then Some (scast im)
      else if opc = EBPF_OP_MOV64_REG then Some (s)
      else if opc = EBPF_OP_ARSH64_IMM then Some (signed_drop_bit (SHIFT_MASK_64_BIT (scast im)) d)
      else if opc = EBPF_OP_ARSH64_REG then Some (signed_drop_bit (SHIFT_MASK_64_BIT s) d)
      else None)"

text \<open>The three arithmetic parts together: they only write the destination register.\<close>

definition exec_arith :: "ebpf_inst \<Rightarrow> exec_state \<Rightarrow> exec_state option" where
  "exec_arith inst st =
     (let d = ex_reg st (dst inst); s = ex_reg st (src inst); opc = opcode inst
      in case exec_alu32 opc d s (imm inst) of
           Some v \<Rightarrow> Some (set_reg st (dst inst) v)
         | None \<Rightarrow> (case exec_endian opc d (imm inst) of
             Some v \<Rightarrow> Some (set_reg st (dst inst) v)
           | None \<Rightarrow> (case exec_alu64 opc d s (imm inst) of
               Some v \<Rightarrow> Some (set_reg st (dst inst) v)
             | None \<Rightarrow> None)))"

text \<open>The width of each kind of memory access.\<close>

definition load_width :: "u8 \<Rightarrow> nat option" where
  "load_width opc =
     (if opc = EBPF_OP_LDXW then Some 4 else if opc = EBPF_OP_LDXH then Some 2
      else if opc = EBPF_OP_LDXB then Some 1 else if opc = EBPF_OP_LDXDW then Some 8 else None)"

definition store_imm_width :: "u8 \<Rightarrow> nat option" where
  "store_imm_width opc =
     (if opc = EBPF_OP_STW then Some 4 else if opc = EBPF_OP_STH then Some 2
      else if opc = EBPF_OP_STB then Some 1 else if opc = EBPF_OP_STDW then Some 8 else None)"

definition store_reg_width :: "u8 \<Rightarrow> nat option" where
  "store_reg_width opc =
     (if opc = EBPF_OP_STXW then Some 4 else if opc = EBPF_OP_STXH then Some 2
      else if opc = EBPF_OP_STXB then Some 1 else if opc = EBPF_OP_STXDW then Some 8 else None)"

text \<open>The macro \<open>BOUNDS_CHECK_LOAD\<close>: uninitialised stack bytes first, then the bounds.\<close>

definition BOUNDS_CHECK_LOAD ::
  "host \<Rightarrow> ubpf_vm \<Rightarrow> exec_args \<Rightarrow> u16 \<Rightarrow> exec_state \<Rightarrow> u64 \<Rightarrow> nat \<Rightarrow> exec_stop option"
where
  "BOUNDS_CHECK_LOAD h vm args cur_pc st addr n =
     (case ubpf_check_shadow_stack vm (arg_stack_start args) (arg_stack_length args)
             (ex_shadow_stack st) addr n of
        None \<Rightarrow> Some (Crashed Fault)
      | Some False \<Rightarrow> Some (Failed (UninitializedStackRead cur_pc) (ex_memory st))
      | Some True \<Rightarrow>
          (case bounds_check h vm addr n Load_access cur_pc (arg_mem args) (arg_mem_len args)
                  (arg_stack_start args) (arg_stack_length args) of
             Some e \<Rightarrow> Some (Failed e (ex_memory st))
           | None \<Rightarrow> None))"

text \<open>The macro \<open>BOUNDS_CHECK_STORE\<close>: the bounds, then mark the stack bytes.\<close>

definition BOUNDS_CHECK_STORE ::
  "host \<Rightarrow> ubpf_vm \<Rightarrow> exec_args \<Rightarrow> u16 \<Rightarrow> exec_state \<Rightarrow> u64 \<Rightarrow> nat \<Rightarrow> exec_stop + exec_state"
where
  "BOUNDS_CHECK_STORE h vm args cur_pc st addr n =
     (case bounds_check h vm addr n Store_access cur_pc (arg_mem args) (arg_mem_len args)
             (arg_stack_start args) (arg_stack_length args) of
        Some e \<Rightarrow> Inl (Failed e (ex_memory st))
      | None \<Rightarrow>
          (case ubpf_mark_shadow_stack vm (arg_stack_start args) (arg_stack_length args)
                  (ex_shadow_stack st) addr n of
             None \<Rightarrow> Inl (Crashed Fault)
           | Some ss \<Rightarrow> Inr (st\<lparr> ex_shadow_stack := ss \<rparr>)))"

definition exec_load ::
  "host \<Rightarrow> ubpf_vm \<Rightarrow> exec_args \<Rightarrow> u16 \<Rightarrow> ebpf_inst \<Rightarrow> nat \<Rightarrow> exec_state \<Rightarrow> exec_stop + exec_state"
where
  "exec_load h vm args cur_pc inst n st =
     (let addr = ex_reg st (src inst) + scast (offset inst)
      in case BOUNDS_CHECK_LOAD h vm args cur_pc st addr n of
           Some stop \<Rightarrow> Inl stop
         | None \<Rightarrow> (case ubpf_mem_load (ex_memory st) addr n of
             Inl c \<Rightarrow> Inl (Crashed c)
           | Inr v \<Rightarrow> Inr (set_reg st (dst inst) v)))"

definition exec_store ::
  "host \<Rightarrow> ubpf_vm \<Rightarrow> exec_args \<Rightarrow> u16 \<Rightarrow> ebpf_inst \<Rightarrow> nat \<Rightarrow> u64 \<Rightarrow> exec_state
     \<Rightarrow> exec_stop + exec_state"
where
  "exec_store h vm args cur_pc inst n v st =
     (let addr = ex_reg st (dst inst) + scast (offset inst)
      in case BOUNDS_CHECK_STORE h vm args cur_pc st addr n of
           Inl stop \<Rightarrow> Inl stop
         | Inr st1 \<Rightarrow> (case ubpf_mem_store (ex_memory st1) addr v n of
             Inl c \<Rightarrow> Inl (Crashed c)
           | Inr m \<Rightarrow> Inr (st1\<lparr> ex_memory := m \<rparr>)))"

definition exec_lddw :: "ubpf_vm \<Rightarrow> ebpf_inst \<Rightarrow> exec_state \<Rightarrow> exec_stop + exec_state" where
  "exec_lddw vm inst st =
     (case ubpf_fetch_instruction vm (ex_pc st) of
        None \<Rightarrow> Inl (Crashed Fault)
      | Some inst2 \<Rightarrow>
          Inr ((set_reg st (dst inst)
                 (ucast (u32 (scast (imm inst))) OR push_bit 32 (scast (imm inst2))))
               \<lparr> ex_pc := ex_pc st + 1 \<rparr>))"

text \<open>Jumps: whether \<open>pc += inst.offset\<close> is executed. Equality, unsigned order and bit tests first.\<close>

definition jump_taken_unsigned :: "u8 \<Rightarrow> u64 \<Rightarrow> u64 \<Rightarrow> u32 \<Rightarrow> bool option" where
  "jump_taken_unsigned opc d s im =
     (if opc = EBPF_OP_JA then Some (True)
      else if opc = EBPF_OP_JEQ_IMM then Some (d = i64 im)
      else if opc = EBPF_OP_JEQ_REG then Some (d = s)
      else if opc = EBPF_OP_JEQ32_IMM then Some (u32 d = u32 (scast im))
      else if opc = EBPF_OP_JEQ32_REG then Some (u32 d = u32 s)
      else if opc = EBPF_OP_JGT_IMM then Some (d > i64 im)
      else if opc = EBPF_OP_JGT_REG then Some (d > s)
      else if opc = EBPF_OP_JGT32_IMM then Some (u32 d > u32 (scast im))
      else if opc = EBPF_OP_JGT32_REG then Some (u32 d > u32 s)
      else if opc = EBPF_OP_JGE_IMM then Some (d \<ge> i64 im)
      else if opc = EBPF_OP_JGE_REG then Some (d \<ge> s)
      else if opc = EBPF_OP_JGE32_IMM then Some (u32 d \<ge> u32 (scast im))
      else if opc = EBPF_OP_JGE32_REG then Some (u32 d \<ge> u32 s)
      else if opc = EBPF_OP_JLT_IMM then Some (d < i64 im)
      else if opc = EBPF_OP_JLT_REG then Some (d < s)
      else if opc = EBPF_OP_JLT32_IMM then Some (u32 d < u32 (scast im))
      else if opc = EBPF_OP_JLT32_REG then Some (u32 d < u32 s)
      else if opc = EBPF_OP_JLE_IMM then Some (d \<le> i64 im)
      else if opc = EBPF_OP_JLE_REG then Some (d \<le> s)
      else if opc = EBPF_OP_JLE32_IMM then Some (u32 d \<le> u32 (scast im))
      else if opc = EBPF_OP_JLE32_REG then Some (u32 d \<le> u32 s)
      else if opc = EBPF_OP_JSET_IMM then Some (d AND i64 im \<noteq> 0)
      else if opc = EBPF_OP_JSET_REG then Some (d AND s \<noteq> 0)
      else if opc = EBPF_OP_JSET32_IMM then Some (u32 d AND u32 (scast im) \<noteq> 0)
      else if opc = EBPF_OP_JSET32_REG then Some (u32 d AND u32 s \<noteq> 0)
      else None)"

text \<open>Then inequality and signed order.\<close>

definition jump_taken_signed :: "u8 \<Rightarrow> u64 \<Rightarrow> u64 \<Rightarrow> u32 \<Rightarrow> bool option" where
  "jump_taken_signed opc d s im =
     (if opc = EBPF_OP_JNE_IMM then Some (d \<noteq> i64 im)
      else if opc = EBPF_OP_JNE_REG then Some (d \<noteq> s)
      else if opc = EBPF_OP_JNE32_IMM then Some (u32 d \<noteq> u32 (scast im))
      else if opc = EBPF_OP_JNE32_REG then Some (u32 d \<noteq> u32 s)
      else if opc = EBPF_OP_JSGT_IMM then Some (sint d > sint (i64 im))
      else if opc = EBPF_OP_JSGT_REG then Some (sint d > sint s)
      else if opc = EBPF_OP_JSGT32_IMM then Some (sint (i32 d) > sint (i32 (scast im)))
      else if opc = EBPF_OP_JSGT32_REG then Some (sint (i32 d) > sint (i32 s))
      else if opc = EBPF_OP_JSGE_IMM then Some (sint d \<ge> sint (i64 im))
      else if opc = EBPF_OP_JSGE_REG then Some (sint d \<ge> sint s)
      else if opc = EBPF_OP_JSGE32_IMM then Some (sint (i32 d) \<ge> sint (i32 (scast im)))
      else if opc = EBPF_OP_JSGE32_REG then Some (sint (i32 d) \<ge> sint (i32 s))
      else if opc = EBPF_OP_JSLT_IMM then Some (sint d < sint (i64 im))
      else if opc = EBPF_OP_JSLT_REG then Some (sint d < sint s)
      else if opc = EBPF_OP_JSLT32_IMM then Some (sint (i32 d) < sint (i32 (scast im)))
      else if opc = EBPF_OP_JSLT32_REG then Some (sint (i32 d) < sint (i32 s))
      else if opc = EBPF_OP_JSLE_IMM then Some (sint d \<le> sint (i64 im))
      else if opc = EBPF_OP_JSLE_REG then Some (sint d \<le> sint s)
      else if opc = EBPF_OP_JSLE32_IMM then Some (sint (i32 d) \<le> sint (i32 (scast im)))
      else if opc = EBPF_OP_JSLE32_REG then Some (sint (i32 d) \<le> sint (i32 s))
      else None)"

definition jump_taken :: "u8 \<Rightarrow> u64 \<Rightarrow> u64 \<Rightarrow> u32 \<Rightarrow> bool option" where
  "jump_taken opc d s im =
     (case jump_taken_unsigned opc d s im of
        Some taken \<Rightarrow> Some taken | None \<Rightarrow> jump_taken_signed opc d s im)"

definition exec_exit :: "exec_state \<Rightarrow> exec_stop + exec_state" where
  "exec_exit st =
     (if ex_frame_index st > 0 then
        let idx = ex_frame_index st - 1;
            frame = ex_frames st ! idx;
            saved = saved_registers frame;
            regs = ex_reg st
        in Inr (st\<lparr> ex_frame_index := idx,
                    ex_pc := return_address frame,
                    ex_reg := regs(BPF_REG_6 := saved ! 0, BPF_REG_7 := saved ! 1,
                      BPF_REG_8 := saved ! 2, BPF_REG_9 := saved ! 3,
                      BPF_REG_10 := regs BPF_REG_10 + ucast (frame_stack_usage frame)) \<rparr>)
      else Inl (Returned (ex_reg st 0) (ex_memory st)))"

definition ubpf_default_external_dispatcher ::
  "host \<Rightarrow> u64 list \<Rightarrow> u32 \<Rightarrow> (4 word \<Rightarrow> u64) \<Rightarrow> memory \<Rightarrow> (u64 \<times> memory) option"
where
  "ubpf_default_external_dispatcher h external_fns index regs m =
     (if unat index < length external_fns \<and> external_fns ! unat index \<noteq> 0
      then Some (call_ext h (external_fns ! unat index)
                   (regs 1) (regs 2) (regs 3) (regs 4) (regs 5) m)
      else None)"

definition exec_external_call ::
  "host \<Rightarrow> ubpf_vm \<Rightarrow> exec_args \<Rightarrow> ebpf_inst \<Rightarrow> exec_state \<Rightarrow> exec_stop + exec_state"
where
  "exec_external_call h vm args inst st =
     (let regs = ex_reg st;
          result = (if dispatcher vm \<noteq> 0
            then Some (call_dispatcher h (dispatcher vm) (regs 1) (regs 2) (regs 3) (regs 4) (regs 5)
                         (imm inst) (arg_mem args) (ex_memory st))
            else ubpf_default_external_dispatcher h (ext_funcs vm) (imm inst) regs (ex_memory st))
      in case result of
           None \<Rightarrow> Inl (Crashed Fault)
         | Some (r0, m) \<Rightarrow>
             if imm inst = unwind_stack_extension_index vm \<and> r0 = 0
             then Inl (Returned r0 m)
             else Inr ((set_reg st 0 r0)\<lparr> ex_memory := m \<rparr>))"

definition exec_local_call :: "u16 \<Rightarrow> ebpf_inst \<Rightarrow> exec_state \<Rightarrow> exec_stop + exec_state" where
  "exec_local_call cur_pc inst st =
     (if ex_frame_index st \<ge> UBPF_MAX_CALL_DEPTH
      then Inl (Failed (CallDepthExceeded cur_pc) (ex_memory st))
      else
        let idx = ex_frame_index st;
            regs = ex_reg st;
            frame = (ex_frames st ! idx)
              \<lparr> saved_registers :=
                  [regs BPF_REG_6, regs BPF_REG_7, regs BPF_REG_8, regs BPF_REG_9]
                  @ drop 4 (saved_registers (ex_frames st ! idx)),
                return_address := ex_pc st \<rparr>
        in Inr (st\<lparr> ex_frames := (ex_frames st)[idx := frame],
                    ex_reg := regs(BPF_REG_10 := regs BPF_REG_10 - ucast (frame_stack_usage frame)),
                    ex_frame_index := idx + 1,
                    ex_pc := ex_pc st + ucast (imm inst) \<rparr>))"

definition exec_call ::
  "host \<Rightarrow> ubpf_vm \<Rightarrow> exec_args \<Rightarrow> u16 \<Rightarrow> ebpf_inst \<Rightarrow> exec_state \<Rightarrow> exec_stop + exec_state"
where
  "exec_call h vm args cur_pc inst st =
     (if src inst = 0 then exec_external_call h vm args inst st
      else if src inst = 1 then exec_local_call cur_pc inst st
      else if src inst = 2 then Inl (Failed BtfCall (ex_memory st))
      else Inr st)"

section \<open>One iteration of the loop\<close>

text \<open>The whole switch.\<close>

definition exec_switch ::
  "host \<Rightarrow> ubpf_vm \<Rightarrow> exec_args \<Rightarrow> u16 \<Rightarrow> ebpf_inst \<Rightarrow> exec_state \<Rightarrow> exec_stop + exec_state"
where
  "exec_switch h vm args cur_pc inst st =
     (let opc = opcode inst; d = ex_reg st (dst inst); s = ex_reg st (src inst)
      in case exec_arith inst st of
           Some st' \<Rightarrow> Inr st'
         | None \<Rightarrow> (case load_width opc of
             Some n \<Rightarrow> exec_load h vm args cur_pc inst n st
           | None \<Rightarrow> (case store_imm_width opc of
               Some n \<Rightarrow> exec_store h vm args cur_pc inst n (scast (imm inst)) st
             | None \<Rightarrow> (case store_reg_width opc of
                 Some n \<Rightarrow> exec_store h vm args cur_pc inst n s st
               | None \<Rightarrow> (if opc = EBPF_OP_LDDW then exec_lddw vm inst st
                 else case jump_taken opc d s (imm inst) of
                   Some taken \<Rightarrow>
                     Inr (if taken then st\<lparr> ex_pc := ex_pc st + offset inst \<rparr> else st)
                 | None \<Rightarrow>
                     if opc = EBPF_OP_EXIT then exec_exit st
                     else if opc = EBPF_OP_CALL then exec_call h vm args cur_pc inst st
                     else Inl (Failed (UnknownOpcodeAt opc cur_pc) (ex_memory st)))))))"

text \<open>
  The head of the loop: the program counter and instruction limit tests, the note of the stack usage
  of a function that is entered, the fetch, and the shadow register check.
\<close>

definition enter_function :: "ubpf_vm \<Rightarrow> exec_state \<Rightarrow> exec_stop + exec_state" where
  "enter_function vm st =
     (case int_funcs vm of
        None \<Rightarrow> Inl (Crashed Fault)
      | Some funcs \<Rightarrow>
          if ex_pc st \<noteq> 0 \<and> length funcs \<le> unat (ex_pc st) then Inl (Crashed Fault)
          else if (ex_pc st = 0 \<or> funcs ! unat (ex_pc st)) \<and> ex_frame_index st < UBPF_MAX_CALL_DEPTH
          then if opcode (ex_previous st) \<noteq> 0 \<and>
                  \<not> (opcode (ex_previous st) = EBPF_OP_CALL \<and> src (ex_previous st) = 1) \<and>
                  undefined_behavior_check_enabled vm
               then Inl (Failed (NotFromCallInstruction (ex_pc st)) (ex_memory st))
               else Inr (st\<lparr> ex_frames := (ex_frames st)[ex_frame_index st :=
                      (ex_frames st ! ex_frame_index st)
                      \<lparr> frame_stack_usage := ubpf_stack_usage_for_local_func vm (ex_pc st) \<rparr>] \<rparr>)
          else Inr st)"

definition exec_head :: "ubpf_vm \<Rightarrow> exec_state \<Rightarrow> exec_stop + ebpf_inst \<times> exec_state" where
  "exec_head vm st =
     (if ex_pc st \<ge> num_insts vm then Inl (Failed (PcOutOfRange (ex_pc st)) (ex_memory st))
      else if instruction_limit vm \<noteq> 0 \<and> sint (ex_limit st) \<le> 0
      then Inl (Failed InstructionLimitReached (ex_memory st))
      else
        let st1 = (if instruction_limit vm \<noteq> 0 then st\<lparr> ex_limit := ex_limit st - 1 \<rparr> else st)
        in case enter_function vm st1 of
             Inl stop \<Rightarrow> Inl stop
           | Inr st2 \<Rightarrow> (case ubpf_fetch_instruction vm (ex_pc st2) of
               None \<Rightarrow> Inl (Crashed Fault)
             | Some inst \<Rightarrow>
                 (case ubpf_validate_shadow_register vm (ex_shadow_registers st2) inst of
                    Inl e \<Rightarrow> Inl (Failed e (ex_memory st2))
                  | Inr sr \<Rightarrow> Inr (inst, st2\<lparr> ex_pc := ex_pc st2 + 1, ex_shadow_registers := sr \<rparr>))))"

text \<open>The tail: 32-bit arithmetic clears the upper half, and the instruction is remembered.\<close>

definition exec_tail :: "ebpf_inst \<Rightarrow> exec_state \<Rightarrow> exec_state" where
  "exec_tail inst st =
     (let st1 = (if opcode inst AND EBPF_CLS_MASK = EBPF_CLS_ALU \<and>
                    opcode inst AND EBPF_ALU_OP_MASK \<noteq> 0xd0
                 then set_reg st (dst inst) (ex_reg st (dst inst) AND UINT32_MAX) else st)
      in st1\<lparr> ex_previous := inst \<rparr>)"

definition exec_step :: "host \<Rightarrow> ubpf_vm \<Rightarrow> exec_args \<Rightarrow> exec_state \<Rightarrow> exec_stop + exec_state" where
  "exec_step h vm args st =
     (case exec_head vm st of
        Inl stop \<Rightarrow> Inl stop
      | Inr (inst, st1) \<Rightarrow> (case exec_switch h vm args (ex_pc st) inst st1 of
          Inl stop \<Rightarrow> Inl stop
        | Inr st2 \<Rightarrow> Inr (exec_tail inst st2)))"

section \<open>The loop and the entry points\<close>

text \<open>\<^const>\<open>None\<close> is a run that never ends.\<close>

partial_function (option) exec_loop ::
  "host \<Rightarrow> ubpf_vm \<Rightarrow> exec_args \<Rightarrow> exec_state \<Rightarrow> exec_stop option"
where
  "exec_loop h vm args st =
     (case exec_step h vm args st of Inl stop \<Rightarrow> Some stop | Inr st' \<Rightarrow> exec_loop h vm args st')"

declare exec_loop.simps [code]

definition empty_frame :: ubpf_stack_frame where
  "empty_frame = \<lparr> frame_stack_usage = 0, return_address = 0, saved_registers = replicate 5 0 \<rparr>"

text \<open>\<open>regs0\<close> is what the uninitialised array \<open>_reg\<close> holds.\<close>

definition initial_state :: "ubpf_vm \<Rightarrow> exec_args \<Rightarrow> (4 word \<Rightarrow> u64) \<Rightarrow> memory \<Rightarrow> exec_state" where
  "initial_state vm args regs0 m =
     \<lparr> ex_pc = 0,
       ex_reg = regs0(1 := arg_mem args, 2 := arg_mem_len args,
                      10 := arg_stack_start args + arg_stack_length args),
       ex_frame_index = 0,
       ex_frames = replicate UBPF_MAX_CALL_DEPTH empty_frame,
       ex_shadow_registers =
         REGISTER_TO_SHADOW_MASK 1 OR REGISTER_TO_SHADOW_MASK 2 OR REGISTER_TO_SHADOW_MASK 10,
       ex_shadow_stack = (if undefined_behavior_check_enabled vm
         then replicate (unat (arg_stack_length args) div 8) 0 else []),
       ex_memory = m,
       ex_limit = instruction_limit vm,
       ex_previous = \<lparr> opcode = 0, dst = 0, src = 0, offset = 0, imm = 0 \<rparr> \<rparr>"

text \<open>\<open>calloc_ok\<close>: whether the shadow stack can be allocated.\<close>

definition ubpf_exec_ex ::
  "host \<Rightarrow> ubpf_vm \<Rightarrow> bool \<Rightarrow> (4 word \<Rightarrow> u64) \<Rightarrow> exec_args \<Rightarrow> memory \<Rightarrow> exec_stop option"
where
  "ubpf_exec_ex h vm calloc_ok regs0 args m =
     (if insts vm = None then Some (Failed NoCodeLoaded m)
      else if undefined_behavior_check_enabled vm \<and> \<not> calloc_ok
      then Some (Failed ShadowStackAllocation m)
      else exec_loop h vm args (initial_state vm args regs0 m))"

text \<open>\<open>ubpf_exec\<close> runs on an array of its own stack frame, at \<open>stack\<close>.\<close>

definition ubpf_exec ::
  "host \<Rightarrow> ubpf_vm \<Rightarrow> bool \<Rightarrow> (4 word \<Rightarrow> u64) \<Rightarrow> u64 \<Rightarrow> u64 \<Rightarrow> u64 \<Rightarrow> memory \<Rightarrow> exec_stop option"
where
  "ubpf_exec h vm calloc_ok regs0 mem mem_len stack m =
     ubpf_exec_ex h vm calloc_ok regs0
       \<lparr> arg_mem = mem, arg_mem_len = mem_len, arg_stack_start = stack,
         arg_stack_length = of_nat UBPF_EBPF_STACK_SIZE \<rparr> m"

end
