(* ===== verification/Ubpf_Validate.thy ===== *)
theory Ubpf_Validate
  imports Ubpf_VM
begin

text \<open>
  The static checks on a program: \<open>validate\<close> of \<open>ubpf_vm.c\<close>. \<open>valid_program\<close> is the property of a program the checks establish, stated without the loop.
\<close>

section \<open>The cases of the switch\<close>

text \<open>Opcodes with nothing more to check.\<close>

definition plain_opcodes :: "u8 list" where
  "plain_opcodes = [EBPF_OP_ADD_IMM, EBPF_OP_ADD_REG, EBPF_OP_SUB_IMM, EBPF_OP_SUB_REG,
     EBPF_OP_MUL_IMM, EBPF_OP_MUL_REG, EBPF_OP_DIV_REG, EBPF_OP_OR_IMM, EBPF_OP_OR_REG,
     EBPF_OP_AND_IMM, EBPF_OP_AND_REG, EBPF_OP_LSH_IMM, EBPF_OP_LSH_REG, EBPF_OP_RSH_IMM,
     EBPF_OP_RSH_REG, EBPF_OP_NEG, EBPF_OP_MOD_REG, EBPF_OP_XOR_IMM, EBPF_OP_XOR_REG,
     EBPF_OP_MOV_IMM, EBPF_OP_MOV_REG, EBPF_OP_ARSH_IMM, EBPF_OP_ARSH_REG,
     EBPF_OP_ADD64_IMM, EBPF_OP_ADD64_REG, EBPF_OP_SUB64_IMM, EBPF_OP_SUB64_REG,
     EBPF_OP_MUL64_IMM, EBPF_OP_MUL64_REG, EBPF_OP_DIV64_REG, EBPF_OP_OR64_IMM, EBPF_OP_OR64_REG,
     EBPF_OP_AND64_IMM, EBPF_OP_AND64_REG, EBPF_OP_LSH64_IMM, EBPF_OP_LSH64_REG,
     EBPF_OP_RSH64_IMM, EBPF_OP_RSH64_REG, EBPF_OP_NEG64, EBPF_OP_MOD64_REG, EBPF_OP_XOR64_IMM,
     EBPF_OP_XOR64_REG, EBPF_OP_ARSH64_IMM, EBPF_OP_ARSH64_REG,
     EBPF_OP_LDXW, EBPF_OP_LDXH, EBPF_OP_LDXB, EBPF_OP_LDXDW, EBPF_OP_EXIT,
     EBPF_OP_DIV_IMM, EBPF_OP_MOD_IMM, EBPF_OP_DIV64_IMM, EBPF_OP_MOD64_IMM]"

text \<open>Opcodes that set \<open>store\<close>, so that \<open>r10\<close> may be their destination.\<close>

definition store_opcodes :: "u8 list" where
  "store_opcodes = [EBPF_OP_MOV64_IMM, EBPF_OP_MOV64_REG,
     EBPF_OP_STW, EBPF_OP_STH, EBPF_OP_STB, EBPF_OP_STDW,
     EBPF_OP_STXW, EBPF_OP_STXH, EBPF_OP_STXB, EBPF_OP_STXDW]"

definition jump_opcodes :: "u8 list" where
  "jump_opcodes = [EBPF_OP_JA, EBPF_OP_JEQ_REG, EBPF_OP_JEQ_IMM, EBPF_OP_JGT_REG, EBPF_OP_JGT_IMM,
     EBPF_OP_JGE_REG, EBPF_OP_JGE_IMM, EBPF_OP_JLT_REG, EBPF_OP_JLT_IMM, EBPF_OP_JLE_REG,
     EBPF_OP_JLE_IMM, EBPF_OP_JSET_REG, EBPF_OP_JSET_IMM, EBPF_OP_JNE_REG, EBPF_OP_JNE_IMM,
     EBPF_OP_JSGT_IMM, EBPF_OP_JSGT_REG, EBPF_OP_JSGE_IMM, EBPF_OP_JSGE_REG, EBPF_OP_JSLT_IMM,
     EBPF_OP_JSLT_REG, EBPF_OP_JSLE_IMM, EBPF_OP_JSLE_REG,
     EBPF_OP_JEQ32_IMM, EBPF_OP_JEQ32_REG, EBPF_OP_JGT32_IMM, EBPF_OP_JGT32_REG,
     EBPF_OP_JGE32_IMM, EBPF_OP_JGE32_REG, EBPF_OP_JSET32_REG, EBPF_OP_JSET32_IMM,
     EBPF_OP_JNE32_IMM, EBPF_OP_JNE32_REG, EBPF_OP_JSGT32_IMM, EBPF_OP_JSGT32_REG,
     EBPF_OP_JSGE32_IMM, EBPF_OP_JSGE32_REG, EBPF_OP_JLT32_IMM, EBPF_OP_JLT32_REG,
     EBPF_OP_JLE32_IMM, EBPF_OP_JLE32_REG, EBPF_OP_JSLT32_IMM, EBPF_OP_JSLT32_REG,
     EBPF_OP_JSLE32_IMM, EBPF_OP_JSLE32_REG]"

text \<open>The check of a jump, with the C \<open>int\<close> arithmetic (\<open>i < 65536\<close>, so nothing overflows).\<close>

definition check_jump :: "ebpf_inst list \<Rightarrow> nat \<Rightarrow> load_error option" where
  "check_jump insns i =
     (let inst = insns ! i; new_pc = int i + 1 + sint (offset inst)
      in if offset inst = - 1 then Some (InfiniteLoop i)
         else if new_pc < 0 \<or> new_pc \<ge> int (length insns) then Some (JumpOutOfBounds i)
         else if opcode (insns ! nat new_pc) = 0 then Some (JumpToMiddleOfLddw i)
         else None)"

text \<open>The target of a local call as the 32-bit sum \<open>i + (inst.imm + 1)\<close>.\<close>

definition local_call_target :: "nat \<Rightarrow> ebpf_inst \<Rightarrow> u32" where
  "local_call_target i inst = of_nat i + (imm inst + 1)"

definition check_call ::
  "host \<Rightarrow> ubpf_vm \<Rightarrow> ebpf_inst list \<Rightarrow> nat \<Rightarrow> ubpf_vm \<times> load_error option"
where
  "check_call h vm insns i =
     (let inst = insns ! i
      in if src inst = 0 then
           if sint (imm inst) < 0 \<or> sint (imm inst) \<ge> int MAX_EXT_FUNCS
           then (vm, Some (InvalidCallImmediate i))
           else if (dispatcher vm \<noteq> 0 \<and> \<not> call_validate h (dispatcher_validate vm) (imm inst) vm) \<or>
                   (dispatcher vm = 0 \<and> ext_funcs vm ! unat (imm inst) = 0)
           then (vm, Some (NonexistentFunction (imm inst) i))
           else (vm, None)
         else if src inst = 1 then
           let call_target = local_call_target i inst
           in if sint call_target < 0 \<or> sint call_target \<ge> int (length insns)
              then (vm, Some (LocalCallOutOfBounds i call_target))
              else ubpf_calculate_stack_usage_for_local_func h vm (ucast call_target)
         else if src inst = 2 then (vm, Some (BtfCallUnsupported i))
         else (vm, Some (InvalidCallType i)))"

text \<open>The switch: the error, or the flag \<open>store\<close> and whether the next slot is skipped (LDDW).\<close>

definition validate_switch ::
  "host \<Rightarrow> ubpf_vm \<Rightarrow> ebpf_inst list \<Rightarrow> nat \<Rightarrow> ubpf_vm \<times> (load_error + bool \<times> bool)"
where
  "validate_switch h vm insns i =
     (let inst = insns ! i; opc = opcode inst
      in if opc \<in> set plain_opcodes then (vm, Inr (False, False))
         else if opc = EBPF_OP_LE \<or> opc = EBPF_OP_BE then
           if imm inst \<noteq> 16 \<and> imm inst \<noteq> 32 \<and> imm inst \<noteq> 64
           then (vm, Inl (InvalidEndianImmediate i)) else (vm, Inr (False, False))
         else if opc \<in> set store_opcodes then (vm, Inr (True, False))
         else if opc = EBPF_OP_LDDW then
           if src inst \<noteq> 0 then (vm, Inl (InvalidLddwSource i))
           else if i + 1 \<ge> length insns \<or> opcode (insns ! (i + 1)) \<noteq> 0
           then (vm, Inl (IncompleteLddw i))
           else (vm, Inr (False, True))
         else if opc \<in> set jump_opcodes then
           (case check_jump insns i of
              Some e \<Rightarrow> (vm, Inl e) | None \<Rightarrow> (vm, Inr (False, False)))
         else if opc = EBPF_OP_CALL then
           (case check_call h vm insns i of
              (vm', Some e) \<Rightarrow> (vm', Inl e) | (vm', None) \<Rightarrow> (vm', Inr (False, False)))
         else (vm, Inl (UnknownOpcode opc i)))"

text \<open>The register fields, checked after the switch; \<open>i\<close> is the index the message names.\<close>

definition check_registers :: "ebpf_inst \<Rightarrow> bool \<Rightarrow> nat \<Rightarrow> load_error option" where
  "check_registers inst store i =
     (if src inst > 10 then Some (InvalidSourceRegister i)
      else if dst inst > 9 \<and> \<not> (store \<and> dst inst = 10) then Some (InvalidDestinationRegister i)
      else None)"

section \<open>The loop\<close>

function validate_loop ::
  "host \<Rightarrow> ubpf_vm \<Rightarrow> ebpf_inst list \<Rightarrow> nat \<Rightarrow> ubpf_vm \<times> load_error option"
where
  "validate_loop h vm insns i =
     (if i < length insns then
        (case validate_switch h vm insns i of
           (vm', Inl e) \<Rightarrow> (vm', Some e)
         | (vm', Inr (store, skip)) \<Rightarrow>
             let i' = (if skip then Suc i else i)
             in case check_registers (insns ! i) store i' of
                  Some e \<Rightarrow> (vm', Some e)
                | None \<Rightarrow> validate_loop h vm' insns (Suc i'))
      else (vm, None))"
  by pat_completeness auto
termination
  by (relation "measure (\<lambda>(h, vm, insns, i). length insns - i)") (auto split: if_splits)

declare validate_loop.simps [simp del]

definition validate ::
  "host \<Rightarrow> ubpf_vm \<Rightarrow> ebpf_inst list \<Rightarrow> ubpf_vm \<times> load_error option"
where
  "validate h vm insns =
     (if length insns \<ge> UBPF_MAX_INSTS then (vm, Some TooManyInstructions)
      else case ubpf_calculate_stack_usage_for_local_func h vm 0 of
             (vm', Some e) \<Rightarrow> (vm', Some e)
           | (vm', None) \<Rightarrow> validate_loop h vm' insns 0)"

section \<open>The opcode groups\<close>

definition accepted_opcodes :: "u8 list" where
  "accepted_opcodes = plain_opcodes @ [EBPF_OP_LE, EBPF_OP_BE] @ store_opcodes @ [EBPF_OP_LDDW]
     @ jump_opcodes @ [EBPF_OP_CALL]"

lemma set_accepted_opcodes: "set accepted_opcodes = set all_opcodes"
  unfolding accepted_opcodes_def all_opcodes_def plain_opcodes_def store_opcodes_def
    jump_opcodes_def append.simps list.set
  by (simp add: insert_commute)

lemma groups_disjoint_check:
  "list_all (\<lambda>x. x \<notin> set store_opcodes \<and> x \<notin> set jump_opcodes \<and> x \<noteq> EBPF_OP_LE \<and> x \<noteq> EBPF_OP_BE
     \<and> x \<noteq> EBPF_OP_LDDW \<and> x \<noteq> EBPF_OP_CALL \<and> x \<noteq> 0) plain_opcodes"
  "list_all (\<lambda>x. x \<notin> set jump_opcodes \<and> x \<noteq> EBPF_OP_LE \<and> x \<noteq> EBPF_OP_BE
     \<and> x \<noteq> EBPF_OP_LDDW \<and> x \<noteq> EBPF_OP_CALL \<and> x \<noteq> 0) store_opcodes"
  "list_all (\<lambda>x. x \<noteq> EBPF_OP_LE \<and> x \<noteq> EBPF_OP_BE \<and> x \<noteq> EBPF_OP_LDDW \<and> x \<noteq> EBPF_OP_CALL \<and> x \<noteq> 0)
     jump_opcodes"
  by code_simp+

lemma groups_disjoint:
  "opc \<in> set plain_opcodes \<Longrightarrow> opc \<notin> set store_opcodes \<and> opc \<notin> set jump_opcodes \<and>
     opc \<noteq> EBPF_OP_LE \<and> opc \<noteq> EBPF_OP_BE \<and> opc \<noteq> EBPF_OP_LDDW \<and> opc \<noteq> EBPF_OP_CALL \<and> opc \<noteq> 0"
  "opc \<in> set store_opcodes \<Longrightarrow> opc \<notin> set jump_opcodes \<and>
     opc \<noteq> EBPF_OP_LE \<and> opc \<noteq> EBPF_OP_BE \<and> opc \<noteq> EBPF_OP_LDDW \<and> opc \<noteq> EBPF_OP_CALL \<and> opc \<noteq> 0"
  "opc \<in> set jump_opcodes \<Longrightarrow>
     opc \<noteq> EBPF_OP_LE \<and> opc \<noteq> EBPF_OP_BE \<and> opc \<noteq> EBPF_OP_LDDW \<and> opc \<noteq> EBPF_OP_CALL \<and> opc \<noteq> 0"
  using groups_disjoint_check by (auto simp: list_all_iff)

lemma special_opcodes_distinct:
  "EBPF_OP_LE \<noteq> EBPF_OP_BE" "EBPF_OP_LE \<noteq> EBPF_OP_LDDW" "EBPF_OP_LE \<noteq> EBPF_OP_CALL"
  "EBPF_OP_BE \<noteq> EBPF_OP_LDDW" "EBPF_OP_BE \<noteq> EBPF_OP_CALL" "EBPF_OP_LDDW \<noteq> EBPF_OP_CALL"
  "EBPF_OP_LE \<noteq> 0" "EBPF_OP_BE \<noteq> 0" "EBPF_OP_LDDW \<noteq> 0" "EBPF_OP_CALL \<noteq> 0"
  by (simp_all add: opcode_values)

section \<open>The programs \<open>validate\<close> accepts\<close>

definition valid_jump :: "ebpf_inst list \<Rightarrow> nat \<Rightarrow> bool" where
  "valid_jump insns i \<longleftrightarrow>
     (let t = int i + 1 + sint (offset (insns ! i))
      in offset (insns ! i) \<noteq> - 1 \<and> 0 \<le> t \<and> t < int (length insns) \<and> opcode (insns ! nat t) \<noteq> 0)"

definition valid_call :: "ubpf_vm \<Rightarrow> ebpf_inst list \<Rightarrow> nat \<Rightarrow> bool" where
  "valid_call vm insns i \<longleftrightarrow>
     (let inst = insns ! i; t = local_call_target i inst
      in src inst = 0 \<and> 0 \<le> sint (imm inst) \<and> sint (imm inst) < int MAX_EXT_FUNCS \<and>
           (dispatcher vm = 0 \<longrightarrow> ext_funcs vm ! unat (imm inst) \<noteq> 0) \<or>
         src inst = 1 \<and> 0 \<le> sint t \<and> sint t < int (length insns))"

definition valid_inst_at :: "ubpf_vm \<Rightarrow> ebpf_inst list \<Rightarrow> nat \<Rightarrow> bool" where
  "valid_inst_at vm insns i \<longleftrightarrow>
     (let inst = insns ! i; opc = opcode inst
      in opc \<in> set all_opcodes \<and> src inst \<le> 10 \<and> dst inst \<le> 10 \<and>
         (dst inst = 10 \<longrightarrow> opc \<in> set store_opcodes) \<and>
         (opc = EBPF_OP_LE \<or> opc = EBPF_OP_BE \<longrightarrow> imm inst \<in> {16, 32, 64}) \<and>
         (opc = EBPF_OP_LDDW \<longrightarrow>
            src inst = 0 \<and> i + 1 < length insns \<and> opcode (insns ! (i + 1)) = 0) \<and>
         (opc \<in> set jump_opcodes \<longrightarrow> valid_jump insns i) \<and>
         (opc = EBPF_OP_CALL \<longrightarrow> valid_call vm insns i))"

text \<open>
  Every slot is the second half of an LDDW instruction or a valid instruction.
\<close>

definition valid_slot :: "ubpf_vm \<Rightarrow> ebpf_inst list \<Rightarrow> nat \<Rightarrow> bool" where
  "valid_slot vm insns i \<longleftrightarrow>
     (if opcode (insns ! i) = 0 then 0 < i \<and> opcode (insns ! (i - 1)) = EBPF_OP_LDDW
      else valid_inst_at vm insns i)"

definition valid_program :: "ubpf_vm \<Rightarrow> ebpf_inst list \<Rightarrow> bool" where
  "valid_program vm insns \<longleftrightarrow>
     length insns < UBPF_MAX_INSTS \<and> (\<forall>i < length insns. valid_slot vm insns i)"

lemma check_jump_None_iff: "check_jump insns i = None \<longleftrightarrow> valid_jump insns i"
  by (auto simp: check_jump_def valid_jump_def Let_def)

lemma check_call_None:
  assumes "check_call h vm insns i = (vm', None)"
  shows "valid_call vm insns i" and "dispatcher vm' = dispatcher vm" "ext_funcs vm' = ext_funcs vm"
  using assms calculate_stack_usage_frame(3,4) [of h vm "ucast (local_call_target i (insns ! i))"]
  by (auto simp: check_call_def valid_call_def Let_def split: if_splits)

lemma check_registers_None_iff:
  "check_registers inst store i = None \<longleftrightarrow>
     src inst \<le> 10 \<and> dst inst \<le> 10 \<and> (dst inst = 10 \<longrightarrow> store)"
proof -
  have "dst inst > 9 \<and> dst inst \<noteq> 10 \<longleftrightarrow> \<not> dst inst \<le> 10" by unat_arith
  moreover have "(10 :: 4 word) > 9" by simp
  ultimately show ?thesis
    by (auto simp: check_registers_def not_less)
qed

lemma accepted_cases:
  "opc \<in> set all_opcodes \<longleftrightarrow> opc \<in> set plain_opcodes \<or> opc = EBPF_OP_LE \<or> opc = EBPF_OP_BE \<or>
     opc \<in> set store_opcodes \<or> opc = EBPF_OP_LDDW \<or> opc \<in> set jump_opcodes \<or> opc = EBPF_OP_CALL"
  unfolding set_accepted_opcodes [symmetric] by (auto simp: accepted_opcodes_def)

text \<open>One iteration of the loop succeeds on valid instructions only.\<close>

lemma validate_switch_sound:
  assumes sw: "validate_switch h vm insns i = (vm', Inr (store, skip))"
    and regs: "check_registers (insns ! i) store i' = None"
  shows "valid_inst_at vm insns i" and "skip \<longleftrightarrow> opcode (insns ! i) = EBPF_OP_LDDW"
    and "dispatcher vm' = dispatcher vm" "ext_funcs vm' = ext_funcs vm"
proof -
  let ?opc = "opcode (insns ! i)"
  consider (plain) "?opc \<in> set plain_opcodes" "vm' = vm" "\<not> store" "\<not> skip"
    | (endian) "?opc = EBPF_OP_LE \<or> ?opc = EBPF_OP_BE" "imm (insns ! i) \<in> {16, 32, 64}"
        "vm' = vm" "\<not> store" "\<not> skip"
    | (store) "?opc \<in> set store_opcodes" "vm' = vm" "store" "\<not> skip"
    | (lddw) "?opc = EBPF_OP_LDDW" "src (insns ! i) = 0" "i + 1 < length insns"
        "opcode (insns ! (i + 1)) = 0" "vm' = vm" "\<not> store" "skip"
    | (jump) "?opc \<in> set jump_opcodes" "check_jump insns i = None" "vm' = vm" "\<not> store" "\<not> skip"
    | (call) "?opc = EBPF_OP_CALL" "check_call h vm insns i = (vm', None)" "\<not> store" "\<not> skip"
    using sw by (auto simp: validate_switch_def Let_def split: if_splits option.splits prod.splits)
  then have "valid_inst_at vm insns i \<and> (skip \<longleftrightarrow> ?opc = EBPF_OP_LDDW) \<and>
      dispatcher vm' = dispatcher vm \<and> ext_funcs vm' = ext_funcs vm"
  proof cases
    case plain
    then show ?thesis using regs groups_disjoint(1) [OF plain(1)]
      by (simp add: valid_inst_at_def accepted_cases check_registers_None_iff Let_def)
  next
    case endian
    then show ?thesis using regs special_opcodes_distinct groups_disjoint(3) [of ?opc]
      by (auto simp: valid_inst_at_def accepted_cases check_registers_None_iff Let_def)
  next
    case store
    then show ?thesis using regs groups_disjoint(2) [OF store(1)]
      by (simp add: valid_inst_at_def accepted_cases check_registers_None_iff Let_def)
  next
    case lddw
    then show ?thesis using regs special_opcodes_distinct groups_disjoint(3) [of ?opc]
      by (auto simp: valid_inst_at_def accepted_cases check_registers_None_iff Let_def)
  next
    case jump
    then show ?thesis using regs groups_disjoint(3) [OF jump(1)]
      by (simp add: valid_inst_at_def accepted_cases check_registers_None_iff check_jump_None_iff Let_def)
  next
    case call
    then show ?thesis
      using regs special_opcodes_distinct groups_disjoint(3) [of ?opc] check_call_None [OF call(2)]
      by (auto simp: valid_inst_at_def accepted_cases check_registers_None_iff Let_def)
  qed
  then show "valid_inst_at vm insns i" and "skip \<longleftrightarrow> ?opc = EBPF_OP_LDDW"
    and "dispatcher vm' = dispatcher vm" "ext_funcs vm' = ext_funcs vm"
    by blast+
qed

lemma valid_inst_at_cong:
  "dispatcher vm' = dispatcher vm \<Longrightarrow> ext_funcs vm' = ext_funcs vm \<Longrightarrow>
     valid_inst_at vm' insns i = valid_inst_at vm insns i"
  by (simp add: valid_inst_at_def valid_call_def)

lemma valid_slot_cong:
  "dispatcher vm' = dispatcher vm \<Longrightarrow> ext_funcs vm' = ext_funcs vm \<Longrightarrow>
     valid_slot vm' insns i = valid_slot vm insns i"
  by (simp add: valid_slot_def valid_inst_at_cong [of vm' vm])

lemma zero_not_opcode: "0 \<notin> set all_opcodes"
  unfolding accepted_cases
  using groups_disjoint [of 0] special_opcodes_distinct by auto

lemma valid_inst_at_opcode: "valid_inst_at vm insns i \<Longrightarrow> opcode (insns ! i) \<noteq> 0"
  using zero_not_opcode by (auto simp: valid_inst_at_def Let_def)

section \<open>Soundness of the loop\<close>

lemma validate_loop_frame:
  "validate_loop h vm insns i = (vm', None) \<Longrightarrow>
     dispatcher vm' = dispatcher vm \<and> ext_funcs vm' = ext_funcs vm"
proof (induction h vm insns i rule: validate_loop.induct)
  case (1 h vm insns i)
  show ?case
  proof (cases "i < length insns")
    case False
    with "1.prems" show ?thesis by (simp add: validate_loop.simps [of h vm insns i])
  next
    case True
    with "1.prems" obtain vm1 store skip
      where sw: "validate_switch h vm insns i = (vm1, Inr (store, skip))"
        and regs: "check_registers (insns ! i) store (if skip then Suc i else i) = None"
        and rest: "validate_loop h vm1 insns (Suc (if skip then Suc i else i)) = (vm', None)"
      by (auto simp: validate_loop.simps [of h vm insns i] Let_def
          split: prod.splits sum.splits option.splits)
    from "1.IH" [OF True sw [symmetric] refl refl refl regs rest] validate_switch_sound(3,4) [OF sw regs]
    show ?thesis by simp
  qed
qed

lemma validate_loop_sound:
  assumes "validate_loop h vm insns i = (vm', None)" "i \<le> j" "j < length insns"
  shows "valid_slot vm insns j"
  using assms
proof (induction h vm insns i rule: validate_loop.induct)
  case (1 h vm insns i)
  then have i: "i < length insns" by simp
  with "1.prems"(1) obtain vm1 store skip
    where sw: "validate_switch h vm insns i = (vm1, Inr (store, skip))"
      and regs: "check_registers (insns ! i) store (if skip then Suc i else i) = None"
      and rest: "validate_loop h vm1 insns (Suc (if skip then Suc i else i)) = (vm', None)"
    by (auto simp: validate_loop.simps [of h vm insns i] Let_def
        split: prod.splits sum.splits option.splits)
  note here = validate_switch_sound [OF sw regs]
  consider "j = i" | "skip" "j = Suc i" | "Suc (if skip then Suc i else i) \<le> j"
    using "1.prems"(2) by (cases "j = i"; cases "j = Suc i"; cases skip) auto
  then show ?case
  proof cases
    case 1
    then show ?thesis using here(1) valid_inst_at_opcode by (simp add: valid_slot_def)
  next
    case 2
    then have "opcode (insns ! i) = EBPF_OP_LDDW" using here(2) by simp
    then show ?thesis using here(1) 2 by (simp add: valid_slot_def valid_inst_at_def Let_def)
  next
    case 3
    from "1.IH" [OF i sw [symmetric] refl refl refl regs rest 3 "1.prems"(3)]
    show ?thesis by (simp add: valid_slot_cong [OF here(3,4)])
  qed
qed

theorem validate_sound:
  assumes "validate h vm insns = (vm', None)"
  shows "valid_program vm insns"
proof -
  obtain vm1 where len: "length insns < UBPF_MAX_INSTS"
    and su: "ubpf_calculate_stack_usage_for_local_func h vm 0 = (vm1, None)"
    and loop: "validate_loop h vm1 insns 0 = (vm', None)"
    using assms by (auto simp: validate_def split: if_splits prod.splits option.splits)
  have "dispatcher vm1 = dispatcher vm" "ext_funcs vm1 = ext_funcs vm"
    using calculate_stack_usage_frame [of h vm 0] su by simp_all
  with validate_loop_sound [OF loop] len show ?thesis
    by (simp add: valid_program_def valid_slot_cong [of vm1 vm])
qed

section \<open>Completeness of the loop\<close>

text \<open>
  Without a dispatcher and without a stack usage calculator the outcome depends on the program and
  the helper table only.
\<close>

definition plain_vm :: "ubpf_vm \<Rightarrow> bool" where
  "plain_vm vm \<longleftrightarrow> dispatcher vm = 0 \<and> stack_usage_calculator vm = 0 \<and>
     (\<forall>p. stack_usage (local_func_stack_usage vm p) mod 16 = 0)"

lemma plain_vm_calculate:
  assumes "plain_vm vm"
  shows "\<exists>vm'. ubpf_calculate_stack_usage_for_local_func h vm p = (vm', None) \<and> plain_vm vm' \<and>
    ext_funcs vm' = ext_funcs vm"
  using assms by (simp add: plain_vm_def ubpf_calculate_stack_usage_for_local_func_def Let_def)

lemma validate_switch_complete:
  assumes valid: "valid_inst_at vm insns i" and plain: "plain_vm vm"
  shows "\<exists>vm' store. validate_switch h vm insns i =
        (vm', Inr (store, opcode (insns ! i) = EBPF_OP_LDDW)) \<and>
      check_registers (insns ! i) store i' = None \<and> plain_vm vm' \<and> ext_funcs vm' = ext_funcs vm"
proof -
  let ?inst = "insns ! i"
  let ?opc = "opcode ?inst"
  have regs: "check_registers ?inst (?opc \<in> set store_opcodes) i' = None"
    using valid by (simp add: check_registers_None_iff valid_inst_at_def Let_def)
  have "?opc \<in> set all_opcodes" using valid by (simp add: valid_inst_at_def Let_def)
  then consider "?opc \<in> set plain_opcodes" | "?opc = EBPF_OP_LE \<or> ?opc = EBPF_OP_BE"
    | "?opc \<in> set store_opcodes" | "?opc = EBPF_OP_LDDW" | "?opc \<in> set jump_opcodes"
    | "?opc = EBPF_OP_CALL"
    unfolding accepted_cases by blast
  then show ?thesis
  proof cases
    case 1
    with groups_disjoint(1) [OF 1] regs plain show ?thesis
      by (intro exI [of _ vm] exI [of _ False]) (simp add: validate_switch_def Let_def)
  next
    case 2
    then have "?opc \<notin> set plain_opcodes" "?opc \<notin> set store_opcodes" "?opc \<noteq> EBPF_OP_LDDW"
      using groups_disjoint [of ?opc] special_opcodes_distinct by auto
    with 2 regs plain valid show ?thesis
      by (intro exI [of _ vm] exI [of _ False])
        (auto simp: validate_switch_def valid_inst_at_def Let_def)
  next
    case 3
    then have "?opc \<notin> set plain_opcodes" using groups_disjoint(1) [of ?opc] by auto
    with 3 groups_disjoint(2) [OF 3] regs plain show ?thesis
      by (intro exI [of _ vm] exI [of _ True]) (simp add: validate_switch_def Let_def)
  next
    case 4
    then have "?opc \<notin> set plain_opcodes" "?opc \<notin> set store_opcodes" "?opc \<noteq> EBPF_OP_LE"
      "?opc \<noteq> EBPF_OP_BE"
      using groups_disjoint [of ?opc] special_opcodes_distinct by auto
    with 4 regs plain valid show ?thesis
      by (intro exI [of _ vm] exI [of _ False])
        (simp add: validate_switch_def valid_inst_at_def Let_def)
  next
    case 5
    then have "?opc \<notin> set plain_opcodes" "?opc \<notin> set store_opcodes"
      using groups_disjoint [of ?opc] by auto
    with 5 groups_disjoint(3) [OF 5] regs plain valid show ?thesis
      by (intro exI [of _ vm] exI [of _ False]) (simp add: validate_switch_def valid_inst_at_def check_jump_None_iff [symmetric] Let_def)
  next
    case 6
    then have nots: "?opc \<notin> set plain_opcodes" "?opc \<notin> set store_opcodes" "?opc \<notin> set jump_opcodes"
      "?opc \<noteq> EBPF_OP_LE" "?opc \<noteq> EBPF_OP_BE" "?opc \<noteq> EBPF_OP_LDDW"
      using groups_disjoint [of ?opc] special_opcodes_distinct by auto
    have "valid_call vm insns i" using valid 6 by (simp add: valid_inst_at_def Let_def)
    moreover obtain vm1 where "ubpf_calculate_stack_usage_for_local_func h vm
        (ucast (local_call_target i ?inst)) = (vm1, None)" "plain_vm vm1" "ext_funcs vm1 = ext_funcs vm"
      using plain_vm_calculate [OF plain] by blast
    ultimately obtain vm' where "check_call h vm insns i = (vm', None)" "plain_vm vm'"
      "ext_funcs vm' = ext_funcs vm"
      using plain by (auto simp: check_call_def valid_call_def plain_vm_def Let_def)
    with 6 nots regs show ?thesis
      by (intro exI [of _ vm'] exI [of _ False]) (simp add: validate_switch_def Let_def)
  qed
qed

lemma validate_loop_complete:
  assumes "valid_program vm0 insns" "plain_vm vm" "ext_funcs vm = ext_funcs vm0" "dispatcher vm0 = 0"
    and "i < length insns \<Longrightarrow> opcode (insns ! i) \<noteq> 0"
  shows "\<exists>vm'. validate_loop h vm insns i = (vm', None)"
  using assms
proof (induction h vm insns i rule: validate_loop.induct)
  case (1 h vm insns i)
  show ?case
  proof (cases "i < length insns")
    case False
    then show ?thesis by (simp add: validate_loop.simps [of h vm insns i])
  next
    case True
    let ?lddw = "opcode (insns ! i) = EBPF_OP_LDDW"
    let ?i' = "if ?lddw then Suc i else i"
    have slots: "valid_slot vm0 insns j" if "j < length insns" for j
      using "1.prems"(1) that by (simp add: valid_program_def)
    have "valid_inst_at vm0 insns i"
      using slots [OF True] "1.prems"(5) [OF True] by (simp add: valid_slot_def)
    moreover from this have valid: "valid_inst_at vm insns i"
      using valid_inst_at_cong [of vm0 vm insns i] "1.prems"(2-4) by (simp add: plain_vm_def)
    ultimately obtain vm1 store where sw: "validate_switch h vm insns i = (vm1, Inr (store, ?lddw))"
      and regs: "check_registers (insns ! i) store ?i' = None"
      and vm1: "plain_vm vm1" "ext_funcs vm1 = ext_funcs vm"
      using validate_switch_complete [OF valid "1.prems"(2)] by blast
    have next_start: "opcode (insns ! Suc ?i') \<noteq> 0" if "Suc ?i' < length insns"
    proof
      assume zero: "opcode (insns ! Suc ?i') = 0"
      then have "opcode (insns ! ?i') = EBPF_OP_LDDW" using slots [OF that] by (simp add: valid_slot_def)
      moreover have "?lddw \<Longrightarrow> opcode (insns ! Suc i) = 0"
        using valid by (simp add: valid_inst_at_def Let_def)
      ultimately show False by (auto simp: special_opcodes_distinct split: if_splits)
    qed
    have "\<exists>vm'. validate_loop h vm1 insns (Suc ?i') = (vm', None)"
      by (rule "1.IH" [OF True sw [symmetric] refl refl refl regs])
        (use "1.prems" vm1 next_start in auto)
    then show ?thesis
      using True sw regs by (simp add: validate_loop.simps [of h vm insns i] Let_def)
  qed
qed

lemma valid_program_first: "valid_program vm insns \<Longrightarrow> 0 < length insns \<Longrightarrow> opcode (insns ! 0) \<noteq> 0"
  by (auto simp: valid_program_def valid_slot_def dest: spec [of _ 0])

theorem validate_complete:
  assumes "valid_program vm insns" "plain_vm vm"
  shows "\<exists>vm'. validate h vm insns = (vm', None)"
proof -
  obtain vm1 where su: "ubpf_calculate_stack_usage_for_local_func h vm 0 = (vm1, None)"
    and vm1: "plain_vm vm1" "ext_funcs vm1 = ext_funcs vm"
    using plain_vm_calculate [OF assms(2)] by blast
  have "\<exists>vm'. validate_loop h vm1 insns 0 = (vm', None)"
    by (rule validate_loop_complete [OF assms(1) vm1])
      (use assms valid_program_first in \<open>auto simp: plain_vm_def\<close>)
  moreover have "length insns < UBPF_MAX_INSTS" using assms(1) by (simp add: valid_program_def)
  ultimately show ?thesis using su by (simp add: validate_def)
qed

end
