(* ===== verification/Ubpf_Load.thy ===== *)
theory Ubpf_Load
  imports Ubpf_Validate
begin

text \<open>
  Loading a program: \<open>ubpf_load\<close> of \<open>ubpf_vm.c\<close>, and what a successful load leaves in the object:
  every instruction can be fetched again, the targets of local calls are marked, and the object is
  well formed.
\<close>

section \<open>Loading\<close>

text \<open>
  The loop that marks the targets of local calls and stores the instructions; \<^const>\<open>None\<close> is a write
  outside one of the two arrays.
\<close>

fun load_loop :: "ubpf_vm \<Rightarrow> nat \<Rightarrow> ebpf_inst list \<Rightarrow> ubpf_vm option" where
  "load_loop vm i [] = Some vm"
| "load_loop vm i (inst # rest) =
     (let marked =
        (if opcode inst = EBPF_OP_CALL \<and> src inst = 1 then
           let target = unat (of_nat i + imm inst + 1 :: u32)
           in case int_funcs vm of
                None \<Rightarrow> None
              | Some funcs \<Rightarrow>
                  if target < length funcs
                  then Some (vm\<lparr> int_funcs := Some (funcs[target := True]) \<rparr>) else None
         else Some vm)
      in case marked of
           None \<Rightarrow> None
         | Some vm1 \<Rightarrow> (case ubpf_store_instruction vm1 (of_nat i) inst of
             None \<Rightarrow> None
           | Some vm2 \<Rightarrow> load_loop vm2 (Suc i) rest))"

text \<open>The instructions \<open>ubpf_load\<close> reads from the buffer it is given.\<close>

definition source_insts :: "u8 list \<Rightarrow> ebpf_inst list" where
  "source_insts code = take (unat (of_nat (length code) div 8 :: u32)) (insts_of_bytes code)"

text \<open>
  \<open>base\<close> is the result of \<open>malloc\<close> for the instruction array (\<open>0\<close> is NULL), \<open>garbage\<close> what that
  memory holds before it is written, \<open>calloc_ok\<close> whether the local-function marks can be allocated.
  The result is the C result, the object, and the message; \<^const>\<open>None\<close> is a write outside an array.
\<close>

definition ubpf_load ::
  "host \<Rightarrow> ubpf_vm \<Rightarrow> u8 list \<Rightarrow> u64 \<Rightarrow> (nat \<Rightarrow> ebpf_inst) \<Rightarrow> bool
     \<Rightarrow> (int \<times> ubpf_vm \<times> load_error option) option"
where
  "ubpf_load h vm code base garbage calloc_ok =
     (let code_len = (of_nat (length code) :: u32);
          source_inst = source_insts code
      in if UBPF_EBPF_STACK_SIZE mod 8 \<noteq> 0 then Some (- 1, vm, Some StackSizeNotMultipleOf8)
         else if insts vm \<noteq> None then Some (- 1, vm, Some AlreadyLoaded)
         else if code_len mod 8 \<noteq> 0 then Some (- 1, vm, Some CodeLenNotMultipleOf8)
         else case validate h vm source_inst of
             (vm1, Some e) \<Rightarrow> Some (- 1, vm1, Some e)
           | (vm1, None) \<Rightarrow>
               if base = 0 then Some (- 1, vm1, Some OutOfMemory)
               else
                 let n = unat (code_len div 8);
                     vm2 = vm1\<lparr> insts := Some (base, map garbage [0..<n]), num_insts := of_nat n \<rparr>
                 in if \<not> calloc_ok then Some (- 1, vm2\<lparr> int_funcs := None \<rparr>, Some OutOfMemory)
                    else case load_loop
                           (vm2\<lparr> int_funcs := Some (replicate (unat (num_insts vm2)) False) \<rparr>)
                           0 source_inst of
                      None \<Rightarrow> None
                    | Some vm3 \<Rightarrow> Some (0, vm3, None))"

section \<open>The instruction store\<close>

lemma fetch_store_same:
  "ubpf_store_instruction vm p inst = Some vm' \<Longrightarrow> ubpf_fetch_instruction vm' p = Some inst"
  by (auto simp: ubpf_store_instruction_def ubpf_fetch_instruction_def xor.assoc
      split: option.splits if_splits)

lemma fetch_store_other:
  assumes "ubpf_store_instruction vm p inst = Some vm'" "q \<noteq> p"
  shows "ubpf_fetch_instruction vm' q = ubpf_fetch_instruction vm q"
proof -
  have "unat q \<noteq> unat p" using assms(2) word_unat_eq_iff by blast
  with assms(1) show ?thesis
    by (auto simp: ubpf_store_instruction_def ubpf_fetch_instruction_def
        split: option.splits if_splits)
qed

section \<open>The load loop in closed form\<close>

definition is_local_call :: "ebpf_inst \<Rightarrow> bool" where
  "is_local_call inst \<longleftrightarrow> opcode inst = EBPF_OP_CALL \<and> src inst = 1"

definition encode_inst :: "u64 \<Rightarrow> u64 \<Rightarrow> ebpf_inst \<Rightarrow> ebpf_inst" where
  "encode_inst base secret inst = value_to_inst ((inst_to_value inst XOR base) XOR secret)"

lemma decode_encode:
  "value_to_inst ((inst_to_value (encode_inst base secret inst) XOR base) XOR secret) = inst"
proof -
  have "((((v XOR base) XOR secret) XOR base) XOR secret) = v" for v :: u64
    by (rule bit_word_eqI) (auto simp: bit_simps)
  then show ?thesis by (simp add: encode_inst_def)
qed

fun mark_targets :: "bool list \<Rightarrow> nat \<Rightarrow> ebpf_inst list \<Rightarrow> bool list" where
  "mark_targets funcs i [] = funcs"
| "mark_targets funcs i (inst # rest) =
     mark_targets (if is_local_call inst then funcs[unat (local_call_target i inst) := True] else funcs)
       (Suc i) rest"

lemma length_mark_targets [simp]: "length (mark_targets funcs i rest) = length funcs"
  by (induction rest arbitrary: funcs i) simp_all

lemma nth_mark_targets:
  "t < length funcs \<Longrightarrow> mark_targets funcs i rest ! t \<longleftrightarrow>
     funcs ! t \<or> (\<exists>k < length rest. is_local_call (rest ! k) \<and>
       unat (local_call_target (i + k) (rest ! k)) = t)"
proof (induction rest arbitrary: funcs i)
  case Nil
  then show ?case by simp
next
  case (Cons inst rest)
  have "(\<exists>k < length (inst # rest). is_local_call ((inst # rest) ! k) \<and>
        unat (local_call_target (i + k) ((inst # rest) ! k)) = t) \<longleftrightarrow>
      is_local_call inst \<and> unat (local_call_target i inst) = t \<or>
      (\<exists>k < length rest. is_local_call (rest ! k) \<and>
        unat (local_call_target (Suc i + k) (rest ! k)) = t)"
    by (simp add: Ex_less_Suc2 del: unsigned_of_nat)
  then show ?case using Cons by (auto simp: nth_list_update)
qed

lemma load_loop_eq:
  assumes "insts vm = Some (base, code)" "int_funcs vm = Some funcs"
    and "length code = i + length rest" "length code < 65536"
    and "\<And>k. k < length rest \<Longrightarrow> is_local_call (rest ! k) \<Longrightarrow>
           unat (local_call_target (i + k) (rest ! k)) < length funcs"
  shows "load_loop vm i rest = Some (vm\<lparr>
    insts := Some (base, take i code @ map (encode_inst base (pointer_secret vm)) rest),
    int_funcs := Some (mark_targets funcs i rest) \<rparr>)"
  using assms
proof (induction rest arbitrary: vm i code funcs)
  case Nil
  then show ?case by simp
next
  case (Cons inst rest)
  let ?funcs = "if is_local_call inst then funcs[unat (local_call_target i inst) := True] else funcs"
  let ?vm1 = "vm\<lparr> int_funcs := Some ?funcs \<rparr>"
  let ?code = "code[i := encode_inst base (pointer_secret vm) inst]"
  let ?vm2 = "?vm1\<lparr> insts := Some (base, ?code) \<rparr>"
  have i: "i < length code" using Cons.prems(3) by simp
  have ui: "unat (of_nat i :: u16) = i" using i Cons.prems(4) by (simp add: unat_of_nat)
  have target: "of_nat i + imm inst + 1 = local_call_target i inst"
    by (simp add: local_call_target_def)
  have same: "vm\<lparr> int_funcs := Some funcs \<rparr> = vm" using Cons.prems(2) by (cases vm) simp
  have "is_local_call inst \<Longrightarrow> unat (local_call_target i inst) < length funcs"
    using Cons.prems(5) [of 0] by simp
  then have "load_loop vm i (inst # rest) = load_loop ?vm2 (Suc i) rest"
    using Cons.prems(1,2) i ui
    by (auto simp: target same is_local_call_def ubpf_store_instruction_def encode_inst_def Let_def)
  also have "\<dots> = Some (?vm2\<lparr>
      insts := Some (base, take (Suc i) ?code @ map (encode_inst base (pointer_secret ?vm2)) rest),
      int_funcs := Some (mark_targets ?funcs (Suc i) rest) \<rparr>)"
  proof (rule Cons.IH)
    show "insts ?vm2 = Some (base, ?code)" "int_funcs ?vm2 = Some ?funcs" by simp_all
    show "length ?code = Suc i + length rest" "length ?code < 65536"
      using Cons.prems(3,4) by simp_all
    fix k
    assume "k < length rest" "is_local_call (rest ! k)"
    then show "unat (local_call_target (Suc i + k) (rest ! k)) < length ?funcs"
      using Cons.prems(5) [of "Suc k"] by simp
  qed
  also have "take (Suc i) ?code = take i code @ [encode_inst base (pointer_secret vm) inst]"
    using i by (simp add: take_Suc_conv_app_nth)
  finally show ?case by simp
qed

section \<open>A loaded program\<close>

text \<open>\<open>vm\<close> holds the valid program \<open>insns\<close>.\<close>

definition loaded :: "ubpf_vm \<Rightarrow> ebpf_inst list \<Rightarrow> bool" where
  "loaded vm insns \<longleftrightarrow> wf_vm vm \<and> insts vm \<noteq> None \<and> unat (num_insts vm) = length insns \<and>
     (\<forall>p. unat p < length insns \<longrightarrow> ubpf_fetch_instruction vm p = Some (insns ! unat p)) \<and>
     (\<forall>t < length insns. the (int_funcs vm) ! t \<longleftrightarrow>
        (\<exists>k < length insns. is_local_call (insns ! k) \<and>
           unat (local_call_target k (insns ! k)) = t)) \<and>
     valid_program vm insns"

lemma validate_loop_keeps:
  "wf_vm vm \<Longrightarrow> wf_vm (fst (validate_loop h vm insns i)) \<and>
     insts (fst (validate_loop h vm insns i)) = insts vm \<and>
     pointer_secret (fst (validate_loop h vm insns i)) = pointer_secret vm"
proof (induction h vm insns i rule: validate_loop.induct)
  case (1 h vm insns i)
  have call: "fst (check_call h vm insns i) = vm \<or> fst (check_call h vm insns i) =
      fst (ubpf_calculate_stack_usage_for_local_func h vm (ucast (local_call_target i (insns ! i))))"
    by (simp add: check_call_def Let_def)
  have "fst (validate_switch h vm insns i) = vm \<or>
      fst (validate_switch h vm insns i) = fst (check_call h vm insns i)"
    by (simp add: validate_switch_def Let_def split: option.split prod.split)
  then have "wf_vm (fst (validate_switch h vm insns i)) \<and>
      insts (fst (validate_switch h vm insns i)) = insts vm \<and>
      pointer_secret (fst (validate_switch h vm insns i)) = pointer_secret vm"
    using call "1.prems" ubpf_calculate_stack_usage_wf frame_simps by metis
  then show ?case
    using "1.IH" "1.prems"
    by (subst (1 2 3) validate_loop.simps)
      (auto simp: Let_def split: prod.splits sum.splits option.splits)
qed

lemma validate_keeps:
  assumes "wf_vm vm" "validate h vm insns = (vm', r)"
  shows "wf_vm vm'" "insts vm' = insts vm" "pointer_secret vm' = pointer_secret vm"
  using assms ubpf_calculate_stack_usage_wf [of vm h 0] calculate_stack_usage_frame [of h vm 0]
    validate_loop_keeps [of "fst (ubpf_calculate_stack_usage_for_local_func h vm 0)" h insns 0]
  by (auto simp: validate_def split: if_splits prod.splits option.splits)

lemma valid_local_call_target:
  assumes "valid_program vm insns" "k < length insns" "is_local_call (insns ! k)"
  shows "unat (local_call_target k (insns ! k)) < length insns"
proof -
  have "opcode (insns ! k) = EBPF_OP_CALL" "src (insns ! k) = 1"
    using assms(3) by (simp_all add: is_local_call_def)
  moreover from this have "valid_inst_at vm insns k"
    using assms(1,2) by (auto simp: valid_program_def valid_slot_def special_opcodes_distinct)
  ultimately have "0 \<le> sint (local_call_target k (insns ! k))"
    "sint (local_call_target k (insns ! k)) < int (length insns)"
    by (auto simp: valid_inst_at_def valid_call_def Let_def)
  then show ?thesis using sint_nonneg_unat [of "local_call_target k (insns ! k)"] by linarith
qed

lemma validate_program_frame:
  assumes "validate h vm insns = (vm', None)"
  shows "dispatcher vm' = dispatcher vm" "ext_funcs vm' = ext_funcs vm"
  using assms validate_loop_frame calculate_stack_usage_frame [of h vm 0]
  by (auto simp: validate_def split: if_splits prod.splits option.splits)

lemma length_source_insts: "length (source_insts code) = unat (of_nat (length code) div 8 :: u32)"
proof -
  have "unat (of_nat (length code) :: u32) \<le> length code"
    by (simp add: unat_of_nat)
  then show ?thesis
    by (simp add: source_insts_def length_insts_of_bytes unat_div_distrib div_le_mono)
qed

lemma source_insts_exact: "length code < 2 ^ 32 \<Longrightarrow> source_insts code = insts_of_bytes code"
  by (simp add: source_insts_def length_insts_of_bytes unat_div_distrib unat_of_nat)

lemma load_stage_ok:
  assumes wf: "wf_vm vm" and val: "validate h vm insns = (vm1, None)"
    and n: "length insns = n"
  shows "\<exists>vm'. load_loop (vm1\<lparr> insts := Some (base, map garbage [0..<n]), num_insts := of_nat n,
      int_funcs := Some (replicate n False) \<rparr>) 0 insns = Some vm' \<and> loaded vm' insns"
proof -
  let ?vm2 = "vm1\<lparr> insts := Some (base, map garbage [0..<n]), num_insts := of_nat n,
      int_funcs := Some (replicate n False) \<rparr>"
  let ?vm' = "?vm2\<lparr> insts := Some (base, map (encode_inst base (pointer_secret vm1)) insns),
      int_funcs := Some (mark_targets (replicate n False) 0 insns) \<rparr>"
  have valid: "valid_program vm insns" by (rule validate_sound [OF val])
  then have small: "n < 65536" using n by (simp add: valid_program_def UBPF_MAX_INSTS_def)
  have "load_loop ?vm2 0 insns = Some (?vm2\<lparr>
      insts := Some (base, take 0 (map garbage [0..<n])
        @ map (encode_inst base (pointer_secret ?vm2)) insns),
      int_funcs := Some (mark_targets (replicate n False) 0 insns) \<rparr>)"
    using small n valid_local_call_target [OF valid] by (intro load_loop_eq) simp_all
  then have run: "load_loop ?vm2 0 insns = Some ?vm'" by simp
  have un: "unat (of_nat n :: u16) = n" using small by (simp add: unat_of_nat)
  have "wf_vm ?vm'"
    using validate_keeps(1) [OF wf val] n un by (simp add: wf_vm_def)
  moreover have "ubpf_fetch_instruction ?vm' p = Some (insns ! unat p)" if "unat p < length insns" for p
    using that by (simp add: ubpf_fetch_instruction_def decode_encode)
  moreover have "valid_program ?vm' insns"
  proof -
    have "valid_slot ?vm' insns i = valid_slot vm insns i" for i
      by (rule valid_slot_cong) (simp_all add: validate_program_frame [OF val])
    with valid show ?thesis by (auto simp: valid_program_def)
  qed
  moreover have "mark_targets (replicate n False) 0 insns ! t \<longleftrightarrow>
      (\<exists>k < length insns. is_local_call (insns ! k) \<and> unat (local_call_target k (insns ! k)) = t)"
    if "t < length insns" for t
    using that n by (simp add: nth_mark_targets)
  ultimately have "loaded ?vm' insns"
    using n un by (simp add: loaded_def)
  with run show ?thesis by blast
qed

theorem ubpf_load_ok:
  assumes "wf_vm vm" "ubpf_load h vm code base garbage calloc_ok = Some (0, vm', msg)"
  shows "loaded vm' (source_insts code)"
proof -
  obtain vm1 where val: "validate h vm (source_insts code) = (vm1, None)" and ok: "calloc_ok" "base \<noteq> 0"
    and run: "load_loop (vm1\<lparr> insts := Some (base, map garbage [0..<length (source_insts code)]),
        num_insts := of_nat (length (source_insts code)),
        int_funcs := Some (replicate (unat (of_nat (length (source_insts code)) :: u16)) False) \<rparr>) 0
        (source_insts code) = Some vm'"
    using assms(2)
    by (auto simp: ubpf_load_def length_source_insts Let_def
        split: if_splits prod.splits option.splits)
  have "unat (of_nat (length (source_insts code)) :: u16) = length (source_insts code)"
    using validate_sound [OF val] by (simp add: valid_program_def UBPF_MAX_INSTS_def unat_of_nat)
  with run load_stage_ok [OF assms(1) val refl, of base garbage] show ?thesis by auto
qed

text \<open>Loading never writes outside its arrays, and reports success exactly when every check passes.\<close>

theorem ubpf_load_total:
  assumes "wf_vm vm"
  shows "\<exists>rc vm' msg. ubpf_load h vm code base garbage calloc_ok = Some (rc, vm', msg) \<and>
    (rc = 0 \<longleftrightarrow> msg = None) \<and> (rc \<noteq> 0 \<longrightarrow> rc = - 1)"
proof (cases "insts vm = None \<and> of_nat (length code) mod (8 :: u32) = 0")
  case False
  then consider "insts vm \<noteq> None" | "insts vm = None" "of_nat (length code) mod (8 :: u32) \<noteq> 0"
    by argo
  then show ?thesis
    by cases (simp_all only: ubpf_load_def UBPF_EBPF_STACK_SIZE_def Let_def, simp_all)
next
  case pre: True
  obtain vm1 r where val: "validate h vm (source_insts code) = (vm1, r)" by fastforce
  show ?thesis
  proof (cases "r = None \<and> base \<noteq> 0 \<and> calloc_ok")
    case False
    with pre val show ?thesis
      by (auto simp: ubpf_load_def UBPF_EBPF_STACK_SIZE_def Let_def
          split: option.split)
  next
    case True
    let ?n = "length (source_insts code)"
    have un: "unat (of_nat ?n :: u16) = ?n"
      using True val validate_sound [of h vm "source_insts code"]
      by (simp add: valid_program_def UBPF_MAX_INSTS_def unat_of_nat)
    obtain vm' where "load_loop (vm1\<lparr> insts := Some (base, map garbage [0..<?n]),
        num_insts := of_nat ?n, int_funcs := Some (replicate ?n False) \<rparr>) 0
        (source_insts code) = Some vm'"
      using load_stage_ok [OF assms, of h "source_insts code" vm1 ?n base garbage] val True by auto
    with True pre val un show ?thesis
      by (simp add: ubpf_load_def length_source_insts [symmetric] UBPF_EBPF_STACK_SIZE_def Let_def)
  qed
qed

text \<open>The exact condition for success, for an object without callbacks.\<close>

lemma ubpf_load_zero_iff:
  assumes "ubpf_load h vm code base garbage calloc_ok = Some (rc, vm', msg)"
  shows "rc = 0 \<longleftrightarrow> insts vm = None \<and> of_nat (length code) mod (8 :: u32) = 0 \<and>
    snd (validate h vm (source_insts code)) = None \<and> base \<noteq> 0 \<and> calloc_ok"
proof -
  obtain vm1 r where val: "validate h vm (source_insts code) = (vm1, r)" by fastforce
  consider "insts vm \<noteq> None" | "insts vm = None" "of_nat (length code) mod (8 :: u32) \<noteq> 0"
    | "insts vm = None" "of_nat (length code) mod (8 :: u32) = 0" "r \<noteq> None \<or> base = 0 \<or> \<not> calloc_ok"
    | "insts vm = None" "of_nat (length code) mod (8 :: u32) = 0" "r = None" "base \<noteq> 0" "calloc_ok"
    by argo
  then show ?thesis
    using assms unfolding ubpf_load_def UBPF_EBPF_STACK_SIZE_def Let_def val
    by cases (auto simp del: mod_0_imp_dvd split: option.splits if_splits)
qed

lemma ubpf_load_iff:
  assumes "wf_vm vm" "plain_vm vm" "length code < 2 ^ 32"
  shows "\<exists>rc vm' msg. ubpf_load h vm code base garbage calloc_ok = Some (rc, vm', msg) \<and>
    (rc = 0 \<longleftrightarrow> insts vm = None \<and> length code mod 8 = 0 \<and>
       valid_program vm (insts_of_bytes code) \<and> base \<noteq> 0 \<and> calloc_ok) \<and>
    (rc \<noteq> 0 \<longrightarrow> rc = - 1 \<and> msg \<noteq> None)"
proof -
  obtain rc vm' msg where run: "ubpf_load h vm code base garbage calloc_ok = Some (rc, vm', msg)"
    and rc: "rc = 0 \<longleftrightarrow> msg = None" "rc \<noteq> 0 \<longrightarrow> rc = - 1"
    using ubpf_load_total [OF assms(1)] by blast
  have "of_nat (length code) mod (8 :: u32) = 0 \<longleftrightarrow> length code mod 8 = 0"
    using assms(3) by (simp add: word_unat_eq_iff unat_mod_distrib unat_of_nat)
  moreover have "snd (validate h vm (source_insts code)) = None \<longleftrightarrow>
      valid_program vm (insts_of_bytes code)"
    using validate_sound [of h vm "source_insts code"] validate_complete [OF _ assms(2), of "insts_of_bytes code" h]
    unfolding source_insts_exact [OF assms(3)]
    by (cases "validate h vm (insts_of_bytes code)") auto
  ultimately show ?thesis
    using run rc ubpf_load_zero_iff [OF run]
    by (intro exI [of _ rc] exI [of _ vm'] exI [of _ msg]) argo
qed

text \<open>After an instruction that is not an LDDW comes the first slot of an instruction.\<close>

lemma next_slot:
  assumes "valid_program vm insns" "Suc i < length insns" "opcode (insns ! i) \<noteq> EBPF_OP_LDDW"
  shows "opcode (insns ! Suc i) \<noteq> 0"
  using assms by (auto simp: valid_program_def valid_slot_def dest: spec [of _ "Suc i"])

end
