(* ===== verification/Ubpf_Run.thy ===== *)
theory Ubpf_Run
  imports Ubpf_Exec Ubpf_Load
begin

text \<open>
  Tools for reasoning about the interpreter: the cases of its switch, which parts of the state each
  part of the loop body leaves alone, runs as sequences of steps, and the locale that turns an
  invariant of one step into a property of every run.
\<close>

section \<open>The opcodes of each part of the switch\<close>

definition alu32_opcodes :: "u8 list" where
  "alu32_opcodes = [EBPF_OP_ADD_IMM, EBPF_OP_ADD_REG, EBPF_OP_SUB_IMM, EBPF_OP_SUB_REG,
     EBPF_OP_MUL_IMM, EBPF_OP_MUL_REG, EBPF_OP_DIV_IMM, EBPF_OP_DIV_REG, EBPF_OP_OR_IMM,
     EBPF_OP_OR_REG, EBPF_OP_AND_IMM, EBPF_OP_AND_REG, EBPF_OP_LSH_IMM, EBPF_OP_LSH_REG,
     EBPF_OP_RSH_IMM, EBPF_OP_RSH_REG, EBPF_OP_NEG, EBPF_OP_MOD_IMM, EBPF_OP_MOD_REG,
     EBPF_OP_XOR_IMM, EBPF_OP_XOR_REG, EBPF_OP_MOV_IMM, EBPF_OP_MOV_REG, EBPF_OP_ARSH_IMM,
     EBPF_OP_ARSH_REG]"

definition alu64_opcodes :: "u8 list" where
  "alu64_opcodes = [EBPF_OP_ADD64_IMM, EBPF_OP_ADD64_REG, EBPF_OP_SUB64_IMM, EBPF_OP_SUB64_REG,
     EBPF_OP_MUL64_IMM, EBPF_OP_MUL64_REG, EBPF_OP_DIV64_IMM, EBPF_OP_DIV64_REG, EBPF_OP_OR64_IMM,
     EBPF_OP_OR64_REG, EBPF_OP_AND64_IMM, EBPF_OP_AND64_REG, EBPF_OP_LSH64_IMM, EBPF_OP_LSH64_REG,
     EBPF_OP_RSH64_IMM, EBPF_OP_RSH64_REG, EBPF_OP_NEG64, EBPF_OP_MOD64_IMM, EBPF_OP_MOD64_REG,
     EBPF_OP_XOR64_IMM, EBPF_OP_XOR64_REG, EBPF_OP_MOV64_IMM, EBPF_OP_MOV64_REG,
     EBPF_OP_ARSH64_IMM, EBPF_OP_ARSH64_REG]"

definition memory_opcodes :: "u8 list" where
  "memory_opcodes = [EBPF_OP_LDXW, EBPF_OP_LDXH, EBPF_OP_LDXB, EBPF_OP_LDXDW, EBPF_OP_STW,
     EBPF_OP_STH, EBPF_OP_STB, EBPF_OP_STDW, EBPF_OP_STXW, EBPF_OP_STXH, EBPF_OP_STXB, EBPF_OP_STXDW]"

lemma exec_alu32_None_iff: "exec_alu32 opc d s im = None \<longleftrightarrow> opc \<notin> set alu32_opcodes"
  by (simp add: exec_alu32_def alu32_opcodes_def)

lemma exec_alu64_None_iff: "exec_alu64 opc d s im = None \<longleftrightarrow> opc \<notin> set alu64_opcodes"
  by (simp add: exec_alu64_def alu64_opcodes_def)

lemma exec_endian_None_iff: "exec_endian opc d im = None \<longleftrightarrow> opc \<notin> {EBPF_OP_LE, EBPF_OP_BE}"
  by (simp add: exec_endian_def)

lemma exec_arith_None_iff:
  "exec_arith inst st = None \<longleftrightarrow>
     opcode inst \<notin> set alu32_opcodes \<union> set alu64_opcodes \<union> {EBPF_OP_LE, EBPF_OP_BE}"
proof -
  let ?d = "ex_reg st (dst inst)" and ?s = "ex_reg st (src inst)"
  have "exec_arith inst st = None \<longleftrightarrow> exec_alu32 (opcode inst) ?d ?s (imm inst) = None \<and>
      exec_endian (opcode inst) ?d (imm inst) = None \<and> exec_alu64 (opcode inst) ?d ?s (imm inst) = None"
    by (simp add: exec_arith_def Let_def split: option.split)
  then show ?thesis
    unfolding exec_alu32_None_iff exec_alu64_None_iff exec_endian_None_iff by blast
qed

lemma width_None_iff:
  "load_width opc = None \<and> store_imm_width opc = None \<and> store_reg_width opc = None \<longleftrightarrow>
     opc \<notin> set memory_opcodes"
  by (simp add: load_width_def store_imm_width_def store_reg_width_def memory_opcodes_def)

lemma jump_taken_None_iff: "jump_taken opc d s im = None \<longleftrightarrow> opc \<notin> set jump_opcodes"
proof -
  have "jump_taken opc d s im = None \<longleftrightarrow>
      jump_taken_unsigned opc d s im = None \<and> jump_taken_signed opc d s im = None"
    by (simp add: jump_taken_def split: option.split)
  then show ?thesis
    by (simp add: jump_taken_unsigned_def jump_taken_signed_def jump_opcodes_def conj_ac)
qed

lemma all_opcodes_parts:
  "set all_opcodes = set alu32_opcodes \<union> {EBPF_OP_LE, EBPF_OP_BE} \<union> set alu64_opcodes \<union>
     set memory_opcodes \<union> {EBPF_OP_LDDW} \<union> set jump_opcodes \<union> {EBPF_OP_EXIT, EBPF_OP_CALL}"
  unfolding all_opcodes_def alu32_opcodes_def alu64_opcodes_def memory_opcodes_def jump_opcodes_def
    append.simps list.set Un_insert_left Un_empty_left
  by (simp add: insert_commute)

lemma lddw_separate_check:
  "list_all (\<lambda>x. x \<noteq> EBPF_OP_LDDW) (alu32_opcodes @ alu64_opcodes @ memory_opcodes)"
  by code_simp

lemma lddw_separate:
  "EBPF_OP_LDDW \<notin> set alu32_opcodes \<union> set alu64_opcodes \<union> {EBPF_OP_LE, EBPF_OP_BE}"
  "EBPF_OP_LDDW \<notin> set memory_opcodes"
  using lddw_separate_check special_opcodes_distinct by (auto simp: list_all_iff)

section \<open>The cases of the switch\<close>

lemma exec_arith_Some:
  "exec_arith inst st = Some st' \<Longrightarrow> \<exists>v. st' = set_reg st (dst inst) v"
  by (auto simp: exec_arith_def Let_def split: option.splits)

lemma width_values:
  "load_width opc = Some n \<Longrightarrow> n \<in> access_sizes"
  "store_imm_width opc = Some n \<Longrightarrow> n \<in> access_sizes"
  "store_reg_width opc = Some n \<Longrightarrow> n \<in> access_sizes"
  by (auto simp: load_width_def store_imm_width_def store_reg_width_def split: if_splits)

lemma exec_switch_cases:
  assumes "exec_switch h vm args cur_pc inst st = r"
  obtains (arith) v where "r = Inr (set_reg st (dst inst) v)" "opcode inst \<noteq> EBPF_OP_LDDW"
  | (load) n where "load_width (opcode inst) = Some n" "r = exec_load h vm args cur_pc inst n st"
      "opcode inst \<noteq> EBPF_OP_LDDW"
  | (store) n v where "n \<in> access_sizes" "r = exec_store h vm args cur_pc inst n v st"
      "opcode inst \<noteq> EBPF_OP_LDDW"
  | (lddw) "opcode inst = EBPF_OP_LDDW" "r = exec_lddw vm inst st"
  | (jump) taken where "r = Inr (if taken then st\<lparr> ex_pc := ex_pc st + offset inst \<rparr> else st)"
      "opcode inst \<in> set jump_opcodes"
  | (exit) "opcode inst = EBPF_OP_EXIT" "r = exec_exit st"
  | (call) "opcode inst = EBPF_OP_CALL" "r = exec_call h vm args cur_pc inst st"
  | (unknown) "r = Inl (Failed (UnknownOpcodeAt (opcode inst) cur_pc) (ex_memory st))"
      "opcode inst \<notin> set all_opcodes"
proof (cases "exec_arith inst st")
  case (Some st')
  moreover obtain v where "st' = set_reg st (dst inst) v" using exec_arith_Some [OF Some] by blast
  ultimately have "r = Inr (set_reg st (dst inst) v)" using assms by (simp add: exec_switch_def)
  moreover have "opcode inst \<noteq> EBPF_OP_LDDW"
    using Some exec_arith_None_iff [of inst st] lddw_separate(1) by force
  ultimately show ?thesis by (rule arith)
next
  case no_arith: None
  show ?thesis
  proof (cases "load_width (opcode inst)")
    case (Some n)
    with no_arith assms have "r = exec_load h vm args cur_pc inst n st" by (simp add: exec_switch_def)
    moreover have "opcode inst \<noteq> EBPF_OP_LDDW"
      using Some width_None_iff [of "opcode inst"] lddw_separate(2) by force
    ultimately show ?thesis by (rule load [OF Some])
  next
    case no_load: None
    show ?thesis
    proof (cases "store_imm_width (opcode inst)")
      case (Some n)
      with no_arith no_load assms
      have "r = exec_store h vm args cur_pc inst n (scast (imm inst)) st"
        by (simp add: exec_switch_def)
      moreover have "opcode inst \<noteq> EBPF_OP_LDDW"
        using Some width_None_iff [of "opcode inst"] lddw_separate(2) by force
      ultimately show ?thesis by (rule store [OF width_values(2) [OF Some]])
    next
      case no_imm: None
      show ?thesis
      proof (cases "store_reg_width (opcode inst)")
        case (Some n)
        with no_arith no_load no_imm assms
        have "r = exec_store h vm args cur_pc inst n (ex_reg st (src inst)) st"
          by (simp add: exec_switch_def)
        moreover have "opcode inst \<noteq> EBPF_OP_LDDW"
          using Some width_None_iff [of "opcode inst"] lddw_separate(2) by force
        ultimately show ?thesis by (rule store [OF width_values(3) [OF Some]])
      next
        case no_reg: None
        with no_arith no_load no_imm assms
        have r: "r = (if opcode inst = EBPF_OP_LDDW then exec_lddw vm inst st
            else case jump_taken (opcode inst) (ex_reg st (dst inst)) (ex_reg st (src inst)) (imm inst) of
              Some taken \<Rightarrow> Inr (if taken then st\<lparr> ex_pc := ex_pc st + offset inst \<rparr> else st)
            | None \<Rightarrow> if opcode inst = EBPF_OP_EXIT then exec_exit st
                else if opcode inst = EBPF_OP_CALL then exec_call h vm args cur_pc inst st
                else Inl (Failed (UnknownOpcodeAt (opcode inst) cur_pc) (ex_memory st)))"
          by (simp add: exec_switch_def Let_def)
        show ?thesis
        proof (cases "opcode inst = EBPF_OP_LDDW")
          case True
          with r show ?thesis by (intro lddw) simp_all
        next
          case no_lddw: False
          show ?thesis
          proof (cases "jump_taken (opcode inst) (ex_reg st (dst inst)) (ex_reg st (src inst)) (imm inst)")
            case (Some taken)
            then have "opcode inst \<in> set jump_opcodes"
              by (metis jump_taken_None_iff option.distinct(1))
            with Some r no_lddw show ?thesis by (intro jump [of taken]) simp_all
          next
            case None
            have "opcode inst \<notin> set all_opcodes"
              if "opcode inst \<noteq> EBPF_OP_EXIT" "opcode inst \<noteq> EBPF_OP_CALL"
              unfolding all_opcodes_parts
              using that None no_lddw no_arith no_load no_imm no_reg
              by (simp add: exec_arith_None_iff jump_taken_None_iff
                  width_None_iff [of "opcode inst", THEN iffD1])
            with None r no_lddw show ?thesis using exit call unknown by (simp split: if_splits)
          qed
        qed
      qed
    qed
  qed
qed

section \<open>What a step leaves alone\<close>

lemma set_reg_frame [simp]:
  "ex_pc (set_reg st r v) = ex_pc st" "ex_frame_index (set_reg st r v) = ex_frame_index st"
  "ex_frames (set_reg st r v) = ex_frames st" "ex_memory (set_reg st r v) = ex_memory st"
  "ex_shadow_registers (set_reg st r v) = ex_shadow_registers st"
  "ex_shadow_stack (set_reg st r v) = ex_shadow_stack st" "ex_limit (set_reg st r v) = ex_limit st"
  "ex_previous (set_reg st r v) = ex_previous st"
  "ex_reg (set_reg st r v) = (ex_reg st)(r := v)"
  by (simp_all add: set_reg_def)

lemma exec_tail_frame [simp]:
  "ex_pc (exec_tail inst st) = ex_pc st" "ex_frame_index (exec_tail inst st) = ex_frame_index st"
  "ex_frames (exec_tail inst st) = ex_frames st" "ex_memory (exec_tail inst st) = ex_memory st"
  "ex_shadow_registers (exec_tail inst st) = ex_shadow_registers st"
  "ex_shadow_stack (exec_tail inst st) = ex_shadow_stack st"
  "ex_limit (exec_tail inst st) = ex_limit st"
  "ex_previous (exec_tail inst st) = inst"
  by (simp_all add: exec_tail_def Let_def)

lemma exec_load_Inr:
  "exec_load h vm args cur_pc inst n st = Inr st' \<Longrightarrow> \<exists>v. st' = set_reg st (dst inst) v"
  by (auto simp: exec_load_def Let_def split: option.splits sum.splits)

lemma exec_store_Inr:
  assumes "exec_store h vm args cur_pc inst n v st = Inr st'"
  obtains ss m where "st' = st\<lparr> ex_shadow_stack := ss, ex_memory := m \<rparr>"
    and "bounds_check h vm (ex_reg st (dst inst) + scast (offset inst)) n Store_access cur_pc
      (arg_mem args) (arg_mem_len args) (arg_stack_start args) (arg_stack_length args) = None"
    and "ubpf_mark_shadow_stack vm (arg_stack_start args) (arg_stack_length args)
      (ex_shadow_stack st) (ex_reg st (dst inst) + scast (offset inst)) n = Some ss"
    and "ubpf_mem_store (ex_memory st) (ex_reg st (dst inst) + scast (offset inst)) v n = Inr m"
  using assms
  by (auto simp: exec_store_def BOUNDS_CHECK_STORE_def Let_def split: option.splits sum.splits)

lemma exec_lddw_Inr:
  "exec_lddw vm inst st = Inr st' \<Longrightarrow>
     \<exists>v. st' = (set_reg st (dst inst) v)\<lparr> ex_pc := ex_pc st + 1 \<rparr>"
  by (auto simp: exec_lddw_def split: option.splits)

lemma exec_external_call_Inr:
  "exec_external_call h vm args inst st = Inr st' \<Longrightarrow>
     \<exists>v m. st' = (set_reg st 0 v)\<lparr> ex_memory := m \<rparr>"
  by (auto simp: exec_external_call_def Let_def split: option.splits if_splits prod.splits)

lemma exec_switch_limit:
  assumes "exec_switch h vm args cur_pc inst st = Inr st'"
  shows "ex_limit st' = ex_limit st"
  using assms
proof (cases rule: exec_switch_cases)
  case (load n)
  then show ?thesis using exec_load_Inr [of h vm args cur_pc inst n st st'] by auto
next
  case (store n v)
  from store(2) [symmetric] show ?thesis by (rule exec_store_Inr) simp
next
  case lddw
  then show ?thesis using exec_lddw_Inr [of vm inst st st'] by auto
next
  case call
  then show ?thesis
    using exec_external_call_Inr [of h vm args inst st st']
    by (auto simp: exec_call_def exec_local_call_def Let_def split: if_splits)
qed (auto simp: exec_exit_def Let_def split: if_splits)

lemma enter_function_Inr:
  assumes "enter_function vm st = Inr st'"
  shows "\<exists>frames. st' = st\<lparr> ex_frames := frames \<rparr> \<and> (frames = ex_frames st \<or>
    frames = (ex_frames st)[ex_frame_index st := (ex_frames st ! ex_frame_index st)
        \<lparr> frame_stack_usage := ubpf_stack_usage_for_local_func vm (ex_pc st) \<rparr>])"
proof -
  let ?frames = "(ex_frames st)[ex_frame_index st := (ex_frames st ! ex_frame_index st)
    \<lparr> frame_stack_usage := ubpf_stack_usage_for_local_func vm (ex_pc st) \<rparr>]"
  have "st' = st \<or> st' = st\<lparr> ex_frames := ?frames \<rparr>"
    using assms by (auto simp: enter_function_def split: if_splits option.splits)
  moreover have "st = st\<lparr> ex_frames := ex_frames st \<rparr>" by simp
  ultimately show ?thesis by metis
qed

text \<open>The loop head: what it has checked and what it changed.\<close>

lemma exec_head_Inr:
  assumes "exec_head vm st = Inr (inst, st')"
  obtains frames sr limit where
    "st' = st\<lparr> ex_pc := ex_pc st + 1, ex_frames := frames, ex_shadow_registers := sr,
              ex_limit := limit \<rparr>"
    and "ubpf_fetch_instruction vm (ex_pc st) = Some inst" and "ex_pc st < num_insts vm"
    and "ubpf_validate_shadow_register vm (ex_shadow_registers st) inst = Inr sr"
    and "instruction_limit vm \<noteq> 0 \<longrightarrow> 0 < sint (ex_limit st)"
    and "limit = (if instruction_limit vm \<noteq> 0 then ex_limit st - 1 else ex_limit st)"
    and "frames = ex_frames st \<or> frames = (ex_frames st)[ex_frame_index st :=
      (ex_frames st ! ex_frame_index st)
        \<lparr> frame_stack_usage := ubpf_stack_usage_for_local_func vm (ex_pc st) \<rparr>]"
proof -
  let ?limit = "if instruction_limit vm \<noteq> 0 then ex_limit st - 1 else ex_limit st"
  let ?st1 = "st\<lparr> ex_limit := ?limit \<rparr>"
  have st1: "(if instruction_limit vm \<noteq> 0 then st\<lparr> ex_limit := ex_limit st - 1 \<rparr> else st) = ?st1"
    by simp
  have guards: "ex_pc st < num_insts vm" "instruction_limit vm \<noteq> 0 \<longrightarrow> 0 < sint (ex_limit st)"
    using assms by (auto simp: exec_head_def split: if_splits)
  then have body: "(case enter_function vm ?st1 of
      Inl stop \<Rightarrow> Inl stop
    | Inr st2 \<Rightarrow> (case ubpf_fetch_instruction vm (ex_pc st2) of
        None \<Rightarrow> Inl (Crashed Fault)
      | Some inst \<Rightarrow>
          (case ubpf_validate_shadow_register vm (ex_shadow_registers st2) inst of
             Inl e \<Rightarrow> Inl (Failed e (ex_memory st2))
           | Inr sr \<Rightarrow> Inr (inst, st2\<lparr> ex_pc := ex_pc st2 + 1, ex_shadow_registers := sr \<rparr>))))
      = Inr (inst, st')"
    using assms unfolding exec_head_def Let_def st1 by (auto split: if_splits)
  then obtain st2 where enter: "enter_function vm ?st1 = Inr st2"
    by (cases "enter_function vm ?st1") simp_all
  from enter_function_Inr [OF enter] obtain frames where st2: "st2 = ?st1\<lparr> ex_frames := frames \<rparr>"
    and frames: "frames = ex_frames st \<or> frames = (ex_frames st)[ex_frame_index st :=
      (ex_frames st ! ex_frame_index st)
        \<lparr> frame_stack_usage := ubpf_stack_usage_for_local_func vm (ex_pc st) \<rparr>]"
    by auto
  from body enter obtain sr where fetch: "ubpf_fetch_instruction vm (ex_pc st2) = Some inst"
    and sr: "ubpf_validate_shadow_register vm (ex_shadow_registers st2) inst = Inr sr"
    and st': "st' = st2\<lparr> ex_pc := ex_pc st2 + 1, ex_shadow_registers := sr \<rparr>"
    by (auto split: option.splits sum.splits)
  show ?thesis
    using st2 fetch guards sr st' frames by (intro that [of ?limit sr frames]) simp_all
qed

section \<open>Runs\<close>

text \<open>\<open>exec_steps h vm args n st st'\<close>: from \<open>st\<close>, \<open>n\<close> iterations of the loop lead to \<open>st'\<close>.\<close>

inductive exec_steps ::
  "host \<Rightarrow> ubpf_vm \<Rightarrow> exec_args \<Rightarrow> nat \<Rightarrow> exec_state \<Rightarrow> exec_state \<Rightarrow> bool"
  for h vm args
where
  exec_steps_refl: "exec_steps h vm args 0 st st"
| exec_steps_step: "exec_step h vm args st = Inr st1 \<Longrightarrow> exec_steps h vm args n st1 st2 \<Longrightarrow>
    exec_steps h vm args (Suc n) st st2"

inductive_cases exec_steps_0E: "exec_steps h vm args 0 st st'"
inductive_cases exec_steps_SucE: "exec_steps h vm args (Suc n) st st'"

lemma exec_loop_step: "exec_step h vm args st = Inr st' \<Longrightarrow> exec_loop h vm args st = exec_loop h vm args st'"
  by (simp add: exec_loop.simps [of h vm args st])

lemma exec_loop_stop: "exec_step h vm args st = Inl stop \<Longrightarrow> exec_loop h vm args st = Some stop"
  by (simp add: exec_loop.simps [of h vm args st])

lemma exec_steps_loop:
  "exec_steps h vm args n st st' \<Longrightarrow> exec_loop h vm args st = exec_loop h vm args st'"
  by (induction rule: exec_steps.induct) (simp_all add: exec_loop_step)

lemma exec_loop_steps:
  assumes "exec_loop h vm args st = Some stop"
  shows "\<exists>n st'. exec_steps h vm args n st st' \<and> exec_step h vm args st' = Inl stop"
proof (rule exec_loop.raw_induct [OF _ assms])
  fix loop h vm args st stop
  assume IH: "\<And>h vm args st stop. loop h vm args st = Some stop \<Longrightarrow>
      \<exists>n st'. exec_steps h vm args n st st' \<and> exec_step h vm args st' = Inl stop"
    and run: "(case exec_step h vm args st of Inl stop \<Rightarrow> Some stop | Inr st' \<Rightarrow> loop h vm args st') =
      Some stop"
  show "\<exists>n st'. exec_steps h vm args n st st' \<and> exec_step h vm args st' = Inl stop"
  proof (cases "exec_step h vm args st")
    case (Inl s)
    then show ?thesis using run exec_steps_refl by force
  next
    case (Inr st1)
    then have "loop h vm args st1 = Some stop" using run by simp
    from IH [OF this] exec_steps_step [OF Inr] show ?thesis by blast
  qed
qed

text \<open>The first iterations of a run, computed.\<close>

fun run_steps :: "host \<Rightarrow> ubpf_vm \<Rightarrow> exec_args \<Rightarrow> nat \<Rightarrow> exec_state \<Rightarrow> exec_state option" where
  "run_steps h vm args 0 st = Some st"
| "run_steps h vm args (Suc n) st =
     (case exec_step h vm args st of Inl _ \<Rightarrow> None | Inr st1 \<Rightarrow> run_steps h vm args n st1)"

lemma run_steps_last:
  "run_steps h vm args (Suc n) st = Some st' \<Longrightarrow>
     \<exists>s. run_steps h vm args n st = Some s \<and> exec_step h vm args s = Inr st'"
  by (induction n arbitrary: st) (auto split: sum.splits)

lemma run_steps_exec_steps: "run_steps h vm args n st = Some st' \<Longrightarrow> exec_steps h vm args n st st'"
  by (induction n arbitrary: st) (auto split: sum.splits intro: exec_steps.intros)

text \<open>
  An invariant of the loop body, with a property of how the body may leave the loop, holds of every
  state a run reaches and of the way the run ends.
\<close>

locale exec_invariant =
  fixes h :: host and vm :: ubpf_vm and args :: exec_args
    and inv :: "exec_state \<Rightarrow> bool" and post :: "exec_stop \<Rightarrow> bool"
  assumes step_keeps: "inv st \<Longrightarrow> exec_step h vm args st = Inr st' \<Longrightarrow> inv st'"
    and step_stops: "inv st \<Longrightarrow> exec_step h vm args st = Inl stop \<Longrightarrow> post stop"
begin

lemma steps_inv: "exec_steps h vm args n st st' \<Longrightarrow> inv st \<Longrightarrow> inv st'"
  by (induction rule: exec_steps.induct) (auto intro: step_keeps)

lemma loop_post: "exec_loop h vm args st = Some stop \<Longrightarrow> inv st \<Longrightarrow> post stop"
  using exec_loop_steps steps_inv step_stops by blast

end

section \<open>The instruction limit\<close>

lemma exec_step_Inr:
  assumes "exec_step h vm args st = Inr st'"
  obtains inst st1 st2 where "exec_head vm st = Inr (inst, st1)"
    and "exec_switch h vm args (ex_pc st) inst st1 = Inr st2" and "st' = exec_tail inst st2"
  using assms by (auto simp: exec_step_def split: sum.splits prod.splits)

lemma exec_step_limit:
  assumes "exec_step h vm args st = Inr st'" "instruction_limit vm \<noteq> 0"
  shows "0 < sint (ex_limit st)" and "sint (ex_limit st') = sint (ex_limit st) - 1"
proof -
  from assms(1) obtain inst st1 st2 where head: "exec_head vm st = Inr (inst, st1)"
    and sw: "exec_switch h vm args (ex_pc st) inst st1 = Inr st2" and st': "st' = exec_tail inst st2"
    by (rule exec_step_Inr)
  from head have l: "0 < sint (ex_limit st) \<and> ex_limit st1 = ex_limit st - 1"
    by (rule exec_head_Inr) (use assms(2) in auto)
  then have l': "ex_limit st' = ex_limit st - 1"
    using exec_switch_limit [OF sw] st' by simp
  show pos: "0 < sint (ex_limit st)" using l by simp
  have "sint (ex_limit st - 1) = signed_take_bit 31 (sint (ex_limit st) - 1)"
    by (simp add: sint_word_ariths)
  also have "\<dots> = sint (ex_limit st) - 1"
    using pos sint_lt [of "ex_limit st"] by (intro signed_take_bit_int_eq_self) auto
  finally show "sint (ex_limit st') = sint (ex_limit st) - 1" using l' by simp
qed

lemma exec_steps_limit:
  assumes "exec_steps h vm args n st st'" "instruction_limit vm \<noteq> 0"
  shows "n = 0 \<or> sint (ex_limit st') = sint (ex_limit st) - int n \<and> int n \<le> sint (ex_limit st)"
  using assms
proof (induction rule: exec_steps.induct)
  case (exec_steps_step st st1 n st2)
  then show ?case using exec_step_limit [OF exec_steps_step(1,4)] by (auto elim: exec_steps_0E)
qed simp

lemma exec_loop_terminates:
  assumes "instruction_limit vm \<noteq> 0"
  shows "\<exists>stop. exec_loop h vm args st = Some stop"
proof (induction "nat (sint (ex_limit st))" arbitrary: st rule: less_induct)
  case less
  show ?case
  proof (cases "exec_step h vm args st")
    case (Inl stop)
    then show ?thesis using exec_loop_stop by blast
  next
    case (Inr st')
    with less [of st'] exec_step_limit [OF Inr assms] show ?thesis
      by (simp add: exec_loop_step [OF Inr])
  qed
qed

end
