(* ===== verification/Jit_Translate.thy ===== *)
theory Jit_Translate
  imports Jit_Grow Ubpf_Run Ubpf_Load
begin

text \<open>
  Budgets of the larger pieces of the x86-64 code generator and of a whole translation: what it appends
  is well-formed, and a program that fits the buffer and the tables is translated without an error.
\<close>

section \<open>Addresses relative to the instruction pointer\<close>

lemma rip_prefix:
  assumes "keeps same_tables 0 0 m"
  shows "js_loads (jit_exec m st) = js_loads st" "js_leas (jit_exec m st) = js_leas st"
  using keepsD [OF assms, of st] by (simp_all add: same_tables_def)

lemma rip_prefix_keeps:
  "emits 3 0 (do { emit_rex 1 (of_bool p) 0 0; emit1 op; emit_modrm 0 d 0x05 })"
  "keeps same_tables 0 0 (do { emit_rex 1 (of_bool p) 0 0; emit1 op; emit_modrm 0 d 0x05 })"
proof -
  have rex: "emits 1 0 (emit_rex 1 (of_bool p) 0 0)"
    using emit_rex_bits_keeps(1,2) by (cases p) simp_all
  show "emits 3 0 (do { emit_rex 1 (of_bool p) 0 0; emit1 op; emit_modrm 0 d 0x05 })"
    by (rule code.keeps_mono, (rule code.keeps_bind rex grow_rules)+) simp_all
  show "keeps same_tables 0 0 (do { emit_rex 1 (of_bool p) 0 0; emit1 op; emit_modrm 0 d 0x05 })"
    by (rule tables.keeps_mono, (rule tables.keeps_bind emit_rex_tables emit_tables emit_modrm_tables)+)
      simp_all
qed

lemma emit_rip_relative_load_keeps [grow_rules]:
  "emits 7 1 (emit_rip_relative_load d TARGET_PC_EXTERNAL_DISPATCHER)"
proof (rule keepsI, rule grows_if_wf)
  fix st
  assume wf: "wf_jit st"
  let ?m = "do { emit_rex 1 (of_bool False) 0 0; emit1 0x8b; emit_modrm 0 d 0x05 }"
  let ?st = "jit_exec ?m st"
  have pre: "grows good_jump 3 0 st ?st" by (rule keepsD [OF rip_prefix_keeps(1)])
  have loads: "js_loads ?st = js_loads st" by (rule rip_prefix [OF rip_prefix_keeps(2)])
  have wf': "wf_jit ?st" by (rule grows_wf [OF pre wf])
  show "grows good_jump 7 1 st (jit_exec (emit_rip_relative_load d TARGET_PC_EXTERNAL_DISPATCHER) st)"
  proof (cases "length (js_loads st) = UBPF_MAX_INSTS")
    case True
    then have "grows good_jump 7 1 st (jit_exec (jit_set_status TooManyLoads) st)"
      by (intro full_table_grows) (simp_all add: entries_def)
    with True show ?thesis by (simp add: emit_rip_relative_load_def)
  next
    case False
    then have room: "length (js_loads ?st) < UBPF_MAX_INSTS" using loads table_room(3) [OF wf] by simp
    have "grows good_jump (3 + 4) (0 + 1) st (jit_exec emit_4byte_offset_placeholder
        (?st\<lparr> js_loads := js_loads ?st @ [entry_at (js_offset ?st) TARGET_PC_EXTERNAL_DISPATCHER False] \<rparr>))"
      by (rule grows_trans [OF pre note_grows(3) [OF wf' room good_entry(3)]])
    moreover have "jit_exec (emit_rip_relative_load d TARGET_PC_EXTERNAL_DISPATCHER) st =
        jit_exec emit_4byte_offset_placeholder (jit_exec (note_load TARGET_PC_EXTERNAL_DISPATCHER) ?st)"
      using False by (simp add: emit_rip_relative_load_def)
    ultimately show ?thesis using note_exec(3) [OF wf'] room by simp
  qed
qed

lemma emit_rip_relative_lea_keeps [grow_rules]:
  "emits 7 1 (emit_rip_relative_lea d TARGET_LOAD_HELPER_TABLE)"
proof (rule keepsI, rule grows_if_wf)
  fix st
  assume wf: "wf_jit st"
  let ?m = "do { emit_rex 1 (of_bool True) 0 0; emit1 0x8d; emit_modrm 0 d 0x05 }"
  let ?st = "jit_exec ?m st"
  have pre: "grows good_jump 3 0 st ?st" by (rule keepsD [OF rip_prefix_keeps(1)])
  have leas: "js_leas ?st = js_leas st" by (rule rip_prefix [OF rip_prefix_keeps(2)])
  have wf': "wf_jit ?st" by (rule grows_wf [OF pre wf])
  show "grows good_jump 7 1 st (jit_exec (emit_rip_relative_lea d TARGET_LOAD_HELPER_TABLE) st)"
  proof (cases "length (js_leas st) = UBPF_MAX_INSTS")
    case True
    then have "grows good_jump 7 1 st (jit_exec (jit_set_status TooManyLeas) st)"
      by (intro full_table_grows) (simp_all add: entries_def)
    with True show ?thesis by (simp add: emit_rip_relative_lea_def)
  next
    case False
    then have room: "length (js_leas ?st) < UBPF_MAX_INSTS" using leas table_room(4) [OF wf] by simp
    have "grows good_jump (3 + 4) (0 + 1) st (jit_exec emit_4byte_offset_placeholder
        (?st\<lparr> js_leas := js_leas ?st @ [entry_at (js_offset ?st) TARGET_LOAD_HELPER_TABLE False] \<rparr>))"
      by (rule grows_trans [OF pre note_grows(4) [OF wf' room good_entry(4)]])
    moreover have "jit_exec (emit_rip_relative_lea d TARGET_LOAD_HELPER_TABLE) st =
        jit_exec emit_4byte_offset_placeholder (jit_exec (note_lea TARGET_LOAD_HELPER_TABLE) ?st)"
      using False by (simp add: emit_rip_relative_lea_def)
    ultimately show ?thesis using note_exec(4) [OF wf'] room by simp
  qed
qed

section \<open>Calls\<close>

lemma fixup_noop_grows:
  assumes "wf_jit st \<Longrightarrow> js_status st = NoError \<Longrightarrow> \<forall>e \<in> set (js_jumps st). offset_loc e \<noteq> loc"
  shows "grows G 0 0 st (st\<lparr> js_jumps := fixup_jump_target (js_jumps st) loc d \<rparr>)"
proof (rule grows_if_wf)
  assume wf: "wf_jit st"
  have "placed G 0 st (st\<lparr> js_jumps := fixup_jump_target (js_jumps st) loc d \<rparr>)" if "js_status st = NoError"
    using assms [OF wf that] by (simp add: placed_def fixup_id)
  with fixup_wf [OF wf] show ?thesis by (simp add: grows_def)
qed

lemma emit_basic_rex_tables: "keeps same_tables 0 0 (emit_basic_rex w s d)"
  unfolding emit_basic_rex_def using emit_rex_tables by (simp add: tables.keeps_return)

lemma emit_load_imm_tables: "keeps same_tables 0 0 (emit_load_imm d i)"
proof -
  have e8: "keeps same_tables 0 0 (emit8 i)" for i by (simp only: emit8_def emit_bytes_tables)
  show ?thesis
    unfolding emit_load_imm_def emit_alu64_imm32_def emit_alu64_def emit_modrm_reg2reg_def
    by (rule tables.keeps_mono, (rule tables.keeps_if tables.keeps_bind emit_basic_rex_tables
        emit_tables emit_modrm_tables e8)+) simp_all
qed

lemma emit_dispatched_external_helper_call_keeps [grow_rules]:
  "emits 77 3 (emit_dispatched_external_helper_call idx)"
proof (rule keepsI, rule grows_if_wf)
  fix st
  assume wf: "wf_jit st"
  let ?A = "do { emit_push VOLATILE_CTXT; emit_push VOLATILE_CTXT;
     _ \<leftarrow> emit_rip_relative_load RAX TARGET_PC_EXTERNAL_DISPATCHER; emit_cmp_imm32 RAX 0 }"
  let ?B = "do { emit_alu32 0xc7 0 RAX; emit4 idx; emit_alu64_imm8 0xc1 4 RAX 3;
     emit_rip_relative_lea R10 TARGET_LOAD_HELPER_TABLE; emit_alu64 0x01 R10 RAX;
     emit_load S64 RAX RAX 0; emit_mov VOLATILE_CTXT R9 }"
  let ?D = "do { emit1 0xff; emit1 0xd0; emit_pop VOLATILE_CTXT; emit_pop VOLATILE_CTXT }"
  define s1 s2 s3 s4 s5 where "s1 = jit_exec ?A st" and "s2 = jit_exec (emit_jcc 0x85 0) s1"
    and "s3 = jit_exec ?B s2" and "s4 = jit_exec (emit1 0xe9) s3"
    and "s5 = jit_exec emit_4byte_offset_placeholder s4"
  define loc where "loc = jit_value (emit_jcc 0x85 0) s1"
  define s6 where "s6 = s5\<lparr> js_jumps := fixup_jump_target (js_jumps s5) loc (js_offset s5) \<rparr>"
  define s7 where "s7 = jit_exec (emit_load_imm R9 (ucast idx)) s6"
  define s8 where "s8 = s7\<lparr> js_jumps := fixup_jump_target (js_jumps s7) (js_offset s4) (js_offset s7) \<rparr>"
  have "emits 18 1 ?A" by (rule code.keeps_mono, (assumption | rule seq_rules grow_rules)+) simp_all
  then have g1: "grows good_jump 18 1 st s1" unfolding s1_def by (rule keepsD)
  have B: "emits 32 1 ?B" by (rule code.keeps_mono, (assumption | rule seq_rules grow_rules)+) simp_all
  have g23: "grows good_jump 32 1 s2 s3" unfolding s3_def by (rule keepsD [OF B])
  have g34: "grows good_jump 1 0 s3 s4" unfolding s4_def by (rule keepsD [OF emit_keeps(1)])
  have g45: "grows good_jump 4 0 s4 s5" unfolding s5_def by (rule keepsD [OF emit_keeps(5)])
  have body: "grows good_jump 37 1 (jit_exec (emit_jcc 0x85 0) s1) s5"
    using code.trans [OF code.trans [OF g23 g34] g45] by (simp add: s2_def)
  have g6: "grows good_jump (6 + 37) (1 + 1) s1 s6"
    unfolding s6_def loc_def by (rule forward_grows [OF forward_jcc body]) (simp add: good_jump_def)
  have g67: "grows good_jump 10 0 s6 s7" unfolding s7_def by (rule keepsD [OF emit_load_imm_keeps])
  have wf3: "wf_jit s3"
    using grows_wf [OF g1 wf] forward_jcc [of 0 "0x85"] grows_wf [OF g23]
    by (auto simp: forward_def s2_def dest: grows_wf)
  have g78: "grows good_jump 0 0 s7 s8"
    unfolding s8_def
  proof (rule fixup_noop_grows)
    assume ok: "js_status s7 = NoError"
    have "js_status s5 = NoError"
      using ok grows_no_error [OF g67] fixup_wf grows_wf [OF code.trans [OF g34 g45] wf3]
      by (simp add: s6_def)
    then have ok4: "js_status s4 = NoError" using grows_no_error [OF g45] grows_wf [OF g34 wf3] by blast
    then have "js_status s3 = NoError" using grows_no_error [OF g34 wf3] by blast
    then have "\<forall>e \<in> set (js_jumps s3). offset_loc e \<le> js_offset s3" using wf3 by (simp add: wf_jit_def)
    then have below: "\<forall>l \<in> offset_loc ` set (js_jumps s3). l \<noteq> js_offset s4"
      using emit1_exact [OF wf3, of "0xe9"] ok4 by (auto simp: s4_def)
    have "js_jumps s5 = js_jumps s3"
      using keepsD [OF emit_tables(1), of s3 "0xe9"] keepsD [OF emit_tables(2), of s4 0]
      by (simp add: same_tables_def s4_def s5_def emit_4byte_offset_placeholder_def)
    moreover have "js_jumps s7 = js_jumps s6"
      using keepsD [OF emit_load_imm_tables, of s6 R9 "ucast idx"] by (simp add: same_tables_def s7_def)
    moreover have "offset_loc ` set (js_jumps s6) = offset_loc ` set (js_jumps s5)"
      by (simp add: s6_def offset_loc_fixup_set)
    ultimately show "\<forall>e \<in> set (js_jumps s7). offset_loc e \<noteq> js_offset s4" using below by (metis imageI)
  qed
  have D: "emits 6 0 ?D" by (rule code.keeps_mono, (assumption | rule seq_rules grow_rules)+) simp_all
  have "grows good_jump 77 3 st (jit_exec ?D s8)"
    using code.trans [OF code.trans [OF code.trans [OF code.trans [OF g1 g6] g67] g78] keepsD [OF D]]
    by (simp add: numeral_3_eq_3)
  moreover have "jit_exec (emit_dispatched_external_helper_call idx) st = jit_exec ?D s8"
    by (simp add: emit_dispatched_external_helper_call_def emit_jump_target_def Let_def
        s8_def s7_def s6_def s5_def s4_def s3_def s2_def s1_def loc_def)
  ultimately show "grows good_jump 77 3 st (jit_exec (emit_dispatched_external_helper_call idx) st)" by simp
qed

lemma map_register_keeps [grow_rules]:
  "emits 0 0 (map_register rm 0)" "emits 0 0 (map_register rm 1)" "emits 0 0 (map_register rm 6)"
  "emits 0 0 (map_register rm 7)" "emits 0 0 (map_register rm 8)" "emits 0 0 (map_register rm 9)"
  "emits 0 0 (map_register rm 10)"
  by (rule code.keeps_map_register; simp)+

lemma emit_local_call_keeps [grow_rules]: "call_index t \<Longrightarrow> emits 29 1 (emit_local_call rm t)"
  unfolding emit_local_call_def
  by (rule code.keeps_mono, (assumption | rule seq_rules grow_rules)+) simp_all

section \<open>The tail of the generated code\<close>

text \<open>The jump of the retpoline: its target field holds a code offset that is not ahead of it.\<close>

lemma emit_jmp_back_grows:
  assumes "wf_jit st \<Longrightarrow> t \<le> js_offset st"
  shows "grows good_jump 5 1 st (jit_exec (emit_jmp t) st)"
proof (rule grows_if_wf)
  assume wf: "wf_jit st"
  let ?st = "jit_exec (emit1 0xe9) st"
  have g: "grows good_jump 1 0 st ?st" by (rule keepsD [OF emit_keeps(1)])
  then have "js_offset st \<le> js_offset ?st" using wf by (simp add: grows_def)
  with assms [OF wf] have "good_jump (entry_at (js_offset ?st) t False)"
    by (auto simp: good_jump_def intro: order_trans)
  from code.trans [OF g emit_jump_address_reloc_grows [of good_jump, OF this]] show ?thesis
    by (simp add: emit_jmp_def)
qed

lemma emit_retpoline_keeps [grow_rules]: "emits 17 2 emit_retpoline"
proof (rule keepsI, rule grows_if_wf)
  fix st
  assume wf: "wf_jit st"
  let ?D = "do { emit1 0x48; emit1 0x89; emit1 0x04; emit1 0x24; emit_ret }"
  define s1 s2 where "s1 = jit_exec (emit_call 0) st" and "s2 = jit_exec emit_pause s1"
  define s3 where "s3 = jit_exec (emit_jmp (js_offset s1)) s2"
  define s4 where "s4 = jit_exec ?D s3"
  have D: "emits 5 0 ?D" by (rule code.keeps_mono, (rule seq_rules grow_rules)+) simp_all
  have g12: "grows good_jump 2 0 s1 s2" unfolding s2_def by (rule keepsD [OF emit_ret_pause_keeps(2)])
  have wf1: "wf_jit s1" using forward_call [of 0] wf by (auto simp: forward_def s1_def dest: grows_wf)
  then have "js_offset s1 \<le> js_offset s2" using g12 by (simp add: grows_def)
  then have g23: "grows good_jump 5 1 s2 s3" unfolding s3_def by (rule emit_jmp_back_grows)
  have g34: "grows good_jump 5 0 s3 s4" unfolding s4_def by (rule keepsD [OF D])
  have body: "grows good_jump 12 1 (jit_exec (emit_call 0) st) s4"
    using code.trans [OF code.trans [OF g12 g23] g34] by (simp add: s1_def)
  have "grows good_jump (5 + 12) (1 + 1) st (s4\<lparr> js_jumps :=
      fixup_jump_target (js_jumps s4) (jit_value (emit_call 0) st) (js_offset s3) \<rparr>)"
    by (rule forward_grows [OF forward_call body]) (simp add: good_jump_def)
  then show "grows good_jump 17 2 st (jit_exec emit_retpoline st)"
    by (simp add: emit_retpoline_def Let_def s4_def s3_def s2_def s1_def numeral_2_eq_2)
qed

lemma emit_pointers_keeps [grow_rules]: "emits (8 * length fs) 0 (emit_pointers fs)"
proof (induction fs)
  case Nil
  then show ?case by (simp add: code.keeps_return)
next
  case (Cons f fs)
  then show ?case using code.keeps_bind [OF emit_keeps(4) Cons.IH] by simp
qed

lemma emit_pushes_keeps: "emits (2 * length rs) 0 (emit_pushes rs)"
proof (induction rs)
  case Nil
  then show ?case by (simp add: code.keeps_return)
next
  case (Cons r rs)
  then show ?case using code.keeps_bind [OF emit_push_keeps Cons.IH] by simp
qed

lemma emit_pops_keeps: "emits (2 * length rs) 0 (emit_pops rs)"
proof (induction rs)
  case Nil
  then show ?case by (simp add: code.keeps_return)
next
  case (Cons r rs)
  then show ?case using code.keeps_bind [OF emit_pop_keeps Cons.IH] by simp
qed

lemma jump_index_exit: "jump_index TARGET_PC_EXIT"
  by (simp add: jump_index_def)

lemma translate_prolog_keeps: "emits 60 1 (translate_prolog rm)"
  unfolding translate_prolog_def
  by (rule code.keeps_mono, (assumption | rule seq_rules grow_rules emit_pushes_keeps jump_index_exit)+)
    (simp_all add: platform_nonvolatile_registers_def)

section \<open>The prolog of a function\<close>

text \<open>Emission of a fixed number of bytes.\<close>

definition exactly :: "nat \<Rightarrow> nat \<Rightarrow> jit_state \<Rightarrow> jit_state \<Rightarrow> bool" where
  "exactly n k st st' \<longleftrightarrow> (wf_jit st \<longrightarrow> wf_jit st' \<and>
     (js_status st' = NoError \<longrightarrow> js_status st = NoError \<and> js_prolog_size st' = js_prolog_size st \<and>
        js_offset st' = js_offset st + of_nat n))"

interpretation exact: jit_seq exactly
  by unfold_locales (auto simp: exactly_def)

lemma wf_error: "wf_jit st \<Longrightarrow> s \<noteq> NoError \<Longrightarrow> wf_jit (st\<lparr> js_status := s \<rparr>)"
  by (simp add: wf_jit_def)

lemma emit_bytes_exactly: "length bs \<le> 16 \<Longrightarrow> keeps exactly (length bs) 0 (emit_bytes bs)"
  by (intro keepsI)
    (auto simp: exactly_def emit_bytes_exec put_bytes_grows(1) not_less wf_error)

lemma emit_exactly:
  "keeps exactly 1 0 (emit1 a)" "keeps exactly 4 0 (emit4 c)"
  using emit_bytes_exactly [of "le_bytes 1 a"] emit_bytes_exactly [of "le_bytes 4 c"]
  by (simp_all add: emit1_def emit4_def)

definition prolog_bytes :: "u16 \<Rightarrow> unit jit" where
  "prolog_bytes usage = do {
     emit_alu64_imm32 0x81 5 RSP 8;
     emit1 0x48; emit1 0xC7; emit1 0x04; emit1 0x24;
     emit4 (ucast usage)
   }"

lemma prolog_bytes_exactly: "keeps exactly 15 0 (prolog_bytes usage)"
proof -
  have "keeps exactly (0 + (0 + (0 + (0 + 1)))) (0 + (0 + (0 + (0 + 0)))) (emit_rex 1 0 0 0)"
    unfolding emit_rex_def by (intro exact.keeps_bind exact.keeps_assert emit_exactly) simp_all
  then have rex: "keeps exactly 1 0 (emit_basic_rex 1 5 4)" by (simp add: emit_basic_rex_def)
  have "keeps exactly (0 + 1) (0 + 0) (emit_modrm 0xc0 5 4)"
    unfolding emit_modrm_def by (intro exact.keeps_bind exact.keeps_assert emit_exactly) simp
  then have modrm: "keeps exactly 1 0 (emit_modrm_reg2reg 5 4)" by (simp add: emit_modrm_reg2reg_def)
  have "keeps exactly ((1 + (1 + 1)) + 4 + (1 + (1 + (1 + (1 + 4))))) ((0 + (0 + 0)) + 0 + (0 + (0 + (0 + (0 + 0)))))
      (prolog_bytes usage)"
    unfolding prolog_bytes_def emit_alu64_imm32_def emit_alu64_def
    by (intro exact.keeps_bind emit_exactly rex modrm)
  then show ?thesis by (simp add: numeral_eq_Suc)
qed

lemma prolog_bytes_keeps: "emits 15 0 (prolog_bytes usage)"
  unfolding prolog_bytes_def by (rule code.keeps_mono, (rule seq_rules grow_rules)+) simp_all

lemma grows_patch:
  assumes "grows G n k st st1" "js_status st1 \<noteq> NoError \<Longrightarrow> wf_jit st1 \<Longrightarrow> wf_jit st2"
    and "wf_jit st \<Longrightarrow> wf_jit st1 \<Longrightarrow> js_status st1 = NoError \<Longrightarrow> wf_jit st2 \<and> js_crash st2 = js_crash st1"
    and "js_errmsg st2 = js_errmsg st1"
    and same: "js_size st2 = js_size st1" "js_mode st2 = js_mode st1" "js_offset st2 = js_offset st1"
      "js_buf st2 = js_buf st1" "js_status st2 = js_status st1" "same_tables 0 0 st1 st2"
  shows "grows G n k st st2"
proof (rule grows_if_wf)
  assume wf: "wf_jit st"
  note 1 = assms(1) [unfolded grows_def, rule_format, OF wf]
  then have "wf_jit st2" using assms(2,3) wf by blast
  moreover have "placed G k st st2" if "js_status st1 = NoError"
    using 1 that same by (simp add: placed_def same_tables_def)
  moreover have "js_crash st2 = js_crash st" if "js_status st1 = NoError"
    using 1 that assms(3) wf by simp
  ultimately show ?thesis using 1 same assms(4) by (simp add: grows_def)
qed

lemma ucast_diff_15:
  assumes "unat (a + 15 :: u32) = unat a + 15"
  shows "(ucast (a + 15) - ucast a :: u64) = 15"
proof -
  have "unat a + 15 < 2 ^ 32" using assms unat_u32_lt [of "a + 15"] by simp
  then have "unat (ucast (a + 15) :: u64) = unat a + 15" "unat (ucast a :: u64) = unat a"
    using assms by (simp_all add: unsigned_ucast_eq unsigned_take_bit_eq take_bit_nat_eq_self)
  moreover from this have "unat (ucast a + 15 :: u64) = unat a + 15"
    using \<open>unat a + 15 < 2 ^ 32\<close> by (simp add: unat_word_ariths)
  ultimately have "(ucast (a + 15) :: u64) = ucast a + 15" by (simp only: word_unat_eq_iff)
  then show ?thesis by simp
qed

lemma emit_function_prolog_grows:
  "grows good_jump 15 0 st (jit_exec (emit_function_prolog vm i) st)"
  "wf_jit st \<Longrightarrow> js_status (jit_exec (emit_function_prolog vm i) st) = NoError \<Longrightarrow>
     js_offset (jit_exec (emit_function_prolog vm i) st) = js_offset st + 15"
proof -
  let ?usage = "ubpf_stack_usage_for_local_func vm (of_nat i)"
  define st1 where "st1 = jit_exec (prolog_bytes ?usage) st"
  define d where "d = (ucast (js_offset st1) - ucast (js_offset st) :: u64)"
  have ex: "jit_exec (emit_function_prolog vm i) st =
      (if js_prolog_size st1 = 0 then st1\<lparr> js_prolog_size := d \<rparr>
       else jit_exec (jit_assert (js_prolog_size st1 = d)) st1)" (is "?e = ?r")
    by (simp add: emit_function_prolog_def prolog_bytes_def st1_def d_def Let_def)
  have g: "grows good_jump 15 0 st st1" unfolding st1_def by (rule keepsD [OF prolog_bytes_keeps])
  have e: "exactly 15 0 st st1" unfolding st1_def by (rule keepsD [OF prolog_bytes_exactly])
  have same: "js_size ?r = js_size st1" "js_mode ?r = js_mode st1" "js_offset ?r = js_offset st1"
    "js_buf ?r = js_buf st1" "js_status ?r = js_status st1" "same_tables 0 0 st1 ?r"
    and msg: "js_errmsg ?r = js_errmsg st1"
    by (simp_all add: jit_assert_def jit_fail_def same_tables_def)
  have ok: "wf_jit ?r \<and> js_crash ?r = js_crash st1"
    if wf: "wf_jit st" "wf_jit st1" and "js_status st1 = NoError"
  proof -
    have off: "js_offset st1 = js_offset st + 15" "js_status st = NoError"
      using e wf that(3) by (simp_all add: exactly_def)
    have "unat (js_offset st) \<le> unat (js_offset st1)" "unat (js_offset st1) \<le> unat (js_size st1)"
      using g wf by (auto simp: grows_def wf_jit_def word_le_nat_alt)
    moreover have "unat (js_size st1) + 16 < 2 ^ 32" using wf(2) by (simp add: wf_jit_def)
    ultimately have "unat (js_offset st + 15) = unat (js_offset st) + 15"
      using off(1) by (simp add: unat_word_ariths split: if_splits)
    then have "d = 15" using ucast_diff_15 off(1) by (simp add: d_def)
    then show ?thesis using wf(2) that(3) by (auto simp: wf_jit_def jit_assert_def)
  qed
  have "wf_jit ?r" if "js_status st1 \<noteq> NoError" "wf_jit st1"
    using that by (auto simp: wf_jit_def jit_assert_def jit_fail_def)
  from grows_patch [OF g this ok msg same] show "grows good_jump 15 0 st ?e" unfolding ex by blast
  show "js_offset ?e = js_offset st + 15" if "wf_jit st" "js_status ?e = NoError"
    using that e same(3,5) unfolding ex by (simp add: exactly_def)
qed

lemma word_eq_add: "b = a + of_nat n" if "unat b = unat a + n" for a b :: "'a::len word"
proof -
  have "b = of_nat (unat b)" by simp
  also have "\<dots> = a + of_nat n" unfolding that by simp
  finally show ?thesis .
qed

lemma emit_function_prolog_keeps: "emits 15 0 (emit_function_prolog vm i)"
  by (rule keepsI) (rule emit_function_prolog_grows)

lemma emit_fallthrough_jump_cases:
  assumes "i = 0 \<or> int_func_at vm i \<noteq> None"
    and "i = 0 \<or> ubpf_fetch_instruction vm (of_nat (i - 1)) \<noteq> None"
  shows "emit_fallthrough_jump vm i = jit_return None \<or> i \<noteq> 0 \<and> int_func_at vm i = Some True \<and>
    emit_fallthrough_jump vm i = State_Monad.bind (emit_near_jmp 0) (\<lambda>loc. jit_return (Some loc))"
proof (cases "i = 0")
  case True
  then show ?thesis by (simp add: emit_fallthrough_jump_def)
next
  case False
  then obtain f prev where "int_func_at vm i = Some f" "ubpf_fetch_instruction vm (of_nat (i - 1)) = Some prev"
    using assms by auto
  with False show ?thesis
    by (cases f; simp only: emit_fallthrough_jump_def option.case bool.case if_True if_False simp_thms if_splits)
      auto
qed

lemma emit_function_entry_grows:
  assumes func: "i = 0 \<or> int_func_at vm i \<noteq> None"
    and prev: "i = 0 \<or> ubpf_fetch_instruction vm (of_nat (i - 1)) \<noteq> None"
  shows "grows good_jump 17 1 st (jit_exec (emit_function_entry vm i) st)"
proof (rule grows_if_wf)
  assume wf: "wf_jit st"
  consider (none) "jit_value (emit_fallthrough_jump vm i) st = None" "jit_exec (emit_fallthrough_jump vm i) st = st"
    | (jump) "i \<noteq> 0" "int_func_at vm i = Some True"
        "jit_value (emit_fallthrough_jump vm i) st = Some (jit_value (emit_near_jmp 0) st)"
        "jit_exec (emit_fallthrough_jump vm i) st = jit_exec (emit_near_jmp 0) st"
    using emit_fallthrough_jump_cases [OF func prev] by auto
  then show ?thesis
  proof cases
    case none
    have "grows good_jump 15 0 st (jit_exec (jit_when (i = 0 \<or> int_func_at vm i = Some True)
        (emit_function_prolog vm i)) st)"
      by (rule keepsD [OF code.keeps_when [OF emit_function_prolog_keeps]])
    with none show ?thesis
      by (auto simp: emit_function_entry_def intro: code.mono)
  next
    case jump
    let ?b = "jit_exec (emit_near_jmp 0) st"
    let ?c = "jit_exec (emit_function_prolog vm i) ?b"
    have wfb: "wf_jit ?b" using forward_near_jmp [of 0] wf by (auto simp: forward_def dest: grows_wf)
    have g: "grows good_jump 15 0 ?b ?c" by (rule emit_function_prolog_grows(1))
    have "grows good_jump (2 + 15) (1 + 0) st (?c\<lparr> js_jumps :=
        fixup_jump_target (js_jumps ?c) (jit_value (emit_near_jmp 0) st) (js_offset ?c) \<rparr>)"
    proof (rule forward_grows [OF forward_near_jmp g])
      assume ok: "js_status ?c = NoError"
      then have okb: "js_status ?b = NoError" using grows_no_error [OF g wfb] by simp
      have off: "js_offset ?c = js_offset ?b + 15" by (rule emit_function_prolog_grows(2) [OF wfb ok])
      have "unat (js_offset ?b) = unat (jit_value (emit_near_jmp 0) st) + 1"
        using forward_near_jmp [of 0] wf okb by (auto simp: forward_def)
      then have "js_offset ?b = jit_value (emit_near_jmp 0) st + of_nat 1" by (rule word_eq_add)
      with off have dest: "js_offset ?c = jit_value (emit_near_jmp 0) st + 16" by simp
      then show "good_jump ((entry_at (jit_value (emit_near_jmp 0) st) 0 True)\<lparr> target_offset := js_offset ?c \<rparr>)"
        by (simp add: good_jump_def)
    qed
    with jump show ?thesis by (simp add: emit_function_entry_def jit_when_def)
  qed
qed

section \<open>Instructions\<close>

definition part_emits :: "nat \<Rightarrow> nat \<Rightarrow> unit jit option \<Rightarrow> bool" where
  "part_emits n k part \<longleftrightarrow> (\<forall>m. part = Some m \<longrightarrow> emits n k m)"

lemma part_emits_None: "part_emits n k None"
  by (simp add: part_emits_def)

lemma part_emits_if:
  "emits n' k' m \<Longrightarrow> n' \<le> n \<Longrightarrow> k' \<le> k \<Longrightarrow> part_emits n k rest \<Longrightarrow>
     part_emits n k (if c then Some m else rest)"
  by (auto simp: part_emits_def intro: code.keeps_mono)

lemma first_part_emits: "(\<And>p. p \<in> set ps \<Longrightarrow> part_emits n k p) \<Longrightarrow> part_emits n k (first_part ps)"
  by (induction ps rule: first_part.induct) (auto simp: part_emits_def)

lemma translate_alu32_emits: "part_emits 73 1 (translate_alu32 opc s d im)"
  unfolding translate_alu32_def
  by ((rule part_emits_if, (rule seq_rules grow_rules)+, simp, simp)+, rule part_emits_None)

lemma translate_endian_emits: "part_emits 73 1 (translate_endian opc d im)"
  unfolding translate_endian_def
  by ((rule part_emits_if, (rule seq_rules grow_rules)+, simp, simp)+, rule part_emits_None)

lemma translate_alu64_emits: "part_emits 73 1 (translate_alu64 opc s d im)"
  unfolding translate_alu64_def
  by ((rule part_emits_if, (rule seq_rules grow_rules)+, simp, simp)+, rule part_emits_None)

lemma translate_memory_emits: "part_emits 73 1 (translate_memory opc s d off im)"
  unfolding translate_memory_def
  by ((rule part_emits_if, (rule seq_rules grow_rules)+, simp, simp)+, rule part_emits_None)

lemma translate_jump64_emits: "jump_index t \<Longrightarrow> part_emits 73 1 (translate_jump64 opc s d im t)"
  unfolding translate_jump64_def
  by ((rule part_emits_if, (assumption | rule seq_rules grow_rules)+, simp, simp)+, rule part_emits_None)

lemma translate_jump32_emits: "jump_index t \<Longrightarrow> part_emits 73 1 (translate_jump32 opc s d im t)"
  unfolding translate_jump32_def
  by ((rule part_emits_if, (assumption | rule seq_rules grow_rules)+, simp, simp)+, rule part_emits_None)

lemma translate_None_iff:
  "translate_alu32 opc s d im = None \<longleftrightarrow> opc \<notin> set alu32_opcodes"
  "translate_endian opc d im = None \<longleftrightarrow> opc \<notin> {EBPF_OP_LE, EBPF_OP_BE}"
  "translate_alu64 opc s d im = None \<longleftrightarrow> opc \<notin> set alu64_opcodes"
  "translate_memory opc s d off im = None \<longleftrightarrow> opc \<notin> set memory_opcodes"
  by (simp_all add: translate_alu32_def alu32_opcodes_def translate_endian_def translate_alu64_def
      alu64_opcodes_def translate_memory_def memory_opcodes_def)

lemma translate_jump_None_iff:
  "translate_jump64 opc s d im t = None \<and> translate_jump32 opc s d im t = None \<longleftrightarrow>
     opc \<notin> set jump_opcodes"
  by (simp add: translate_jump64_def translate_jump32_def jump_opcodes_def conj_ac)

lemma translate_simple_emits:
  assumes "opc \<in> set jump_opcodes \<Longrightarrow> jump_index t"
  shows "part_emits 73 1 (translate_simple opc s d off im t)"
proof -
  have "part_emits 73 1 (translate_jump64 opc s d im t)" "part_emits 73 1 (translate_jump32 opc s d im t)"
    using assms translate_jump64_emits translate_jump32_emits translate_jump_None_iff [of opc s d im t]
      part_emits_None
    by metis+
  then show ?thesis
    unfolding translate_simple_def
    using translate_alu32_emits translate_endian_emits translate_alu64_emits translate_memory_emits
    by (intro first_part_emits) auto
qed

lemma first_part_None_iff: "first_part ps = None \<longleftrightarrow> (\<forall>p \<in> set ps. p = None)"
  by (induction ps rule: first_part.induct) simp_all

lemma translate_simple_None:
  assumes "translate_simple opc s d off im t = None" "opc \<in> set all_opcodes"
  shows "opc \<in> {EBPF_OP_CALL, EBPF_OP_EXIT, EBPF_OP_LDDW}"
proof -
  have none: "translate_alu32 opc s d im = None" "translate_endian opc d im = None"
    "translate_alu64 opc s d im = None" "translate_jump64 opc s d im t = None"
    "translate_jump32 opc s d im t = None" "translate_memory opc s d off im = None"
    using assms(1) by (simp_all add: translate_simple_def first_part_None_iff)
  then have "opc \<notin> set alu32_opcodes" "opc \<notin> {EBPF_OP_LE, EBPF_OP_BE}" "opc \<notin> set alu64_opcodes"
    "opc \<notin> set memory_opcodes"
    by (simp_all only: translate_None_iff not_False_eq_True)
  moreover have "opc \<notin> set jump_opcodes"
    using none(4,5) by (simp only: translate_jump_None_iff [of opc s d im t, symmetric] simp_thms)
  moreover note assms(2)
  ultimately show ?thesis unfolding all_opcodes_parts Un_iff insert_iff empty_iff by argo
qed

text \<open>
  The programs the code generator can handle: loaded ones in which no local function starts at index
  257, the number \<^const>\<open>TARGET_PC_RETPOLINE\<close> is.
\<close>

definition jit_callable :: "ebpf_inst list \<Rightarrow> bool" where
  "jit_callable insns \<longleftrightarrow> (\<forall>k < length insns. is_local_call (insns ! k) \<longrightarrow>
     unat (local_call_target k (insns ! k)) \<noteq> 257)"

lemma valid_jump_index:
  assumes "valid_jump insns i" "length insns < UBPF_MAX_INSTS"
  shows "jump_index (of_nat i + scast (offset (insns ! i)) + 1)"
proof -
  let ?t = "int i + 1 + sint (offset (insns ! i))"
  have t: "0 \<le> ?t" "?t < 65536" using assms by (auto simp: valid_jump_def Let_def UBPF_MAX_INSTS_def)
  have "(of_nat i + scast (offset (insns ! i)) + 1 :: u32) = word_of_int ?t"
    by (simp only: scast_eq of_int_add of_int_of_nat_eq of_int_1 ac_simps)
  moreover have "unat (word_of_int ?t :: u32) = nat ?t"
    using t by (simp only: unat_eq_nat_uint uint_word_of_int) simp
  ultimately show ?thesis using t by (simp only: jump_index_def UBPF_MAX_INSTS_def) linarith
qed

lemma valid_call_index:
  assumes "valid_program vm insns" "jit_callable insns" "k < length insns" "is_local_call (insns ! k)"
  shows "call_index (of_nat k + imm (insns ! k) + 1)"
proof -
  have t: "of_nat k + imm (insns ! k) + 1 = local_call_target k (insns ! k)"
    by (simp add: local_call_target_def algebra_simps)
  have "unat (local_call_target k (insns ! k)) \<noteq> unat TARGET_PC_RETPOLINE"
    using assms by (simp add: jit_callable_def target_values)
  moreover have "unat (local_call_target k (insns ! k)) < UBPF_MAX_INSTS"
    using valid_local_call_target [OF assms(1,3,4)] assms(1) by (simp add: valid_program_def)
  ultimately show ?thesis unfolding t call_index_def by auto
qed

lemma loaded_facts:
  assumes "loaded vm insns" "i < length insns"
  shows "ubpf_fetch_instruction vm (of_nat i) = Some (insns ! i)" "int_func_at vm i \<noteq> None"
proof -
  have len: "length insns < 65536" using assms(1) by (simp add: loaded_def valid_program_def UBPF_MAX_INSTS_def)
  then have "unat (of_nat i :: u16) = i" using assms(2) by (simp add: unat_of_nat)
  then show "ubpf_fetch_instruction vm (of_nat i) = Some (insns ! i)"
    using assms by (simp add: loaded_def del: unsigned_of_nat)
  show "int_func_at vm i \<noteq> None"
    using assms by (cases "insts vm"; cases "int_funcs vm") (auto simp: loaded_def wf_vm_def int_func_at_def)
qed

lemma translate_call_emits:
  assumes "is_local_call inst \<Longrightarrow> call_index (of_nat i + imm inst + 1)" "opcode inst = EBPF_OP_CALL"
  shows "emits 93 4 (translate_call rm vm i inst)"
proof (cases "src inst = 1")
  case True
  then have "call_index (of_nat i + imm inst + 1)" using assms by (simp add: is_local_call_def)
  then show ?thesis
    using True by (simp add: translate_call_def code.keeps_mono [OF emit_local_call_keeps])
next
  case False
  show ?thesis
    unfolding translate_call_def if_not_P [OF False]
    by (rule code.keeps_mono, (assumption | rule seq_rules grow_rules jump_index_exit)+) simp_all
qed

lemma translate_switch_emits:
  assumes valid: "valid_inst_at vm insns i" and len: "length insns < UBPF_MAX_INSTS" and i: "i < length insns"
    and call: "is_local_call (insns ! i) \<Longrightarrow> call_index (of_nat i + imm (insns ! i) + 1)"
    and next2: "opcode (insns ! i) = EBPF_OP_LDDW \<Longrightarrow> ubpf_fetch_instruction vm (of_nat (Suc i)) \<noteq> None"
  shows "emits 93 4 (translate_switch rm vm i (insns ! i) s d (of_nat i + scast (offset (insns ! i)) + 1))"
proof -
  let ?inst = "insns ! i" and ?t = "of_nat i + scast (offset (insns ! i)) + 1 :: u32"
  let ?part = "translate_simple (opcode ?inst) s d (scast (offset ?inst)) (imm ?inst) ?t"
  have "part_emits 73 1 ?part"
    using valid valid_jump_index [OF _ len] by (intro translate_simple_emits) (simp add: valid_inst_at_def Let_def)
  show ?thesis
  proof (cases ?part)
    case (Some m)
    with \<open>part_emits 73 1 ?part\<close> have "emits 73 1 m" by (simp add: part_emits_def)
    then show ?thesis
      using Some by (auto simp: translate_switch_def intro!: code.keeps_bind_return intro: code.keeps_mono)
  next
    case None
    have "opcode ?inst \<in> set all_opcodes" using valid by (simp add: valid_inst_at_def Let_def)
    from translate_simple_None [OF None this]
    consider (call) "opcode ?inst = EBPF_OP_CALL" | (exit) "opcode ?inst = EBPF_OP_EXIT"
      "opcode ?inst \<noteq> EBPF_OP_CALL"
      | (lddw) "opcode ?inst = EBPF_OP_LDDW" "opcode ?inst \<noteq> EBPF_OP_CALL" "opcode ?inst \<noteq> EBPF_OP_EXIT"
      by blast
    then show ?thesis
    proof cases
      case call
      then show ?thesis
        using None translate_call_emits [OF assms(4)] by (simp add: translate_switch_def code.keeps_bind_return)
    next
      case exit
      have "emits 8 0 translate_exit"
        unfolding translate_exit_def by (rule code.keeps_mono, (rule seq_rules grow_rules)+) simp_all
      with exit None show ?thesis
        by (auto simp: translate_switch_def intro!: code.keeps_bind_return intro: code.keeps_mono)
    next
      case lddw
      then obtain inst2 where "ubpf_fetch_instruction vm (of_nat (Suc i)) = Some inst2" using next2 by auto
      then have "emits 10 0 (translate_lddw vm i ?inst d)"
        using emit_load_imm_keeps by (simp add: translate_lddw_def del: of_nat_Suc)
      with lddw None show ?thesis
        by (auto simp: translate_switch_def intro!: code.keeps_bind_return intro: code.keeps_mono)
    qed
  qed
qed

text \<open>Setting a location field.\<close>

lemma set_location_keeps [grow_rules]:
  "emits 0 0 (jit_update (\<lambda>st. st\<lparr> js_pc_locs := f st \<rparr>))" "emits 0 0 (jit_update (\<lambda>st. st\<lparr> js_exit_loc := g st \<rparr>))"
  "emits 0 0 (jit_update (\<lambda>st. st\<lparr> js_retpoline_loc := x \<rparr>))"
  "emits 0 0 (jit_update (\<lambda>st. st\<lparr> js_dispatcher_loc := x \<rparr>))"
  "emits 0 0 (jit_update (\<lambda>st. st\<lparr> js_helper_table_loc := x \<rparr>))"
  by (rule keepsI, simp, rule grows_patch [OF code.refl]; simp add: wf_jit_def same_tables_def)+

lemma translate_inst_grows:
  assumes ld: "loaded vm insns" and cl: "jit_callable insns" and i: "i < length insns"
    and op: "opcode (insns ! i) \<noteq> 0"
  shows "emits 117 5 (translate_inst rm vm i)"
    and "jit_value (translate_inst rm vm i) st =
      (if opcode (insns ! i) = EBPF_OP_LDDW then Suc (Suc i) else Suc i)"
proof -
  let ?inst = "insns ! i"
  have prog: "valid_program vm insns" using ld by (simp add: loaded_def)
  then have valid: "valid_inst_at vm insns i" and len: "length insns < UBPF_MAX_INSTS"
    using i op by (auto simp: valid_program_def valid_slot_def)
  then have regs: "dst ?inst < 11" "src ?inst < 11"
    by (auto simp: valid_inst_at_def Let_def word_le_nat_alt word_less_nat_alt)
  have next2: "ubpf_fetch_instruction vm (of_nat (Suc i)) \<noteq> None" if "opcode ?inst = EBPF_OP_LDDW"
    using valid that loaded_facts(1) [OF ld, of "Suc i"] by (simp add: valid_inst_at_def Let_def del: of_nat_Suc)
  have switch: "emits 93 4 (translate_switch rm vm i ?inst s d (of_nat i + scast (offset ?inst) + 1))" for s d
    by (rule translate_switch_emits [OF valid len i valid_call_index [OF prog cl i] next2])
  have fetch: "ubpf_fetch_instruction vm (of_nat i) = Some ?inst" by (rule loaded_facts(1) [OF ld i])
  have entry: "emits 17 1 (emit_function_entry vm i)"
    using loaded_facts(2) [OF ld i] loaded_facts(1) [OF ld, of "i - 1"] i
    by (intro keepsI emit_function_entry_grows) (simp_all del: of_nat_diff)
  show "emits 117 5 (translate_inst rm vm i)"
    unfolding translate_inst_def fetch option.case Let_def
    by (rule code.keeps_mono, (rule code.keeps_map_register [OF regs(1)] code.keeps_map_register [OF regs(2)]
        entry switch seq_rules grow_rules)+) simp_all
  have "jit_value (translate_switch rm vm i ?inst s d t) st' = (if opcode ?inst = EBPF_OP_LDDW then Suc i else i)"
    for s d t st'
  proof (cases "opcode ?inst = EBPF_OP_LDDW")
    case True
    have "translate_simple EBPF_OP_LDDW s d off im t = None" for off im
      using lddw_separate groups_disjoint(3) [of EBPF_OP_LDDW] translate_None_iff [of EBPF_OP_LDDW]
        translate_jump_None_iff [of EBPF_OP_LDDW s d im t]
      by (auto simp: translate_simple_def first_part_None_iff)
    then show ?thesis using True special_opcodes_distinct by (simp add: translate_switch_def opcode_values)
  qed (simp add: translate_switch_def split: option.split)
  then show "jit_value (translate_inst rm vm i) st =
      (if opcode ?inst = EBPF_OP_LDDW then Suc (Suc i) else Suc i)"
    unfolding translate_inst_def fetch option.case Let_def by simp
qed

lemma next_index:
  assumes "valid_program vm insns" "i < length insns" "opcode (insns ! i) \<noteq> 0"
    and "i' = (if opcode (insns ! i) = EBPF_OP_LDDW then Suc (Suc i) else Suc i)"
  shows "i' \<le> length insns" "i' < length insns \<longrightarrow> opcode (insns ! i') \<noteq> 0"
proof -
  have valid: "valid_inst_at vm insns i" using assms by (auto simp: valid_program_def valid_slot_def)
  show "i' \<le> length insns" using assms valid by (auto simp: valid_inst_at_def Let_def)
  have "opcode (insns ! Suc i) = 0" if "opcode (insns ! i) = EBPF_OP_LDDW"
    using valid that by (simp add: valid_inst_at_def Let_def)
  then show "i' < length insns \<longrightarrow> opcode (insns ! i') \<noteq> 0"
    using assms next_slot [OF assms(1), of i] next_slot [OF assms(1), of "Suc i"] special_opcodes_distinct
    by (auto split: if_splits)
qed

lemma translate_loop_grows:
  assumes "loaded vm insns" "jit_callable insns" "i \<le> length insns"
    and "i < length insns \<longrightarrow> opcode (insns ! i) \<noteq> 0"
  shows "grows good_jump (117 * (length insns - i)) (5 * (length insns - i)) st (translate_loop rm vm i st)"
  using assms
proof (induction rm vm i st rule: translate_loop.induct)
  case (1 rm vm i st)
  have n: "unat (num_insts vm) = length insns" and prog: "valid_program vm insns"
    using "1.prems"(1) by (simp_all add: loaded_def)
  show ?case
  proof (cases "i < unat (num_insts vm) \<and> js_status st = NoError")
    case False
    then have "translate_loop rm vm i st = st" by (subst translate_loop.simps) (simp only: if_False)
    then show ?thesis by (simp add: code.mono [OF code.refl])
  next
    case True
    let ?i = "jit_value (translate_inst rm vm i) st" and ?st = "jit_exec (translate_inst rm vm i) st"
    have i: "i < length insns" and op: "opcode (insns ! i) \<noteq> 0" using True n "1.prems"(4) by simp_all
    note inst = translate_inst_grows [OF "1.prems"(1,2) i op, of rm]
    note nxt = next_index [OF prog i op inst(2) [of st]]
    have "grows good_jump (117 * (length insns - ?i)) (5 * (length insns - ?i)) ?st
        (translate_loop rm vm ?i ?st)"
      by (rule "1.IH" [OF True "1.prems"(1,2) nxt])
    from code.trans [OF keepsD [OF inst(1)] this]
    have "grows good_jump (117 + 117 * (length insns - ?i)) (5 + 5 * (length insns - ?i)) st
        (translate_loop rm vm i st)"
      using True by (subst translate_loop.simps) simp
    moreover have "Suc (length insns - ?i) \<le> length insns - i"
      using translate_inst_next [of i rm vm st] nxt(1) by linarith
    ultimately show ?thesis by (elim code.mono) simp_all
  qed
qed

lemma translate_epilogue_keeps: "emits 563 2 (translate_epilogue rm vm)"
proof -
  have fs: "emits 512 0 (emit_pointers (take MAX_EXT_FUNCS (ext_funcs vm)))"
    by (rule code.keeps_mono [OF emit_pointers_keeps]) (simp_all add: MAX_EXT_FUNCS_def)
  show ?thesis
    unfolding translate_epilogue_def emit_dispatched_external_helper_address_def emit_helper_table_def
    by (rule code.keeps_mono, (rule fs seq_rules grow_rules emit_pops_keeps)+)
      (simp_all add: platform_nonvolatile_registers_def)
qed

text \<open>The states of a translation: after the loop, and at the end when no error occurred.\<close>

definition after_loop :: "u32 list \<Rightarrow> ubpf_vm \<Rightarrow> jit_state \<Rightarrow> jit_state" where
  "after_loop rm vm st = translate_loop rm vm 0 (jit_exec (translate_prolog rm) st)"

lemma translate_cases:
  "translate rm vm st =
     (if js_status (after_loop rm vm st) = NoError
      then (0, jit_exec (translate_epilogue rm vm) (after_loop rm vm st))
      else (- 1, (after_loop rm vm st)\<lparr> js_errmsg := status_errmsg (js_status (after_loop rm vm st))
        (js_errmsg (after_loop rm vm st)) \<rparr>))"
  by (simp add: translate_def after_loop_def Let_def)

lemma after_loop_grows:
  assumes "loaded vm insns" "jit_callable insns"
  shows "grows good_jump (60 + 117 * length insns) (1 + 5 * length insns) st (after_loop rm vm st)"
proof -
  have "0 < length insns \<longrightarrow> opcode (insns ! 0) \<noteq> 0"
    using assms(1) valid_program_first by (auto simp: loaded_def)
  from code.trans [OF keepsD [OF translate_prolog_keeps] translate_loop_grows [OF assms _ this]]
  show ?thesis by (simp add: after_loop_def)
qed

lemma translate_grows:
  assumes "loaded vm insns" "jit_callable insns" "translate rm vm st = (0, st')"
  shows "grows good_jump (623 + 117 * length insns) (3 + 5 * length insns) st st'"
proof -
  have "st' = jit_exec (translate_epilogue rm vm) (after_loop rm vm st)"
    using assms(3) by (simp add: translate_cases split: if_splits)
  with code.trans [OF after_loop_grows [OF assms(1,2)] keepsD [OF translate_epilogue_keeps]]
  show ?thesis by (simp add: numeral_3_eq_3)
qed

end
