(* ===== verification/Jit_Resolve.thy ===== *)
theory Jit_Resolve
  imports Jit_Translate
begin

text \<open>
  Resolution of the relative addresses and the layout of the finished code.
\<close>

section \<open>Patching disjoint places\<close>

definition patch_buf :: "nat \<times> u8 list \<Rightarrow> u8 list \<Rightarrow> u8 list" where
  "patch_buf p buf = (case p of (a, bs) \<Rightarrow> take a buf @ bs @ drop (a + length bs) buf)"

definition places :: "(nat \<times> u8 list) list \<Rightarrow> nat list" where
  "places ps = concat (map (\<lambda>(a, bs). [a..<a + length bs]) ps)"

lemma places_simps [simp]:
  "places [] = []" "places ((a, bs) # ps) = [a..<a + length bs] @ places ps"
  "places (ps @ qs) = places ps @ places qs"
  by (simp_all add: places_def)

lemma length_patch_buf [simp]: "a + length bs \<le> length buf \<Longrightarrow> length (patch_buf (a, bs) buf) = length buf"
  by (simp add: patch_buf_def)

lemma nth_patch_buf:
  assumes "a + length bs \<le> length buf" "i < length buf"
  shows "patch_buf (a, bs) buf ! i = (if i \<in> {a..<a + length bs} then bs ! (i - a) else buf ! i)"
  using assms by (auto simp: patch_buf_def nth_append)

lemma places_bound:
  assumes "(a, bs) \<in> set ps" "bs \<noteq> []" "set (places ps) \<subseteq> {..<n}"
  shows "a + length bs \<le> n"
proof -
  have "{a..<a + length bs} \<subseteq> set (places ps)" using assms(1) by (auto simp: places_def)
  moreover have "a + length bs - 1 \<in> {a..<a + length bs}" using assms(2) by (cases bs) auto
  ultimately have "a + length bs - 1 < n" using assms(3) by blast
  then show ?thesis using assms(2) by (cases bs) auto
qed

definition patchable :: "(nat \<times> u8 list) list \<Rightarrow> u8 list \<Rightarrow> bool" where
  "patchable ps buf \<longleftrightarrow> set (places ps) \<subseteq> {..<length buf} \<and> (\<forall>p \<in> set ps. snd p \<noteq> [])"

lemma patchable_Cons:
  assumes "patchable ((b, cs) # ps) buf"
  shows "b + length cs \<le> length buf" "patchable ps (patch_buf (b, cs) buf)"
proof -
  show fits: "b + length cs \<le> length buf"
    using assms places_bound [of b cs "(b, cs) # ps"] by (simp add: patchable_def)
  show "patchable ps (patch_buf (b, cs) buf)" using assms fits by (simp add: patchable_def)
qed

lemma patched_outside:
  assumes "patchable ps buf"
  shows "length (fold patch_buf ps buf) = length buf"
    "i < length buf \<Longrightarrow> i \<notin> set (places ps) \<Longrightarrow> fold patch_buf ps buf ! i = buf ! i"
proof -
  have "length (fold patch_buf ps buf) = length buf \<and>
      (i < length buf \<longrightarrow> i \<notin> set (places ps) \<longrightarrow> fold patch_buf ps buf ! i = buf ! i)"
    using assms
  proof (induction ps arbitrary: buf)
    case Nil
    then show ?case by simp
  next
    case (Cons p ps)
    obtain b cs where p: "p = (b, cs)" by fastforce
    note next_ = patchable_Cons [OF Cons.prems [unfolded p]]
    with Cons.IH [OF next_(2)] show ?case by (auto simp: p nth_patch_buf)
  qed
  then show "length (fold patch_buf ps buf) = length buf"
    and "i < length buf \<Longrightarrow> i \<notin> set (places ps) \<Longrightarrow> fold patch_buf ps buf ! i = buf ! i" by blast+
qed

lemma patched_inside:
  assumes "patchable ps buf" "distinct (places ps)" "(a, bs) \<in> set ps" "k < length bs"
  shows "fold patch_buf ps buf ! (a + k) = bs ! k"
  using assms
proof (induction ps arbitrary: buf)
  case Nil
  then show ?case by simp
next
  case (Cons p ps)
  obtain b cs where p: "p = (b, cs)" by fastforce
  note next_ = patchable_Cons [OF Cons.prems(1) [unfolded p]]
  show ?case
  proof (cases "(a, bs) \<in> set ps")
    case True
    then show ?thesis using Cons.IH [OF next_(2) _ True Cons.prems(4)] Cons.prems(2) by (simp add: p)
  next
    case False
    then have here: "a = b" "bs = cs" using Cons.prems(3) p by auto
    have "a + k \<in> {b..<b + length cs}" using Cons.prems(4) here by simp
    moreover have "{b..<b + length cs} \<inter> set (places ps) = {}" using Cons.prems(2) by (simp add: p)
    ultimately have "a + k \<notin> set (places ps)" by blast
    moreover have "a + k < length buf" using next_(1) Cons.prems(4) here by simp
    ultimately have "fold patch_buf ps (patch_buf p buf) ! (a + k) = patch_buf p buf ! (a + k)"
      using patched_outside(2) [OF next_(2)] next_(1) by (simp add: p)
    then show ?thesis using next_(1) Cons.prems(4) here by (simp add: p nth_patch_buf)
  qed
qed

lemma patched_read:
  assumes "patchable ps buf" "distinct (places ps)" "(a, bs) \<in> set ps"
  shows "buf_read (fold patch_buf ps buf) a (length bs) = Some bs"
proof -
  have len: "length (fold patch_buf ps buf) = length buf" by (rule patched_outside [OF assms(1)])
  have "bs \<noteq> []" using assms by (auto simp: patchable_def)
  then have fits: "a + length bs \<le> length buf"
    using assms places_bound [of a bs ps] by (simp add: patchable_def)
  have "take (length bs) (drop a (fold patch_buf ps buf)) = bs"
    using fits patched_inside [OF assms] by (intro nth_equalityI) (simp_all add: len)
  with fits show ?thesis by (simp add: buf_read_eq len)
qed

lemma patched_read_outside:
  assumes "patchable ps buf" "{a..<a + n} \<inter> set (places ps) = {}" "a + n \<le> length buf"
  shows "buf_read (fold patch_buf ps buf) a n = buf_read buf a n"
proof -
  have len: "length (fold patch_buf ps buf) = length buf" by (rule patched_outside [OF assms(1)])
  have "fold patch_buf ps buf ! (a + k) = buf ! (a + k)" if "k < n" for k
  proof (rule patched_outside(2) [OF assms(1)])
    show "a + k < length buf" using that assms(3) by simp
    have "a + k \<in> {a..<a + n}" using that by simp
    then show "a + k \<notin> set (places ps)" using assms(2) by blast
  qed
  then have "take n (drop a (fold patch_buf ps buf)) = take n (drop a buf)"
    using assms(3) by (intro nth_equalityI) (simp_all add: len)
  then show ?thesis by (simp add: buf_read_eq len)
qed

lemma patchable_append:
  assumes "patchable (ps @ qs) buf"
  shows "patchable ps buf" "patchable qs (fold patch_buf ps buf)"
proof -
  show "patchable ps buf" using assms by (simp add: patchable_def)
  then show "patchable qs (fold patch_buf ps buf)"
    using assms patched_outside(1) [of ps buf] by (simp add: patchable_def)
qed

section \<open>What resolving an entry does\<close>

text \<open>The location an entry of the jump table leads to, and the displacements of the four tables.\<close>

definition target_of :: "jit_state \<Rightarrow> patchable_relative \<Rightarrow> u32" where
  "target_of st e =
     (if target_offset e \<noteq> 0 then target_offset e
      else if target_pc e = TARGET_PC_EXIT then js_exit_loc st
      else if target_pc e = TARGET_PC_RETPOLINE then js_retpoline_loc st
      else js_pc_locs st (unat (target_pc e)))"

definition jump_patch :: "jit_state \<Rightarrow> patchable_relative \<Rightarrow> nat \<times> u8 list" where
  "jump_patch st e = (unat (offset_loc e),
     if near e then le_bytes 1 (target_of st e - (offset_loc e + 1))
     else le_bytes 4 (target_of st e - (offset_loc e + 4)))"

definition call_patch :: "jit_state \<Rightarrow> patchable_relative \<Rightarrow> nat \<times> u8 list" where
  "call_patch st e = (unat (offset_loc e),
     le_bytes 4 (js_pc_locs st (unat (target_pc e)) - (offset_loc e + 4) - ucast (js_prolog_size st)))"

definition load_patch :: "jit_state \<Rightarrow> patchable_relative \<Rightarrow> nat \<times> u8 list" where
  "load_patch st e = (unat (offset_loc e), le_bytes 4 (js_dispatcher_loc st - (offset_loc e + 4)))"

definition lea_patch :: "jit_state \<Rightarrow> patchable_relative \<Rightarrow> nat \<times> u8 list" where
  "lea_patch st e = (unat (offset_loc e), le_bytes 4 (js_helper_table_loc st - (offset_loc e + 4)))"

definition all_patches :: "jit_state \<Rightarrow> (nat \<times> u8 list) list" where
  "all_patches st = map (jump_patch st) (js_jumps st) @ map (call_patch st) (js_local_calls st) @
     map (load_patch st) (js_loads st) @ map (lea_patch st) (js_leas st)"

text \<open>One entry, in a state that differs from \<open>st\<close> in the bytes of the buffer only.\<close>

definition resolves ::
  "jit_state \<Rightarrow> (patchable_relative \<Rightarrow> bool jit) \<Rightarrow> (patchable_relative \<Rightarrow> nat \<times> u8 list) \<Rightarrow>
     patchable_relative \<Rightarrow> bool"
where
  "resolves st resolve patch e \<longleftrightarrow>
     (\<forall>buf. length buf = length (js_buf st) \<longrightarrow>
        jit_value (resolve e) (st\<lparr> js_buf := buf \<rparr>) \<and>
        jit_exec (resolve e) (st\<lparr> js_buf := buf \<rparr>) = st\<lparr> js_buf := patch_buf (patch e) buf \<rparr>)"

lemma resolve_table_exec:
  assumes "\<And>e. e \<in> set es \<Longrightarrow> resolves st resolve patch e" "length buf = length (js_buf st)"
    and "patchable (map patch es) buf"
  shows "jit_value (resolve_table resolve es) (st\<lparr> js_buf := buf \<rparr>)"
    "jit_exec (resolve_table resolve es) (st\<lparr> js_buf := buf \<rparr>) =
       st\<lparr> js_buf := fold patch_buf (map patch es) buf \<rparr>"
proof -
  have "jit_value (resolve_table resolve es) (st\<lparr> js_buf := buf \<rparr>) \<and>
      jit_exec (resolve_table resolve es) (st\<lparr> js_buf := buf \<rparr>) =
        st\<lparr> js_buf := fold patch_buf (map patch es) buf \<rparr>"
    using assms
  proof (induction es arbitrary: buf)
    case Nil
    then show ?case by simp
  next
    case (Cons e es)
    obtain b cs where p: "patch e = (b, cs)" by fastforce
    have "patchable ((b, cs) # map patch es) buf" using Cons.prems(3) p by simp
    note next_ = patchable_Cons [OF this]
    have "length (patch_buf (patch e) buf) = length (js_buf st)"
      using next_(1) Cons.prems(2) by (simp add: p)
    with Cons.IH [of "patch_buf (patch e) buf"] Cons.prems(1) next_(2) p
    have "jit_value (resolve_table resolve es) (st\<lparr> js_buf := patch_buf (patch e) buf \<rparr>) \<and>
        jit_exec (resolve_table resolve es) (st\<lparr> js_buf := patch_buf (patch e) buf \<rparr>) =
        st\<lparr> js_buf := fold patch_buf (map patch es) (patch_buf (patch e) buf) \<rparr>" by simp
    moreover have "resolves st resolve patch e" using Cons.prems(1) by simp
    ultimately show ?case using Cons.prems(2) by (simp add: resolves_def)
  qed
  then show "jit_value (resolve_table resolve es) (st\<lparr> js_buf := buf \<rparr>)"
    "jit_exec (resolve_table resolve es) (st\<lparr> js_buf := buf \<rparr>) =
       st\<lparr> js_buf := fold patch_buf (map patch es) buf \<rparr>" by blast+
qed

lemma patch_bytes_exec:
  assumes "unat loc + length bs \<le> length (js_buf st)"
  shows "jit_exec (patch_bytes loc bs) st = st\<lparr> js_buf := patch_buf (unat loc, bs) (js_buf st) \<rparr>"
  using assms by (simp add: patch_bytes_def buf_write_eq patch_buf_def)

text \<open>A jump that can be looked up, in code that ends within the table of locations.\<close>

lemma resolves_jump:
  assumes good: "good_jump e" and fits: "unat (offset_loc e) + (if near e then 1 else 4) \<le> length (js_buf st)"
    and low: "unat (offset_loc e) \<le> UBPF_MAX_INSTS"
  shows "resolves st resolve_jump (jump_patch st) e"
proof -
  have idx: "unat (target_pc e) \<le> UBPF_MAX_INSTS" if "target_offset e = 0" "target_pc e \<noteq> TARGET_PC_EXIT"
    using good that low by (auto simp: good_jump_def word_le_nat_alt)
  have loc: "jit_value (jump_target_loc e) (st\<lparr> js_buf := buf \<rparr>) = target_of st e"
    "jit_exec (jump_target_loc e) (st\<lparr> js_buf := buf \<rparr>) = st\<lparr> js_buf := buf \<rparr>" for buf
    using idx by (simp_all add: jump_target_loc_def target_of_def pc_loc_def)
  show ?thesis
  proof (cases "near e")
    case True
    have "offset_loc e + 16 \<noteq> 0"
      using low by (simp add: word_unat_eq_iff unat_word_ariths UBPF_MAX_INSTS_def)
    then have "target_of st e - (offset_loc e + 1) = 15"
      using good True by (simp add: good_jump_def target_of_def)
    then have "sint (target_of st e - (offset_loc e + 1)) = 15" by (simp only:) simp
    with True loc fits show ?thesis
      by (simp add: resolves_def resolve_jump_def Let_def jump_patch_def patch_bytes_exec)
  next
    case False
    with loc fits show ?thesis
      by (simp add: resolves_def resolve_jump_def Let_def jump_patch_def patch_bytes_exec)
  qed
qed

lemma resolves_call:
  assumes "good_call e" "unat (offset_loc e) + 4 \<le> length (js_buf st)"
  shows "resolves st resolve_local_call (call_patch st) e"
proof -
  have "target_pc e \<noteq> TARGET_PC_EXIT"
    using assms(1) by (auto simp: good_call_def target_values UBPF_MAX_INSTS_def)
  with assms show ?thesis
    by (simp add: resolves_def resolve_local_call_def Let_def call_patch_def patch_bytes_exec good_call_def
        jit_assert_def pc_loc_def)
qed

lemma resolves_load_lea:
  "good_load e \<Longrightarrow> unat (offset_loc e) + 4 \<le> length (js_buf st) \<Longrightarrow> resolves st resolve_load (load_patch st) e"
  "good_lea e \<Longrightarrow> unat (offset_loc e) + 4 \<le> length (js_buf st) \<Longrightarrow> resolves st resolve_lea (lea_patch st) e"
  by (simp_all add: resolves_def resolve_load_def resolve_lea_def Let_def load_patch_def lea_patch_def
      patch_bytes_exec good_load_def good_lea_def)

section \<open>The whole resolution\<close>

lemma slots_places:
  "places (map (jump_patch st) js) = slots js"
  "list_all good_call cs \<Longrightarrow> places (map (call_patch st) cs) = slots cs"
  "list_all good_load ls \<Longrightarrow> places (map (load_patch st) ls) = slots ls"
  "list_all good_lea xs \<Longrightarrow> places (map (lea_patch st) xs) = slots xs"
proof -
  show "places (map (jump_patch st) js) = slots js"
    by (induction js) (simp_all add: jump_patch_def slot_def Let_def)
  show "list_all good_call cs \<Longrightarrow> places (map (call_patch st) cs) = slots cs"
    by (induction cs) (simp_all add: call_patch_def good_call_def slot_def Let_def)
  show "list_all good_load ls \<Longrightarrow> places (map (load_patch st) ls) = slots ls"
    by (induction ls) (simp_all add: load_patch_def good_load_def slot_def Let_def)
  show "list_all good_lea xs \<Longrightarrow> places (map (lea_patch st) xs) = slots xs"
    by (induction xs) (simp_all add: lea_patch_def good_lea_def slot_def Let_def)
qed

text \<open>A state in which every entry can be resolved.\<close>

definition resolvable :: "jit_state \<Rightarrow> bool" where
  "resolvable st \<longleftrightarrow> wf_jit st \<and> unat (js_offset st) \<le> UBPF_MAX_INSTS \<and>
     segment good_jump 0 (unat (js_offset st)) (js_jumps st) (js_local_calls st) (js_loads st) (js_leas st)"

lemma slot_end:
  assumes "e \<in> set es" "set (slots es) \<subseteq> {..<n}"
  shows "unat (offset_loc e) + (if near e then 1 else 4) \<le> n"
proof -
  let ?w = "if near e then 1 else 4 :: nat"
  have "set (slot e) \<subseteq> set (slots es)" using assms(1) by (auto simp: slots_def)
  moreover have "unat (offset_loc e) + ?w - 1 \<in> set (slot e)" by (simp add: slot_def Let_def)
  ultimately have "unat (offset_loc e) + ?w - 1 < n" using assms(2) by blast
  then show ?thesis by (simp split: if_splits)
qed

lemma all_patches_places:
  assumes "resolvable st"
  shows "places (all_patches st) = slots (js_jumps st @ js_local_calls st @ js_loads st @ js_leas st)"
    "distinct (places (all_patches st))" "set (places (all_patches st)) \<subseteq> {..<unat (js_offset st)}"
    "patchable (all_patches st) (js_buf st)"
proof -
  have seg: "segment good_jump 0 (unat (js_offset st)) (js_jumps st) (js_local_calls st) (js_loads st) (js_leas st)"
    using assms by (simp add: resolvable_def)
  then show eq: "places (all_patches st) = slots (js_jumps st @ js_local_calls st @ js_loads st @ js_leas st)"
    by (simp add: all_patches_def slots_places segment_def)
  with seg show "distinct (places (all_patches st))" by (simp only: segment_def)
  have sub: "set (places (all_patches st)) \<subseteq> {0..<unat (js_offset st)}"
    using seg unfolding eq by (simp only: segment_def)
  then show "set (places (all_patches st)) \<subseteq> {..<unat (js_offset st)}" by (simp only: atLeast0LessThan)
  have "unat (js_offset st) \<le> length (js_buf st)"
    using assms by (simp add: resolvable_def wf_jit_def word_le_nat_alt)
  moreover have "\<forall>p \<in> set (all_patches st). snd p \<noteq> []"
    by (auto simp: all_patches_def jump_patch_def call_patch_def load_patch_def lea_patch_def split: if_splits)
  ultimately show "patchable (all_patches st) (js_buf st)" using sub by (force simp: patchable_def)
qed

theorem resolve_exec:
  assumes "resolvable st"
  shows "jit_value resolve_patchable_relatives st"
    "jit_exec resolve_patchable_relatives st = st\<lparr> js_buf := fold patch_buf (all_patches st) (js_buf st) \<rparr>"
proof -
  let ?P = "map (jump_patch st) (js_jumps st)" and ?C = "map (call_patch st) (js_local_calls st)"
    and ?L = "map (load_patch st) (js_loads st)" and ?X = "map (lea_patch st) (js_leas st)"
  have seg: "list_all good_jump (js_jumps st)" "list_all good_call (js_local_calls st)"
    "list_all good_load (js_loads st)" "list_all good_lea (js_leas st)"
    using assms by (auto simp: resolvable_def segment_def)
  have off: "unat (js_offset st) \<le> length (js_buf st)" "unat (js_offset st) \<le> UBPF_MAX_INSTS"
    using assms by (simp_all add: resolvable_def wf_jit_def word_le_nat_alt)
  note pl = all_patches_places [OF assms]
  have fits: "unat (offset_loc e) + (if near e then 1 else 4) \<le> unat (js_offset st)"
    if "e \<in> set (js_jumps st @ js_local_calls st @ js_loads st @ js_leas st)" for e
    using slot_end [OF that] pl(1,3) by simp
  have J: "resolves st resolve_jump (jump_patch st) e" if "e \<in> set (js_jumps st)" for e
    using that fits [of e] off seg(1) by (intro resolves_jump) (auto simp: list_all_iff)
  have C: "resolves st resolve_local_call (call_patch st) e" if "e \<in> set (js_local_calls st)" for e
    using that fits [of e] off seg(2) by (intro resolves_call) (auto simp: list_all_iff good_call_def)
  have L: "resolves st resolve_load (load_patch st) e" if "e \<in> set (js_loads st)" for e
    using that fits [of e] off seg(3) by (intro resolves_load_lea) (auto simp: list_all_iff good_load_def)
  have X: "resolves st resolve_lea (lea_patch st) e" if "e \<in> set (js_leas st)" for e
    using that fits [of e] off seg(4) by (intro resolves_load_lea) (auto simp: list_all_iff good_lea_def)
  let ?b1 = "fold patch_buf ?P (js_buf st)"
  let ?b2 = "fold patch_buf ?C ?b1"
  let ?b3 = "fold patch_buf ?L ?b2"
  have "patchable (?P @ ?C @ ?L @ ?X) (js_buf st)" using pl(4) by (simp add: all_patches_def)
  note p1 = patchable_append [OF this]
  note p2 = patchable_append [OF p1(2)]
  note p3 = patchable_append [OF p2(2)]
  have len: "length ?b1 = length (js_buf st)" "length ?b2 = length (js_buf st)" "length ?b3 = length (js_buf st)"
    using patched_outside(1) [OF p1(1)] patched_outside(1) [OF p2(1)] patched_outside(1) [OF p3(1)] by simp_all
  have "jit_value (resolve_table resolve_jump (js_jumps st)) (st\<lparr> js_buf := js_buf st \<rparr>)"
    "jit_exec (resolve_table resolve_jump (js_jumps st)) (st\<lparr> js_buf := js_buf st \<rparr>) = st\<lparr> js_buf := ?b1 \<rparr>"
    using J p1(1) by (intro resolve_table_exec; simp)+
  then have r1: "jit_value (resolve_table resolve_jump (js_jumps st)) st"
    "jit_exec (resolve_table resolve_jump (js_jumps st)) st = st\<lparr> js_buf := ?b1 \<rparr>" by simp_all
  note r2 = resolve_table_exec [OF C len(1) p2(1)]
  note r3 = resolve_table_exec [OF L len(2) p3(1)]
  note r4 = resolve_table_exec [OF X len(3) p3(2)]
  show "jit_value resolve_patchable_relatives st"
    by (simp add: resolve_patchable_relatives_def r1 r2 r3 r4)
  show "jit_exec resolve_patchable_relatives st = st\<lparr> js_buf := fold patch_buf (all_patches st) (js_buf st) \<rparr>"
    by (simp add: resolve_patchable_relatives_def r1 r2 r3 r4 all_patches_def)
qed

text \<open>Every displacement, read back from the resolved code.\<close>

lemma resolved_displacements:
  assumes "resolvable st"
  defines "code \<equiv> js_buf (jit_exec resolve_patchable_relatives st)"
  shows "e \<in> set (js_jumps st) \<Longrightarrow> \<not> near e \<Longrightarrow>
      buf_read code (unat (offset_loc e)) 4 = Some (le_bytes 4 (target_of st e - (offset_loc e + 4)))"
    "e \<in> set (js_jumps st) \<Longrightarrow> near e \<Longrightarrow>
      buf_read code (unat (offset_loc e)) 1 = Some (le_bytes 1 (target_of st e - (offset_loc e + 1)))"
    "e \<in> set (js_local_calls st) \<Longrightarrow> buf_read code (unat (offset_loc e)) 4 =
      Some (le_bytes 4 (js_pc_locs st (unat (target_pc e)) - (offset_loc e + 4) - ucast (js_prolog_size st)))"
    "e \<in> set (js_loads st) \<Longrightarrow>
      buf_read code (unat (offset_loc e)) 4 = Some (le_bytes 4 (js_dispatcher_loc st - (offset_loc e + 4)))"
    "e \<in> set (js_leas st) \<Longrightarrow>
      buf_read code (unat (offset_loc e)) 4 = Some (le_bytes 4 (js_helper_table_loc st - (offset_loc e + 4)))"
proof -
  have rd: "buf_read code a (length bs) = Some bs" if "(a, bs) \<in> set (all_patches st)" for a bs
    unfolding code_def resolve_exec(2) [OF assms(1)]
    using patched_read [OF all_patches_places(4,2) [OF assms(1)] that] by simp
  have mem: "e \<in> set (js_jumps st) \<Longrightarrow> jump_patch st e \<in> set (all_patches st)"
    "e \<in> set (js_local_calls st) \<Longrightarrow> call_patch st e \<in> set (all_patches st)"
    "e \<in> set (js_loads st) \<Longrightarrow> load_patch st e \<in> set (all_patches st)"
    "e \<in> set (js_leas st) \<Longrightarrow> lea_patch st e \<in> set (all_patches st)"
    by (simp_all add: all_patches_def)
  note rules = jump_patch_def call_patch_def load_patch_def lea_patch_def
  show "e \<in> set (js_jumps st) \<Longrightarrow> \<not> near e \<Longrightarrow>
      buf_read code (unat (offset_loc e)) 4 = Some (le_bytes 4 (target_of st e - (offset_loc e + 4)))"
    using rd [OF mem(1) [unfolded rules]] by simp
  show "e \<in> set (js_jumps st) \<Longrightarrow> near e \<Longrightarrow>
      buf_read code (unat (offset_loc e)) 1 = Some (le_bytes 1 (target_of st e - (offset_loc e + 1)))"
    using rd [OF mem(1) [unfolded rules]] by simp
  show "e \<in> set (js_local_calls st) \<Longrightarrow> buf_read code (unat (offset_loc e)) 4 =
      Some (le_bytes 4 (js_pc_locs st (unat (target_pc e)) - (offset_loc e + 4) - ucast (js_prolog_size st)))"
    using rd [OF mem(2) [unfolded rules]] by simp
  show "e \<in> set (js_loads st) \<Longrightarrow>
      buf_read code (unat (offset_loc e)) 4 = Some (le_bytes 4 (js_dispatcher_loc st - (offset_loc e + 4)))"
    using rd [OF mem(3) [unfolded rules]] by simp
  show "e \<in> set (js_leas st) \<Longrightarrow>
      buf_read code (unat (offset_loc e)) 4 = Some (le_bytes 4 (js_helper_table_loc st - (offset_loc e + 4)))"
    using rd [OF mem(4) [unfolded rules]] by simp
qed

end
