(* ===== verification/Jit_A64_Emit.thy ===== *)
theory Jit_A64_Emit
  imports Jit_X86 "HOL-Library.Signed_Division"
begin

text \<open>
  The AArch64 instruction emitters of \<open>ubpf_jit_arm64.c\<close>. Names shared with the x86-64 back end end in
  \<open>_a64\<close> here. A C \<open>int\<close> is its 32-bit pattern, an enumeration its value; \<open>assert\<close> is enabled and a failed
  one is recorded in the state.
\<close>

section \<open>Registers\<close>

definition BAD_OPCODE :: u32 where "BAD_OPCODE = NOT 0"

abbreviation (input) A_R0 :: u32 where "A_R0 \<equiv> 0"
abbreviation (input) A_R2 :: u32 where "A_R2 \<equiv> 2"
abbreviation (input) A_R3 :: u32 where "A_R3 \<equiv> 3"
abbreviation (input) A_R5 :: u32 where "A_R5 \<equiv> 5"
abbreviation (input) A_R6 :: u32 where "A_R6 \<equiv> 6"
abbreviation (input) A_R29 :: u32 where "A_R29 \<equiv> 29"
abbreviation (input) A_R30 :: u32 where "A_R30 \<equiv> 30"
abbreviation (input) A_SP :: u32 where "A_SP \<equiv> 31"
abbreviation (input) A_RZ :: u32 where "A_RZ \<equiv> 31"

definition callee_saved_registers :: "u32 list" where
  "callee_saved_registers = [19, 20, 21, 22, 23, 24, 25, 26]"

definition temp_register :: u32 where "temp_register = 24"
definition temp_div_register :: u32 where "temp_div_register = 25"
definition offset_register :: u32 where "offset_register = 26"
definition VOLATILE_CTXT_a64 :: u32 where "VOLATILE_CTXT_a64 = 26"

definition register_map_a64 :: "u32 list" where
  "register_map_a64 = [5, 0, 1, 2, 3, 4, 19, 20, 21, 22, 23]"

definition mapped_a64 :: "4 word \<Rightarrow> u32" where
  "mapped_a64 r = register_map_a64 ! (unat r mod 11)"

definition map_register_a64 :: "4 word \<Rightarrow> u32 jit" where
  "map_register_a64 r = do { jit_assert (unat r < 11); jit_return (mapped_a64 r) }"

definition align_to :: "u32 \<Rightarrow> u64 \<Rightarrow> u32" where
  "align_to amount boundary = ucast ((ucast amount + (boundary - 1)) AND NOT (boundary - 1))"

section \<open>Instructions\<close>

definition emit_bytes_a64 :: "u8 list \<Rightarrow> unit jit" where
  "emit_bytes_a64 data = do {
     st \<leftarrow> jit_get;
     let len = (of_nat (length data) :: u32);
     if \<not> (len \<le> js_size st \<and> js_offset st \<le> js_size st - len) then jit_set_status NotEnoughSpace
     else if js_offset st + len > js_size st then jit_update (\<lambda>st. st\<lparr> js_offset := js_size st \<rparr>)
     else case buf_write (js_buf st) (unat (js_offset st)) data of
         None \<Rightarrow> jit_fail OutsideArray
       | Some buf \<Rightarrow> jit_update (\<lambda>st. st\<lparr> js_buf := buf, js_offset := js_offset st + len \<rparr>)
   }"

definition emit_instruction :: "u32 \<Rightarrow> unit jit" where
  "emit_instruction instr = do { jit_assert (instr \<noteq> BAD_OPCODE); emit_bytes_a64 (le_bytes 4 instr) }"

definition AS_ADD :: u32 where "AS_ADD = 0"
definition AS_SUB :: u32 where "AS_SUB = 2"
definition AS_SUBS :: u32 where "AS_SUBS = 3"

definition sz_bit :: "bool \<Rightarrow> u32" where
  "sz_bit sixty_four = push_bit 31 (if sixty_four then 1 else 0)"

definition emit_addsub_immediate :: "bool \<Rightarrow> u32 \<Rightarrow> u32 \<Rightarrow> u32 \<Rightarrow> u32 \<Rightarrow> unit jit" where
  "emit_addsub_immediate sixty_four op rd rn imm12 = do {
     jit_assert (imm12 < 0x1000);
     emit_instruction (sz_bit sixty_four OR push_bit 29 op OR 0x11000000 OR push_bit 10 imm12 OR push_bit 5 rn OR rd)
   }"

definition emit_addsub_register :: "bool \<Rightarrow> u32 \<Rightarrow> u32 \<Rightarrow> u32 \<Rightarrow> u32 \<Rightarrow> unit jit" where
  "emit_addsub_register sixty_four op rd rn rm =
     emit_instruction (sz_bit sixty_four OR push_bit 29 op OR 0x0b000000 OR push_bit 16 rm OR push_bit 5 rn OR rd)"

definition LS_STRB :: u32 where "LS_STRB = 0x00000000"
definition LS_LDRB :: u32 where "LS_LDRB = 0x00400000"
definition LS_LDRL :: u32 where "LS_LDRL = 0x50000000"
definition LS_STRH :: u32 where "LS_STRH = 0x40000000"
definition LS_LDRH :: u32 where "LS_LDRH = 0x40400000"
definition LS_STRW :: u32 where "LS_STRW = 0x80000000"
definition LS_LDRW :: u32 where "LS_LDRW = 0x80400000"
definition LS_STRX :: u32 where "LS_STRX = 0xc0000000"
definition LS_LDRX :: u32 where "LS_LDRX = 0xc0400000"

definition emit_loadstore_immediate :: "u32 \<Rightarrow> u32 \<Rightarrow> u32 \<Rightarrow> u32 \<Rightarrow> unit jit" where
  "emit_loadstore_immediate op rt rn imm9 = do {
     jit_assert (- 256 \<le> sint imm9 \<and> sint imm9 < 256);
     emit_instruction (0x38000000 OR op OR push_bit 12 (imm9 AND 0x1ff) OR push_bit 5 rn OR rt)
   }"

definition emit_loadstore_register :: "u32 \<Rightarrow> u32 \<Rightarrow> u32 \<Rightarrow> u32 \<Rightarrow> unit jit" where
  "emit_loadstore_register op rt rn rm =
     emit_instruction (op OR 0x38206800 OR push_bit 16 rm OR push_bit 5 rn OR rt)"

definition emit_loadstore_literal :: "u32 \<Rightarrow> u32 \<Rightarrow> u32 \<Rightarrow> unit jit" where
  "emit_loadstore_literal op rt target = do { note_load target; emit_instruction (op OR 0x08000000 OR rt) }"

definition emit_adr :: "u32 \<Rightarrow> u32 \<Rightarrow> unit jit" where
  "emit_adr target rd = do { note_lea target; emit_instruction (0x10000000 OR rd) }"

definition LSP_STPX :: u32 where "LSP_STPX = 0xa9000000"
definition LSP_LDPX :: u32 where "LSP_LDPX = 0xa9400000"

definition emit_loadstorepair_immediate :: "u32 \<Rightarrow> u32 \<Rightarrow> u32 \<Rightarrow> u32 \<Rightarrow> u32 \<Rightarrow> unit jit" where
  "emit_loadstorepair_immediate op rt rt2 rn imm7 =
     (let imm_div = (if op = LSP_STPX \<or> op = LSP_LDPX then 8 else 4 :: int)
      in do {
        jit_assert (sint imm7 smod imm_div = 0);
        emit_instruction (op OR push_bit 15 (word_of_int (sint imm7 sdiv imm_div)) OR push_bit 10 rt2 OR push_bit 5 rn OR rt)
      })"

definition LOG_AND :: u32 where "LOG_AND = 0x00000000"
definition LOG_ORR :: u32 where "LOG_ORR = 0x20000000"
definition LOG_EOR :: u32 where "LOG_EOR = 0x40000000"
definition LOG_ANDS :: u32 where "LOG_ANDS = 0x60000000"

definition emit_logical_register :: "bool \<Rightarrow> u32 \<Rightarrow> u32 \<Rightarrow> u32 \<Rightarrow> u32 \<Rightarrow> unit jit" where
  "emit_logical_register sixty_four op rd rn rm =
     emit_instruction (sz_bit sixty_four OR op OR push_bit 27 1 OR push_bit 25 1 OR push_bit 16 rm OR push_bit 5 rn OR rd)"

definition BR_BLR :: u32 where "BR_BLR = 0xd63f0000"
definition BR_RET :: u32 where "BR_RET = 0xd65f0000"

definition emit_unconditionalbranch_register :: "u32 \<Rightarrow> u32 \<Rightarrow> unit jit" where
  "emit_unconditionalbranch_register op rn = emit_instruction (op OR push_bit 5 rn)"

definition UBR_B :: u32 where "UBR_B = 0x14000000"
definition UBR_BL :: u32 where "UBR_BL = 0x94000000"

text \<open>The result is the offset of the instruction. The tables are written without a look at their size.\<close>

definition emit_unconditionalbranch_immediate :: "u32 \<Rightarrow> u32 \<Rightarrow> u32 jit" where
  "emit_unconditionalbranch_immediate op target = do {
     st \<leftarrow> jit_get;
     (if op = UBR_BL \<and> target \<noteq> TARGET_PC_ENTER then note_local_call target else note_jump target False);
     emit_instruction op;
     jit_return (js_offset st)
   }"

definition COND_EQ :: u32 where "COND_EQ = 0"
definition COND_NE :: u32 where "COND_NE = 1"
definition COND_HS :: u32 where "COND_HS = 2"
definition COND_LO :: u32 where "COND_LO = 3"
definition COND_HI :: u32 where "COND_HI = 8"
definition COND_LS :: u32 where "COND_LS = 9"
definition COND_GE :: u32 where "COND_GE = 10"
definition COND_LT :: u32 where "COND_LT = 11"
definition COND_GT :: u32 where "COND_GT = 12"
definition COND_LE :: u32 where "COND_LE = 13"
definition COND_NV :: u32 where "COND_NV = 15"

definition BR_Bcond :: u32 where "BR_Bcond = 0x54000000"

definition emit_conditionalbranch_immediate :: "u32 \<Rightarrow> u32 \<Rightarrow> u32 jit" where
  "emit_conditionalbranch_immediate cond target = do {
     st \<leftarrow> jit_get;
     note_jump target False;
     emit_instruction (BR_Bcond OR cond);
     jit_return (js_offset st)
   }"

definition DP1_REV16 :: u32 where "DP1_REV16 = 0x5ac00400"
definition DP1_REV32 :: u32 where "DP1_REV32 = 0x5ac00800"
definition DP1_REV64 :: u32 where "DP1_REV64 = 0xdac00c00"

definition emit_dataprocessing_onesource :: "bool \<Rightarrow> u32 \<Rightarrow> u32 \<Rightarrow> u32 \<Rightarrow> unit jit" where
  "emit_dataprocessing_onesource sixty_four op rd rn =
     emit_instruction (sz_bit sixty_four OR op OR push_bit 5 rn OR rd)"

definition DP2_UDIV :: u32 where "DP2_UDIV = 0x1ac00800"
definition DP2_LSLV :: u32 where "DP2_LSLV = 0x1ac02000"
definition DP2_LSRV :: u32 where "DP2_LSRV = 0x1ac02400"
definition DP2_ASRV :: u32 where "DP2_ASRV = 0x1ac02800"

definition emit_dataprocessing_twosource :: "bool \<Rightarrow> u32 \<Rightarrow> u32 \<Rightarrow> u32 \<Rightarrow> u32 \<Rightarrow> unit jit" where
  "emit_dataprocessing_twosource sixty_four op rd rn rm =
     emit_instruction (sz_bit sixty_four OR op OR push_bit 16 rm OR push_bit 5 rn OR rd)"

definition DP3_MADD :: u32 where "DP3_MADD = 0x1b000000"
definition DP3_MSUB :: u32 where "DP3_MSUB = 0x1b008000"

definition emit_dataprocessing_threesource :: "bool \<Rightarrow> u32 \<Rightarrow> u32 \<Rightarrow> u32 \<Rightarrow> u32 \<Rightarrow> u32 \<Rightarrow> unit jit" where
  "emit_dataprocessing_threesource sixty_four op rd rn rm ra =
     emit_instruction (sz_bit sixty_four OR op OR push_bit 16 rm OR push_bit 10 ra OR push_bit 5 rn OR rd)"

section \<open>Immediates\<close>

definition MW_MOVN :: u32 where "MW_MOVN = 0x12800000"
definition MW_MOVZ :: u32 where "MW_MOVZ = 0x52800000"
definition MW_MOVK :: u32 where "MW_MOVK = 0x72800000"

definition imm_block :: "u64 \<Rightarrow> nat \<Rightarrow> u64" where
  "imm_block im i = drop_bit (16 * i) im AND 0xffff"

text \<open>The first loop: which of the patterns is more common.\<close>

definition movewide_invert :: "bool \<Rightarrow> u64 \<Rightarrow> bool" where
  "movewide_invert sixty_four im =
     (let blocks = map (imm_block im) [0..<(if sixty_four then 4 else 2)];
          countffff = length (filter (\<lambda>b. b = 0xffff) blocks);
          count0000 = (if sixty_four then 0 else 2) + length (filter (\<lambda>b. b = 0) blocks)
      in count0000 < countffff)"

text \<open>The second loop: \<open>op\<close> and \<open>invert\<close> change at the first instruction. The result is the last \<open>op\<close>.\<close>

fun movewide_loop :: "bool \<Rightarrow> u32 \<Rightarrow> u64 \<Rightarrow> u64 \<Rightarrow> nat list \<Rightarrow> u32 \<Rightarrow> bool \<Rightarrow> u32 jit" where
  "movewide_loop sixty_four rd im skip_pattern [] op invert = jit_return op"
| "movewide_loop sixty_four rd im skip_pattern (i # is) op invert =
     (let imm16 = imm_block im i
      in if imm16 \<noteq> skip_pattern then
           let v = (if invert then NOT imm16 AND 0xffff else imm16)
           in do {
             emit_instruction (ucast (ucast (sz_bit sixty_four OR op OR push_bit 21 (of_nat i)) OR push_bit 5 v OR ucast rd));
             movewide_loop sixty_four rd im skip_pattern is MW_MOVK False
           }
         else movewide_loop sixty_four rd im skip_pattern is op invert)"

definition emit_movewide_immediate :: "bool \<Rightarrow> u32 \<Rightarrow> u64 \<Rightarrow> unit jit" where
  "emit_movewide_immediate sixty_four rd im =
     (let invert = movewide_invert sixty_four im;
          op = (if invert then MW_MOVN else MW_MOVZ);
          skip_pattern = (if invert then 0xffff else 0)
      in do {
        op' \<leftarrow> movewide_loop sixty_four rd im skip_pattern [0..<(if sixty_four then 4 else 2)] op invert;
        jit_when (op' \<noteq> MW_MOVK) (emit_instruction (sz_bit sixty_four OR op' OR rd))
      })"

end
