(* ===== verification/Jit_A64.thy ===== *)
theory Jit_A64
  imports Jit_A64_Emit
begin

text \<open>
  The AArch64 code generator \<open>ubpf_jit_arm64.c\<close>: prologue, epilogue and calls, the code for each eBPF
  instruction and the resolution of the relative addresses, for a little-endian target. A function
  of the source that ends in a failed assertion for an opcode it does not know gives \<^const>\<open>None\<close>.
\<close>

section \<open>Prologue, epilogue and calls\<close>

fun emit_register_pairs :: "u32 \<Rightarrow> nat \<Rightarrow> u32 list \<Rightarrow> unit jit" where
  "emit_register_pairs op i (r1 # r2 # rs) = do {
     emit_loadstorepair_immediate op r1 r2 A_SP (of_nat (i * 8));
     emit_register_pairs op (i + 2) rs
   }"
| "emit_register_pairs op i rs = jit_return ()"

definition emit_jit_prologue :: "u32 \<Rightarrow> unit jit" where
  "emit_jit_prologue ubpf_stack_size = do {
     emit_addsub_immediate True AS_SUB A_SP A_SP 16;
     emit_loadstorepair_immediate LSP_STPX A_R29 A_R30 A_SP 0;
     jit_update (\<lambda>st. st\<lparr> js_stack_size := of_nat (length callee_saved_registers * 8) \<rparr>);
     st \<leftarrow> jit_get;
     emit_addsub_immediate True AS_SUB A_SP A_SP (js_stack_size st);
     emit_register_pairs LSP_STPX 0 callee_saved_registers;
     emit_addsub_immediate True AS_ADD A_R29 A_SP 0;
     fp \<leftarrow> map_register_a64 10;
     (if js_mode st = BasicJitMode then do {
        emit_addsub_immediate True AS_ADD fp A_SP 0;
        emit_addsub_immediate True AS_SUB A_SP A_SP ubpf_stack_size
      } else do {
        emit_addsub_immediate True AS_ADD fp A_R2 0;
        emit_addsub_register True AS_ADD fp fp A_R3
      });
     emit_logical_register True LOG_ORR VOLATILE_CTXT_a64 A_RZ A_R0;
     _ \<leftarrow> emit_unconditionalbranch_immediate UBR_BL TARGET_PC_ENTER;
     _ \<leftarrow> emit_unconditionalbranch_immediate UBR_B TARGET_PC_EXIT;
     jit_update (\<lambda>st. st\<lparr> js_entry_loc := js_offset st \<rparr>)
   }"

definition emit_jit_epilogue :: "unit jit" where
  "emit_jit_epilogue = do {
     jit_update (\<lambda>st. st\<lparr> js_exit_loc := js_offset st \<rparr>);
     r0 \<leftarrow> map_register_a64 0;
     jit_when (r0 \<noteq> A_R0) (emit_logical_register True LOG_ORR A_R0 A_RZ r0);
     emit_addsub_immediate True AS_ADD A_SP A_R29 0;
     emit_register_pairs LSP_LDPX 0 callee_saved_registers;
     st \<leftarrow> jit_get;
     emit_addsub_immediate True AS_ADD A_SP A_SP (js_stack_size st);
     emit_loadstorepair_immediate LSP_LDPX A_R29 A_R30 A_SP 0;
     emit_addsub_immediate True AS_ADD A_SP A_SP 16;
     emit_unconditionalbranch_register BR_RET A_R30
   }"

definition emit_dispatched_external_helper_call_a64 :: "u32 \<Rightarrow> unit jit" where
  "emit_dispatched_external_helper_call_a64 idx =
     (let stack_movement = align_to 8 16
      in do {
        emit_addsub_immediate True AS_SUB A_SP A_SP stack_movement;
        emit_loadstore_immediate LS_STRX A_R30 A_SP 0;
        emit_loadstore_literal LS_LDRL temp_register TARGET_PC_EXTERNAL_DISPATCHER;
        emit_addsub_immediate True AS_SUBS temp_register temp_register 0;
        jump_source \<leftarrow> emit_conditionalbranch_immediate COND_NE 0;
        emit_movewide_immediate True A_R5 (ucast idx);
        emit_movewide_immediate True A_R6 3;
        emit_dataprocessing_twosource True DP2_LSLV A_R5 A_R5 A_R6;
        emit_movewide_immediate True temp_register 0;
        emit_adr TARGET_LOAD_HELPER_TABLE temp_register;
        emit_addsub_register True AS_ADD temp_register temp_register A_R5;
        emit_loadstore_immediate LS_LDRX temp_register temp_register 0;
        emit_jump_target jump_source;
        emit_movewide_immediate True A_R5 (ucast idx);
        emit_logical_register True LOG_ORR A_R6 A_RZ VOLATILE_CTXT_a64;
        emit_unconditionalbranch_register BR_BLR temp_register;
        dest \<leftarrow> map_register_a64 0;
        jit_when (dest \<noteq> A_R0) (emit_logical_register True LOG_ORR dest A_RZ A_R0);
        emit_loadstore_immediate LS_LDRX A_R30 A_SP 0;
        emit_addsub_immediate True AS_ADD A_SP A_SP stack_movement
      })"

definition emit_local_call_a64 :: "u32 \<Rightarrow> unit jit" where
  "emit_local_call_a64 target =
     (let stack_movement = align_to 48 16
      in do {
        emit_loadstore_immediate LS_LDRX temp_register A_SP 0;
        fp \<leftarrow> map_register_a64 10;
        emit_addsub_register True AS_SUB fp fp temp_register;
        emit_addsub_immediate True AS_SUB A_SP A_SP stack_movement;
        emit_loadstore_immediate LS_STRX A_R30 A_SP 0;
        emit_loadstore_immediate LS_STRX temp_register A_SP 8;
        r6 \<leftarrow> map_register_a64 6; r7 \<leftarrow> map_register_a64 7;
        emit_loadstorepair_immediate LSP_STPX r6 r7 A_SP 16;
        r8 \<leftarrow> map_register_a64 8; r9 \<leftarrow> map_register_a64 9;
        emit_loadstorepair_immediate LSP_STPX r8 r9 A_SP 32;
        _ \<leftarrow> emit_unconditionalbranch_immediate UBR_BL target;
        emit_loadstore_immediate LS_LDRX A_R30 A_SP 0;
        emit_loadstore_immediate LS_LDRX temp_register A_SP 8;
        emit_loadstorepair_immediate LSP_LDPX r6 r7 A_SP 16;
        emit_loadstorepair_immediate LSP_LDPX r8 r9 A_SP 32;
        emit_addsub_immediate True AS_ADD A_SP A_SP stack_movement;
        emit_addsub_register True AS_ADD fp fp temp_register
      })"

fun emit_padding :: "nat \<Rightarrow> unit jit" where
  "emit_padding 0 = jit_return ()"
| "emit_padding (Suc n) = do { emit_bytes_a64 [0]; emit_padding n }"

definition emit_dispatched_external_helper_address_a64 :: "u64 \<Rightarrow> u32 jit" where
  "emit_dispatched_external_helper_address_a64 dispatcher_addr = do {
     st \<leftarrow> jit_get;
     emit_padding ((4 - unat (js_offset st) mod 4) mod 4);
     st1 \<leftarrow> jit_get;
     emit_bytes_a64 (le_bytes 8 dispatcher_addr);
     jit_return (js_offset st1)
   }"

primrec emit_pointers_a64 :: "u64 list \<Rightarrow> unit jit" where
  "emit_pointers_a64 [] = jit_return ()"
| "emit_pointers_a64 (f # fs) = do { emit_bytes_a64 (le_bytes 8 f); emit_pointers_a64 fs }"

definition emit_helper_table_a64 :: "ubpf_vm \<Rightarrow> u32 jit" where
  "emit_helper_table_a64 vm = do {
     st \<leftarrow> jit_get;
     emit_pointers_a64 (take MAX_EXT_FUNCS (ext_funcs vm));
     jit_return (js_offset st)
   }"

section \<open>Classification of instructions\<close>

definition is_imm_op :: "u8 \<Rightarrow> bool" where
  "is_imm_op opc =
     (let cls = opc AND EBPF_CLS_MASK;
          is_imm = (opc AND EBPF_SRC_REG = EBPF_SRC_IMM);
          is_endian = (opc AND EBPF_ALU_OP_MASK = 0xd0);
          is_neg = (opc AND EBPF_ALU_OP_MASK = 0x80);
          is_call = (opc = EBPF_OP_CALL); is_exit = (opc = EBPF_OP_EXIT); is_ja = (opc = EBPF_OP_JA);
          is_alu = ((cls = EBPF_CLS_ALU \<or> cls = EBPF_CLS_ALU64) \<and> \<not> is_endian \<and> \<not> is_neg);
          is_jmp = (cls = EBPF_CLS_JMP \<and> \<not> is_ja \<and> \<not> is_call \<and> \<not> is_exit);
          is_jmp32 = (cls = EBPF_CLS_JMP32);
          is_store = (cls = EBPF_CLS_ST)
      in is_imm \<and> (is_alu \<or> is_jmp \<or> is_jmp32) \<or> is_store)"

definition is_alu64_op :: "u8 \<Rightarrow> bool" where
  "is_alu64_op opc \<longleftrightarrow> opc AND EBPF_CLS_MASK = EBPF_CLS_ALU64 \<or> opc AND EBPF_CLS_MASK = EBPF_CLS_JMP"

definition addsub_imm_opcodes :: "u8 list" where
  "addsub_imm_opcodes = [EBPF_OP_ADD_IMM, EBPF_OP_ADD64_IMM, EBPF_OP_SUB_IMM, EBPF_OP_SUB64_IMM]"

definition addsub_reg_opcodes :: "u8 list" where
  "addsub_reg_opcodes = [EBPF_OP_ADD_REG, EBPF_OP_ADD64_REG, EBPF_OP_SUB_REG, EBPF_OP_SUB64_REG]"

definition compare_imm_opcodes :: "u8 list" where
  "compare_imm_opcodes = [EBPF_OP_JEQ_IMM, EBPF_OP_JGT_IMM, EBPF_OP_JGE_IMM, EBPF_OP_JLT_IMM, EBPF_OP_JLE_IMM,
     EBPF_OP_JNE_IMM, EBPF_OP_JSGT_IMM, EBPF_OP_JSGE_IMM, EBPF_OP_JSLT_IMM, EBPF_OP_JSLE_IMM,
     EBPF_OP_JEQ32_IMM, EBPF_OP_JGT32_IMM, EBPF_OP_JGE32_IMM, EBPF_OP_JLT32_IMM, EBPF_OP_JLE32_IMM,
     EBPF_OP_JNE32_IMM, EBPF_OP_JSGT32_IMM, EBPF_OP_JSGE32_IMM, EBPF_OP_JSLT32_IMM, EBPF_OP_JSLE32_IMM]"

definition compare_reg_opcodes :: "u8 list" where
  "compare_reg_opcodes = [EBPF_OP_JEQ_REG, EBPF_OP_JGT_REG, EBPF_OP_JGE_REG, EBPF_OP_JLT_REG, EBPF_OP_JLE_REG,
     EBPF_OP_JNE_REG, EBPF_OP_JSGT_REG, EBPF_OP_JSGE_REG, EBPF_OP_JSLT_REG, EBPF_OP_JSLE_REG,
     EBPF_OP_JEQ32_REG, EBPF_OP_JGT32_REG, EBPF_OP_JGE32_REG, EBPF_OP_JLT32_REG, EBPF_OP_JLE32_REG,
     EBPF_OP_JNE32_REG, EBPF_OP_JSGT32_REG, EBPF_OP_JSGE32_REG, EBPF_OP_JSLT32_REG, EBPF_OP_JSLE32_REG]"

text \<open>The immediate opcodes that are never simple, and so never reach their cases of the switch.\<close>

definition converted_imm_opcodes :: "u8 list" where
  "converted_imm_opcodes = [EBPF_OP_AND_IMM, EBPF_OP_AND64_IMM, EBPF_OP_OR_IMM, EBPF_OP_OR64_IMM, EBPF_OP_XOR_IMM,
     EBPF_OP_XOR64_IMM, EBPF_OP_ARSH_IMM, EBPF_OP_ARSH64_IMM, EBPF_OP_LSH_IMM, EBPF_OP_LSH64_IMM, EBPF_OP_RSH_IMM,
     EBPF_OP_RSH64_IMM, EBPF_OP_JSET_IMM, EBPF_OP_JSET32_IMM, EBPF_OP_DIV_IMM, EBPF_OP_DIV64_IMM, EBPF_OP_MOD_IMM,
     EBPF_OP_MOD64_IMM, EBPF_OP_MUL_IMM, EBPF_OP_MUL64_IMM, EBPF_OP_STB, EBPF_OP_STH, EBPF_OP_STW, EBPF_OP_STDW]"

definition is_simple_imm :: "u8 \<Rightarrow> u32 \<Rightarrow> bool option" where
  "is_simple_imm opc im =
     (if opc \<in> set addsub_imm_opcodes \<or> opc \<in> set compare_imm_opcodes then Some (0 \<le> sint im \<and> sint im < 0x1000)
      else if opc = EBPF_OP_MOV_IMM \<or> opc = EBPF_OP_MOV64_IMM then Some True
      else if opc \<in> set converted_imm_opcodes then Some False
      else None)"

definition to_reg_op :: "u8 \<Rightarrow> u8 option" where
  "to_reg_op opc =
     (let cls = opc AND EBPF_CLS_MASK
      in if cls = EBPF_CLS_ALU64 \<or> cls = EBPF_CLS_ALU \<or> cls = EBPF_CLS_JMP \<or> cls = EBPF_CLS_JMP32
         then Some (opc OR EBPF_SRC_REG)
         else if cls = EBPF_CLS_ST then Some (opc AND NOT EBPF_CLS_MASK OR EBPF_CLS_STX)
         else None)"

definition to_addsub_opcode :: "u8 \<Rightarrow> u32 option" where
  "to_addsub_opcode opc =
     (if opc \<in> set [EBPF_OP_ADD_IMM, EBPF_OP_ADD_REG, EBPF_OP_ADD64_IMM, EBPF_OP_ADD64_REG] then Some AS_ADD
      else if opc \<in> set [EBPF_OP_SUB_IMM, EBPF_OP_SUB_REG, EBPF_OP_SUB64_IMM, EBPF_OP_SUB64_REG] then Some AS_SUB
      else None)"

definition to_logical_opcode :: "u8 \<Rightarrow> u32 option" where
  "to_logical_opcode opc =
     (if opc \<in> set [EBPF_OP_OR_IMM, EBPF_OP_OR_REG, EBPF_OP_OR64_IMM, EBPF_OP_OR64_REG] then Some LOG_ORR
      else if opc \<in> set [EBPF_OP_AND_IMM, EBPF_OP_AND_REG, EBPF_OP_AND64_IMM, EBPF_OP_AND64_REG] then Some LOG_AND
      else if opc \<in> set [EBPF_OP_XOR_IMM, EBPF_OP_XOR_REG, EBPF_OP_XOR64_IMM, EBPF_OP_XOR64_REG] then Some LOG_EOR
      else None)"

definition to_dp1_opcode :: "u8 \<Rightarrow> u32 \<Rightarrow> u32 option" where
  "to_dp1_opcode opc im =
     (if opc = EBPF_OP_BE \<or> opc = EBPF_OP_LE then
        if im = 16 then Some DP1_REV16 else if im = 32 then Some DP1_REV32
        else if im = 64 then Some DP1_REV64 else None
      else None)"

definition to_dp2_opcode :: "u8 \<Rightarrow> u32 option" where
  "to_dp2_opcode opc =
     (if opc \<in> set [EBPF_OP_LSH_IMM, EBPF_OP_LSH_REG, EBPF_OP_LSH64_IMM, EBPF_OP_LSH64_REG] then Some DP2_LSLV
      else if opc \<in> set [EBPF_OP_RSH_IMM, EBPF_OP_RSH_REG, EBPF_OP_RSH64_IMM, EBPF_OP_RSH64_REG] then Some DP2_LSRV
      else if opc \<in> set [EBPF_OP_ARSH_IMM, EBPF_OP_ARSH_REG, EBPF_OP_ARSH64_IMM, EBPF_OP_ARSH64_REG] then Some DP2_ASRV
      else if opc \<in> set [EBPF_OP_DIV_IMM, EBPF_OP_DIV_REG, EBPF_OP_DIV64_IMM, EBPF_OP_DIV64_REG] then Some DP2_UDIV
      else None)"

definition to_loadstore_opcode :: "u8 \<Rightarrow> u32 option" where
  "to_loadstore_opcode opc =
     (if opc = EBPF_OP_LDXW then Some LS_LDRW
      else if opc = EBPF_OP_LDXH then Some LS_LDRH
      else if opc = EBPF_OP_LDXB then Some LS_LDRB
      else if opc = EBPF_OP_LDXDW then Some LS_LDRX
      else if opc = EBPF_OP_STW \<or> opc = EBPF_OP_STXW then Some LS_STRW
      else if opc = EBPF_OP_STH \<or> opc = EBPF_OP_STXH then Some LS_STRH
      else if opc = EBPF_OP_STB \<or> opc = EBPF_OP_STXB then Some LS_STRB
      else if opc = EBPF_OP_STDW \<or> opc = EBPF_OP_STXDW then Some LS_STRX
      else None)"

definition to_condition :: "u8 \<Rightarrow> u32 option" where
  "to_condition opc =
     (let jmp_type = opc AND EBPF_JMP_OP_MASK
      in if jmp_type = EBPF_MODE_JEQ then Some COND_EQ
         else if jmp_type = EBPF_MODE_JGT then Some COND_HI
         else if jmp_type = EBPF_MODE_JGE then Some COND_HS
         else if jmp_type = EBPF_MODE_JLT then Some COND_LO
         else if jmp_type = EBPF_MODE_JLE then Some COND_LS
         else if jmp_type = EBPF_MODE_JSET then Some COND_NE
         else if jmp_type = EBPF_MODE_JNE then Some COND_NE
         else if jmp_type = EBPF_MODE_JSGT then Some COND_GT
         else if jmp_type = EBPF_MODE_JSGE then Some COND_GE
         else if jmp_type = EBPF_MODE_JSLT then Some COND_LT
         else if jmp_type = EBPF_MODE_JSLE then Some COND_LE
         else None)"

text \<open>The value of such a function, or a failed assertion and the value returned after it.\<close>

definition known :: "'a option \<Rightarrow> 'a \<Rightarrow> 'a jit" where
  "known x d = (case x of None \<Rightarrow> do { jit_fail AssertionFailed; jit_return d } | Some v \<Rightarrow> jit_return v)"

section \<open>The code of an instruction\<close>

definition divmod_a64 :: "u8 \<Rightarrow> u32 \<Rightarrow> u32 \<Rightarrow> u32 \<Rightarrow> unit jit" where
  "divmod_a64 opc rd rn rm =
     (let md = (opc AND EBPF_ALU_OP_MASK = EBPF_OP_MOD_IMM AND EBPF_ALU_OP_MASK);
          sixty_four = (opc AND EBPF_CLS_MASK = EBPF_CLS_ALU64);
          div_dest = (if md then temp_div_register else rd)
      in do {
        emit_dataprocessing_twosource sixty_four DP2_UDIV div_dest rn rm;
        jit_when md (emit_dataprocessing_threesource sixty_four DP3_MSUB rd rm div_dest rn)
      })"

text \<open>Arithmetic; \<open>d\<close> and \<open>s\<close> are the registers of the target.\<close>

definition translate_alu_a64 :: "u8 \<Rightarrow> bool \<Rightarrow> u32 \<Rightarrow> u32 \<Rightarrow> u32 \<Rightarrow> unit jit option" where
  "translate_alu_a64 opc sixty_four d s im =
     (if opc \<in> set addsub_imm_opcodes then
        Some (do { op \<leftarrow> known (to_addsub_opcode opc) BAD_OPCODE; emit_addsub_immediate sixty_four op d d im })
      else if opc \<in> set addsub_reg_opcodes then
        Some (do { op \<leftarrow> known (to_addsub_opcode opc) BAD_OPCODE; emit_addsub_register sixty_four op d d s })
      else if opc \<in> set [EBPF_OP_LSH_REG, EBPF_OP_RSH_REG, EBPF_OP_ARSH_REG, EBPF_OP_LSH64_REG, EBPF_OP_RSH64_REG,
          EBPF_OP_ARSH64_REG] then
        Some (do { op \<leftarrow> known (to_dp2_opcode opc) BAD_OPCODE; emit_dataprocessing_twosource sixty_four op d d s })
      else if opc \<in> set [EBPF_OP_MUL_REG, EBPF_OP_MUL64_REG] then
        Some (emit_dataprocessing_threesource sixty_four DP3_MADD d d s A_RZ)
      else if opc \<in> set [EBPF_OP_DIV_REG, EBPF_OP_MOD_REG, EBPF_OP_DIV64_REG, EBPF_OP_MOD64_REG] then
        Some (divmod_a64 opc d d s)
      else if opc \<in> set [EBPF_OP_OR_REG, EBPF_OP_AND_REG, EBPF_OP_XOR_REG, EBPF_OP_OR64_REG, EBPF_OP_AND64_REG,
          EBPF_OP_XOR64_REG] then
        Some (do { op \<leftarrow> known (to_logical_opcode opc) BAD_OPCODE; emit_logical_register sixty_four op d d s })
      else if opc \<in> set [EBPF_OP_NEG, EBPF_OP_NEG64] then
        Some (emit_addsub_register sixty_four AS_SUB d A_RZ s)
      else if opc \<in> set [EBPF_OP_MOV_IMM, EBPF_OP_MOV64_IMM] then
        Some (emit_movewide_immediate sixty_four d (scast im))
      else if opc \<in> set [EBPF_OP_MOV_REG, EBPF_OP_MOV64_REG] then
        Some (emit_logical_register sixty_four LOG_ORR d A_RZ s)
      else if opc = EBPF_OP_LE then
        Some (if im = 16 then emit_instruction (0x53003c00 OR push_bit 5 d OR d)
              else if im = 32 then emit_instruction (0x53007c00 OR push_bit 5 d OR d)
              else jit_return ())
      else if opc = EBPF_OP_BE then
        Some (do {
          op \<leftarrow> known (to_dp1_opcode opc im) 0;
          emit_dataprocessing_onesource sixty_four op d d;
          jit_when (im = 16) (emit_instruction (0x53003c00 OR push_bit 5 d OR d))
        })
      else None)"

definition branch_a64 :: "u8 \<Rightarrow> u32 \<Rightarrow> unit jit" where
  "branch_a64 opc t = do {
     cond \<leftarrow> known (to_condition opc) COND_NV;
     _ \<leftarrow> emit_conditionalbranch_immediate cond t;
     jit_return ()
   }"

definition translate_jump_a64 :: "u8 \<Rightarrow> bool \<Rightarrow> u32 \<Rightarrow> u32 \<Rightarrow> u32 \<Rightarrow> u32 \<Rightarrow> unit jit option" where
  "translate_jump_a64 opc sixty_four d s im t =
     (if opc = EBPF_OP_JA then
        Some (do { _ \<leftarrow> emit_unconditionalbranch_immediate UBR_B t; jit_return () })
      else if opc \<in> set compare_imm_opcodes then
        Some (do { emit_addsub_immediate sixty_four AS_SUBS A_RZ d im; branch_a64 opc t })
      else if opc \<in> set compare_reg_opcodes then
        Some (do { emit_addsub_register sixty_four AS_SUBS A_RZ d s; branch_a64 opc t })
      else if opc \<in> set [EBPF_OP_JSET_REG, EBPF_OP_JSET32_REG] then
        Some (do { emit_logical_register sixty_four LOG_ANDS A_RZ d s; branch_a64 opc t })
      else None)"

definition translate_call_a64 :: "ubpf_vm \<Rightarrow> nat \<Rightarrow> ebpf_inst \<Rightarrow> unit jit" where
  "translate_call_a64 vm i inst =
     (if src inst = 0 then do {
        emit_dispatched_external_helper_call_a64 (imm inst);
        jit_when (imm inst = unwind_stack_extension_index vm) (do {
          r0 \<leftarrow> map_register_a64 0;
          emit_addsub_immediate True AS_SUBS A_RZ r0 0;
          _ \<leftarrow> emit_conditionalbranch_immediate COND_EQ TARGET_PC_EXIT;
          jit_return ()
        })
      } else if src inst = 1 then emit_local_call_a64 (of_nat i + imm inst + 1)
      else do { _ \<leftarrow> emit_unconditionalbranch_immediate UBR_B TARGET_PC_EXIT; jit_return () })"

definition translate_exit_a64 :: "unit jit" where
  "translate_exit_a64 = do {
     emit_addsub_immediate True AS_ADD A_SP A_SP 16;
     emit_unconditionalbranch_register BR_RET A_R30
   }"

text \<open>Loads and stores; a store exchanges its registers first.\<close>

definition translate_memory_a64 :: "u8 \<Rightarrow> u32 \<Rightarrow> u32 \<Rightarrow> u16 \<Rightarrow> unit jit option" where
  "translate_memory_a64 opc d s off =
     (let store = opc \<in> set [EBPF_OP_STXW, EBPF_OP_STXH, EBPF_OP_STXB, EBPF_OP_STXDW];
          load = opc \<in> set [EBPF_OP_LDXW, EBPF_OP_LDXH, EBPF_OP_LDXB, EBPF_OP_LDXDW];
          rt = (if store then s else d); rn = (if store then d else s)
      in if store \<or> load then Some (do {
           op \<leftarrow> known (to_loadstore_opcode opc) BAD_OPCODE;
           if - 256 \<le> sint off \<and> sint off < 256 then emit_loadstore_immediate op rt rn (scast off)
           else do {
             emit_movewide_immediate True offset_register (scast off);
             emit_loadstore_register op rt rn offset_register
           }
         }) else None)"

definition translate_lddw_a64 :: "ubpf_vm \<Rightarrow> nat \<Rightarrow> ebpf_inst \<Rightarrow> u32 \<Rightarrow> unit jit" where
  "translate_lddw_a64 vm i inst d =
     (case ubpf_fetch_instruction vm (of_nat (Suc i)) of
        None \<Rightarrow> jit_fail OutsideArray
      | Some inst2 \<Rightarrow> emit_movewide_immediate True d (ucast (imm inst) OR push_bit 32 (scast (imm inst2))))"

text \<open>
  The switch. A case for an opcode that should have been converted sets its status and message and
  falls through into the default case, which sets others.
\<close>

definition translate_switch_a64 ::
  "ubpf_vm \<Rightarrow> nat \<Rightarrow> ebpf_inst \<Rightarrow> u8 \<Rightarrow> bool \<Rightarrow> u32 \<Rightarrow> u32 \<Rightarrow> u32 \<Rightarrow> nat jit"
where
  "translate_switch_a64 vm i inst opc sixty_four d s t =
     (case first_part [translate_alu_a64 opc sixty_four d s (imm inst),
             translate_jump_a64 opc sixty_four d s (imm inst) t, translate_memory_a64 opc d s (offset inst)] of
        Some m \<Rightarrow> do { m; jit_return i }
      | None \<Rightarrow>
          if opc = EBPF_OP_CALL then do { translate_call_a64 vm i inst; jit_return i }
          else if opc = EBPF_OP_EXIT then do { translate_exit_a64; jit_return i }
          else if opc = EBPF_OP_LDDW then do { translate_lddw_a64 vm i inst d; jit_return (Suc i) }
          else do {
            jit_when (opc \<in> set converted_imm_opcodes)
              (jit_update (\<lambda>st. st\<lparr> js_status := UnexpectedInstruction,
                 js_errmsg := Some (JitUnexpectedInstruction i opc (imm inst)) \<rparr>));
            jit_update (\<lambda>st. st\<lparr> js_status := UnknownInstruction, js_errmsg := Some (JitUnknownInstruction i opc) \<rparr>);
            jit_return i
          })"

section \<open>The loop over the program\<close>

definition emit_fallthrough_jump_a64 :: "ubpf_vm \<Rightarrow> nat \<Rightarrow> u32 option jit" where
  "emit_fallthrough_jump_a64 vm i =
     (if i \<noteq> 0 then
        case int_func_at vm i of
          None \<Rightarrow> do { jit_fail OutsideArray; jit_return None }
        | Some False \<Rightarrow> jit_return None
        | Some True \<Rightarrow>
            (case ubpf_fetch_instruction vm (of_nat (i - 1)) of
               None \<Rightarrow> do { jit_fail OutsideArray; jit_return None }
             | Some prev_inst \<Rightarrow>
                 if ubpf_instruction_has_fallthrough prev_inst then do {
                   source \<leftarrow> emit_unconditionalbranch_immediate UBR_B 0;
                   jit_return (Some source)
                 } else jit_return None)
      else jit_return None)"

definition emit_function_prolog_a64 :: "ubpf_vm \<Rightarrow> nat \<Rightarrow> unit jit" where
  "emit_function_prolog_a64 vm i = do {
     st0 \<leftarrow> jit_get;
     let prolog_start = js_offset st0;
     emit_movewide_immediate True temp_register (ucast (ubpf_stack_usage_for_local_func vm (of_nat i)));
     emit_addsub_immediate True AS_SUB A_SP A_SP 16;
     emit_loadstorepair_immediate LSP_STPX temp_register temp_register A_SP 0;
     st \<leftarrow> jit_get;
     let prolog_size = (ucast (js_offset st) - ucast prolog_start :: u64);
     if js_prolog_size st = 0
     then jit_update (\<lambda>st. st\<lparr> js_prolog_size := prolog_size \<rparr>)
     else jit_assert (js_prolog_size st = prolog_size)
   }"

definition emit_function_entry_a64 :: "ubpf_vm \<Rightarrow> nat \<Rightarrow> unit jit" where
  "emit_function_entry_a64 vm i = do {
     fallthrough \<leftarrow> emit_fallthrough_jump_a64 vm i;
     jit_when (i = 0 \<or> int_func_at vm i = Some True) (emit_function_prolog_a64 vm i);
     (case fallthrough of
        None \<Rightarrow> jit_return ()
      | Some source \<Rightarrow> jit_update (\<lambda>st. st\<lparr> js_jumps :=
          fixup_jump_target (js_jumps st) source (js_offset st) \<rparr>))
   }"

text \<open>
  An immediate that does not fit its instruction is moved to a register first; the result is the
  register and the opcode to go on with.
\<close>

definition convert_immediate :: "ebpf_inst \<Rightarrow> u32 \<Rightarrow> (u32 \<times> u8) jit" where
  "convert_immediate inst s =
     (if is_imm_op (opcode inst) then do {
        simple \<leftarrow> known (is_simple_imm (opcode inst) (imm inst)) False;
        if simple then jit_return (s, opcode inst)
        else do {
          emit_movewide_immediate (is_alu64_op (opcode inst)) temp_register (scast (imm inst));
          opc \<leftarrow> known (to_reg_op (opcode inst)) 0;
          jit_return (temp_register, opc)
        }
      } else jit_return (s, opcode inst))"

definition translate_body_a64 :: "ubpf_vm \<Rightarrow> nat \<Rightarrow> ebpf_inst \<Rightarrow> u32 \<Rightarrow> u32 \<Rightarrow> u32 \<Rightarrow> nat jit" where
  "translate_body_a64 vm i inst d s t = do {
     (s', opc) \<leftarrow> convert_immediate inst s;
     translate_switch_a64 vm i inst opc (is_alu64_op (opcode inst)) d s' t
   }"

definition translate_inst_a64 :: "ubpf_vm \<Rightarrow> nat \<Rightarrow> nat jit" where
  "translate_inst_a64 vm i =
     (case ubpf_fetch_instruction vm (of_nat i) of
        None \<Rightarrow> do { jit_fail OutsideArray; jit_return (Suc i) }
      | Some inst \<Rightarrow> do {
          emit_function_entry_a64 vm i;
          jit_update (\<lambda>st. st\<lparr> js_pc_locs := (js_pc_locs st)(i := js_offset st) \<rparr>);
          d \<leftarrow> map_register_a64 (dst inst);
          s \<leftarrow> map_register_a64 (src inst);
          let t = of_nat i + scast (offset inst) + 1;
          i' \<leftarrow> translate_body_a64 vm i inst d s t;
          jit_return (Suc i')
        })"

lemma translate_switch_a64_next: "i \<le> jit_value (translate_switch_a64 vm i inst opc sixty_four d s t) st"
  by (simp add: translate_switch_a64_def Let_def split: option.split)

lemma translate_inst_a64_next: "i < jit_value (translate_inst_a64 vm i) st"
  by (simp add: translate_inst_a64_def translate_body_a64_def Let_def less_Suc_eq_le translate_switch_a64_next split: option.split prod.split)

function translate_loop_a64 :: "ubpf_vm \<Rightarrow> nat \<Rightarrow> jit_state \<Rightarrow> jit_state" where
  "translate_loop_a64 vm i st =
     (if i < unat (num_insts vm) \<and> js_status st = NoError
      then translate_loop_a64 vm (jit_value (translate_inst_a64 vm i) st) (jit_exec (translate_inst_a64 vm i) st)
      else st)"
  by pat_completeness auto
termination
  by (relation "measure (\<lambda>(vm, i, st). unat (num_insts vm) - i)")
    (simp_all add: translate_inst_a64_next diff_less_mono2)

declare translate_loop_a64.simps [simp del]

definition translate_epilogue_a64 :: "ubpf_vm \<Rightarrow> unit jit" where
  "translate_epilogue_a64 vm = do {
     emit_jit_epilogue;
     dispatcher_at \<leftarrow> emit_dispatched_external_helper_address_a64 (dispatcher vm);
     jit_update (\<lambda>st. st\<lparr> js_dispatcher_loc := dispatcher_at \<rparr>);
     helpers_at \<leftarrow> emit_helper_table_a64 vm;
     jit_update (\<lambda>st. st\<lparr> js_helper_table_loc := helpers_at \<rparr>)
   }"

definition translate_a64 :: "ubpf_vm \<Rightarrow> jit_state \<Rightarrow> int \<times> jit_state" where
  "translate_a64 vm st0 =
     (let st1 = jit_exec (emit_jit_prologue (of_nat UBPF_EBPF_STACK_SIZE)) st0;
          st2 = translate_loop_a64 vm 0 st1
      in if js_status st2 \<noteq> NoError
         then (- 1, st2\<lparr> js_errmsg := status_errmsg (js_status st2) (js_errmsg st2) \<rparr>)
         else (0, jit_exec (translate_epilogue_a64 vm) st2))"

section \<open>Resolving relative addresses\<close>

definition load_instr :: "u32 \<Rightarrow> u32 jit" where
  "load_instr loc = do {
     st \<leftarrow> jit_get;
     case buf_read (js_buf st) (unat loc) 4 of
       None \<Rightarrow> do { jit_fail OutsideArray; jit_return 0 }
     | Some bs \<Rightarrow> jit_return (le_word bs)
   }"

definition branch_bits :: "u32 \<Rightarrow> u32 \<Rightarrow> u32 option" where
  "branch_bits instr im =
     (if instr AND 0xfe000000 = 0x54000000 \<or> instr AND 0x7e000000 = 0x34000000 then
        if signed_drop_bit 19 im = - 1 \<or> signed_drop_bit 19 im = 0 then Some (push_bit 5 (im AND 0x7ffff)) else None
      else if instr AND 0x7c000000 = 0x14000000 then
        if signed_drop_bit 26 im = - 1 \<or> signed_drop_bit 26 im = 0 then Some (im AND 0x03ffffff) else None
      else None)"

text \<open>\<^const>\<open>None\<close> of \<^const>\<open>branch_bits\<close> is a failed assertion: what follows it does not matter.\<close>

definition resolve_branch_immediate :: "u32 \<Rightarrow> u32 \<Rightarrow> unit jit" where
  "resolve_branch_immediate loc rel = do {
     jit_assert (rel AND 3 = 0);
     instr \<leftarrow> load_instr loc;
     bits \<leftarrow> known (branch_bits instr (signed_drop_bit 2 rel)) 0;
     patch_bytes loc (le_bytes 4 (instr OR bits))
   }"

definition resolve_load_literal :: "u32 \<Rightarrow> u32 \<Rightarrow> unit jit" where
  "resolve_load_literal loc target = do {
     instr \<leftarrow> load_instr loc;
     patch_bytes loc (le_bytes 4 (instr OR push_bit 5 (0x7FFFF AND target)))
   }"

definition resolve_adr :: "u32 \<Rightarrow> u32 \<Rightarrow> unit jit" where
  "resolve_adr loc immediate = do {
     instr \<leftarrow> load_instr loc;
     patch_bytes loc (le_bytes 4 (instr OR push_bit 5 (immediate AND 0x00ffffff)))
   }"

definition resolve_jump_a64 :: "patchable_relative \<Rightarrow> bool jit" where
  "resolve_jump_a64 jump = do {
     st \<leftarrow> jit_get;
     target_loc \<leftarrow>
       (if target_offset jump \<noteq> 0 then jit_return (target_offset jump)
        else if target_pc jump = TARGET_PC_EXIT then jit_return (js_exit_loc st)
        else if target_pc jump = TARGET_PC_ENTER then jit_return (js_entry_loc st)
        else pc_loc (target_pc jump));
     resolve_branch_immediate (offset_loc jump) (target_loc - offset_loc jump);
     jit_return True
   }"

definition resolve_load_a64 :: "patchable_relative \<Rightarrow> bool jit" where
  "resolve_load_a64 jump =
     (if target_pc jump = TARGET_PC_EXTERNAL_DISPATCHER then do {
        st \<leftarrow> jit_get;
        let rel = js_dispatcher_loc st - offset_loc jump;
        jit_assert (sint rel smod 4 = 0);
        resolve_load_literal (offset_loc jump) (signed_drop_bit 2 rel);
        jit_return True
      } else jit_return False)"

definition resolve_lea_a64 :: "patchable_relative \<Rightarrow> bool jit" where
  "resolve_lea_a64 jump =
     (if target_pc jump = TARGET_LOAD_HELPER_TABLE then do {
        st \<leftarrow> jit_get;
        let rel = js_helper_table_loc st - offset_loc jump;
        jit_assert (sint rel smod 4 = 0);
        resolve_adr (offset_loc jump) (signed_drop_bit 2 rel);
        jit_return True
      } else jit_return False)"

definition resolve_local_call_a64 :: "patchable_relative \<Rightarrow> bool jit" where
  "resolve_local_call_a64 local_call = do {
     jit_assert (target_offset local_call = 0);
     jit_assert (target_pc local_call \<noteq> TARGET_PC_EXIT);
     jit_assert (target_pc local_call \<noteq> TARGET_PC_RETPOLINE);
     target_loc \<leftarrow> pc_loc (target_pc local_call);
     st \<leftarrow> jit_get;
     resolve_branch_immediate (offset_loc local_call)
       (target_loc - offset_loc local_call - ucast (js_prolog_size st));
     jit_return True
   }"

definition resolve_relatives_a64 :: "bool jit" where
  "resolve_relatives_a64 = do {
     st \<leftarrow> jit_get;
     jumps_ok \<leftarrow> resolve_table resolve_jump_a64 (js_jumps st);
     if \<not> jumps_ok then jit_return False
     else do {
       loads_ok \<leftarrow> resolve_table resolve_load_a64 (js_loads st);
       if \<not> loads_ok then jit_return False
       else do {
         leas_ok \<leftarrow> resolve_table resolve_lea_a64 (js_leas st);
         if \<not> leas_ok then jit_return False
         else resolve_table resolve_local_call_a64 (js_local_calls st)
       }
     }
   }"

section \<open>The entry point\<close>

definition ubpf_translate_arm64 ::
  "bool \<times> bool \<times> bool \<times> bool \<times> bool \<Rightarrow> u32 \<times> u32 \<times> u32 \<times> u32 \<Rightarrow> u32 \<Rightarrow>
     ubpf_vm \<Rightarrow> u8 list \<Rightarrow> u64 \<Rightarrow> JitMode \<Rightarrow> compilation"
where
  "ubpf_translate_arm64 allocs locs0 helper_offset0 vm buffer sz mode =
     (let (rc0, st0, result0) =
            initialize_jit_state_result buffer (ucast sz) mode allocs locs0 helper_offset0;
          outcome = (\<lambda>result sz st. \<lparr> comp_result = result, comp_size = sz, comp_buf = js_buf st,
            comp_crash = js_crash st \<rparr>)
      in if rc0 < 0 then outcome result0 sz st0
         else
           let (rc1, st1) = translate_a64 vm st0
           in if rc1 < 0 then outcome (result0\<lparr> errmsg := js_errmsg st1 \<rparr>) sz st1
              else
                let ok = jit_value resolve_relatives_a64 st1;
                    st2 = jit_exec resolve_relatives_a64 st1
                in if \<not> ok then outcome (result0\<lparr> errmsg := Some JitCouldNotPatch \<rparr>) sz st2
                   else outcome (result0\<lparr> errmsg := js_errmsg st2,
                          compile_result := UBPF_JIT_COMPILE_SUCCESS,
                          external_dispatcher_offset := js_dispatcher_loc st2,
                          external_helper_offset := js_helper_table_loc st2 \<rparr>) (ucast (js_offset st2)) st2)"

end
