(* ===== verification/Ubpf_Jit.thy ===== *)
theory Ubpf_Jit
  imports Jit_X86 Jit_A64
begin

text \<open>
  The target-independent part of the JIT, \<open>ubpf_jit.c\<close>: translation into a caller's buffer,
  compilation into executable pages, and copying the generated code.
\<close>

section \<open>Targets\<close>

text \<open>
  What a translation reads besides the virtual machine: the global register map of the x86-64 back end,
  the outcome of the allocations, and the uninitialised locals it may return.
\<close>

record jit_env =
  env_register_map :: "u32 list"
  env_allocs :: "bool \<times> bool \<times> bool \<times> bool \<times> bool"
  env_locs :: "u32 \<times> u32 \<times> u32 \<times> u32"
  env_helper_offset :: u32
  env_mode :: JitMode

definition ubpf_translate_null ::
  "jit_env \<Rightarrow> ubpf_vm \<Rightarrow> u8 list \<Rightarrow> u64 \<Rightarrow> JitMode \<Rightarrow> compilation"
where
  "ubpf_translate_null env vm buffer sz mode =
     \<lparr> comp_result = \<lparr> external_dispatcher_offset = 0, external_helper_offset = env_helper_offset env,
         compile_result = UBPF_JIT_COMPILE_FAILURE, jit_mode = env_mode env,
         errmsg = Some JitNoTarget \<rparr>,
       comp_size = sz, comp_buf = buffer, comp_crash = None \<rparr>"

text \<open>The function pointer \<open>vm->jit_translate\<close>.\<close>

definition jit_translate :: "jit_env \<Rightarrow> ubpf_vm \<Rightarrow> u8 list \<Rightarrow> u64 \<Rightarrow> JitMode \<Rightarrow> compilation" where
  "jit_translate env vm buffer sz mode =
     (case jit_backend vm of
        Target_x86_64 \<Rightarrow> ubpf_translate_x86_64 (env_register_map env) (env_allocs env) (env_locs env)
          (env_helper_offset env) vm buffer sz mode
      | Target_arm64 \<Rightarrow> ubpf_translate_arm64 (env_allocs env) (env_locs env) (env_helper_offset env) vm
          buffer sz mode
      | Target_null \<Rightarrow> ubpf_translate_null env vm buffer sz mode)"

section \<open>Translation\<close>

text \<open>
  The C result, the message stored through \<open>errmsg\<close> if there is one, \<open>*size\<close>, the buffer and the
  object; \<^const>\<open>None\<close> when the process has died.
\<close>

definition ubpf_translate_ex ::
  "jit_env \<Rightarrow> ubpf_vm \<Rightarrow> u8 list \<Rightarrow> u64 \<Rightarrow> JitMode \<Rightarrow>
     (int \<times> jit_error option \<times> u64 \<times> u8 list \<times> ubpf_vm) option"
where
  "ubpf_translate_ex env vm buffer sz mode =
     (let c = jit_translate env vm buffer sz mode; r = comp_result c
      in if comp_crash c \<noteq> None then None
         else Some (if compile_result r = UBPF_JIT_COMPILE_SUCCESS then 0 else - 1, errmsg r,
                comp_size c, comp_buf c, vm\<lparr> jitted_result := r \<rparr>))"

definition ubpf_translate ::
  "jit_env \<Rightarrow> ubpf_vm \<Rightarrow> u8 list \<Rightarrow> u64 \<Rightarrow> (int \<times> jit_error option \<times> u64 \<times> u8 list \<times> ubpf_vm) option"
where
  "ubpf_translate env vm buffer sz = ubpf_translate_ex env vm buffer sz BasicJitMode"

section \<open>Compilation\<close>

text \<open>
  The kernel interface: the size of a page and the results of mapping pages at an address and of
  changing their attributes; \<open>os_calloc\<close> says whether an allocation of that size succeeds.
\<close>

record os =
  page_size :: u64
  page_map :: "u64 \<Rightarrow> u32 \<Rightarrow> int"
  page_set_attr :: "u64 \<Rightarrow> u32 \<Rightarrow> int"
  os_calloc :: "u64 \<Rightarrow> bool"

datatype compile_error =
    NotLoaded
  | BufferAllocationFailed
  | TranslationFailed "jit_error option"
  | PageMapFailed
  | ProtectFailed

definition jit_code_address :: u64 where "jit_code_address = 0x80000000"

definition jit_pages :: "os \<Rightarrow> u64 \<Rightarrow> u32" where
  "jit_pages k sz = ucast (sz div page_size k + 1)"

text \<open>
  The part after the translation: map the pages, copy, make them executable. \<open>memcpy\<close> reads \<open>sz\<close>
  bytes of the buffer; \<^const>\<open>None\<close> is a read past its end.
\<close>

definition install_code ::
  "os \<Rightarrow> ubpf_vm \<Rightarrow> u8 list \<Rightarrow> u64 \<Rightarrow> ((compile_error + u64) \<times> ubpf_vm) option"
where
  "install_code k vm buffer sz =
     (let pages = jit_pages k sz
      in if page_map k jit_code_address pages \<noteq> 0 then Some (Inl PageMapFailed, vm)
         else case buf_read buffer 0 (unat sz) of
           None \<Rightarrow> None
         | Some code \<Rightarrow>
             if page_set_attr k jit_code_address pages \<noteq> 0 then Some (Inl ProtectFailed, vm)
             else Some (Inr jit_code_address,
                    vm\<lparr> jitted := Some (jit_code_address, code), jitted_size := sz \<rparr>))"

text \<open>A result \<^const>\<open>Inl\<close> is NULL with the message, \<^const>\<open>Inr\<close> the address of the code.\<close>

definition compile_code ::
  "jit_env \<Rightarrow> os \<Rightarrow> ubpf_vm \<Rightarrow> JitMode \<Rightarrow> ((compile_error + u64) \<times> ubpf_vm) option"
where
  "compile_code env k vm mode =
     (if insts vm = None then Some (Inl NotLoaded, vm)
      else
        let sz = jitter_buffer_size vm
        in if \<not> os_calloc k sz then Some (Inl BufferAllocationFailed, vm)
           else case ubpf_translate_ex env vm (replicate (unat sz) 0) sz mode of
               None \<Rightarrow> None
             | Some (rc, msg, sz', buffer, vm') \<Rightarrow>
                 if rc < 0 then Some (Inl (TranslationFailed msg), vm')
                 else install_code k vm' buffer sz')"

definition ubpf_compile_ex ::
  "jit_env \<Rightarrow> os \<Rightarrow> ubpf_vm \<Rightarrow> JitMode \<Rightarrow> ((compile_error + u64) \<times> ubpf_vm) option"
where
  "ubpf_compile_ex env k vm mode =
     (case jitted vm of
        Some (a, code) \<Rightarrow>
          if compile_result (jitted_result vm) = UBPF_JIT_COMPILE_SUCCESS \<and>
             jit_mode (jitted_result vm) = mode
          then Some (Inr a, vm)
          else compile_code env k (vm\<lparr> jitted := None, jitted_size := 0 \<rparr>) mode
      | None \<Rightarrow> compile_code env k vm mode)"

definition ubpf_compile :: "jit_env \<Rightarrow> os \<Rightarrow> ubpf_vm \<Rightarrow> ((compile_error + u64) \<times> ubpf_vm) option" where
  "ubpf_compile env k vm = ubpf_compile_ex env k vm BasicJitMode"

text \<open>
  \<open>ubpf_copy_jit\<close>: the bytes written to the start of the caller's buffer of \<open>sz\<close> bytes, or an error.
\<close>

datatype copy_error = NotCompiled | BufferNotBigEnough

definition ubpf_copy_jit :: "ubpf_vm \<Rightarrow> u64 \<Rightarrow> copy_error + u8 list" where
  "ubpf_copy_jit vm sz =
     (if compile_result (jitted_result vm) \<noteq> UBPF_JIT_COMPILE_SUCCESS \<or> jitted vm = None
      then Inl NotCompiled
      else if sz < jitted_size vm then Inl BufferNotBigEnough
      else Inr (take (unat (jitted_size vm)) (snd (jitted_object vm))))"

end
