(* ===== verification/Jit_Layout.thy ===== *)
theory Jit_Layout
  imports Jit_Resolve Ubpf_Jit
begin

text \<open>
  The finished code: where the embedded pointers are, that compilation succeeds when the program
  fits, and what patching a pointer afterwards does.
\<close>

section \<open>The embedded pointers\<close>

lemma emit8_exact:
  assumes "wf_jit st" "js_status (jit_exec (emit8 x) st) = NoError"
  shows "jit_exec (emit8 x) st = put_bytes (le_bytes 8 x) st"
    "unat (js_offset st) + 8 \<le> unat (js_size st)" "js_status st = NoError"
  using assms emit_bytes_exec [OF assms(1), of "le_bytes 8 x"] by (auto simp: emit8_def split: if_splits)

lemma length_pointer_bytes [simp]: "length (concat (map (le_bytes 8) fs)) = 8 * length fs"
  by (induction fs) simp_all

lemma emit_pointers_exact:
  assumes "wf_jit st" "js_status (jit_exec (emit_pointers fs) st) = NoError"
  shows "jit_exec (emit_pointers fs) st = put_bytes (concat (map (le_bytes 8) fs)) st \<and>
    unat (js_offset st) + 8 * length fs \<le> unat (js_size st)"
  using assms
proof (induction fs arbitrary: st)
  case Nil
  then show ?case by (simp add: put_bytes_def wf_jit_def word_le_nat_alt)
next
  case (Cons f fs)
  let ?st = "jit_exec (emit8 f) st"
  have wf': "wf_jit ?st" by (rule grows_wf [OF keepsD [OF emit_keeps(4)] Cons.prems(1)])
  have rest: "js_status (jit_exec (emit_pointers fs) ?st) = NoError" using Cons.prems(2) by simp
  then have ok: "js_status ?st = NoError"
    using grows_no_error [OF keepsD [OF emit_pointers_keeps] wf'] by blast
  note head = emit8_exact [OF Cons.prems(1) ok]
  from Cons.IH [OF wf' rest] have tail: "jit_exec (emit_pointers fs) ?st =
      put_bytes (concat (map (le_bytes 8) fs)) ?st" "unat (js_offset ?st) + 8 * length fs \<le> unat (js_size st)"
    by (simp_all add: head(1))
  have "unat (js_offset ?st) = unat (js_offset st) + 8"
    using put_bytes_grows(4) [OF Cons.prems(1), of "le_bytes 8 f"] head(2) by (simp add: head(1))
  with tail show ?case
    using put_bytes_append [OF Cons.prems(1), of "le_bytes 8 f" "concat (map (le_bytes 8) fs)"]
    by (simp add: head(1))
qed

text \<open>The code before the pointers.\<close>

definition epilogue_code :: "u32 list \<Rightarrow> unit jit" where
  "epilogue_code rm = do {
     jit_update (\<lambda>st. st\<lparr> js_exit_loc := js_offset st \<rparr>);
     r0 \<leftarrow> map_register rm BPF_REG_0;
     jit_when (r0 \<noteq> RAX) (emit_mov r0 RAX);
     emit_mov RBP RSP;
     jit_when (even (length platform_nonvolatile_registers)) (emit_alu64_imm32 0x81 0 RSP 0x8);
     emit_pops (rev platform_nonvolatile_registers);
     emit1 0xc3;
     retpoline \<leftarrow> emit_retpoline;
     jit_update (\<lambda>st. st\<lparr> js_retpoline_loc := retpoline \<rparr>)
   }"

lemma epilogue_code_keeps: "emits 43 2 (epilogue_code rm)"
  unfolding epilogue_code_def
  by (rule code.keeps_mono, (rule seq_rules grow_rules emit_pops_keeps)+)
    (simp_all add: platform_nonvolatile_registers_def)

definition pointer_bytes :: "ubpf_vm \<Rightarrow> u8 list" where
  "pointer_bytes vm = le_bytes 8 (dispatcher vm) @ concat (map (le_bytes 8) (take MAX_EXT_FUNCS (ext_funcs vm)))"

lemma length_pointer_table: "length (ext_funcs vm) = MAX_EXT_FUNCS \<Longrightarrow> length (pointer_bytes vm) = 520"
  by (simp add: pointer_bytes_def MAX_EXT_FUNCS_def)

lemma translate_epilogue_exact:
  assumes wf: "wf_jit st" and ok: "js_status (jit_exec (translate_epilogue rm vm) st) = NoError"
    and fs: "length (ext_funcs vm) = MAX_EXT_FUNCS"
  defines "s \<equiv> jit_exec (epilogue_code rm) st"
  shows "js_status s = NoError" "unat (js_offset s) + 520 \<le> unat (js_size s)"
    "jit_exec (translate_epilogue rm vm) st =
       (put_bytes (pointer_bytes vm) s)\<lparr> js_dispatcher_loc := js_offset s, js_helper_table_loc := js_offset s + 8 \<rparr>"
proof -
  define s1 s2 where "s1 = jit_exec (emit8 (dispatcher vm)) s" and "s2 = s1\<lparr> js_dispatcher_loc := js_offset s \<rparr>"
  let ?fs = "take MAX_EXT_FUNCS (ext_funcs vm)"
  let ?s3 = "jit_exec (emit_pointers ?fs) s2"
  have ex: "jit_exec (translate_epilogue rm vm) st = ?s3\<lparr> js_helper_table_loc := js_offset s2 \<rparr>"
    by (simp add: translate_epilogue_def epilogue_code_def s_def s1_def s2_def
        emit_dispatched_external_helper_address_def emit_helper_table_def)
  have wfs: "wf_jit s" unfolding s_def by (rule grows_wf [OF keepsD [OF epilogue_code_keeps] wf])
  have wf1: "wf_jit s1" unfolding s1_def by (rule grows_wf [OF keepsD [OF emit_keeps(4)] wfs])
  then have wf2: "wf_jit s2" by (simp add: s2_def wf_jit_def)
  have ok3: "js_status ?s3 = NoError" using ok by (simp add: ex)
  then have "js_status s2 = NoError"
    using grows_no_error [OF keepsD [OF emit_pointers_keeps] wf2] by blast
  then have ok1: "js_status s1 = NoError" by (simp add: s2_def)
  note head = emit8_exact [OF wfs ok1 [unfolded s1_def], folded s1_def]
  show "js_status s = NoError" by (rule head(3))
  have off1: "unat (js_offset s1) = unat (js_offset s) + 8"
    using put_bytes_grows(4) [OF wfs, of "le_bytes 8 (dispatcher vm)"] head(1,2) by simp
  note tail = emit_pointers_exact [OF wf2 ok3]
  have len: "length ?fs = 64" using fs by (simp add: MAX_EXT_FUNCS_def)
  show fits: "unat (js_offset s) + 520 \<le> unat (js_size s)"
    using tail off1 len head(1) by (simp add: s2_def)
  have "?s3 = (put_bytes (concat (map (le_bytes 8) ?fs)) s1)\<lparr> js_dispatcher_loc := js_offset s \<rparr>"
    using tail by (simp add: s2_def put_bytes_def)
  also have "put_bytes (concat (map (le_bytes 8) ?fs)) s1 = put_bytes (pointer_bytes vm) s"
    using put_bytes_append [OF wfs, of "le_bytes 8 (dispatcher vm)" "concat (map (le_bytes 8) ?fs)"] fits len
    by (simp add: head(1) pointer_bytes_def)
  finally show "jit_exec (translate_epilogue rm vm) st =
       (put_bytes (pointer_bytes vm) s)\<lparr> js_dispatcher_loc := js_offset s, js_helper_table_loc := js_offset s + 8 \<rparr>"
    by (simp add: ex s2_def head(1))
qed

section \<open>A finished translation\<close>

definition fresh_jit :: "jit_state \<Rightarrow> bool" where
  "fresh_jit st \<longleftrightarrow> wf_jit st \<and> js_status st = NoError \<and> js_offset st = 0 \<and> js_jumps st = [] \<and>
     js_local_calls st = [] \<and> js_loads st = [] \<and> js_leas st = [] \<and> js_crash st = None \<and> js_errmsg st = None"

definition finished :: "ubpf_vm \<Rightarrow> jit_state \<Rightarrow> bool" where
  "finished vm st \<longleftrightarrow> wf_jit st \<and> js_crash st = None \<and> js_errmsg st = None \<and>
     unat (js_helper_table_loc st) = unat (js_dispatcher_loc st) + 8 \<and>
     unat (js_offset st) = unat (js_dispatcher_loc st) + 520 \<and>
     segment good_jump 0 (unat (js_dispatcher_loc st)) (js_jumps st) (js_local_calls st) (js_loads st) (js_leas st) \<and>
     buf_read (js_buf st) (unat (js_dispatcher_loc st)) 520 = Some (pointer_bytes vm)"

lemma translate_finished:
  assumes ld: "loaded vm insns" "jit_callable insns" and fresh: "fresh_jit st"
    and tr: "translate rm vm st = (0, st')" and ok: "js_status st' = NoError"
  shows "finished vm st'" "unat (js_offset st') \<le> 623 + 117 * length insns"
proof -
  let ?l = "after_loop rm vm st"
  let ?s = "jit_exec (epilogue_code rm) ?l"
  have wf: "wf_jit st" using fresh by (simp add: fresh_jit_def)
  have fs: "length (ext_funcs vm) = MAX_EXT_FUNCS" using ld(1) by (simp add: loaded_def wf_vm_def)
  have st': "st' = jit_exec (translate_epilogue rm vm) ?l"
    using tr by (simp add: translate_cases split: if_splits)
  have wfl: "wf_jit ?l" by (rule grows_wf [OF after_loop_grows [OF ld] wf])
  note ep = translate_epilogue_exact [OF wfl ok [unfolded st'] fs]
  have g: "grows good_jump (60 + 117 * length insns + 43) (1 + 5 * length insns + 2) st ?s"
    by (rule code.trans [OF after_loop_grows [OF ld] keepsD [OF epilogue_code_keeps]])
  have wfs: "wf_jit ?s" by (rule grows_wf [OF g wf])
  note gs = g [unfolded grows_def, rule_format, OF wf]
  have "segment good_jump 0 (unat (js_offset ?s)) (js_jumps ?s) (js_local_calls ?s) (js_loads ?s) (js_leas ?s)"
    using gs ep(1) fresh by (auto simp: fresh_jit_def placed_def)
  moreover have crash: "js_crash ?s = None" "js_errmsg ?s = None"
    using gs ep(1) fresh by (simp_all add: fresh_jit_def)
  moreover have len: "length (pointer_bytes vm) = 520" by (rule length_pointer_table [OF fs])
  note put = put_bytes_grows [OF wfs, of "pointer_bytes vm"]
  have "unat (js_offset ?s) + 520 \<le> unat (js_size ?s)" by (rule ep(2))
  moreover have "wf_jit st'" using put(1) ep(2) len by (simp add: st' ep(3) wf_jit_def)
  moreover have off: "unat (js_offset st') = unat (js_offset ?s) + 520"
    using put(4) ep(2) len by (simp add: st' ep(3))
  moreover have "unat (js_offset ?s + 8) = unat (js_offset ?s) + 8"
    using offset_after [OF wfs, of 8] ep(2) by simp
  moreover have "buf_read (js_buf st') (unat (js_offset ?s)) 520 = Some (pointer_bytes vm)"
    using ep(2) len wfs by (simp add: st' ep(3) put_bytes_def buf_read_eq wf_jit_def)
  ultimately show "finished vm st'" by (simp add: finished_def st' ep(3))
  have "unat (js_offset ?s) \<le> 103 + 117 * length insns"
    using gs ep(1) fresh by (simp add: fresh_jit_def)
  with off show "unat (js_offset st') \<le> 623 + 117 * length insns" by simp
qed

lemma finished_resolvable:
  assumes "finished vm st" "unat (js_offset st) \<le> UBPF_MAX_INSTS"
  shows "resolvable st"
  using assms by (force simp: finished_def resolvable_def segment_def)

text \<open>Resolution leaves the pointers alone.\<close>

lemma finished_pointers:
  assumes fin: "finished vm st" and low: "unat (js_offset st) \<le> UBPF_MAX_INSTS"
  shows "buf_read (js_buf (jit_exec resolve_patchable_relatives st)) (unat (js_dispatcher_loc st)) 520 =
    Some (pointer_bytes vm)"
proof -
  have res: "resolvable st" by (rule finished_resolvable [OF fin low])
  have "set (places (all_patches st)) \<subseteq> {0..<unat (js_dispatcher_loc st)}"
    unfolding all_patches_places(1) [OF res] using fin by (simp only: finished_def segment_def)
  then have "{unat (js_dispatcher_loc st)..<unat (js_dispatcher_loc st) + 520} \<inter> set (places (all_patches st)) = {}"
    by fastforce
  moreover have "unat (js_dispatcher_loc st) + 520 \<le> length (js_buf st)"
    using fin by (simp add: finished_def wf_jit_def word_le_nat_alt)
  ultimately show ?thesis
    using fin patched_read_outside [OF all_patches_places(4) [OF res]]
    by (simp add: resolve_exec(2) [OF res] finished_def)
qed

lemma initial_jit_state:
  assumes "length buffer = unat sz" "unat sz + 16 < 2 ^ 32"
  shows "\<exists>st r. initialize_jit_state_result buffer (ucast sz) mode (True, True, True, True, True) locs0 h0 = (0, st, r) \<and>
    fresh_jit st \<and> js_buf st = buffer \<and> unat (js_size st) = unat sz \<and> errmsg r = None"
proof -
  have "unat (ucast sz :: u32) = unat sz"
    using assms(2) by (simp add: unsigned_ucast_eq unsigned_take_bit_eq take_bit_nat_eq_self)
  then show ?thesis
    using assms
    by (simp add: initialize_jit_state_result_def fresh_jit_def wf_jit_def Let_def split: prod.split)
qed

section \<open>Success\<close>

text \<open>The most bytes a program of \<open>n\<close> instructions is translated to.\<close>

definition code_bound :: "nat \<Rightarrow> nat" where
  "code_bound n = 623 + 117 * n"

lemma translate_ok:
  assumes ld: "loaded vm insns" "jit_callable insns" and fresh: "fresh_jit st"
    and room: "code_bound (length insns) \<le> unat (js_size st)" "code_bound (length insns) \<le> UBPF_MAX_INSTS"
  obtains st' where "translate rm vm st = (0, st')" "finished vm st'" "unat (js_offset st') \<le> code_bound (length insns)"
proof -
  have wf: "wf_jit st" using fresh by (simp add: fresh_jit_def)
  have ent: "entries st = 0" "js_status st = NoError" "js_offset st = 0"
    using fresh by (simp_all add: fresh_jit_def entries_def)
  have "js_status (after_loop rm vm st) = NoError"
    using after_loop_grows [OF ld, of st rm, unfolded grows_def, rule_format, OF wf] ent room
    by (simp add: code_bound_def UBPF_MAX_INSTS_def)
  then obtain st' where tr: "translate rm vm st = (0, st')" by (simp add: translate_cases)
  have ok: "js_status st' = NoError"
    using translate_grows [OF ld tr, unfolded grows_def, rule_format, OF wf] ent room
    by (simp add: code_bound_def UBPF_MAX_INSTS_def)
  from translate_finished [OF ld fresh tr ok] show ?thesis
    by (intro that [OF tr]) (simp_all add: code_bound_def)
qed

text \<open>How the result record describes the pointers in the code.\<close>

definition pointer_layout :: "ubpf_jit_result \<Rightarrow> nat \<Rightarrow> bool" where
  "pointer_layout r n \<longleftrightarrow> unat (external_helper_offset r) = unat (external_dispatcher_offset r) + 8 \<and>
     n = unat (external_dispatcher_offset r) + 520"

lemma translate_x86_64_ok:
  fixes rm locs0 h0 mode
  assumes ld: "loaded vm insns" "jit_callable insns"
    and buf: "length buffer = unat sz" "unat sz + 16 < 2 ^ 32"
    and room: "code_bound (length insns) \<le> unat sz" "code_bound (length insns) \<le> UBPF_MAX_INSTS"
  defines "c \<equiv> ubpf_translate_x86_64 rm (True, True, True, True, True) locs0 h0 vm buffer sz mode"
  shows "comp_crash c = None" "compile_result (comp_result c) = UBPF_JIT_COMPILE_SUCCESS"
    "errmsg (comp_result c) = None" "jit_mode (comp_result c) = mode"
    "pointer_layout (comp_result c) (unat (comp_size c))" "unat (comp_size c) \<le> code_bound (length insns)"
    "length (comp_buf c) = unat sz"
    "buf_read (comp_buf c) (unat (external_dispatcher_offset (comp_result c))) 520 = Some (pointer_bytes vm)"
proof -
  obtain st r where ini: "initialize_jit_state_result buffer (ucast sz) mode (True, True, True, True, True) locs0 h0
      = (0, st, r)" and st: "fresh_jit st" "js_buf st = buffer" "unat (js_size st) = unat sz" "errmsg r = None"
    using initial_jit_state [OF buf] by blast
  obtain st' where tr: "translate rm vm st = (0, st')" and fin: "finished vm st'"
    and bound: "unat (js_offset st') \<le> code_bound (length insns)"
    using translate_ok [OF ld st(1)] room st(3) by metis
  have low: "unat (js_offset st') \<le> UBPF_MAX_INSTS" using bound room(2) by simp
  have res: "resolvable st'" by (rule finished_resolvable [OF fin low])
  let ?b = "fold patch_buf (all_patches st') (js_buf st')"
  have c: "c = \<lparr> comp_result = r\<lparr> errmsg := None, compile_result := UBPF_JIT_COMPILE_SUCCESS,
      external_dispatcher_offset := js_dispatcher_loc st', external_helper_offset := js_helper_table_loc st',
      jit_mode := mode \<rparr>, comp_size = ucast (js_offset st'), comp_buf = ?b, comp_crash = None \<rparr>"
    using resolve_exec [OF res] fin
    by (simp add: c_def ubpf_translate_x86_64_def ini tr finished_def Let_def)
  have wf': "wf_jit st'" "js_size st' = js_size st"
    using translate_grows [OF ld tr, unfolded grows_def] st(1) by (simp_all add: fresh_jit_def)
  have size: "unat (ucast (js_offset st') :: u64) = unat (js_offset st')"
    using unat_u32_lt [of "js_offset st'"] by (simp add: unsigned_ucast_eq unsigned_take_bit_eq take_bit_nat_eq_self)
  show "comp_crash c = None" "compile_result (comp_result c) = UBPF_JIT_COMPILE_SUCCESS"
    "errmsg (comp_result c) = None" "jit_mode (comp_result c) = mode"
    by (simp_all add: c)
  show "pointer_layout (comp_result c) (unat (comp_size c))" "unat (comp_size c) \<le> code_bound (length insns)"
    using fin bound size by (simp_all add: c pointer_layout_def finished_def)
  show "length (comp_buf c) = unat sz"
    using patched_outside(1) [OF all_patches_places(4) [OF res]] wf' st(3) by (simp add: c wf_jit_def)
  show "buf_read (comp_buf c) (unat (external_dispatcher_offset (comp_result c))) 520 = Some (pointer_bytes vm)"
    using finished_pointers [OF fin low] by (simp add: c resolve_exec(2) [OF res])
qed

section \<open>Single pointers\<close>

lemma buf_read_slice:
  assumes "buf_read buf a n = Some bs" "k + m \<le> n" "0 < m"
  shows "buf_read buf (a + k) m = Some (take m (drop k bs))"
  using assms by (auto simp: buf_read_eq take_drop min_def ac_simps split: if_splits)

lemma pointer_slice:
  "i < length fs \<Longrightarrow> take 8 (drop (8 * i) (concat (map (le_bytes 8) fs))) = le_bytes 8 (fs ! i)"
proof (induction fs arbitrary: i)
  case Nil
  then show ?case by simp
next
  case (Cons f fs)
  then show ?case by (cases i) (simp_all add: algebra_simps)
qed

lemma pointer_bytes_slices:
  assumes "length (ext_funcs vm) = MAX_EXT_FUNCS"
  shows "take 8 (drop 0 (pointer_bytes vm)) = le_bytes 8 (dispatcher vm)"
    "i < MAX_EXT_FUNCS \<Longrightarrow> take 8 (drop (8 + 8 * i) (pointer_bytes vm)) = le_bytes 8 (ext_funcs vm ! i)"
  using assms pointer_slice [of i "take MAX_EXT_FUNCS (ext_funcs vm)"]
  by (simp_all add: pointer_bytes_def)

lemma read_pointers:
  assumes fs: "length (ext_funcs vm) = MAX_EXT_FUNCS"
    and lay: "pointer_layout r n" and rd: "buf_read code (unat (external_dispatcher_offset r)) 520 = Some (pointer_bytes vm)"
  shows "buf_read code (unat (external_dispatcher_offset r)) 8 = Some (le_bytes 8 (dispatcher vm))"
    "i < MAX_EXT_FUNCS \<Longrightarrow>
      buf_read code (unat (external_helper_offset r) + 8 * i) 8 = Some (le_bytes 8 (ext_funcs vm ! i))"
  using buf_read_slice [OF rd, of 0 8] buf_read_slice [OF rd, of "8 + 8 * i" 8] pointer_bytes_slices [OF fs] lay
  by (simp_all add: pointer_layout_def MAX_EXT_FUNCS_def add.assoc)

section \<open>Keeping the embedded pointers up to date\<close>

text \<open>The generated code of \<open>vm\<close> embeds the registered functions and the dispatcher.\<close>

definition embedded_at :: "ubpf_vm \<Rightarrow> u64 \<Rightarrow> u8 list \<Rightarrow> bool" where
  "embedded_at vm a code \<longleftrightarrow> length code = unat (jitted_size vm) \<and> unat a + length code < 2 ^ 64 \<and>
     length code < 2 ^ 32 \<and> pointer_layout (jitted_result vm) (length code) \<and>
     buf_read code (unat (external_dispatcher_offset (jitted_result vm))) 8 = Some (le_bytes 8 (dispatcher vm)) \<and>
     (\<forall>i < MAX_EXT_FUNCS. buf_read code (unat (external_helper_offset (jitted_result vm)) + 8 * i) 8 =
        Some (le_bytes 8 (ext_funcs vm ! i)))"

definition embedded :: "ubpf_vm \<Rightarrow> bool" where
  "embedded vm \<longleftrightarrow> compile_result (jitted_result vm) = UBPF_JIT_COMPILE_SUCCESS \<and>
     jit_backend vm = Target_x86_64 \<and> length (ext_funcs vm) = MAX_EXT_FUNCS \<and>
     (case jitted vm of None \<Rightarrow> False | Some (a, code) \<Rightarrow> embedded_at vm a code)"

lemma helper_slot:
  fixes idx :: u32
  assumes "pointer_layout r (length code)" "length code < 2 ^ 32" "unat idx < MAX_EXT_FUNCS"
  shows "unat (ucast (external_helper_offset r) + ucast (8 * idx) :: u64) =
    unat (external_helper_offset r) + 8 * unat idx"
  using assms by (intro helper_slot_offset) (simp_all add: pointer_layout_def MAX_EXT_FUNCS_def)

lemma update_helper_eq:
  assumes lay: "pointer_layout r (length code)" and len: "length code = unat sz" "length code < 2 ^ 32"
    and a: "unat a + length code < 2 ^ 64" and idx: "unat idx < MAX_EXT_FUNCS"
  shows "ubpf_jit_update_helper_x86_64 fn idx a code sz (external_helper_offset r) =
    (if unat idx < 63
     then map_option (Pair True) (buf_write code (unat (external_helper_offset r) + 8 * unat idx) (le_bytes 8 fn))
     else Some (False, code))"
proof -
  let ?d = "ucast (external_helper_offset r) + ucast (8 * idx) :: u64"
  have d: "unat ?d = unat (external_helper_offset r) + 8 * unat idx" by (rule helper_slot [OF lay len(2) idx])
  have "unat ?d + 8 \<le> length code" using d lay idx by (simp add: pointer_layout_def MAX_EXT_FUNCS_def)
  then have "a + ?d + 8 < a + sz \<longleftrightarrow> unat ?d + 8 < unat sz"
    using a len by (intro patch_guard_iff) simp_all
  also have "\<dots> \<longleftrightarrow> unat idx < 63"
    unfolding d len(1) [symmetric] using lay by (auto simp: pointer_layout_def)
  finally have guard: "a + ?d + 8 < a + sz \<longleftrightarrow> unat idx < 63" .
  have "a + ?d - a = ?d" by simp
  with guard d show ?thesis
    by (simp add: ubpf_jit_update_helper_x86_64_def Let_def add.assoc)
qed

lemma update_dispatcher_eq:
  assumes lay: "pointer_layout r (length code)" and len: "length code = unat sz" "length code < 2 ^ 32"
    and a: "unat a + length code < 2 ^ 64"
  shows "ubpf_jit_update_dispatcher_x86_64 fn a code sz (external_dispatcher_offset r) =
    map_option (Pair True) (buf_write code (unat (external_dispatcher_offset r)) (le_bytes 8 fn))"
proof -
  let ?d = "ucast (external_dispatcher_offset r) :: u64"
  have d: "unat ?d = unat (external_dispatcher_offset r)"
    using unat_u32_lt [of "external_dispatcher_offset r"]
    by (simp add: unsigned_ucast_eq unsigned_take_bit_eq take_bit_nat_eq_self)
  have "unat ?d + 8 < unat sz" using d lay len by (simp add: pointer_layout_def)
  then have "a + ?d + 8 < a + sz"
    using a len by (subst patch_guard_iff) simp_all
  with d show ?thesis by (simp add: ubpf_jit_update_dispatcher_x86_64_def Let_def)
qed

lemma buf_read_other:
  assumes "buf_write code a bs = Some code'" "a + length bs \<le> b \<or> b + n \<le> a"
  shows "buf_read code' b n = buf_read code b n"
  using assms(2) by (intro buf_read_disjoint [OF assms(1)]) (auto simp: span_Suc_nat)

lemma embedded_at_cong:
  "jitted_size vm' = jitted_size vm \<Longrightarrow> jitted_result vm' = jitted_result vm \<Longrightarrow> dispatcher vm' = dispatcher vm \<Longrightarrow>
     ext_funcs vm' = ext_funcs vm \<Longrightarrow> embedded_at vm' a code = embedded_at vm a code"
  by (simp add: embedded_at_def)

lemma write_helper_embedded:
  assumes emb: "embedded_at vm a code" and idx: "idx < MAX_EXT_FUNCS" "length (ext_funcs vm) = MAX_EXT_FUNCS"
    and vm': "vm' = vm\<lparr> ext_funcs := (ext_funcs vm)[idx := fn], ext_func_names := names \<rparr>"
  shows "\<exists>code'. buf_write code (unat (external_helper_offset (jitted_result vm)) + 8 * idx) (le_bytes 8 fn) = Some code' \<and>
    embedded_at vm' a code'"
proof -
  let ?h = "unat (external_helper_offset (jitted_result vm))"
  have lay: "pointer_layout (jitted_result vm) (length code)" using emb by (auto simp: embedded_at_def)
  then obtain code' where w: "buf_write code (?h + 8 * idx) (le_bytes 8 fn) = Some code'"
    using idx by (simp add: buf_write_eq pointer_layout_def MAX_EXT_FUNCS_def)
  have "buf_read code' (?h + 8 * i) 8 = Some (le_bytes 8 ((ext_funcs vm)[idx := fn] ! i))" if "i < MAX_EXT_FUNCS" for i
  proof (cases "i = idx")
    case True
    then show ?thesis using buf_read_after_write [OF w] idx by simp
  next
    case False
    then have "buf_read code' (?h + 8 * i) 8 = buf_read code (?h + 8 * i) 8"
      by (intro buf_read_other [OF w]) auto
    then show ?thesis using False emb that by (simp add: embedded_at_def)
  qed
  moreover have "buf_read code' (unat (external_dispatcher_offset (jitted_result vm))) 8 = Some (le_bytes 8 (dispatcher vm))"
    using buf_read_other [OF w, of "unat (external_dispatcher_offset (jitted_result vm))" 8] emb lay
    by (simp add: embedded_at_def pointer_layout_def)
  ultimately show ?thesis
    using w emb buf_write_length [OF w] by (auto simp: vm' embedded_at_def)
qed

lemma write_dispatcher_embedded:
  assumes emb: "embedded_at vm a code"
    and vm': "vm' = vm\<lparr> dispatcher := fn, dispatcher_validate := v \<rparr>"
  shows "\<exists>code'. buf_write code (unat (external_dispatcher_offset (jitted_result vm))) (le_bytes 8 fn) = Some code' \<and>
    embedded_at vm' a code'"
proof -
  let ?d = "unat (external_dispatcher_offset (jitted_result vm))"
  have lay: "pointer_layout (jitted_result vm) (length code)" using emb by (auto simp: embedded_at_def)
  then obtain code' where w: "buf_write code ?d (le_bytes 8 fn) = Some code'"
    by (simp add: buf_write_eq pointer_layout_def)
  have "buf_read code' (unat (external_helper_offset (jitted_result vm)) + 8 * i) 8 =
      buf_read code (unat (external_helper_offset (jitted_result vm)) + 8 * i) 8" for i
    using lay by (intro buf_read_other [OF w]) (simp add: pointer_layout_def)
  with w emb buf_write_length [OF w] buf_read_after_write [OF w] show ?thesis
    by (auto simp: vm' embedded_at_def)
qed

lemma repatch_embedded:
  assumes j: "jitted vm = Some (a, code)" and up: "update a code = Some (True, code')"
    and p: "0 \<le> mprotect h a (jitted_size vm) Prot_read_write" "0 \<le> mprotect h a (jitted_size vm) Prot_read_exec"
  shows "repatch h vm update = Some (0, vm\<lparr> jitted := Some (a, code') \<rparr>)"
  using assms by (simp add: repatch_def jitted_object_def set_jitted_code_def Let_def)

lemma register_embedded:
  assumes emb: "embedded vm" and idx: "unat idx < 63" and prot: "\<And>x n p. 0 \<le> mprotect h x n p"
  shows "\<exists>vm'. ubpf_register h vm idx name fn = Some (0, vm') \<and> embedded vm' \<and>
    ext_funcs vm' = (ext_funcs vm)[unat idx := fn]"
proof -
  obtain a code where j: "jitted vm = Some (a, code)" and at: "embedded_at vm a code"
    and fs: "length (ext_funcs vm) = MAX_EXT_FUNCS" "compile_result (jitted_result vm) = UBPF_JIT_COMPILE_SUCCESS"
      "jit_backend vm = Target_x86_64"
    using emb by (auto simp: embedded_def split: option.splits)
  let ?vm = "vm\<lparr> ext_funcs := (ext_funcs vm)[unat idx := fn],
    ext_func_names := (ext_func_names vm)[unat idx := Some name] \<rparr>"
  have lt: "unat idx < MAX_EXT_FUNCS" using idx by (simp add: MAX_EXT_FUNCS_def)
  obtain code' where w: "buf_write code (unat (external_helper_offset (jitted_result vm)) + 8 * unat idx)
      (le_bytes 8 fn) = Some code'" and emb': "embedded_at ?vm a code'"
    using write_helper_embedded [OF at lt fs(1)] by blast
  have "jit_update_helper ?vm fn idx a code (jitted_size ?vm) (external_helper_offset (jitted_result ?vm)) =
      Some (True, code')"
    using at idx w lt fs(3) update_helper_eq [of "jitted_result vm" code "jitted_size vm" a idx fn]
    by (auto simp: jit_update_helper_def embedded_at_def)
  then have "ubpf_register h vm idx name fn = Some (0, ?vm\<lparr> jitted := Some (a, code') \<rparr>)"
    using repatch_embedded [of ?vm a code _ code' h] j prot lt fs by (simp add: ubpf_register_def not_le)
  moreover have "embedded (?vm\<lparr> jitted := Some (a, code') \<rparr>)"
    using emb' fs embedded_at_cong [of "?vm\<lparr> jitted := Some (a, code') \<rparr>" ?vm a code'] by (simp add: embedded_def)
  ultimately show ?thesis by auto
qed

lemma register_dispatcher_embedded:
  assumes emb: "embedded vm" and prot: "\<And>x n p. 0 \<le> mprotect h x n p"
  shows "\<exists>vm'. ubpf_register_external_dispatcher h vm fn v = Some (0, vm') \<and> embedded vm' \<and> dispatcher vm' = fn"
proof -
  obtain a code where j: "jitted vm = Some (a, code)" and at: "embedded_at vm a code"
    and fs: "length (ext_funcs vm) = MAX_EXT_FUNCS" "compile_result (jitted_result vm) = UBPF_JIT_COMPILE_SUCCESS"
      "jit_backend vm = Target_x86_64"
    using emb by (auto simp: embedded_def split: option.splits)
  let ?vm = "vm\<lparr> dispatcher := fn, dispatcher_validate := v \<rparr>"
  obtain code' where w: "buf_write code (unat (external_dispatcher_offset (jitted_result vm))) (le_bytes 8 fn) = Some code'"
    and emb': "embedded_at ?vm a code'"
    using write_dispatcher_embedded [OF at] by blast
  have "jit_update_dispatcher ?vm fn a code (jitted_size ?vm) (external_dispatcher_offset (jitted_result ?vm)) =
      Some (True, code')"
    using at w fs(3) update_dispatcher_eq [of "jitted_result vm" code "jitted_size vm" a fn]
    by (auto simp: jit_update_dispatcher_def embedded_at_def)
  then have "ubpf_register_external_dispatcher h vm fn v = Some (0, ?vm\<lparr> jitted := Some (a, code') \<rparr>)"
    using repatch_embedded [of ?vm a code _ code' h] j prot fs
    by (simp add: ubpf_register_external_dispatcher_def Let_def)
  moreover have "embedded (?vm\<lparr> jitted := Some (a, code') \<rparr>)"
    using emb' fs embedded_at_cong [of "?vm\<lparr> jitted := Some (a, code') \<rparr>" ?vm a code'] by (simp add: embedded_def)
  ultimately show ?thesis by auto
qed

text \<open>The last helper is out of reach of the strict comparison in the update hook.\<close>

lemma register_last_fails:
  assumes emb: "embedded vm" and prot: "\<And>x n p. 0 \<le> mprotect h x n p"
  shows "\<exists>vm'. ubpf_register h vm 63 name fn = Some (- 1, vm') \<and> jitted vm' = jitted vm \<and>
    ext_funcs vm' = (ext_funcs vm)[63 := fn]"
proof -
  obtain a code where j: "jitted vm = Some (a, code)" and at: "embedded_at vm a code"
    and fs: "compile_result (jitted_result vm) = UBPF_JIT_COMPILE_SUCCESS" "jit_backend vm = Target_x86_64"
    using emb by (auto simp: embedded_def split: option.splits)
  have "ubpf_jit_update_helper_x86_64 fn 63 a code (jitted_size vm) (external_helper_offset (jitted_result vm)) =
      Some (False, code)"
    using at update_helper_eq [of "jitted_result vm" code "jitted_size vm" a 63 fn]
    by (auto simp: embedded_at_def MAX_EXT_FUNCS_def)
  then show ?thesis
    using j fs prot
    by (simp add: ubpf_register_def MAX_EXT_FUNCS_def repatch_def jitted_object_def set_jitted_code_def Let_def
        jit_update_helper_def not_less)
qed

section \<open>Compilation\<close>

lemma loaded_without_code:
  assumes "loaded vm insns"
  shows "loaded (vm\<lparr> jitted := None, jitted_size := 0 \<rparr>) insns"
proof -
  have "ubpf_fetch_instruction (vm\<lparr> jitted := None, jitted_size := 0 \<rparr>) p = ubpf_fetch_instruction vm p" for p
    by (simp add: ubpf_fetch_instruction_def split: option.split)
  then show ?thesis
    using assms valid_slot_cong [of "vm\<lparr> jitted := None, jitted_size := 0 \<rparr>" vm insns]
    by (simp add: loaded_def wf_vm_def valid_program_def)
qed

text \<open>An environment in which nothing is refused.\<close>

definition willing :: "jit_env \<Rightarrow> os \<Rightarrow> ubpf_vm \<Rightarrow> bool" where
  "willing env k vm \<longleftrightarrow> env_allocs env = (True, True, True, True, True) \<and> os_calloc k (jitter_buffer_size vm) \<and>
     (\<forall>a n. page_map k a n = 0) \<and> (\<forall>a n. page_set_attr k a n = 0)"

lemma compile_code_ok:
  assumes ld: "loaded vm insns" "jit_callable insns" and x86: "jit_backend vm = Target_x86_64"
    and will: "willing env k vm" and size: "unat (jitter_buffer_size vm) + 16 < 2 ^ 32"
    and room: "code_bound (length insns) \<le> unat (jitter_buffer_size vm)"
      "code_bound (length insns) \<le> UBPF_MAX_INSTS"
  shows "\<exists>vm'. compile_code env k vm mode = Some (Inr jit_code_address, vm') \<and> embedded vm' \<and>
    insts vm' = insts vm \<and> jit_mode (jitted_result vm') = mode"
proof -
  let ?sz = "jitter_buffer_size vm"
  let ?c = "ubpf_translate_x86_64 (env_register_map env) (True, True, True, True, True) (env_locs env)
    (env_helper_offset env) vm (replicate (unat ?sz) 0) ?sz mode"
  note c = translate_x86_64_ok [OF ld, of "replicate (unat ?sz) 0" ?sz "env_register_map env" "env_locs env"
      "env_helper_offset env" mode, simplified, OF size [simplified] room]
  let ?code = "take (unat (comp_size ?c)) (comp_buf ?c)"
  have fits: "unat (comp_size ?c) \<le> length (comp_buf ?c)" using c(6,7) room(1) by simp
  have fs: "length (ext_funcs vm) = MAX_EXT_FUNCS" using ld(1) by (simp add: loaded_def wf_vm_def)
  let ?vm = "vm\<lparr> jitted_result := comp_result ?c, jitted := Some (jit_code_address, ?code), jitted_size := comp_size ?c \<rparr>"
  have run: "compile_code env k vm mode = Some (Inr jit_code_address, ?vm)"
    using ld(1) x86 will c(1-3) fits
    by (auto simp: compile_code_def willing_def ubpf_translate_ex_def jit_translate_def install_code_def Let_def
        loaded_def buf_read_eq)
  have rd: "buf_read ?code (unat (external_dispatcher_offset (comp_result ?c))) 520 = Some (pointer_bytes vm)"
    using c(5,8) fits by (auto simp: buf_read_eq pointer_layout_def take_drop split: if_splits)
  have "length ?code = unat (comp_size ?c)" using fits by simp
  then have "embedded_at ?vm jit_code_address ?code"
    using read_pointers [OF fs c(5) rd] c(5,6) room(2)
    by (simp add: embedded_at_def UBPF_MAX_INSTS_def jit_code_address_def)
  then have "embedded ?vm" using c(2) x86 fs by (simp add: embedded_def)
  with run c(4) show ?thesis by auto
qed

lemma compile_ok:
  assumes ld: "loaded vm insns" "jit_callable insns" and x86: "jit_backend vm = Target_x86_64"
    and will: "willing env k vm" and size: "unat (jitter_buffer_size vm) + 16 < 2 ^ 32"
    and room: "code_bound (length insns) \<le> unat (jitter_buffer_size vm)"
      "code_bound (length insns) \<le> UBPF_MAX_INSTS"
    and new: "jitted vm = None \<or> compile_result (jitted_result vm) \<noteq> UBPF_JIT_COMPILE_SUCCESS \<or>
      jit_mode (jitted_result vm) \<noteq> mode"
  shows "\<exists>vm'. ubpf_compile_ex env k vm mode = Some (Inr jit_code_address, vm') \<and> embedded vm' \<and>
    jit_mode (jitted_result vm') = mode"
proof (cases "jitted vm")
  case None
  then show ?thesis
    using compile_code_ok [OF ld x86 will size room, of mode] by (auto simp: ubpf_compile_ex_def)
next
  case (Some obj)
  obtain a code where obj: "obj = (a, code)" by fastforce
  let ?vm = "vm\<lparr> jitted := None, jitted_size := 0 \<rparr>"
  have "\<exists>vm'. compile_code env k ?vm mode = Some (Inr jit_code_address, vm') \<and> embedded vm' \<and>
      insts vm' = insts ?vm \<and> jit_mode (jitted_result vm') = mode"
    using x86 will size room ld(2) loaded_without_code [OF ld(1)]
    by (intro compile_code_ok) (simp_all add: willing_def)
  with Some obj new show ?thesis by (auto simp: ubpf_compile_ex_def)
qed

text \<open>What was compiled can be copied out.\<close>

lemma copy_embedded:
  assumes "embedded vm"
  shows "ubpf_copy_jit vm sz = (if sz < jitted_size vm then Inl BufferNotBigEnough else Inr (snd (the (jitted vm))))"
  using assms
  by (auto simp: embedded_def ubpf_copy_jit_def jitted_object_def embedded_at_def split: option.splits)

section \<open>A buffer without room for the pointers\<close>

lemma translate_truncated:
  assumes ld: "loaded vm insns" "jit_callable insns" and fresh: "fresh_jit st"
    and room: "60 + 117 * length insns \<le> unat (js_size st)" and short: "unat (js_size st) < 520"
  shows "\<exists>st'. translate rm vm st = (0, st') \<and> js_status st' \<noteq> NoError"
proof -
  have wf: "wf_jit st" using fresh by (simp add: fresh_jit_def)
  have ent: "entries st = 0" "js_status st = NoError" "js_offset st = 0"
    using fresh by (simp_all add: fresh_jit_def entries_def)
  note g = after_loop_grows [OF ld, of st rm]
  have "js_status (after_loop rm vm st) = NoError"
    using g [unfolded grows_def, rule_format, OF wf] ent room short
    by (simp add: UBPF_MAX_INSTS_def)
  then have tr: "translate rm vm st = (0, jit_exec (translate_epilogue rm vm) (after_loop rm vm st))"
    by (simp add: translate_cases)
  have fs: "length (ext_funcs vm) = MAX_EXT_FUNCS" using ld(1) by (simp add: loaded_def wf_vm_def)
  have wfl: "wf_jit (after_loop rm vm st)" by (rule grows_wf [OF g wf])
  let ?s = "jit_exec (epilogue_code rm) (after_loop rm vm st)"
  have "js_size ?s = js_size st"
    using code.trans [OF g keepsD [OF epilogue_code_keeps], unfolded grows_def] wf by blast
  then show ?thesis
    using translate_epilogue_exact(2) [OF wfl _ fs, of rm] short tr by fastforce
qed

end
