(* ===== verification/Jit_Encode.thy ===== *)
theory Jit_Encode
  imports Jit_Grow
begin

text \<open>
  The bytes of the emitted instructions, read back with the operand encoding rules of the processor
  manual: a REX prefix, the ModRM byte, and for a memory operand the SIB byte the register number 4
  announces.
\<close>

section \<open>The bytes an emitter writes\<close>

definition writes :: "u8 list \<Rightarrow> unit jit \<Rightarrow> bool" where
  "writes bs m \<longleftrightarrow> (\<forall>st. wf_jit st \<longrightarrow> wf_jit (jit_exec m st) \<and>
     (js_status (jit_exec m st) = NoError \<longrightarrow>
        js_status st = NoError \<and> unat (js_offset st) + length bs \<le> unat (js_size st) \<and>
        jit_exec m st = put_bytes bs st))"

lemma writes_bind:
  assumes m: "writes a m" and m': "writes b m'"
  shows "writes (a @ b) (State_Monad.bind m (\<lambda>_. m'))"
  unfolding writes_def
proof (intro allI impI)
  fix st
  assume wf: "wf_jit st"
  let ?s = "jit_exec m st"
  have wfs: "wf_jit ?s" using m wf by (simp add: writes_def)
  have "js_status st = NoError \<and> unat (js_offset st) + length (a @ b) \<le> unat (js_size st) \<and>
      jit_exec m' ?s = put_bytes (a @ b) st" if ok: "js_status (jit_exec m' ?s) = NoError"
  proof -
    have 2: "js_status ?s = NoError" "unat (js_offset ?s) + length b \<le> unat (js_size ?s)"
      "jit_exec m' ?s = put_bytes b ?s"
      using m' wfs ok by (simp_all add: writes_def)
    have 1: "js_status st = NoError" "unat (js_offset st) + length a \<le> unat (js_size st)" "?s = put_bytes a st"
      using m wf 2(1) by (simp_all add: writes_def)
    have "unat (js_offset st) + length a + length b \<le> unat (js_size st)"
      using 2(2) put_bytes_grows(4) [OF wf 1(2)] by (simp add: 1(3))
    with put_bytes_append [OF wf this] 1 2 show ?thesis by simp
  qed
  with m' wfs show "wf_jit (jit_exec (State_Monad.bind m (\<lambda>_. m')) st) \<and>
      (js_status (jit_exec (State_Monad.bind m (\<lambda>_. m')) st) = NoError \<longrightarrow>
        js_status st = NoError \<and> unat (js_offset st) + length (a @ b) \<le> unat (js_size st) \<and>
        jit_exec (State_Monad.bind m (\<lambda>_. m')) st = put_bytes (a @ b) st)"
    by (simp add: writes_def)
qed

lemma writes_return: "writes [] (jit_return ())"
  by (simp add: writes_def put_bytes_def wf_jit_def word_le_nat_alt)

lemma writes_assert: "c \<Longrightarrow> writes bs m \<Longrightarrow> writes bs (State_Monad.bind (jit_assert c) (\<lambda>_. m))"
  by (simp add: writes_def jit_assert_def)

lemma writes_emit_bytes: "length bs \<le> 16 \<Longrightarrow> writes bs (emit_bytes bs)"
  using grows_wf [OF keepsD [OF emit_bytes_keeps]]
  by (auto simp: writes_def emit_bytes_exec split: if_splits)

lemma writes_emit: "writes [x] (emit1 x)" "writes (le_bytes 4 y) (emit4 y)"
proof -
  have "le_bytes 1 x = [x]" by (simp add: le_bytes_def)
  then show "writes [x] (emit1 x)" using writes_emit_bytes [of "[x]"] by (simp add: emit1_def)
  show "writes (le_bytes 4 y) (emit4 y)" by (simp add: emit4_def writes_emit_bytes)
qed

section \<open>The encoding\<close>

definition modrm_byte :: "u32 \<Rightarrow> u32 \<Rightarrow> u32 \<Rightarrow> u8" where
  "modrm_byte md r m = ucast ((md AND 0xc0) OR push_bit 3 (r AND 7) OR (m AND 7))"

definition rex_byte :: "bool \<Rightarrow> u32 \<Rightarrow> u32 \<Rightarrow> u8" where
  "rex_byte w r b = ucast (0x40 OR push_bit 3 (of_bool w) OR push_bit 2 (of_bool (r AND 8 \<noteq> 0))
     OR of_bool (b AND 8 \<noteq> 0) :: u32)"

definition displacement_bytes :: "u32 \<Rightarrow> u32 \<Rightarrow> u32 \<Rightarrow> u8 list" where
  "displacement_bytes r m d =
     (if d = 0 \<and> m AND 7 \<noteq> RBP then [modrm_byte 0 r m]
      else if - 128 \<le> sint d \<and> sint d \<le> 127 then [modrm_byte 0x40 r m, ucast d]
      else modrm_byte 0x80 r m # le_bytes 4 d)"

lemma writes_modrm: "md AND NOT 0xc0 = 0 \<Longrightarrow> writes [modrm_byte md r m] (emit_modrm md r m)"
  unfolding emit_modrm_def modrm_byte_def by (intro writes_assert writes_emit)

lemma writes_rex:
  "writes [rex_byte w r b] (emit_rex (of_bool w) (of_bool (r AND 8 \<noteq> 0)) 0 (of_bool (b AND 8 \<noteq> 0)))"
  unfolding emit_rex_def rex_byte_def
  by (intro writes_assert) (simp_all add: writes_emit)

lemma writes_displacement: "writes (displacement_bytes r m d) (emit_modrm_and_displacement r m d)"
proof -
  have "writes ([modrm_byte 0x40 r m] @ [ucast d]) (do { emit_modrm 0x40 r m; emit1 (ucast d) })"
    "writes ([modrm_byte 0x80 r m] @ le_bytes 4 d) (do { emit_modrm 0x80 r m; emit4 d })"
    by (intro writes_bind writes_emit writes_modrm; simp)+
  then show ?thesis
    by (simp add: displacement_bytes_def emit_modrm_and_displacement_def writes_modrm)
qed

lemma writes_alu64: "writes [rex_byte True s d, ucast op, modrm_byte 0xc0 s d] (emit_alu64 op s d)"
proof -
  have "writes [rex_byte True s d] (emit_basic_rex 1 s d)"
    using writes_rex [of True s d] by (simp add: emit_basic_rex_def)
  then have "writes ([rex_byte True s d] @ [ucast op] @ [modrm_byte 0xc0 s d]) (emit_alu64 op s d)"
    unfolding emit_alu64_def emit_modrm_reg2reg_def
    by (intro writes_bind writes_emit writes_modrm) simp_all
  then show ?thesis by simp
qed

section \<open>Reading it back\<close>

text \<open>A REX prefix, an opcode byte and a ModRM byte with two registers.\<close>

definition register_number :: "bool \<Rightarrow> u8 \<Rightarrow> u32" where
  "register_number ext field = ucast (field AND 7) + (if ext then 8 else 0)"

fun decode_registers :: "u8 list \<Rightarrow> (bool \<times> u8 \<times> u32 \<times> u32) option" where
  "decode_registers [rex, op, modrm] =
     (if rex AND 0xf0 = 0x40 \<and> modrm AND 0xc0 = 0xc0
      then Some (bit rex 3, op, register_number (bit rex 2) (drop_bit 3 modrm), register_number (bit rex 0) modrm)
      else None)"
| "decode_registers _ = None"

text \<open>
  A memory operand: base, scaled index and displacement, or a displacement to the instruction pointer.
  \<open>X\<close> and \<open>B\<close> are the bits of the REX prefix; the result has the \<open>reg\<close> field and the remaining bytes.
\<close>

datatype memory_operand =
    Mem "u32 option" "(u32 \<times> nat) option" u32
  | Rip_relative u32

fun decode_displacement :: "u8 \<Rightarrow> u8 list \<Rightarrow> (u32 \<times> u8 list) option" where
  "decode_displacement md bs =
     (if md = 0 then Some (0, bs)
      else if md = 0x40 then (case bs of b # rest \<Rightarrow> Some (scast b, rest) | [] \<Rightarrow> None)
      else if length bs < 4 then None else Some (le_word (take 4 bs), drop 4 bs))"

definition decode_sib :: "bool \<Rightarrow> bool \<Rightarrow> u8 \<Rightarrow> u8 list \<Rightarrow> (memory_operand \<times> u8 list) option" where
  "decode_sib X B md bs =
     (case bs of
        [] \<Rightarrow> None
      | sib # rest \<Rightarrow>
          let index = register_number X (drop_bit 3 sib);
              scaled = (if index = 4 then None else Some (index, 2 ^ unat (drop_bit 6 sib)))
          in if md = 0 \<and> sib AND 7 = 5
             then map_option (\<lambda>(d, r). (Mem None scaled d, r)) (decode_displacement 0x80 rest)
             else map_option (\<lambda>(d, r). (Mem (Some (register_number B sib)) scaled d, r))
                    (decode_displacement md rest))"

fun decode_memory :: "bool \<Rightarrow> bool \<Rightarrow> u8 list \<Rightarrow> (u8 \<times> memory_operand \<times> u8 list) option" where
  "decode_memory X B (modrm # rest) =
     (let md = modrm AND 0xc0; reg = drop_bit 3 modrm AND 7
      in if md = 0xc0 then None
         else if modrm AND 7 = 4 then map_option (Pair reg) (decode_sib X B md rest)
         else if md = 0 \<and> modrm AND 7 = 5
         then map_option (\<lambda>(d, r). (reg, Rip_relative d, r)) (decode_displacement 0x80 rest)
         else map_option (\<lambda>(d, r). (reg, Mem (Some (register_number B modrm)) None d, r))
                (decode_displacement md rest))"
| "decode_memory X B [] = None"

lemma low3: "(7 :: 'a::len word) = mask 3"
  by (simp add: mask_eq_exp_minus_1)

lemma and_7_cases:
  obtains "(x :: u32) AND 7 = 0" | "x AND 7 = 1" | "x AND 7 = 2" | "x AND 7 = 3" | "x AND 7 = 4"
    | "x AND 7 = 5" | "x AND 7 = 6" | "x AND 7 = 7"
proof -
  have "x AND 7 = take_bit 3 x" unfolding low3 by (simp only: take_bit_eq_mask)
  then have "unat (x AND 7) < 8"
    using take_bit_nat_less_exp [of 3 "unat x"] by (simp add: unsigned_take_bit_eq)
  then have "unat (x AND 7) \<in> {0, 1, 2, 3, 4, 5, 6, 7}" by (simp add: less_Suc_eq numeral_eq_Suc)
  then show ?thesis using that by (auto simp: word_unat_eq_iff)
qed

lemma modrm_fields:
  "modrm_byte 0 r m AND 0xc0 = 0" "modrm_byte 0x40 r m AND 0xc0 = 0x40" "modrm_byte 0x80 r m AND 0xc0 = 0x80"
  "modrm_byte 0xc0 r m AND 0xc0 = 0xc0"
  "drop_bit 3 (modrm_byte md r m) AND 7 = ucast (r AND 7)" "modrm_byte md r m AND 7 = ucast (m AND 7)"
proof -
  show "modrm_byte 0 r m AND 0xc0 = 0"
    by (cases r rule: and_7_cases; cases m rule: and_7_cases) (simp_all add: modrm_byte_def)
  show "modrm_byte 0x40 r m AND 0xc0 = 0x40"
    by (cases r rule: and_7_cases; cases m rule: and_7_cases) (simp_all add: modrm_byte_def)
  show "modrm_byte 0x80 r m AND 0xc0 = 0x80"
    by (cases r rule: and_7_cases; cases m rule: and_7_cases) (simp_all add: modrm_byte_def)
  show "modrm_byte 0xc0 r m AND 0xc0 = 0xc0"
    by (cases r rule: and_7_cases; cases m rule: and_7_cases) (simp_all add: modrm_byte_def)
  have top: "\<not> bit (0xc0 :: u32) n" if "n < 6" for n
    using that by (simp add: less_Suc_eq numeral_eq_Suc) (auto simp: bit_simps)
  have "n < 3 \<Longrightarrow> \<not> bit (0xc0 :: u32) (3 + n)" for n by (rule top) simp
  then show "drop_bit 3 (modrm_byte md r m) AND 7 = ucast (r AND 7)"
    unfolding modrm_byte_def low3 by (intro bit_word_eqI) (auto simp: bit_simps)
  have "n < 3 \<Longrightarrow> \<not> bit (0xc0 :: u32) n" for n by (rule top) simp
  then show "modrm_byte md r m AND 7 = ucast (m AND 7)"
    unfolding modrm_byte_def low3 by (intro bit_word_eqI) (auto simp: bit_simps)
qed

lemma rex_fields:
  "rex_byte w r b AND 0xf0 = 0x40" "bit (rex_byte w r b) 3 = w" "bit (rex_byte w r b) 2 = (r AND 8 \<noteq> 0)"
  "bit (rex_byte w r b) 0 = (b AND 8 \<noteq> 0)"
  by (cases w; cases "r AND 8 = 0"; cases "b AND 8 = 0"; simp add: rex_byte_def)+

text \<open>A register number below 16 is its low three bits and the bit in the REX prefix.\<close>

lemma register_split:
  assumes "m < (16 :: u32)"
  shows "ucast (ucast (m AND 7) :: u8) + (if m AND 8 \<noteq> 0 then 8 else 0) = m"
proof -
  have "unat m < 16" using assms by (simp add: word_less_nat_alt)
  then have "unat m \<in> {0, 1, 2, 3, 4, 5, 6, 7, 8, 9, 10, 11, 12, 13, 14, 15}"
    by (simp add: less_Suc_eq numeral_eq_Suc)
  then have "m \<in> {0, 1, 2, 3, 4, 5, 6, 7, 8, 9, 10, 11, 12, 13, 14, 15}"
    by (auto simp: word_unat_eq_iff)
  then show ?thesis by (elim insertE emptyE) simp_all
qed

lemma register_number_eq:
  assumes "m < 16" "field AND 7 = ucast (m AND 7)"
  shows "register_number (m AND 8 \<noteq> 0) field = m"
  unfolding register_number_def assms(2) by (rule register_split [OF assms(1)])

lemma decode_registers_alu64:
  assumes "s < 16" "d < 16"
  shows "decode_registers [rex_byte True s d, op, modrm_byte 0xc0 s d] = Some (True, op, s, d)"
proof -
  have "register_number (s AND 8 \<noteq> 0) (drop_bit 3 (modrm_byte 0xc0 s d)) = s"
    "register_number (d AND 8 \<noteq> 0) (modrm_byte 0xc0 s d) = d"
    by (rule register_number_eq; simp only: assms modrm_fields)+
  then show ?thesis by (simp only: decode_registers.simps rex_fields modrm_fields if_True simp_thms)
qed

lemma sign_extend_byte:
  assumes "- 128 \<le> sint (d :: u32)" "sint d \<le> 127"
  shows "scast (ucast d :: u8) = d"
proof -
  have "sint (ucast d :: u8) = signed_take_bit 7 (sint d)"
    by (simp add: signed_ucast_eq uint_sint signed_take_bit_take_bit)
  also have "\<dots> = sint d" using assms by (intro signed_take_bit_int_eq_self) simp_all
  finally have "(scast (ucast d :: u8) :: u32) = word_of_int (sint d)" by (simp only: scast_eq)
  then show ?thesis by simp
qed

text \<open>The operand read back from the bytes of \<^const>\<open>emit_modrm_and_displacement\<close>.\<close>

lemma decode_memory_base:
  assumes m: "m < 16" "m AND 7 \<noteq> 4"
  shows "decode_memory X (m AND 8 \<noteq> 0) (displacement_bytes r m d @ rest) =
    Some (ucast (r AND 7), Mem (Some m) None d, rest)"
proof -
  have low: "modrm_byte md r m AND 7 \<noteq> 4" "modrm_byte md r m AND 7 = 5 \<longleftrightarrow> m AND 7 = 5" for md
    using m(2) unfolding modrm_fields by (cases m rule: and_7_cases; simp)+
  have base: "register_number (m AND 8 \<noteq> 0) (modrm_byte md r m) = m" for md
    by (rule register_number_eq [OF m(1) modrm_fields(6)])
  consider "d = 0" "m AND 7 \<noteq> 5" | "\<not> (d = 0 \<and> m AND 7 \<noteq> 5)" "- 128 \<le> sint d" "sint d \<le> 127"
    | "\<not> (d = 0 \<and> m AND 7 \<noteq> 5)" "\<not> (- 128 \<le> sint d \<and> sint d \<le> 127)" by argo
  then show ?thesis
  proof cases
    case 1
    then show ?thesis
      using low [of 0] base [of 0] by (simp add: displacement_bytes_def modrm_fields Let_def)
  next
    case 2
    then show ?thesis
      using low [of "0x40"] base [of "0x40"] sign_extend_byte [of d]
      by (simp add: displacement_bytes_def modrm_fields Let_def)
  next
    case 3
    then have "displacement_bytes r m d = modrm_byte 0x80 r m # le_bytes 4 d"
      by (simp only: displacement_bytes_def if_False)
    then show ?thesis
      using low [of "0x80"] base [of "0x80"] by (simp add: modrm_fields Let_def)
  qed
qed

lemma decode_displacement_rest:
  "decode_displacement md bs = Some (d, rest) \<Longrightarrow>
     length bs = length rest + (if md = 0 then 0 else if md = 0x40 then 1 else 4)"
  by (auto split: if_splits list.splits)

lemma decode_sib_rest:
  assumes "decode_sib X B md bs = Some (op, rest)"
  shows "length rest + 1 + (if md = 0 then 0 else if md = 0x40 then 1 else 4) \<le> length bs"
  using assms
  by (auto simp: decode_sib_def Let_def simp del: decode_displacement.simps
      split: list.splits if_splits dest!: decode_displacement_rest)

text \<open>Without the SIB byte, the operand of a base register 4 or 12 swallows a byte too many.\<close>

lemma decode_memory_sib:
  assumes m: "m AND 7 = 4"
  shows "decode_memory X B (displacement_bytes r m d @ rest) \<noteq> Some (reg, op, rest)"
proof -
  have low: "modrm_byte md r m AND 7 = 4" for md using m unfolding modrm_fields by simp
  consider "d = 0" | "d \<noteq> 0" "- 128 \<le> sint d" "sint d \<le> 127"
    | "d \<noteq> 0" "\<not> (- 128 \<le> sint d \<and> sint d \<le> 127)" by argo
  then show ?thesis
  proof cases
    case 1
    then show ?thesis
      using m low [of 0] decode_sib_rest [of X B 0 rest]
      by (auto simp: displacement_bytes_def modrm_fields Let_def)
  next
    case 2
    then show ?thesis
      using m low [of "0x40"] decode_sib_rest [of X B "0x40" "ucast d # rest"]
      by (auto simp: displacement_bytes_def modrm_fields Let_def)
  next
    case 3
    then show ?thesis
      using m low [of "0x80"] decode_sib_rest [of X B "0x80" "le_bytes 4 d @ rest"]
      by (auto simp: displacement_bytes_def modrm_fields Let_def)
  qed
qed

section \<open>The register map under its rotation and its shuffle\<close>

lemma mset_shuffle_map: "length rm = 11 \<Longrightarrow> mset (shuffle_map rand_r seed i rm) = mset rm"
proof (induction rand_r seed i rm rule: shuffle_map.induct)
  case (1 rand_r seed i rm)
  obtain r seed' where r: "rand_r seed = (r, seed')" by fastforce
  let ?j = "i + r mod (11 - i)"
  show ?case
  proof (cases "i < 10")
    case True
    have "r mod (11 - i) < 11 - i" using True by (intro mod_less_divisor) simp
    then have j: "i < length rm" "?j < length rm" using True 1(2) by linarith+
    from mset_swap [OF j] have "mset (rm[?j := rm ! i, i := rm ! ?j]) = mset rm" .
    moreover have "mset (shuffle_map rand_r seed' (Suc i) (rm[?j := rm ! i, i := rm ! ?j])) =
        mset (rm[?j := rm ! i, i := rm ! ?j])"
      using 1(1) [OF True refl r [symmetric] refl] 1(2) by simp
    ultimately show ?thesis using True by (simp add: shuffle_map.simps [of rand_r seed i] r Let_def)
  qed (simp add: shuffle_map.simps [of rand_r seed i])
qed

lemma rotation_eq:
  assumes "length rm = 11"
  shows "map (\<lambda>i. rm ! ((i + k) mod 11)) [0..<11] = rotate k rm"
  using assms by (intro nth_equalityI) (simp_all add: nth_rotate add.commute)

lemma set_register_offset_mset:
  assumes "length rm = 11" "0 \<le> sint x"
  shows "\<exists>rm'. ubpf_set_register_offset rand_r rm x = Some rm' \<and> mset rm' = mset rm"
proof (cases "sint x < 11")
  case True
  have "mset (rotate1 xs) = mset xs" for xs :: "u32 list" by (cases xs) simp_all
  then have "mset (rotate k rm) = mset rm" for k by (induction k) simp_all
  with True assms show ?thesis by (simp add: ubpf_set_register_offset_def rotation_eq)
next
  case False
  with assms show ?thesis by (simp add: ubpf_set_register_offset_def mset_shuffle_map)
qed

lemma register_map_base:
  assumes "r < 11"
  shows "mapped register_map r < 16" "mapped register_map r AND 7 = 4 \<longleftrightarrow> r = 7"
proof -
  have "unat r < 11" using assms by (simp add: word_less_nat_alt)
  then have "unat r \<in> {0, 1, 2, 3, 4, 5, 6, 7, 8, 9, 10}" by (simp add: less_Suc_eq numeral_eq_Suc)
  then have "r \<in> {0, 1, 2, 3, 4, 5, 6, 7, 8, 9, 10}" by (auto simp: word_unat_eq_iff)
  then show "mapped register_map r < 16" "mapped register_map r AND 7 = 4 \<longleftrightarrow> r = 7"
    by (elim insertE emptyE; simp add: mapped_def register_map_def)+
qed

end
