(* ===== verification/Jit_A64_Encode.thy ===== *)
theory Jit_A64_Encode
  imports Jit_A64 Jit_Grow
begin

text \<open>
  What the AArch64 instructions for immediates compute, by the rules of the architecture manual for
  the move-wide instructions; and the operands of the instruction emitted for a negation.
\<close>

section \<open>The move-wide instructions\<close>

definition trunc_width :: "bool \<Rightarrow> u64 \<Rightarrow> u64" where
  "trunc_width sixty_four w = (if sixty_four then w else take_bit 32 w)"

text \<open>
  Bits 0 to 4 are the register, 5 to 20 the immediate, 21 and 22 the shift in units of 16 bits, and the
  nine bits above the width and the operation (MOVN, MOVZ, MOVK). Register 31 reads as zero.
\<close>

definition a64_move :: "u32 \<Rightarrow> (u32 \<Rightarrow> u64) \<Rightarrow> (u32 \<Rightarrow> u64) option" where
  "a64_move instr R =
     (let rd = take_bit 5 instr; v = ucast (take_bit 16 (drop_bit 5 instr));
          sh = 16 * unat (take_bit 2 (drop_bit 21 instr)); kind = drop_bit 23 instr;
          sixty_four = (256 \<le> kind); op = take_bit 8 kind;
          result = (if op = 37 then Some (NOT (push_bit sh v))
            else if op = 165 then Some (push_bit sh v)
            else if op = 229 then Some (R rd AND NOT (push_bit sh 0xffff) OR push_bit sh v)
            else None)
      in if rd = 31 then None else map_option (\<lambda>w. R(rd := trunc_width sixty_four w)) result)"

fun a64_moves :: "u32 list \<Rightarrow> (u32 \<Rightarrow> u64) \<Rightarrow> (u32 \<Rightarrow> u64) option" where
  "a64_moves [] R = Some R"
| "a64_moves (i # is) R = (case a64_move i R of None \<Rightarrow> None | Some R' \<Rightarrow> a64_moves is R')"

section \<open>Blocks of 16 bits\<close>

lemma bit_imm_block: "bit (imm_block w j) n \<longleftrightarrow> n < 16 \<and> bit w (16 * j + n)"
proof -
  have "imm_block w j = take_bit 16 (drop_bit (16 * j) w)"
    by (simp add: imm_block_def take_bit_eq_mask mask_eq_exp_minus_1)
  then show ?thesis by (simp add: bit_simps)
qed

lemma imm_block_eqI:
  assumes "\<And>j. j < 4 \<Longrightarrow> imm_block x j = imm_block y j"
  shows "x = y"
proof (rule bit_word_eqI)
  fix n
  assume "n < LENGTH(64)"
  then have n: "n div 16 < 4" "n = 16 * (n div 16) + n mod 16" by simp_all
  have "bit x n \<longleftrightarrow> bit (imm_block x (n div 16)) (n mod 16)" by (simp add: bit_imm_block flip: n(2))
  also have "\<dots> \<longleftrightarrow> bit (imm_block y (n div 16)) (n mod 16)" using assms [OF n(1)] by simp
  also have "\<dots> \<longleftrightarrow> bit y n" by (simp add: bit_imm_block flip: n(2))
  finally show "bit x n \<longleftrightarrow> bit y n" .
qed

abbreviation (input) blocks_of :: "bool \<Rightarrow> nat" where "blocks_of sixty_four \<equiv> if sixty_four then 4 else 2"

lemma imm_block_trunc:
  "j < 4 \<Longrightarrow> imm_block (trunc_width sf w) j = (if j < blocks_of sf then imm_block w j else 0)"
  by (rule bit_word_eqI) (auto simp: bit_imm_block trunc_width_def bit_simps)

definition is_block :: "u64 \<Rightarrow> bool" where "is_block v \<longleftrightarrow> take_bit 16 v = v"

lemma is_block_bit: "is_block v \<Longrightarrow> bit v n \<Longrightarrow> n < 16"
  unfolding is_block_def using bit_take_bit_iff [of 16 v n] by metis

lemma is_block_imm [simp]: "is_block (imm_block w j)" "is_block (NOT w AND 0xffff)"
proof -
  show "is_block (imm_block w j)" unfolding is_block_def
    by (rule bit_word_eqI) (auto simp: bit_imm_block bit_simps)
  have "NOT w AND 0xffff = take_bit 16 (NOT w)" by (simp add: take_bit_eq_mask mask_eq_exp_minus_1)
  then show "is_block (NOT w AND 0xffff)" by (simp add: is_block_def)
qed

lemma imm_block_push:
  assumes "is_block v" "j < 4"
  shows "imm_block (push_bit (16 * i) v) j = (if i = j then v else 0)"
proof (rule bit_word_eqI)
  fix n
  assume "n < LENGTH(64)"
  have "n < 16 \<Longrightarrow> 16 * i \<le> 16 * j + n \<Longrightarrow> bit v (16 * j + n - 16 * i) \<Longrightarrow> i = j"
    using is_block_bit [OF assms(1), of "16 * j + n - 16 * i"] by linarith
  then show "bit (imm_block (push_bit (16 * i) v) j) n \<longleftrightarrow> bit (if i = j then v else 0) n"
    using is_block_bit [OF assms(1), of n] assms(2) by (auto simp: bit_imm_block bit_push_bit_iff)
qed

lemma mask_16: "bit (65535 :: int) n \<longleftrightarrow> n < 16" "bit (65535 :: nat) n \<longleftrightarrow> n < 16"
proof -
  have "bit (mask 16 :: int) n \<longleftrightarrow> n < 16" "bit (mask 16 :: nat) n \<longleftrightarrow> n < 16" unfolding bit_mask_iff by auto
  then show "bit (65535 :: int) n \<longleftrightarrow> n < 16" "bit (65535 :: nat) n \<longleftrightarrow> n < 16"
    by (simp_all add: mask_eq_exp_minus_1)
qed

lemma imm_block_movn:
  assumes "is_block v" "j < 4"
  shows "imm_block (NOT (push_bit (16 * i) v)) j = (if i = j then NOT v AND 0xffff else 0xffff)"
proof -
  have "imm_block (NOT w) j = NOT (imm_block w j) AND 0xffff" for w
    by (rule bit_word_eqI) (use assms(2) in \<open>auto simp: bit_imm_block bit_and_iff bit_not_iff mask_16\<close>)
  then show ?thesis using imm_block_push [OF assms] by simp
qed

lemma imm_block_movk:
  assumes "is_block v" "j < 4"
  shows "imm_block (x AND NOT (push_bit (16 * i) 0xffff) OR push_bit (16 * i) v) j = (if i = j then v else imm_block x j)"
proof -
  have ones: "is_block 0xffff" by (simp add: is_block_def take_bit_eq_mask mask_eq_exp_minus_1)
  have "imm_block (x AND NOT y OR z) j = imm_block x j AND NOT (imm_block y j) OR imm_block z j" for y z
    by (rule bit_word_eqI) (use assms(2) in \<open>auto simp: bit_imm_block bit_simps\<close>)
  moreover have "imm_block x j AND NOT 0xffff = 0"
  proof (rule bit_word_eqI)
    fix n
    have "bit (imm_block x j AND NOT 0xffff) n \<longleftrightarrow> bit (imm_block x j) n \<and> \<not> bit (0xffff :: u64) n \<and> n < 64"
      unfolding bit_and_iff bit_not_iff by auto
    then show "bit (imm_block x j AND NOT 0xffff) n \<longleftrightarrow> bit (0 :: u64) n" by (auto simp: bit_imm_block mask_16)
  qed
  ultimately show ?thesis
    by (simp add: imm_block_push [OF assms] imm_block_push [OF ones assms(2)])
qed

section \<open>The fields of an emitted instruction\<close>

lemma movewide_fields:
  fixes hi k v rd :: u32
  assumes "take_bit 9 hi = hi" "take_bit 2 k = k" "take_bit 16 v = v" "take_bit 5 rd = rd"
  defines "w \<equiv> push_bit 23 hi OR push_bit 21 k OR push_bit 5 v OR rd"
  shows "take_bit 5 w = rd" "take_bit 16 (drop_bit 5 w) = v" "take_bit 2 (drop_bit 21 w) = k" "drop_bit 23 w = hi"
proof -
  have b: "bit hi n \<Longrightarrow> n < 9" "bit k n \<Longrightarrow> n < 2" "bit v n \<Longrightarrow> n < 16" "bit rd n \<Longrightarrow> n < 5" for n
    using assms(1-4) by (metis bit_take_bit_iff)+
  show "take_bit 5 w = rd"
    by (rule bit_word_eqI) (auto simp: w_def bit_simps dest: b)
  show "take_bit 16 (drop_bit 5 w) = v"
    by (rule bit_word_eqI) (auto simp: w_def bit_simps dest: b)
  show "take_bit 2 (drop_bit 21 w) = k"
    by (rule bit_word_eqI) (auto simp: w_def bit_simps dest: b)
  show "drop_bit 23 w = hi"
    by (rule bit_word_eqI) (auto simp: w_def bit_simps dest: b)
qed

definition movewide_instr :: "bool \<Rightarrow> u32 \<Rightarrow> nat \<Rightarrow> u64 \<Rightarrow> u32 \<Rightarrow> u32" where
  "movewide_instr sf op i v rd =
     ucast (ucast (sz_bit sf OR op OR push_bit 21 (of_nat i)) OR push_bit 5 v OR ucast rd)"

lemma movewide_instr_eq:
  assumes "sz_bit sf OR op = push_bit 23 hi"
  shows "movewide_instr sf op i v rd = push_bit 23 hi OR push_bit 21 (of_nat i) OR push_bit 5 (ucast v) OR rd"
  unfolding movewide_instr_def assms [symmetric]
  by (rule bit_word_eqI) (auto simp: bit_simps)

lemma movewide_hi:
  "sz_bit sf OR MW_MOVN = push_bit 23 (if sf then 293 else 37)"
  "sz_bit sf OR MW_MOVZ = push_bit 23 (if sf then 421 else 165)"
  "sz_bit sf OR MW_MOVK = push_bit 23 (if sf then 485 else 229)"
  by (simp_all add: sz_bit_def MW_MOVN_def MW_MOVZ_def MW_MOVK_def)

lemma take_bit_word_self: "unat w < 2 ^ n \<Longrightarrow> take_bit n w = w" for w :: "'a :: len word"
  by (rule unsigned_word_eqI [where 'a = nat]) (simp add: unsigned_take_bit_eq take_bit_nat_eq_self)

lemma small_register: "rd < 31 \<Longrightarrow> take_bit 5 rd = rd" for rd :: u32
  by (rule take_bit_word_self) (simp add: word_less_nat_alt)

lemma movewide_instr_fields:
  assumes "sz_bit sf OR op = push_bit 23 hi" "take_bit 9 hi = hi" "i < 4" "is_block v" "rd < 31"
  shows "take_bit 5 (movewide_instr sf op i v rd) = rd"
    "ucast (take_bit 16 (drop_bit 5 (movewide_instr sf op i v rd))) = v"
    "unat (take_bit 2 (drop_bit 21 (movewide_instr sf op i v rd))) = i"
    "drop_bit 23 (movewide_instr sf op i v rd) = hi"
proof -
  have u: "unat (of_nat i :: u32) = i" using assms(3) by (simp add: unat_of_nat)
  with assms(3) have i: "take_bit 2 (of_nat i :: u32) = of_nat i" "unat (of_nat i :: u32) = i"
    by (simp_all add: take_bit_word_self)
  have small: "n < 32" if "bit v n" for n using is_block_bit [OF assms(4) that] by simp
  have v: "take_bit 16 (ucast v :: u32) = ucast v" "ucast (ucast v :: u32) = v"
    using is_block_bit [OF assms(4)] by (auto intro!: bit_word_eqI simp: bit_simps dest: small)
  note f = movewide_fields [OF assms(2) i(1) v(1) small_register [OF assms(5)]]
  show "take_bit 5 (movewide_instr sf op i v rd) = rd"
    "ucast (take_bit 16 (drop_bit 5 (movewide_instr sf op i v rd))) = v"
    "unat (take_bit 2 (drop_bit 21 (movewide_instr sf op i v rd))) = i"
    "drop_bit 23 (movewide_instr sf op i v rd) = hi"
    unfolding movewide_instr_eq [OF assms(1)] f using i v by simp_all
qed

lemma a64_move_instr:
  assumes "i < 4" "is_block v" "rd < 31"
  shows "a64_move (movewide_instr sf MW_MOVN i v rd) R = Some (R(rd := trunc_width sf (NOT (push_bit (16 * i) v))))"
    "a64_move (movewide_instr sf MW_MOVZ i v rd) R = Some (R(rd := trunc_width sf (push_bit (16 * i) v)))"
    "a64_move (movewide_instr sf MW_MOVK i v rd) R =
       Some (R(rd := trunc_width sf (R rd AND NOT (push_bit (16 * i) 0xffff) OR push_bit (16 * i) v)))"
proof -
  have r: "rd \<noteq> 31" using assms(3) by auto
  have hi: "take_bit 9 (if sf then 293 else 37 :: u32) = (if sf then 293 else 37)"
    "take_bit 9 (if sf then 421 else 165 :: u32) = (if sf then 421 else 165)"
    "take_bit 9 (if sf then 485 else 229 :: u32) = (if sf then 485 else 229)"
    by simp_all
  show "a64_move (movewide_instr sf MW_MOVN i v rd) R = Some (R(rd := trunc_width sf (NOT (push_bit (16 * i) v))))"
    unfolding a64_move_def Let_def movewide_instr_fields [OF movewide_hi(1) hi(1) assms] using r by simp
  show "a64_move (movewide_instr sf MW_MOVZ i v rd) R = Some (R(rd := trunc_width sf (push_bit (16 * i) v)))"
    unfolding a64_move_def Let_def movewide_instr_fields [OF movewide_hi(2) hi(2) assms] using r by simp
  show "a64_move (movewide_instr sf MW_MOVK i v rd) R =
       Some (R(rd := trunc_width sf (R rd AND NOT (push_bit (16 * i) 0xffff) OR push_bit (16 * i) v)))"
    unfolding a64_move_def Let_def movewide_instr_fields [OF movewide_hi(3) hi(3) assms] using r by simp
qed

section \<open>The sequence for an immediate\<close>

fun movewide_list :: "bool \<Rightarrow> u32 \<Rightarrow> u64 \<Rightarrow> u64 \<Rightarrow> nat list \<Rightarrow> u32 \<Rightarrow> bool \<Rightarrow> u32 list \<times> u32" where
  "movewide_list sf rd im skip [] op invert = ([], op)"
| "movewide_list sf rd im skip (i # is) op invert =
     (if imm_block im i \<noteq> skip
      then let r = movewide_list sf rd im skip is MW_MOVK False
           in (movewide_instr sf op i (if invert then NOT (imm_block im i) AND 0xffff else imm_block im i) rd # fst r, snd r)
      else movewide_list sf rd im skip is op invert)"

primrec emit_instructions :: "u32 list \<Rightarrow> unit jit" where
  "emit_instructions [] = jit_return ()"
| "emit_instructions (i # is) = do { emit_instruction i; emit_instructions is }"

lemma movewide_loop_eq:
  "jit_exec (movewide_loop sf rd im skip is op invert) st =
     jit_exec (emit_instructions (fst (movewide_list sf rd im skip is op invert))) st"
  "jit_value (movewide_loop sf rd im skip is op invert) st = snd (movewide_list sf rd im skip is op invert)"
  by (induction sf rd im skip "is" op invert arbitrary: st rule: movewide_list.induct)
    (simp_all add: Let_def movewide_instr_def)

lemma emit_instructions_append:
  "jit_exec (emit_instructions (xs @ ys)) st = jit_exec (emit_instructions ys) (jit_exec (emit_instructions xs) st)"
  by (induction xs arbitrary: st) simp_all

definition movewide_insts :: "bool \<Rightarrow> u32 \<Rightarrow> u64 \<Rightarrow> u32 list" where
  "movewide_insts sf rd im =
     (let invert = movewide_invert sf im;
          r = movewide_list sf rd im (if invert then 0xffff else 0) [0..<blocks_of sf]
            (if invert then MW_MOVN else MW_MOVZ) invert
      in fst r @ (if snd r \<noteq> MW_MOVK then [movewide_instr sf (snd r) 0 0 rd] else []))"

lemma movewide_instr_0: "movewide_instr sf op 0 0 rd = sz_bit sf OR op OR rd"
  unfolding movewide_instr_def by (rule bit_word_eqI) (auto simp: bit_simps)

lemma emit_movewide_insts:
  "jit_exec (emit_movewide_immediate sf rd im) st = jit_exec (emit_instructions (movewide_insts sf rd im)) st"
  unfolding emit_movewide_immediate_def movewide_insts_def Let_def
  by (simp add: movewide_loop_eq emit_instructions_append movewide_instr_0 jit_when_def)

lemma not_not_block: "is_block b \<Longrightarrow> NOT (NOT b AND 0xffff) AND 0xffff = b"
proof (rule bit_word_eqI)
  fix n
  assume "is_block b" "n < LENGTH(64)"
  moreover have "bit (0xffff :: u64) n \<longleftrightarrow> n < 16" by (auto simp: mask_16)
  ultimately show "bit (NOT (NOT b AND 0xffff) AND 0xffff) n \<longleftrightarrow> bit b n"
    using is_block_bit [of b n] unfolding bit_and_iff bit_not_iff by auto
qed

lemma is_block_0 [simp]: "is_block 0" by (simp add: is_block_def)

lemma blocks_of_less: "i < blocks_of sf \<Longrightarrow> i < 4" by (simp split: if_splits)

text \<open>The blocks the sequence writes; after the first instruction the others keep their value.\<close>

definition written :: "u64 \<Rightarrow> u64 \<Rightarrow> nat list \<Rightarrow> nat set" where
  "written im skip is = {j \<in> set is. imm_block im j \<noteq> skip}"

lemma written_simps [simp]:
  "written im skip [] = {}"
  "written im skip (i # is) = (if imm_block im i = skip then written im skip is else insert i (written im skip is))"
  by (auto simp: written_def)

lemma movk_tail:
  assumes "set is \<subseteq> {..<blocks_of sf}" "rd < 31" "\<And>j. blocks_of sf \<le> j \<Longrightarrow> j < 4 \<Longrightarrow> imm_block (R rd) j = 0"
  shows "\<exists>x. a64_moves (fst (movewide_list sf rd im skip is MW_MOVK False)) R = Some (R(rd := x)) \<and>
    (\<forall>j<4. imm_block x j = (if j \<in> written im skip is then imm_block im j else imm_block (R rd) j)) \<and>
    snd (movewide_list sf rd im skip is MW_MOVK False) = MW_MOVK"
  using assms
proof (induction "is" arbitrary: R)
  case Nil
  show ?case by (rule exI [of _ "R rd"]) simp
next
  case (Cons i "is")
  have sub: "set is \<subseteq> {..<blocks_of sf}" and i: "i < blocks_of sf" "i < 4"
    using Cons.prems(1) by (auto split: if_splits)
  show ?case
  proof (cases "imm_block im i = skip")
    case True
    with Cons.IH [of R, OF sub assms(2) Cons.prems(3)] show ?thesis by simp
  next
    case False
    define y where "y = trunc_width sf (R rd AND NOT (push_bit (16 * i) 0xffff) OR push_bit (16 * i) (imm_block im i))"
    have y: "imm_block y j = (if i = j then imm_block im i else imm_block (R rd) j)" if "j < 4" for j
      unfolding y_def imm_block_trunc [OF that] imm_block_movk [OF is_block_imm(1) that]
      using that i Cons.prems(3) [of j] by (simp add: not_less)
    have "imm_block ((R(rd := y)) rd) j = 0" if "blocks_of sf \<le> j" "j < 4" for j
      using that y i(1) Cons.prems(3) by simp
    from Cons.IH [of "R(rd := y)", OF sub assms(2) this] obtain x where x:
      "a64_moves (fst (movewide_list sf rd im skip is MW_MOVK False)) (R(rd := y)) = Some (R(rd := x))"
      "\<forall>j<4. imm_block x j = (if j \<in> written im skip is then imm_block im j else imm_block y j)"
      "snd (movewide_list sf rd im skip is MW_MOVK False) = MW_MOVK"
      unfolding fun_upd_upd fun_upd_same by blast
    moreover have "a64_move (movewide_instr sf MW_MOVK i (imm_block im i) rd) R = Some (R(rd := y))"
      using a64_move_instr(3) [OF i(2) is_block_imm(1) assms(2)] by (simp add: y_def)
    ultimately show ?thesis using False y by (intro exI [of _ x]) (simp add: Let_def fun_eq_iff)
  qed
qed

text \<open>What the first instruction leaves: the pattern in every block but its own.\<close>

definition first_op :: "bool \<Rightarrow> u32" where "first_op invert = (if invert then MW_MOVN else MW_MOVZ)"
definition pattern :: "bool \<Rightarrow> u64" where "pattern invert = (if invert then 0xffff else 0)"

lemma first_move:
  assumes "i < 4" "is_block b" "rd < 31"
  obtains y where
    "a64_move (movewide_instr sf (first_op invert) i (if invert then NOT b AND 0xffff else b) rd) R = Some (R(rd := y))"
    "\<And>j. j < 4 \<Longrightarrow> imm_block y j = (if i = j \<and> j < blocks_of sf then b else if j < blocks_of sf then pattern invert else 0)"
proof (cases invert)
  case True
  let ?y = "trunc_width sf (NOT (push_bit (16 * i) (NOT b AND 0xffff)))"
  have "imm_block ?y j = (if i = j \<and> j < blocks_of sf then b else if j < blocks_of sf then 0xffff else 0)" if "j < 4" for j
    unfolding imm_block_trunc [OF that] imm_block_movn [OF is_block_imm(2) that] not_not_block [OF assms(2)] by simp
  with True show ?thesis using that [of ?y] a64_move_instr(1) [OF assms(1) is_block_imm(2) [of b] assms(3)]
    by (simp add: first_op_def pattern_def)
next
  case False
  let ?y = "trunc_width sf (push_bit (16 * i) b)"
  have "imm_block ?y j = (if i = j \<and> j < blocks_of sf then b else if j < blocks_of sf then 0 else 0)" if "j < 4" for j
    unfolding imm_block_trunc [OF that] imm_block_push [OF assms(2) that] by simp
  with False show ?thesis using that [of ?y] a64_move_instr(2) [OF assms]
    by (simp add: first_op_def pattern_def)
qed

lemma movewide_list_skip:
  "written im skip is = {} \<Longrightarrow> movewide_list sf rd im skip is op invert = ([], op)"
  by (induction "is") (auto split: if_splits)

lemma movewide_list_moves:
  assumes "set is \<subseteq> {..<blocks_of sf}" "rd < 31" "written im (pattern invert) is \<noteq> {}"
  shows "\<exists>x. a64_moves (fst (movewide_list sf rd im (pattern invert) is (first_op invert) invert)) R = Some (R(rd := x)) \<and>
    (\<forall>j<4. imm_block x j = (if j \<in> written im (pattern invert) is then imm_block im j
      else if j < blocks_of sf then pattern invert else 0)) \<and>
    snd (movewide_list sf rd im (pattern invert) is (first_op invert) invert) = MW_MOVK"
  using assms
proof (induction "is")
  case (Cons i "is")
  have sub: "set is \<subseteq> {..<blocks_of sf}" and i: "i < blocks_of sf" "i < 4"
    using Cons.prems(1) by (auto split: if_splits)
  show ?case
  proof (cases "imm_block im i = pattern invert")
    case True
    with Cons.IH [OF sub assms(2)] Cons.prems(3) show ?thesis by simp
  next
    case False
    obtain y where y:
      "a64_move (movewide_instr sf (first_op invert) i (if invert then NOT (imm_block im i) AND 0xffff else imm_block im i) rd) R
         = Some (R(rd := y))"
      "\<And>j. j < 4 \<Longrightarrow> imm_block y j = (if i = j \<and> j < blocks_of sf then imm_block im i
         else if j < blocks_of sf then pattern invert else 0)"
      using first_move [OF i(2) is_block_imm(1) assms(2), of sf invert im i R] by blast
    have "imm_block ((R(rd := y)) rd) j = 0" if "blocks_of sf \<le> j" "j < 4" for j
      using that y(2) by simp
    from movk_tail [where R = "R(rd := y)", OF sub assms(2) this] obtain x where
      "a64_moves (fst (movewide_list sf rd im (pattern invert) is MW_MOVK False)) (R(rd := y)) = Some (R(rd := x))"
      "\<forall>j<4. imm_block x j = (if j \<in> written im (pattern invert) is then imm_block im j else imm_block y j)"
      "snd (movewide_list sf rd im (pattern invert) is MW_MOVK False) = MW_MOVK"
      unfolding fun_upd_upd fun_upd_same by blast
    moreover have "imm_block y i = imm_block im i" using y(2) [OF i(2)] i(1) by simp
    ultimately show ?thesis using False y by (intro exI [of _ x]) (simp add: Let_def fun_eq_iff)
  qed
qed simp

lemma movewide_insts_eq:
  "movewide_insts sf rd im =
     (let invert = movewide_invert sf im;
          r = movewide_list sf rd im (pattern invert) [0..<blocks_of sf] (first_op invert) invert
      in fst r @ (if snd r \<noteq> MW_MOVK then [movewide_instr sf (snd r) 0 0 rd] else []))"
  by (simp only: movewide_insts_def first_op_def pattern_def)

lemma movewide_insts_blocks:
  assumes "rd < 31"
  shows "\<exists>x. a64_moves (movewide_insts sf rd im) R = Some (R(rd := x)) \<and>
    (\<forall>j<4. imm_block x j = (if j < blocks_of sf then imm_block im j else 0))"
proof -
  define invert where "invert = movewide_invert sf im"
  let ?W = "written im (pattern invert) [0..<blocks_of sf]"
  have W: "j \<in> ?W \<longleftrightarrow> j < blocks_of sf \<and> imm_block im j \<noteq> pattern invert" for j by (auto simp: written_def)
  show ?thesis
  proof (cases "?W = {}")
    case False
    have "set [0..<blocks_of sf] \<subseteq> {..<blocks_of sf}" by auto
    from movewide_list_moves [OF this assms False, of R] show ?thesis
      unfolding movewide_insts_eq Let_def invert_def [symmetric] W by (elim exE, rule_tac x = x in exI) auto
  next
    case True
    have block: "is_block (pattern invert)" "(if invert then NOT (pattern invert) AND 0xffff else pattern invert) = 0"
      by (simp_all add: pattern_def is_block_def take_bit_eq_mask mask_eq_exp_minus_1)
    obtain y where y: "a64_move (movewide_instr sf (first_op invert) 0 0 rd) R = Some (R(rd := y))"
      "\<And>j. j < 4 \<Longrightarrow> imm_block y j = (if 0 = j \<and> j < blocks_of sf then pattern invert
         else if j < blocks_of sf then pattern invert else 0)"
      using first_move [OF _ block(1) assms, of 0 sf invert R] unfolding block(2) by (metis zero_less_numeral)
    have "first_op invert \<noteq> MW_MOVK" by (simp add: first_op_def MW_MOVN_def MW_MOVZ_def MW_MOVK_def)
    moreover have "imm_block im j = pattern invert" if "j < blocks_of sf" for j using that True W by blast
    ultimately show ?thesis using y by (intro exI [of _ y])
      (simp add: movewide_insts_eq Let_def movewide_list_skip [OF True] flip: invert_def)
  qed
qed

theorem movewide_insts_moves:
  assumes "rd < 31"
  shows "a64_moves (movewide_insts sf rd im) R = Some (R(rd := trunc_width sf im))"
proof -
  have "x = trunc_width sf im" if "\<forall>j<4. imm_block x j = (if j < blocks_of sf then imm_block im j else 0)" for x
    by (rule imm_block_eqI) (use that in \<open>simp add: imm_block_trunc\<close>)
  then show ?thesis using movewide_insts_blocks [OF assms, of sf im R] by metis
qed

lemma movewide_list_length:
  "length (fst (movewide_list sf rd im skip is op invert)) \<le> length is"
  "snd (movewide_list sf rd im skip is op invert) \<noteq> MW_MOVK \<Longrightarrow> fst (movewide_list sf rd im skip is op invert) = []"
proof -
  show "length (fst (movewide_list sf rd im skip is op invert)) \<le> length is"
    by (induction "is" arbitrary: op invert) (simp_all add: Let_def le_SucI)
  have tail: "snd (movewide_list sf rd im skip js MW_MOVK b) = MW_MOVK" for js b
    by (induction js arbitrary: b) (simp_all add: Let_def)
  show "snd (movewide_list sf rd im skip is op invert) \<noteq> MW_MOVK \<Longrightarrow>
      fst (movewide_list sf rd im skip is op invert) = []"
    by (induction "is") (simp_all add: Let_def tail split: if_splits)
qed

lemma movewide_insts_length: "length (movewide_insts sf rd im) \<le> blocks_of sf"
  using movewide_list_length [of sf rd im _ "[0..<blocks_of sf]"]
  by (auto simp: movewide_insts_eq Let_def)

section \<open>The bytes of the sequence\<close>

definition code_bytes :: "u32 list \<Rightarrow> u8 list" where
  "code_bytes is = concat (map (le_bytes 4) is)"

lemma code_bytes_simps [simp]:
  "code_bytes [] = []" "code_bytes (i # is) = le_bytes 4 i @ code_bytes is"
  "length (code_bytes is) = 4 * length is"
  by (simp_all add: code_bytes_def length_concat comp_def sum_list_triv)

lemma emit_instruction_exec:
  assumes wf: "wf_jit st" and i: "i \<noteq> BAD_OPCODE" and fits: "unat (js_offset st) + 4 \<le> unat (js_size st)"
  shows "jit_exec (emit_instruction i) st = put_bytes (le_bytes 4 i) st"
proof -
  have room: "4 \<le> js_size st" "js_offset st \<le> js_size st - 4"
    using fits by (simp_all add: word_le_nat_alt unat_sub)
  have "\<not> js_size st < js_offset st + 4" using fits_iff [OF wf, of 4] fits by simp
  moreover have "buf_write (js_buf st) (unat (js_offset st)) (le_bytes 4 i) =
      Some (take (unat (js_offset st)) (js_buf st) @ le_bytes 4 i @ drop (unat (js_offset st) + 4) (js_buf st))"
    using wf fits by (simp add: buf_write_eq wf_jit_def)
  ultimately show ?thesis using i room
    by (simp add: emit_instruction_def emit_bytes_a64_def jit_assert_def Let_def put_bytes_def)
qed

lemma emit_instructions_exec:
  assumes "wf_jit st" "BAD_OPCODE \<notin> set is" "unat (js_offset st) + 4 * length is \<le> unat (js_size st)"
  shows "jit_exec (emit_instructions is) st = put_bytes (code_bytes is) st"
  using assms
proof (induction "is" arbitrary: st)
  case Nil
  then show ?case by (simp add: put_bytes_def)
next
  case (Cons i "is")
  have fits: "unat (js_offset st) + 4 \<le> unat (js_size st)"
    "unat (js_offset st) + length (le_bytes 4 i) + length (code_bytes is) \<le> unat (js_size st)"
    using Cons.prems(3) by simp_all
  let ?st = "put_bytes (le_bytes 4 i) st"
  have "wf_jit ?st" "unat (js_offset ?st) = unat (js_offset st) + 4"
    using put_bytes_grows(1,4) [OF Cons.prems(1), of "le_bytes 4 i"] fits by simp_all
  then have "jit_exec (emit_instructions is) ?st = put_bytes (code_bytes is) ?st"
    using Cons.prems by (intro Cons.IH) simp_all
  then show ?case
    using Cons.prems emit_instruction_exec [OF Cons.prems(1) _ fits(1), of i] put_bytes_append [OF Cons.prems(1) fits(2)]
    by auto
qed

lemma moves_not_bad:
  assumes "a64_moves is R = Some R'"
  shows "BAD_OPCODE \<notin> set is"
proof -
  have "a64_move BAD_OPCODE R = None" for R
  proof -
    have "take_bit 5 (NOT 0 :: u32) = 31" by (simp add: take_bit_minus_one_eq_mask mask_eq_exp_minus_1)
    then show ?thesis by (simp add: a64_move_def BAD_OPCODE_def Let_def)
  qed
  with assms show ?thesis by (induction "is" arbitrary: R) (auto split: option.splits)
qed

lemma emit_movewide_exec:
  assumes "wf_jit st" "rd < 31" "unat (js_offset st) + 4 * blocks_of sf \<le> unat (js_size st)"
  shows "jit_exec (emit_movewide_immediate sf rd im) st = put_bytes (code_bytes (movewide_insts sf rd im)) st"
  unfolding emit_movewide_insts
  using assms movewide_insts_length [of sf rd im] moves_not_bad [OF movewide_insts_moves [OF assms(2)]]
  by (intro emit_instructions_exec) (auto split: if_splits)

section \<open>Negation\<close>

text \<open>The operand of the subtraction is the source register, which a negation does not use.\<close>

lemma translate_neg_a64:
  "opc = EBPF_OP_NEG \<or> opc = EBPF_OP_NEG64 \<Longrightarrow>
     translate_alu_a64 opc sixty_four d s im = Some (emit_addsub_register sixty_four AS_SUB d A_RZ s)"
  by (elim disjE) (simp_all add: translate_alu_a64_def addsub_imm_opcodes_def addsub_reg_opcodes_def opcode_defs)

end
