(* ===== verification/Jit_A64_Machine.thy ===== *)
theory Jit_A64_Machine
  imports Jit_A64_Encode
begin

text \<open>
  The meaning of the data processing instructions of AArch64 that the JIT emits, read off their bit
  fields after the tables of the architecture manual (words of other kinds have none), and what the
  code of each emitter computes.
\<close>

section \<open>The data processing instructions\<close>

text \<open>Register 31 reads as zero. A 32-bit operation writes the low half and clears the high half.\<close>

definition a64_reg :: "(u32 \<Rightarrow> u64) \<Rightarrow> u32 \<Rightarrow> u64" where
  "a64_reg R n = (if n = 31 then 0 else R n)"

definition a64_divide :: "bool \<Rightarrow> u64 \<Rightarrow> u64 \<Rightarrow> u64" where
  "a64_divide sf x y =
     (if trunc_width sf y = 0 then 0 else trunc_width sf x div trunc_width sf y)"

definition a64_shift_right :: "bool \<Rightarrow> nat \<Rightarrow> u64 \<Rightarrow> u64" where
  "a64_shift_right sf n x = (if sf then signed_drop_bit n x else ucast (signed_drop_bit n (ucast x :: u32)))"

text \<open>The bytes of each halfword, and of the low word, in reverse order.\<close>

definition a64_rev16 :: "u64 \<Rightarrow> u64" where
  "a64_rev16 x = (let bs = le_bytes 4 x in le_word [bs ! 1, bs ! 0, bs ! 3, bs ! 2])"

text \<open>
  \<open>hi\<close> are the bits 21 to 30, \<open>mid\<close> the bits 10 to 15: with two source registers the shift amount or the
  operation, with three the third register and the choice between adding and subtracting.
\<close>

definition a64_two :: "bool \<Rightarrow> u32 \<Rightarrow> u32 \<Rightarrow> u64 \<Rightarrow> u64 \<Rightarrow> u64 \<Rightarrow> u64 option" where
  "a64_two sf hi mid x y z =
     (let n = unat y mod (if sf then 64 else 32)
      in if hi = 88 \<and> mid = 0 then Some (x + y)
         else if hi = 600 \<and> mid = 0 then Some (x - y)
         else if hi = 80 \<and> mid = 0 then Some (x AND y)
         else if hi = 336 \<and> mid = 0 then Some (x OR y)
         else if hi = 592 \<and> mid = 0 then Some (x XOR y)
         else if hi = 214 \<and> mid = 2 then Some (a64_divide sf x y)
         else if hi = 214 \<and> mid = 8 then Some (push_bit n x)
         else if hi = 214 \<and> mid = 9 then Some (drop_bit n (trunc_width sf x))
         else if hi = 214 \<and> mid = 10 then Some (a64_shift_right sf n x)
         else if hi = 216 \<and> mid < 32 then Some (z + x * y)
         else if hi = 216 then Some (z - x * y)
         else None)"

definition a64_one :: "bool \<Rightarrow> u32 \<Rightarrow> u32 \<Rightarrow> u64 \<Rightarrow> u64 option" where
  "a64_one sf hi mid x =
     (if \<not> sf \<and> hi = 726 \<and> mid = 1 then Some (a64_rev16 x)
      else if \<not> sf \<and> hi = 726 \<and> mid = 2 then Some (le_word (rev (le_bytes 4 x)))
      else if sf \<and> hi = 726 \<and> mid = 3 then Some (le_word (rev (le_bytes 8 x)))
      else if \<not> sf \<and> hi = 664 \<and> mid = 15 then Some (take_bit 16 x)
      else if \<not> sf \<and> hi = 664 \<and> mid = 31 then Some (take_bit 32 x)
      else None)"

definition a64_alu :: "u32 \<Rightarrow> (u32 \<Rightarrow> u64) \<Rightarrow> (u32 \<Rightarrow> u64) option" where
  "a64_alu instr R =
     (let sf = bit instr 31; rd = take_bit 5 instr; rn = take_bit 5 (drop_bit 5 instr);
          rm = take_bit 5 (drop_bit 16 instr); mid = take_bit 6 (drop_bit 10 instr);
          hi = take_bit 10 (drop_bit 21 instr); imm12 = ucast (take_bit 12 (drop_bit 10 instr));
          x = a64_reg R rn; y = a64_reg R rm; z = a64_reg R (take_bit 5 mid);
          result = (if drop_bit 1 hi = 68 then if rn = 31 then None else Some (x + imm12)
            else if drop_bit 1 hi = 324 then if rn = 31 then None else Some (x - imm12)
            else if hi = 726 \<or> hi = 664 then if rm = 0 then a64_one sf hi mid x else None
            else a64_two sf hi mid x y z)
      in if rd = 31 then None else map_option (\<lambda>v. R(rd := trunc_width sf v)) result)"

definition a64_step :: "u32 \<Rightarrow> (u32 \<Rightarrow> u64) \<Rightarrow> (u32 \<Rightarrow> u64) option" where
  "a64_step instr R =
     (if take_bit 8 (drop_bit 23 instr) \<in> {37, 165, 229} then a64_move instr R else a64_alu instr R)"

fun a64_run :: "u32 list \<Rightarrow> (u32 \<Rightarrow> u64) \<Rightarrow> (u32 \<Rightarrow> u64) option" where
  "a64_run [] R = Some R"
| "a64_run (i # is) R = (case a64_step i R of None \<Rightarrow> None | Some R' \<Rightarrow> a64_run is R')"

lemma a64_run_append:
  "a64_run (is @ js) R = (case a64_run is R of None \<Rightarrow> None | Some R' \<Rightarrow> a64_run js R')"
  by (induction "is" arbitrary: R) (simp_all split: option.split)

lemma a64_moves_run: "a64_moves is R = Some R' \<Longrightarrow> a64_run is R = Some R'"
proof (induction "is" arbitrary: R)
  case (Cons i "is")
  then obtain R1 where 1: "a64_move i R = Some R1" "a64_moves is R1 = Some R'" by (auto split: option.splits)
  then have "a64_step i R = Some R1"
    by (auto simp: a64_step_def a64_move_def Let_def split: if_splits)
  with Cons.IH [OF 1(2)] show ?case by simp
qed simp

section \<open>Fields of a word\<close>

definition a64_word :: "bool \<Rightarrow> u32 \<Rightarrow> u32 \<Rightarrow> u32 \<Rightarrow> u32 \<Rightarrow> u32 \<Rightarrow> u32" where
  "a64_word sf hi rm mid rn rd =
     sz_bit sf OR push_bit 21 hi OR push_bit 16 rm OR push_bit 10 mid OR push_bit 5 rn OR rd"

lemma a64_word_fields:
  fixes sf :: bool
  assumes "take_bit 10 hi = hi" "take_bit 5 rm = rm" "take_bit 6 mid = mid" "take_bit 5 rn = rn" "take_bit 5 rd = rd"
  defines "w \<equiv> a64_word sf hi rm mid rn rd"
  shows "bit w 31 = sf" "take_bit 5 w = rd" "take_bit 5 (drop_bit 5 w) = rn" "take_bit 5 (drop_bit 16 w) = rm"
    "take_bit 6 (drop_bit 10 w) = mid" "take_bit 10 (drop_bit 21 w) = hi" "take_bit 8 (drop_bit 23 w) = drop_bit 2 hi"
proof -
  have b: "bit hi n \<Longrightarrow> n < 10" "bit rm n \<Longrightarrow> n < 5" "bit mid n \<Longrightarrow> n < 6" "bit rn n \<Longrightarrow> n < 5" "bit rd n \<Longrightarrow> n < 5" for n
    using assms(1-5) by (metis bit_take_bit_iff)+
  have s: "bit (sz_bit sf) n \<longleftrightarrow> sf \<and> n = 31" for n
    by (auto simp: sz_bit_def bit_simps)
  note w = w_def a64_word_def bit_simps s
  show "bit w 31 = sf" by (auto simp: w dest: b)
  show "take_bit 5 w = rd" by (rule bit_word_eqI) (auto simp: w dest: b)
  show "take_bit 5 (drop_bit 5 w) = rn" by (rule bit_word_eqI) (auto simp: w dest: b)
  show "take_bit 5 (drop_bit 16 w) = rm" by (rule bit_word_eqI) (auto simp: w dest: b)
  show "take_bit 6 (drop_bit 10 w) = mid" by (rule bit_word_eqI) (auto simp: w dest: b)
  show "take_bit 10 (drop_bit 21 w) = hi" by (rule bit_word_eqI) (auto simp: w dest: b)
  show "take_bit 8 (drop_bit 23 w) = drop_bit 2 hi" by (rule bit_word_eqI) (auto simp: w dest: b)
qed

text \<open>With an immediate of 12 bits; \<open>hi\<close> are the bits 22 to 30.\<close>

definition a64_imm_word :: "bool \<Rightarrow> u32 \<Rightarrow> u32 \<Rightarrow> u32 \<Rightarrow> u32 \<Rightarrow> u32" where
  "a64_imm_word sf hi im rn rd = sz_bit sf OR push_bit 22 hi OR push_bit 10 im OR push_bit 5 rn OR rd"

lemma a64_imm_word_fields:
  fixes sf :: bool
  assumes "take_bit 9 hi = hi" "take_bit 12 im = im" "take_bit 5 rn = rn" "take_bit 5 rd = rd"
  defines "w \<equiv> a64_imm_word sf hi im rn rd"
  shows "bit w 31 = sf" "take_bit 5 w = rd" "take_bit 5 (drop_bit 5 w) = rn" "take_bit 12 (drop_bit 10 w) = im"
    "drop_bit 1 (take_bit 10 (drop_bit 21 w)) = hi" "take_bit 8 (drop_bit 23 w) = drop_bit 1 hi"
proof -
  have b: "bit hi n \<Longrightarrow> n < 9" "bit im n \<Longrightarrow> n < 12" "bit rn n \<Longrightarrow> n < 5" "bit rd n \<Longrightarrow> n < 5" for n
    using assms(1-4) by (metis bit_take_bit_iff)+
  have s: "bit (sz_bit sf) n \<longleftrightarrow> sf \<and> n = 31" for n
    by (auto simp: sz_bit_def bit_simps)
  note w = w_def a64_imm_word_def bit_simps s
  show "bit w 31 = sf" by (auto simp: w dest: b)
  show "take_bit 5 w = rd" by (rule bit_word_eqI) (auto simp: w dest: b)
  show "take_bit 5 (drop_bit 5 w) = rn" by (rule bit_word_eqI) (auto simp: w dest: b)
  show "take_bit 12 (drop_bit 10 w) = im" by (rule bit_word_eqI) (auto simp: w dest: b)
  show "drop_bit 1 (take_bit 10 (drop_bit 21 w)) = hi" by (rule bit_word_eqI) (auto simp: w dest: b)
  show "take_bit 8 (drop_bit 23 w) = drop_bit 1 hi" by (rule bit_word_eqI) (auto simp: w dest: b)
qed

lemma register_31: "r \<le> 31 \<Longrightarrow> take_bit 5 r = r" for r :: u32
  by (rule take_bit_word_self) (simp add: word_le_nat_alt)

text \<open>The words the emitters build, by the kind of instruction.\<close>

lemma step_two:
  assumes "hi \<in> {88, 600, 80, 336, 592, 214, 216}" "take_bit 6 mid = mid" "rd < 31" "rn \<le> 31" "rm \<le> 31"
    and "a64_two sf hi mid (a64_reg R rn) (a64_reg R rm) (a64_reg R (take_bit 5 mid)) = Some v"
  shows "a64_step (a64_word sf hi rm mid rn rd) R = Some (R(rd := trunc_width sf v))"
proof -
  have hi: "take_bit 10 hi = hi" "drop_bit 2 hi \<notin> {37, 165, 229}" "drop_bit 1 hi \<noteq> 68" "drop_bit 1 hi \<noteq> 324"
    "hi \<noteq> 726" "hi \<noteq> 664"
    using assms(1) by auto
  have rd: "rd \<noteq> 31" using assms(3) by auto
  note f = a64_word_fields [OF hi(1) register_31 [OF assms(5)] assms(2) register_31 [OF assms(4)]
    small_register [OF assms(3)], of sf]
  show ?thesis using hi rd assms(6) by (simp add: a64_step_def a64_alu_def f Let_def)
qed

lemma step_one:
  assumes "hi = 726 \<or> hi = 664" "take_bit 6 mid = mid" "rd < 31" "rn < 31" "a64_one sf hi mid (R rn) = Some v"
  shows "a64_step (a64_word sf hi 0 mid rn rd) R = Some (R(rd := trunc_width sf v))"
proof -
  have hi: "take_bit 10 hi = hi" "drop_bit 2 hi \<notin> {37, 165, 229}" "drop_bit 1 hi \<noteq> 68" "drop_bit 1 hi \<noteq> 324"
    using assms(1) by auto
  have r: "rd \<noteq> 31" "rn \<noteq> 31" "take_bit 5 (0 :: u32) = 0" using assms(3,4) by auto
  note f = a64_word_fields [OF hi(1) r(3) assms(2) small_register [OF assms(4)] small_register [OF assms(3)], of sf]
  show ?thesis using hi r assms(1,5) by (simp add: a64_step_def a64_alu_def f Let_def a64_reg_def)
qed

lemma step_imm:
  assumes "hi = 68 \<or> hi = 324" "im < 0x1000" "rd < 31" "rn < 31"
  shows "a64_step (a64_imm_word sf hi im rn rd) R =
    Some (R(rd := trunc_width sf (if hi = 68 then R rn + ucast im else R rn - ucast im)))"
proof -
  have hi: "take_bit 9 hi = hi" "drop_bit 1 hi \<notin> {37, 165, 229}" using assms(1) by auto
  have r: "rd \<noteq> 31" "rn \<noteq> 31" using assms(3,4) by auto
  have im: "take_bit 12 im = im" using assms(2) by (intro take_bit_word_self) (simp add: word_less_nat_alt)
  note f = a64_imm_word_fields [OF hi(1) im small_register [OF assms(4)] small_register [OF assms(3)], of sf]
  show ?thesis unfolding a64_step_def a64_alu_def Let_def f a64_reg_def using hi(2) r assms(1) by auto
qed

section \<open>Code and what it computes\<close>

definition assembles :: "u32 list \<Rightarrow> 'a jit \<Rightarrow> bool" where
  "assembles is m \<longleftrightarrow> (\<forall>st. wf_jit st \<longrightarrow> unat (js_offset st) + 4 * length is \<le> unat (js_size st) \<longrightarrow>
     jit_exec m st = put_bytes (code_bytes is) st)"

text \<open>The code emitted by \<open>m\<close> has at most \<open>n\<close> instructions, which change the registers as \<open>f\<close> says.\<close>

definition computes :: "'a jit \<Rightarrow> ((u32 \<Rightarrow> u64) \<Rightarrow> (u32 \<Rightarrow> u64)) \<Rightarrow> nat \<Rightarrow> bool" where
  "computes m f n \<longleftrightarrow> (\<exists>is. length is \<le> n \<and> assembles is m \<and> (\<forall>R. a64_run is R = Some (f R)))"

lemma code_bytes_append [simp]: "code_bytes (is @ js) = code_bytes is @ code_bytes js"
  by (simp add: code_bytes_def)

lemma assembles_bind:
  assumes "assembles is m" "assembles js m'"
  shows "assembles (is @ js) (State_Monad.bind m (\<lambda>_. m'))"
  unfolding assembles_def
proof (intro allI impI)
  fix st
  assume st: "wf_jit st" "unat (js_offset st) + 4 * length (is @ js) \<le> unat (js_size st)"
  let ?st = "put_bytes (code_bytes is) st"
  have 1: "jit_exec m st = ?st" using assms(1) st by (simp add: assembles_def)
  have "wf_jit ?st" "unat (js_offset ?st) = unat (js_offset st) + 4 * length is"
    using put_bytes_grows(1,4) [OF st(1), of "code_bytes is"] st(2) by simp_all
  then have "jit_exec m' ?st = put_bytes (code_bytes js) ?st" using assms(2) st(2) by (simp add: assembles_def)
  with 1 put_bytes_append [OF st(1), of "code_bytes is" "code_bytes js"] st(2)
  show "jit_exec (State_Monad.bind m (\<lambda>_. m')) st = put_bytes (code_bytes (is @ js)) st" by simp
qed

lemma computes_bind:
  assumes "computes m f a" "computes m' g b"
  shows "computes (State_Monad.bind m (\<lambda>_. m')) (\<lambda>R. g (f R)) (a + b)"
proof -
  obtain "is" js where "length is \<le> a" "assembles is m" "\<forall>R. a64_run is R = Some (f R)"
    "length js \<le> b" "assembles js m'" "\<forall>R. a64_run js R = Some (g R)"
    using assms by (auto simp: computes_def)
  then show ?thesis
    unfolding computes_def by (intro exI [of _ "is @ js"]) (simp add: assembles_bind a64_run_append)
qed

lemma computes_return: "computes (jit_return x) (\<lambda>R. R) 0"
  unfolding computes_def by (intro exI [of _ "[]"]) (simp add: assembles_def put_bytes_def)

lemma computes_mono: "computes m f a \<Longrightarrow> a \<le> b \<Longrightarrow> computes m f b"
  unfolding computes_def by (meson order_trans)

lemma step_not_bad: "a64_step i R = Some R' \<Longrightarrow> i \<noteq> BAD_OPCODE"
proof
  assume "a64_step i R = Some R'" "i = BAD_OPCODE"
  moreover have "take_bit 5 BAD_OPCODE = 31" "take_bit 8 (drop_bit 23 BAD_OPCODE) = 255"
    by (simp_all add: BAD_OPCODE_def take_bit_minus_one_eq_mask mask_eq_exp_minus_1)
  ultimately show False by (simp add: a64_step_def a64_alu_def Let_def)
qed

lemma computes_instruction:
  assumes "\<And>R. a64_step i R = Some (f R)"
  shows "computes (emit_instruction i) f 1"
proof -
  have "assembles [i] (emit_instruction i)"
    using step_not_bad [OF assms] emit_instruction_exec [of _ i] by (simp add: assembles_def)
  then show ?thesis unfolding computes_def using assms by (intro exI [of _ "[i]"]) simp
qed

lemma computes_movewide:
  assumes "rd < 31"
  shows "computes (emit_movewide_immediate sf rd im) (\<lambda>R. R(rd := trunc_width sf im)) 4"
proof -
  have "assembles (movewide_insts sf rd im) (emit_movewide_immediate sf rd im)"
    using emit_instructions_exec moves_not_bad [OF movewide_insts_moves [OF assms]]
    by (auto simp: assembles_def emit_movewide_insts)
  then show ?thesis
    unfolding computes_def using movewide_insts_length [of sf rd im] a64_moves_run [OF movewide_insts_moves [OF assms]]
    by (intro exI [of _ "movewide_insts sf rd im"]) (simp split: if_splits)
qed

section \<open>The emitters\<close>

text \<open>The constant parts of a word together.\<close>

lemma or_numerals:
  "numeral a OR (numeral b OR x) = (numeral a OR numeral b) OR x"
  "push_bit n r OR (numeral b OR x) = numeral b OR (push_bit n r OR x)" for x r :: u32
  by (simp_all add: ac_simps)

lemma computes_two:
  assumes "hi \<in> {88, 600, 80, 336, 592, 214, 216}" "take_bit 6 mid = mid" "rd < 31" "rn \<le> 31" "rm \<le> 31"
    and "\<And>R. a64_two sf hi mid (a64_reg R rn) (a64_reg R rm) (a64_reg R (take_bit 5 mid)) = Some (v R)"
  shows "computes (emit_instruction (a64_word sf hi rm mid rn rd)) (\<lambda>R. R(rd := trunc_width sf (v R))) 1"
  by (rule computes_instruction) (rule step_two [OF assms])

lemma computes_addsub_register:
  assumes "rd < 31" "rn \<le> 31" "rm \<le> 31"
  shows "computes (emit_addsub_register sf AS_ADD rd rn rm) (\<lambda>R. R(rd := trunc_width sf (a64_reg R rn + a64_reg R rm))) 1"
    "computes (emit_addsub_register sf AS_SUB rd rn rm) (\<lambda>R. R(rd := trunc_width sf (a64_reg R rn - a64_reg R rm))) 1"
proof -
  have w: "sz_bit sf OR push_bit 29 AS_ADD OR 0x0b000000 OR push_bit 16 rm OR push_bit 5 rn OR rd = a64_word sf 88 rm 0 rn rd"
    "sz_bit sf OR push_bit 29 AS_SUB OR 0x0b000000 OR push_bit 16 rm OR push_bit 5 rn OR rd = a64_word sf 600 rm 0 rn rd"
    by (simp_all add: a64_word_def AS_ADD_def AS_SUB_def or_numerals)
  show "computes (emit_addsub_register sf AS_ADD rd rn rm) (\<lambda>R. R(rd := trunc_width sf (a64_reg R rn + a64_reg R rm))) 1"
    "computes (emit_addsub_register sf AS_SUB rd rn rm) (\<lambda>R. R(rd := trunc_width sf (a64_reg R rn - a64_reg R rm))) 1"
    unfolding emit_addsub_register_def w by (rule computes_two; simp add: a64_two_def assms)+
qed

lemma computes_logical_register:
  assumes "rd < 31" "rn \<le> 31" "rm \<le> 31"
  shows "computes (emit_logical_register sf LOG_AND rd rn rm) (\<lambda>R. R(rd := trunc_width sf (a64_reg R rn AND a64_reg R rm))) 1"
    "computes (emit_logical_register sf LOG_ORR rd rn rm) (\<lambda>R. R(rd := trunc_width sf (a64_reg R rn OR a64_reg R rm))) 1"
    "computes (emit_logical_register sf LOG_EOR rd rn rm) (\<lambda>R. R(rd := trunc_width sf (a64_reg R rn XOR a64_reg R rm))) 1"
proof -
  have w: "sz_bit sf OR LOG_AND OR push_bit 27 1 OR push_bit 25 1 OR push_bit 16 rm OR push_bit 5 rn OR rd = a64_word sf 80 rm 0 rn rd"
    "sz_bit sf OR LOG_ORR OR push_bit 27 1 OR push_bit 25 1 OR push_bit 16 rm OR push_bit 5 rn OR rd = a64_word sf 336 rm 0 rn rd"
    "sz_bit sf OR LOG_EOR OR push_bit 27 1 OR push_bit 25 1 OR push_bit 16 rm OR push_bit 5 rn OR rd = a64_word sf 592 rm 0 rn rd"
    by (simp_all add: a64_word_def LOG_AND_def LOG_ORR_def LOG_EOR_def or_numerals)
  show "computes (emit_logical_register sf LOG_AND rd rn rm) (\<lambda>R. R(rd := trunc_width sf (a64_reg R rn AND a64_reg R rm))) 1"
    "computes (emit_logical_register sf LOG_ORR rd rn rm) (\<lambda>R. R(rd := trunc_width sf (a64_reg R rn OR a64_reg R rm))) 1"
    "computes (emit_logical_register sf LOG_EOR rd rn rm) (\<lambda>R. R(rd := trunc_width sf (a64_reg R rn XOR a64_reg R rm))) 1"
    unfolding emit_logical_register_def w by (rule computes_two; simp add: a64_two_def assms)+
qed

definition shift_amount :: "bool \<Rightarrow> u64 \<Rightarrow> nat" where
  "shift_amount sf y = unat y mod (if sf then 64 else 32)"

lemma computes_twosource:
  assumes "rd < 31" "rn < 31" "rm < 31"
  shows "computes (emit_dataprocessing_twosource sf DP2_UDIV rd rn rm)
      (\<lambda>R. R(rd := trunc_width sf (a64_divide sf (R rn) (R rm)))) 1"
    "computes (emit_dataprocessing_twosource sf DP2_LSLV rd rn rm)
      (\<lambda>R. R(rd := trunc_width sf (push_bit (shift_amount sf (R rm)) (R rn)))) 1"
    "computes (emit_dataprocessing_twosource sf DP2_LSRV rd rn rm)
      (\<lambda>R. R(rd := trunc_width sf (drop_bit (shift_amount sf (R rm)) (trunc_width sf (R rn))))) 1"
    "computes (emit_dataprocessing_twosource sf DP2_ASRV rd rn rm)
      (\<lambda>R. R(rd := trunc_width sf (a64_shift_right sf (shift_amount sf (R rm)) (R rn)))) 1"
proof -
  have w: "sz_bit sf OR DP2_UDIV OR push_bit 16 rm OR push_bit 5 rn OR rd = a64_word sf 214 rm 2 rn rd"
    "sz_bit sf OR DP2_LSLV OR push_bit 16 rm OR push_bit 5 rn OR rd = a64_word sf 214 rm 8 rn rd"
    "sz_bit sf OR DP2_LSRV OR push_bit 16 rm OR push_bit 5 rn OR rd = a64_word sf 214 rm 9 rn rd"
    "sz_bit sf OR DP2_ASRV OR push_bit 16 rm OR push_bit 5 rn OR rd = a64_word sf 214 rm 10 rn rd"
    by (simp_all add: a64_word_def DP2_UDIV_def DP2_LSLV_def DP2_LSRV_def DP2_ASRV_def or_numerals)
  have r: "a64_reg R rn = R rn" "a64_reg R rm = R rm" "rn \<le> 31" "rm \<le> 31" for R
    using assms by (auto simp: a64_reg_def)
  show "computes (emit_dataprocessing_twosource sf DP2_UDIV rd rn rm)
      (\<lambda>R. R(rd := trunc_width sf (a64_divide sf (R rn) (R rm)))) 1"
    "computes (emit_dataprocessing_twosource sf DP2_LSLV rd rn rm)
      (\<lambda>R. R(rd := trunc_width sf (push_bit (shift_amount sf (R rm)) (R rn)))) 1"
    "computes (emit_dataprocessing_twosource sf DP2_LSRV rd rn rm)
      (\<lambda>R. R(rd := trunc_width sf (drop_bit (shift_amount sf (R rm)) (trunc_width sf (R rn))))) 1"
    "computes (emit_dataprocessing_twosource sf DP2_ASRV rd rn rm)
      (\<lambda>R. R(rd := trunc_width sf (a64_shift_right sf (shift_amount sf (R rm)) (R rn)))) 1"
    unfolding emit_dataprocessing_twosource_def w
    by (rule computes_two; simp add: a64_two_def shift_amount_def Let_def assms r)+
qed

lemma with_bit_5:
  fixes ra :: u32
  assumes "ra \<le> 31"
  shows "take_bit 6 ra = ra" "take_bit 6 (32 OR ra) = 32 OR ra" "take_bit 5 (32 OR ra) = ra" "\<not> 32 OR ra < 32"
proof -
  have e: "32 = (push_bit 5 1 :: u32)" by simp
  have b32: "bit (32 :: u32) n \<longleftrightarrow> n = 5" for n unfolding e bit_push_bit_iff bit_1_iff by auto
  have b: "bit ra n \<Longrightarrow> n < 5" for n using register_31 [OF assms] by (metis bit_take_bit_iff)
  show "take_bit 6 ra = ra" using assms by (intro take_bit_word_self) (simp add: word_le_nat_alt)
  show "take_bit 6 (32 OR ra) = 32 OR ra"
    by (rule bit_word_eqI) (use b in \<open>fastforce simp only: bit_take_bit_iff bit_or_iff b32\<close>)
  show "take_bit 5 (32 OR ra) = ra"
    by (rule bit_word_eqI) (use b in \<open>auto simp only: bit_take_bit_iff bit_or_iff b32\<close>)
  have "bit (32 OR ra) 5" unfolding bit_or_iff b32 by simp
  then have "take_bit 5 (32 OR ra) \<noteq> 32 OR ra" by (metis bit_take_bit_iff less_irrefl)
  then show "\<not> 32 OR ra < 32"
    using take_bit_word_self [of "32 OR ra" 5] by (auto simp: word_less_nat_alt)
qed

lemma computes_threesource:
  assumes "rd < 31" "rn < 31" "rm < 31" "ra \<le> 31"
  shows "computes (emit_dataprocessing_threesource sf DP3_MADD rd rn rm ra)
      (\<lambda>R. R(rd := trunc_width sf (a64_reg R ra + R rn * R rm))) 1"
    "computes (emit_dataprocessing_threesource sf DP3_MSUB rd rn rm ra)
      (\<lambda>R. R(rd := trunc_width sf (a64_reg R ra - R rn * R rm))) 1"
proof -
  have bits: "take_bit 5 ra = ra" using assms(4) by (rule register_31)
  have "push_bit 10 (32 OR ra) = 0x8000 OR push_bit 10 ra" by (simp add: push_bit_or)
  then have w: "sz_bit sf OR DP3_MADD OR push_bit 16 rm OR push_bit 10 ra OR push_bit 5 rn OR rd = a64_word sf 216 rm ra rn rd"
    "sz_bit sf OR DP3_MSUB OR push_bit 16 rm OR push_bit 10 ra OR push_bit 5 rn OR rd = a64_word sf 216 rm (32 OR ra) rn rd"
    by (simp_all add: a64_word_def DP3_MADD_def DP3_MSUB_def or_numerals or.assoc)
  note mid = with_bit_5 [OF assms(4)]
  have r: "a64_reg R rn = R rn" "a64_reg R rm = R rm" "rn \<le> 31" "rm \<le> 31" "ra < 32" for R
    using assms by (auto simp: a64_reg_def word_le_nat_alt word_less_nat_alt)
  show "computes (emit_dataprocessing_threesource sf DP3_MADD rd rn rm ra)
      (\<lambda>R. R(rd := trunc_width sf (a64_reg R ra + R rn * R rm))) 1"
    "computes (emit_dataprocessing_threesource sf DP3_MSUB rd rn rm ra)
      (\<lambda>R. R(rd := trunc_width sf (a64_reg R ra - R rn * R rm))) 1"
    unfolding emit_dataprocessing_threesource_def w
    by (rule computes_two; simp add: a64_two_def Let_def assms r bits mid)+
qed

lemma computes_addsub_immediate:
  assumes "rd < 31" "rn < 31" "im < 0x1000"
  shows "computes (emit_addsub_immediate sf AS_ADD rd rn im) (\<lambda>R. R(rd := trunc_width sf (R rn + ucast im))) 1"
    "computes (emit_addsub_immediate sf AS_SUB rd rn im) (\<lambda>R. R(rd := trunc_width sf (R rn - ucast im))) 1"
proof -
  have w: "sz_bit sf OR push_bit 29 AS_ADD OR 0x11000000 OR push_bit 10 im OR push_bit 5 rn OR rd = a64_imm_word sf 68 im rn rd"
    "sz_bit sf OR push_bit 29 AS_SUB OR 0x11000000 OR push_bit 10 im OR push_bit 5 rn OR rd = a64_imm_word sf 324 im rn rd"
    by (simp_all add: a64_imm_word_def AS_ADD_def AS_SUB_def or_numerals)
  have a: "jit_assert (im < 0x1000) = jit_return ()" using assms(3) by (simp add: jit_assert_def)
  have "computes (emit_instruction (a64_imm_word sf 68 im rn rd)) (\<lambda>R. R(rd := trunc_width sf (R rn + ucast im))) 1"
    "computes (emit_instruction (a64_imm_word sf 324 im rn rd)) (\<lambda>R. R(rd := trunc_width sf (R rn - ucast im))) 1"
    using assms by (auto intro!: computes_instruction simp: step_imm simp del: One_nat_def)
  then show "computes (emit_addsub_immediate sf AS_ADD rd rn im) (\<lambda>R. R(rd := trunc_width sf (R rn + ucast im))) 1"
    "computes (emit_addsub_immediate sf AS_SUB rd rn im) (\<lambda>R. R(rd := trunc_width sf (R rn - ucast im))) 1"
    unfolding emit_addsub_immediate_def w a by (simp_all add: State_Monad.bind_left_identity)
qed

lemma computes_swaps:
  assumes "d < 31"
  shows "computes (emit_instruction (0x53003c00 OR push_bit 5 d OR d)) (\<lambda>R. R(d := take_bit 16 (R d))) 1"
    "computes (emit_instruction (0x53007c00 OR push_bit 5 d OR d)) (\<lambda>R. R(d := take_bit 32 (R d))) 1"
    "computes (emit_dataprocessing_onesource False DP1_REV16 d d) (\<lambda>R. R(d := trunc_width False (a64_rev16 (R d)))) 1"
    "computes (emit_dataprocessing_onesource False DP1_REV32 d d) (\<lambda>R. R(d := trunc_width False (le_word (rev (le_bytes 4 (R d)))))) 1"
    "computes (emit_dataprocessing_onesource False DP1_REV64 d d) (\<lambda>R. R(d := le_word (rev (le_bytes 8 (R d))))) 1"
proof -
  have w: "0x53003c00 OR push_bit 5 d OR d = a64_word False 664 0 15 d d"
    "0x53007c00 OR push_bit 5 d OR d = a64_word False 664 0 31 d d"
    "sz_bit False OR DP1_REV16 OR push_bit 5 d OR d = a64_word False 726 0 1 d d"
    "sz_bit False OR DP1_REV32 OR push_bit 5 d OR d = a64_word False 726 0 2 d d"
    "sz_bit False OR DP1_REV64 OR push_bit 5 d OR d = a64_word True 726 0 3 d d"
    by (simp_all add: a64_word_def DP1_REV16_def DP1_REV32_def DP1_REV64_def sz_bit_def or_numerals)
  have one: "computes (emit_instruction (a64_word sf hi 0 mid d d)) (\<lambda>R. R(d := trunc_width sf (v R))) 1"
    if "hi = 726 \<or> hi = 664" "take_bit 6 mid = mid" "\<And>R. a64_one sf hi mid (R d) = Some (v R)" for sf hi mid v
    by (rule computes_instruction) (rule step_one [OF that(1,2) assms assms that(3)])
  show "computes (emit_instruction (0x53003c00 OR push_bit 5 d OR d)) (\<lambda>R. R(d := take_bit 16 (R d))) 1"
    unfolding w using one [of 664 15 False "\<lambda>R. take_bit 16 (R d)"] by (simp add: a64_one_def trunc_width_def)
  show "computes (emit_instruction (0x53007c00 OR push_bit 5 d OR d)) (\<lambda>R. R(d := take_bit 32 (R d))) 1"
    unfolding w using one [of 664 31 False "\<lambda>R. take_bit 32 (R d)"] by (simp add: a64_one_def trunc_width_def)
  show "computes (emit_dataprocessing_onesource False DP1_REV16 d d) (\<lambda>R. R(d := trunc_width False (a64_rev16 (R d)))) 1"
    unfolding emit_dataprocessing_onesource_def w by (rule one) (simp_all add: a64_one_def)
  show "computes (emit_dataprocessing_onesource False DP1_REV32 d d) (\<lambda>R. R(d := trunc_width False (le_word (rev (le_bytes 4 (R d)))))) 1"
    unfolding emit_dataprocessing_onesource_def w by (rule one) (simp_all add: a64_one_def)
  show "computes (emit_dataprocessing_onesource False DP1_REV64 d d) (\<lambda>R. R(d := le_word (rev (le_bytes 8 (R d))))) 1"
    unfolding emit_dataprocessing_onesource_def w
    using one [of 726 3 True "\<lambda>R. le_word (rev (le_bytes 8 (R d)))"] by (simp add: a64_one_def trunc_width_def)
qed

end
