(* ===== verification/Ubpf_Alu.thy ===== *)
theory Ubpf_Alu
  imports Ubpf_Run
begin

text \<open>
  The arithmetic of the interpreter against its specification: the 32-bit instructions, written in
  the source with 64-bit registers and masks, are arithmetic on 32-bit integers whose result is
  zero-extended; byte swaps are involutions.
\<close>

section \<open>32-bit arithmetic\<close>

text \<open>The instruction set specification: \<open>d\<close>, \<open>s\<close> and the immediate are 32-bit integers.\<close>

definition alu32_spec :: "u8 \<Rightarrow> u32 \<Rightarrow> u32 \<Rightarrow> u32 \<Rightarrow> u32 option" where
  "alu32_spec opc d s im =
     (if opc = EBPF_OP_ADD_IMM then Some (d + im) else if opc = EBPF_OP_ADD_REG then Some (d + s)
      else if opc = EBPF_OP_SUB_IMM then Some (d - im) else if opc = EBPF_OP_SUB_REG then Some (d - s)
      else if opc = EBPF_OP_MUL_IMM then Some (d * im) else if opc = EBPF_OP_MUL_REG then Some (d * s)
      else if opc = EBPF_OP_DIV_IMM then Some (if im = 0 then 0 else d div im)
      else if opc = EBPF_OP_DIV_REG then Some (if s = 0 then 0 else d div s)
      else if opc = EBPF_OP_OR_IMM then Some (d OR im) else if opc = EBPF_OP_OR_REG then Some (d OR s)
      else if opc = EBPF_OP_AND_IMM then Some (d AND im) else if opc = EBPF_OP_AND_REG then Some (d AND s)
      else if opc = EBPF_OP_LSH_IMM then Some (push_bit (unat im mod 32) d)
      else if opc = EBPF_OP_LSH_REG then Some (push_bit (unat s mod 32) d)
      else if opc = EBPF_OP_RSH_IMM then Some (drop_bit (unat im mod 32) d)
      else if opc = EBPF_OP_RSH_REG then Some (drop_bit (unat s mod 32) d)
      else if opc = EBPF_OP_NEG then Some (- d)
      else if opc = EBPF_OP_MOD_IMM then Some (if im = 0 then d else d mod im)
      else if opc = EBPF_OP_MOD_REG then Some (if s = 0 then d else d mod s)
      else if opc = EBPF_OP_XOR_IMM then Some (d XOR im) else if opc = EBPF_OP_XOR_REG then Some (d XOR s)
      else if opc = EBPF_OP_MOV_IMM then Some im else if opc = EBPF_OP_MOV_REG then Some s
      else if opc = EBPF_OP_ARSH_IMM then Some (signed_drop_bit (unat im mod 32) d)
      else if opc = EBPF_OP_ARSH_REG then Some (signed_drop_bit (unat s mod 32) d)
      else None)"

lemma ucast_take_bit_32: "(ucast (ucast (x :: u64) :: u32) :: u64) = take_bit 32 x"
  by (rule bit_word_eqI) (auto simp: bit_simps)

lemma take_bit_32_ucast: "take_bit 32 (ucast (x :: u32) :: u64) = ucast x"
  by (rule bit_word_eqI) (auto simp: bit_simps dest: bit_imp_le_length)

lemma ucast_scast_u32: "(ucast (scast (x :: u32) :: u64) :: u32) = x"
proof (rule bit_word_eqI)
  fix n
  assume "n < LENGTH(32)"
  then have "n = 31 \<or> n < 31" by auto
  then show "bit (ucast (scast x :: u64) :: u32) n = bit x n" by (auto simp: bit_simps)
qed

text \<open>Truncation to 32 bits commutes with the operations.\<close>

lemma u32_ring:
  "(ucast (a + b :: u64) :: u32) = ucast a + ucast b"
  "(ucast (a - b :: u64) :: u32) = ucast a - ucast b"
  "(ucast (a * b :: u64) :: u32) = ucast a * ucast b"
  "(ucast (- a :: u64) :: u32) = - ucast a"
proof -
  have u: "uint (ucast x :: u32) = uint x mod 2 ^ 32" for x :: u64
    by (simp add: unsigned_ucast_eq unsigned_take_bit_eq take_bit_eq_mod)
  show "(ucast (a + b :: u64) :: u32) = ucast a + ucast b"
    by (simp add: word_uint_eq_iff u uint_word_ariths mod_mod_cancel mod_simps)
  show "(ucast (a - b :: u64) :: u32) = ucast a - ucast b"
    by (simp add: word_uint_eq_iff u uint_word_ariths mod_mod_cancel mod_simps)
  show "(ucast (a * b :: u64) :: u32) = ucast a * ucast b"
    by (simp add: word_uint_eq_iff u uint_word_ariths mod_mod_cancel mod_simps)
  show "(ucast (- a :: u64) :: u32) = - ucast a"
    by (simp add: word_uint_eq_iff u uint_word_ariths mod_mod_cancel mod_simps)
qed

lemma u32_bits:
  "(ucast (a AND b :: u64) :: u32) = ucast a AND ucast b"
  "(ucast (a OR b :: u64) :: u32) = ucast a OR ucast b"
  "(ucast (a XOR b :: u64) :: u32) = ucast a XOR ucast b"
  by (rule bit_word_eqI; simp add: bit_simps)+

lemma shift_mask_mod: "unat ((x :: u64) AND 0x1f) = unat (ucast x :: u32) mod 32"
proof -
  have "x AND 0x1f = take_bit 5 x" by (simp add: take_bit_eq_mask mask_eq_exp_minus_1)
  then have "unat (x AND 0x1f) = take_bit 5 (unat x)" by (simp add: unsigned_take_bit_eq)
  also have "\<dots> = unat x mod 32" by (simp add: take_bit_eq_mod)
  also have "\<dots> = (unat x mod 2 ^ 32) mod 32" by (simp add: mod_mod_cancel)
  also have "unat x mod 2 ^ 32 = unat (ucast x :: u32)"
    by (simp add: unsigned_ucast_eq unsigned_take_bit_eq take_bit_eq_mod)
  finally show ?thesis .
qed

lemma mask_scast: "(scast (x :: u32) :: u64) AND UINT32_MAX = ucast x"
  unfolding UINT32_MAX_def and_mask32_eq ucast_take_bit_32 [symmetric] ucast_scast_u32 ..

lemma mask_ucast: "(ucast (x :: u32) :: u64) AND UINT32_MAX = ucast x"
  unfolding UINT32_MAX_def and_mask32_eq take_bit_32_ucast ..

lemma mask_eq_ucast: "(x :: u64) AND UINT32_MAX = ucast (ucast x :: u32)"
  unfolding UINT32_MAX_def and_mask32_eq ucast_take_bit_32 ..

lemma guarded_division:
  "(if (b :: u32) \<noteq> 0 then ucast (a div b) else 0 :: u64) = ucast (if b = 0 then 0 else a div b)"
  "(if (b :: u32) \<noteq> 0 then a mod b else a) = (if b = 0 then a else a mod b)"
  by simp_all

lemma exec_alu32_spec: "exec_alu32 opc d s im = map_option ucast (alu32_spec opc (ucast d) (ucast s) im)"
  unfolding exec_alu32_def alu32_spec_def u32_def i32_def SHIFT_MASK_32_BIT_def ucast_scast_u32
    shift_mask_mod guarded_division mask_ucast mask_scast
    if_distrib [of "map_option ucast"] option.map
  unfolding mask_eq_ucast u32_ring u32_bits ucast_scast_u32
  by (simp only:)

lemma alu32_spec_None_iff: "alu32_spec opc d s im = None \<longleftrightarrow> opc \<notin> set alu32_opcodes"
  by (simp add: alu32_spec_def alu32_opcodes_def)

section \<open>Byte swaps\<close>

lemma htole_eq: "htole n x = take_bit (8 * n) x"
  by (simp add: htole_def le_word_le_bytes)

lemma le_bytes_htobe: "n \<le> 8 \<Longrightarrow> le_bytes n (htobe n x) = rev (le_bytes n x)"
  using le_bytes_le_word [where ?'a = 64, of "rev (le_bytes n x)"] by (simp add: htobe_def)

lemma htobe_htobe: "n \<le> 8 \<Longrightarrow> htobe n (htobe n x) = take_bit (8 * n) x"
proof -
  assume n: "n \<le> 8"
  have "htobe n (htobe n x) = le_word (rev (rev (le_bytes n x)))"
    unfolding htobe_def [of n "htobe n x"] le_bytes_htobe [OF n] ..
  then show ?thesis by (simp add: le_word_le_bytes)
qed

end
