(* ===== verification/Jit_A64_Alu.thy ===== *)
theory Jit_A64_Alu
  imports Jit_A64_Machine Ubpf_Alu
begin

text \<open>
  The AArch64 code for arithmetic instructions computes what the interpreter computes, for both widths
  and for immediates and registers as operands.
\<close>

section \<open>The interpreter in the same terms\<close>

definition alu_value :: "u8 \<Rightarrow> u64 \<Rightarrow> u64 \<Rightarrow> u32 \<Rightarrow> u64 option" where
  "alu_value opc x y im =
     (case exec_alu32 opc x y im of
        Some v \<Rightarrow> Some v
      | None \<Rightarrow> (case exec_endian opc x im of Some v \<Rightarrow> Some v | None \<Rightarrow> exec_alu64 opc x y im))"

lemma exec_arith_value:
  "exec_arith inst st = map_option (set_reg st (dst inst))
     (alu_value (opcode inst) (ex_reg st (dst inst)) (ex_reg st (src inst)) (imm inst))"
  by (simp add: exec_arith_def alu_value_def Let_def split: option.split)

lemma trunc_False: "trunc_width False x = ucast (ucast x :: u32)"
  by (simp add: trunc_width_def ucast_take_bit_32)

lemma shift_amount_ucast: "shift_amount False y = unat (ucast y :: u32) mod 32"
  by (simp add: shift_amount_def unsigned_ucast_eq take_bit_eq_mod mod_mod_cancel)

text \<open>The 32-bit operations on the low halves.\<close>

lemma ucast_up_down: "(ucast (ucast w :: u64) :: u32) = w" for w :: u32
  by (rule bit_word_eqI) (simp add: bit_simps)

lemma trunc_ring:
  "trunc_width False (x + y) = ucast (ucast x + ucast y :: u32)"
  "trunc_width False (x - y) = ucast (ucast x - ucast y :: u32)"
  "trunc_width False (x * y) = ucast (ucast x * ucast y :: u32)"
  "trunc_width False (x AND y) = ucast (ucast x AND ucast y :: u32)"
  "trunc_width False (x OR y) = ucast (ucast x OR ucast y :: u32)"
  "trunc_width False (x XOR y) = ucast (ucast x XOR ucast y :: u32)"
  unfolding trunc_False u32_ring u32_bits by (rule refl)+

lemma trunc_results:
  "trunc_width False (a64_divide False x y) = ucast (if (ucast y :: u32) = 0 then 0 else ucast x div ucast y :: u32)"
  "trunc_width False (push_bit n x) = ucast (push_bit n (ucast x :: u32))"
  "trunc_width False (drop_bit n (trunc_width False x)) = ucast (drop_bit n (ucast x :: u32))"
  "trunc_width False (a64_shift_right False n x) = ucast (signed_drop_bit n (ucast x :: u32))"
proof -
  have "(ucast w :: u64) = 0 \<longleftrightarrow> w = 0" for w :: u32
    by (metis ucast_up_down unsigned_0)
  then have u: "trunc_width False y = 0 \<longleftrightarrow> (ucast y :: u32) = 0" for y
    unfolding trunc_False .
  have "unat (ucast w :: u64) = unat w" for w :: u32
    using unat_u32_lt [of w] by (simp add: unsigned_ucast_eq take_bit_nat_eq_self)
  then have d: "(ucast a :: u64) div ucast b = ucast (a div b)" for a b :: u32
    by (simp add: word_eq_iff_unsigned [where 'a = nat] unat_div_distrib)
  show "trunc_width False (a64_divide False x y) = ucast (if (ucast y :: u32) = 0 then 0 else ucast x div ucast y :: u32)"
    unfolding a64_divide_def u by (simp add: trunc_False d ucast_up_down)
  show "trunc_width False (push_bit n x) = ucast (push_bit n (ucast x :: u32))"
    by (rule bit_word_eqI) (auto simp: trunc_width_def bit_simps)
  show "trunc_width False (drop_bit n (trunc_width False x)) = ucast (drop_bit n (ucast x :: u32))"
    by (rule bit_word_eqI) (auto simp: trunc_width_def bit_simps)
  show "trunc_width False (a64_shift_right False n x) = ucast (signed_drop_bit n (ucast x :: u32))"
    by (simp add: trunc_False a64_shift_right_def ucast_up_down)
qed

definition a64_modulo :: "bool \<Rightarrow> u64 \<Rightarrow> u64 \<Rightarrow> u64" where
  "a64_modulo sf x y = x - y * trunc_width sf (a64_divide sf x y)"

lemma trunc_modulo:
  "trunc_width False (a64_modulo False x y) =
     ucast (if (ucast y :: u32) = 0 then ucast x else ucast x mod ucast y :: u32)"
proof -
  have "a - b * (if b = 0 then 0 else a div b) = (if b = 0 then a else a mod b)" for a b :: u32
    by (simp add: minus_mult_div_eq_mod)
  then show ?thesis
    unfolding a64_modulo_def trunc_results(1) unfolding trunc_False u32_ring ucast_up_down by simp
qed

lemma width_True:
  "trunc_width True x = x" "a64_divide True x y = (if y = 0 then 0 else x div y)"
  "a64_modulo True x y = (if y = 0 then x else x mod y)" "a64_shift_right True n x = signed_drop_bit n x"
  by (simp_all add: trunc_width_def a64_divide_def a64_modulo_def a64_shift_right_def minus_mult_div_eq_mod)

lemma shift_amount_True: "shift_amount True y = SHIFT_MASK_64_BIT y"
proof -
  have "y AND 0x3f = take_bit 6 y" by (simp add: take_bit_eq_mask mask_eq_exp_minus_1)
  then have "unat (y AND 0x3f) = take_bit 6 (unat y)" by (simp only: unsigned_take_bit_eq)
  then show ?thesis by (simp add: shift_amount_def SHIFT_MASK_64_BIT_def take_bit_eq_mod)
qed

text \<open>The values of the register operations, for both widths.\<close>

definition alu_reg_value :: "u8 \<Rightarrow> bool \<Rightarrow> u64 \<Rightarrow> u64 \<Rightarrow> u64 option" where
  "alu_reg_value op sf x y = map_option (trunc_width sf)
     (if op = 0x00 then Some (x + y) else if op = 0x10 then Some (x - y) else if op = 0x20 then Some (x * y)
      else if op = 0x30 then Some (a64_divide sf x y) else if op = 0x40 then Some (x OR y)
      else if op = 0x50 then Some (x AND y) else if op = 0x60 then Some (push_bit (shift_amount sf y) x)
      else if op = 0x70 then Some (drop_bit (shift_amount sf y) (trunc_width sf x))
      else if op = 0x90 then Some (a64_modulo sf x y)
      else if op = 0xa0 then Some (x XOR y) else if op = 0xb0 then Some y
      else if op = 0xc0 then Some (a64_shift_right sf (shift_amount sf y) x) else None)"

definition alu_kinds :: "u8 list" where
  "alu_kinds = [0x00, 0x10, 0x20, 0x30, 0x40, 0x50, 0x60, 0x70, 0x90, 0xa0, 0xb0, 0xc0]"

lemma alu_value_reg32: "op \<in> set alu_kinds \<Longrightarrow> alu_value (0x0c OR op) x y im = alu_reg_value op False x y"
  unfolding alu_value_def exec_alu32_spec alu_kinds_def list.set insert_iff empty_iff simp_thms
  by (elim disjE; simp add: alu32_spec_def opcode_values alu_reg_value_def trunc_ring trunc_results trunc_modulo
      trunc_False [of y] shift_amount_ucast)

lemma alu_value_reg64: "op \<in> set alu_kinds \<Longrightarrow> alu_value (0x0f OR op) x y im = alu_reg_value op True x y"
  unfolding alu_kinds_def list.set insert_iff empty_iff simp_thms
  by (elim disjE; simp add: alu_value_def exec_alu32_def exec_endian_def exec_alu64_def opcode_values alu_reg_value_def
      width_True shift_amount_True)

section \<open>Register operations\<close>

definition implements :: "'a jit \<Rightarrow> u8 \<Rightarrow> u32 \<Rightarrow> u32 \<Rightarrow> u32 \<Rightarrow> nat \<Rightarrow> bool" where
  "implements m opc d s im n \<longleftrightarrow> (\<exists>f. computes m f n \<and> (\<forall>R. alu_value opc (R d) (R s) im = Some (f R d)) \<and>
     (\<forall>R r. r \<noteq> d \<longrightarrow> r \<noteq> temp_register \<longrightarrow> r \<noteq> temp_div_register \<longrightarrow> f R r = R r))"

lemma implementsI:
  assumes "computes m (\<lambda>R. R(d := v R)) n" "\<And>R. alu_value opc (R d) (R s) im = Some (v R)"
  shows "implements m opc d s im n"
  unfolding implements_def using assms by (intro exI [of _ "\<lambda>R. R(d := v R)"]) simp

definition reg_code :: "u8 \<Rightarrow> bool \<Rightarrow> u32 \<Rightarrow> u32 \<Rightarrow> unit jit" where
  "reg_code op sf d s =
     (if op = 0x00 then emit_addsub_register sf AS_ADD d d s
      else if op = 0x10 then emit_addsub_register sf AS_SUB d d s
      else if op = 0x20 then emit_dataprocessing_threesource sf DP3_MADD d d s A_RZ
      else if op = 0x30 then emit_dataprocessing_twosource sf DP2_UDIV d d s
      else if op = 0x40 then emit_logical_register sf LOG_ORR d d s
      else if op = 0x50 then emit_logical_register sf LOG_AND d d s
      else if op = 0x60 then emit_dataprocessing_twosource sf DP2_LSLV d d s
      else if op = 0x70 then emit_dataprocessing_twosource sf DP2_LSRV d d s
      else if op = 0x90 then do {
        emit_dataprocessing_twosource sf DP2_UDIV temp_div_register d s;
        emit_dataprocessing_threesource sf DP3_MSUB d s temp_div_register d
      }
      else if op = 0xa0 then emit_logical_register sf LOG_EOR d d s
      else if op = 0xb0 then emit_logical_register sf LOG_ORR d A_RZ s
      else emit_dataprocessing_twosource sf DP2_ASRV d d s)"

lemma known_Some: "State_Monad.bind (known (Some v) x) f = f v"
  by (simp add: known_def State_Monad.bind_left_identity)

lemmas opcode_lists = addsub_imm_opcodes_def addsub_reg_opcodes_def compare_imm_opcodes_def compare_reg_opcodes_def
  converted_imm_opcodes_def to_addsub_opcode_def to_logical_opcode_def to_dp1_opcode_def to_dp2_opcode_def

lemma translate_reg:
  "op \<in> set alu_kinds \<Longrightarrow> translate_alu_a64 (0x0c OR op) False d s im = Some (reg_code op False d s)"
  "op \<in> set alu_kinds \<Longrightarrow> translate_alu_a64 (0x0f OR op) True d s im = Some (reg_code op True d s)"
proof -
  have return: "State_Monad.bind m (\<lambda>_. jit_return ()) = m" for m :: "unit jit"
    using State_Monad.bind_right_identity [of m] by simp
  show "op \<in> set alu_kinds \<Longrightarrow> translate_alu_a64 (0x0c OR op) False d s im = Some (reg_code op False d s)"
    unfolding alu_kinds_def list.set insert_iff empty_iff simp_thms
    by (elim disjE; simp add: translate_alu_a64_def reg_code_def opcode_lists opcode_values known_Some divmod_a64_def
        jit_when_def Let_def return)
  show "op \<in> set alu_kinds \<Longrightarrow> translate_alu_a64 (0x0f OR op) True d s im = Some (reg_code op True d s)"
    unfolding alu_kinds_def list.set insert_iff empty_iff simp_thms
    by (elim disjE; simp add: translate_alu_a64_def reg_code_def opcode_lists opcode_values known_Some divmod_a64_def
        jit_when_def Let_def return)
qed

lemma reg_code_computes:
  assumes "op \<in> set alu_kinds" "d < 31" "s < 31" "s \<noteq> temp_div_register" "d \<noteq> temp_div_register"
  shows "\<exists>f. computes (reg_code op sf d s) f 2 \<and> (\<forall>R. alu_reg_value op sf (R d) (R s) = Some (f R d)) \<and>
    (\<forall>R r. r \<noteq> d \<longrightarrow> r \<noteq> temp_div_register \<longrightarrow> f R r = R r)"
proof -
  have r: "a64_reg R d = R d" "a64_reg R s = R s" "d \<le> 31" "s \<le> 31" "a64_reg R 31 = 0" for R
    using assms(2,3) by (auto simp: a64_reg_def)
  have single: "?thesis" if "computes (reg_code op sf d s) (\<lambda>R. R(d := v R)) 1"
    "\<And>R. alu_reg_value op sf (R d) (R s) = Some (v R)" for v
    using that computes_mono [OF that(1), of 2] by (intro exI [of _ "\<lambda>R. R(d := v R)"]) simp
  show ?thesis
  proof (cases "op = 0x90")
    case True
    have t: "temp_div_register < 31" by (simp add: temp_div_register_def)
    let ?f = "\<lambda>R. R(temp_div_register := trunc_width sf (a64_divide sf (R d) (R s)))"
    let ?g = "\<lambda>R. R(d := trunc_width sf (a64_reg R d - R s * R temp_div_register))"
    have "computes (reg_code op sf d s) (\<lambda>R. ?g (?f R)) (1 + 1)"
      unfolding reg_code_def True using computes_bind [OF computes_twosource(1) [OF t assms(2,3), of sf] computes_threesource(2) [OF assms(2,3) t r(3), of sf]]
      by simp
    then have "computes (reg_code op sf d s) (\<lambda>R. ?g (?f R)) 2" by (rule computes_mono) simp
    then show ?thesis
      using assms(4,5) True
      by (intro exI [of _ "\<lambda>R. ?g (?f R)"]) (simp add: alu_reg_value_def a64_modulo_def r)
  next
    case False
    note regs = computes_addsub_register [OF assms(2) r(3,4), of sf] computes_logical_register [OF assms(2) r(3,4), of sf]
      computes_logical_register [OF assms(2) order_refl r(4), of sf]
      computes_twosource [OF assms(2) assms(2,3), of sf] computes_threesource(1) [OF assms(2) assms(2,3) order_refl, of sf]
    show ?thesis
      using assms(1) False regs unfolding alu_kinds_def list.set insert_iff empty_iff simp_thms
      by (elim disjE; intro single; simp add: reg_code_def alu_reg_value_def r)
  qed
qed

lemma implements_reg:
  assumes "op \<in> set alu_kinds" "d < 31" "s < 31" "s \<noteq> temp_div_register" "d \<noteq> temp_div_register"
  shows "implements (reg_code op False d s) (0x0c OR op) d s im 2"
    "implements (reg_code op True d s) (0x0f OR op) d s im 2"
  using reg_code_computes [OF assms, of False] reg_code_computes [OF assms, of True]
  unfolding implements_def alu_value_reg32 [OF assms(1)] alu_value_reg64 [OF assms(1)] by blast+

section \<open>Immediate operations\<close>

lemma trunc_scast: "(ucast (trunc_width False (scast im)) :: u32) = im"
  by (simp add: trunc_False ucast_up_down ucast_scast_u32)

lemma alu_value_imm32:
  assumes "op \<in> set alu_kinds"
  shows "alu_value (0x04 OR op) x y im = alu_reg_value op False x (trunc_width False (scast im))"
proof -
  have "alu_value (0x04 OR op) x y im = alu_value (0x0c OR op) x (trunc_width False (scast im)) im"
    using assms unfolding alu_value_def exec_alu32_spec trunc_scast alu_kinds_def list.set insert_iff empty_iff simp_thms
    by (elim disjE; simp add: alu32_spec_def opcode_values)
  then show ?thesis by (simp only: alu_value_reg32 [OF assms])
qed

lemma scast_eq_0: "(scast im :: u64) = 0 \<longleftrightarrow> im = 0" for im :: u32
  by (metis ucast_scast_u32 unsigned_0 signed_0)

lemma alu_value_imm64:
  "op \<in> set alu_kinds \<Longrightarrow> alu_value (0x07 OR op) x y im = alu_reg_value op True x (scast im)"
  unfolding alu_kinds_def list.set insert_iff empty_iff simp_thms
  by (elim disjE; simp add: alu_value_def exec_alu32_def exec_endian_def exec_alu64_def opcode_values alu_reg_value_def
      width_True shift_amount_True scast_eq_0)

text \<open>The immediate in the temporary register, then the register operation.\<close>

lemma implements_converted:
  assumes "op \<in> set alu_kinds" "d < 24"
  shows "implements (do { emit_movewide_immediate False temp_register (scast im); reg_code op False d temp_register })
      (0x04 OR op) d s im 6"
    "implements (do { emit_movewide_immediate True temp_register (scast im); reg_code op True d temp_register })
      (0x07 OR op) d s im 6"
proof -
  have r: "d < 31" "temp_register < 31" "temp_register \<noteq> temp_div_register" "d \<noteq> temp_div_register" "d \<noteq> temp_register"
    using assms(2) by (auto simp: temp_register_def temp_div_register_def word_less_nat_alt)
  have "\<exists>f. computes (do { emit_movewide_immediate sf temp_register (scast im); reg_code op sf d temp_register }) f 6 \<and>
      (\<forall>R. alu_reg_value op sf (R d) (trunc_width sf (scast im)) = Some (f R d)) \<and>
      (\<forall>R r. r \<noteq> d \<longrightarrow> r \<noteq> temp_register \<longrightarrow> r \<noteq> temp_div_register \<longrightarrow> f R r = R r)" for sf
  proof -
    from reg_code_computes [OF assms(1) r(1-4), of sf] obtain f where f: "computes (reg_code op sf d temp_register) f 2"
      "\<And>R. alu_reg_value op sf (R d) (R temp_register) = Some (f R d)"
      "\<And>R r. r \<noteq> d \<Longrightarrow> r \<noteq> temp_div_register \<Longrightarrow> f R r = R r" by blast
    let ?g = "\<lambda>R. f (R(temp_register := trunc_width sf (scast im)))"
    have "computes (do { emit_movewide_immediate sf temp_register (scast im); reg_code op sf d temp_register }) ?g 6"
      using computes_bind [OF computes_movewide [OF r(2)] f(1)] by simp
    moreover have "alu_reg_value op sf (R d) (trunc_width sf (scast im)) = Some (?g R d)" for R
      using f(2) [of "R(temp_register := trunc_width sf (scast im))"] r(5) by simp
    ultimately show ?thesis using f(3) by (intro exI [of _ ?g]) simp
  qed
  from this [of False] this [of True] show
    "implements (do { emit_movewide_immediate False temp_register (scast im); reg_code op False d temp_register })
      (0x04 OR op) d s im 6"
    "implements (do { emit_movewide_immediate True temp_register (scast im); reg_code op True d temp_register })
      (0x07 OR op) d s im 6"
    unfolding implements_def alu_value_imm32 [OF assms(1)] alu_value_imm64 [OF assms(1)] width_True by blast+
qed

lemma nonneg_scast: "0 \<le> sint im \<Longrightarrow> (scast im :: u64) = ucast im" for im :: u32
  by (simp add: scast_eq sint_nonneg_unat)

lemma trunc_idem [simp]: "trunc_width sf (trunc_width sf x) = trunc_width sf x"
  by (simp add: trunc_width_def)

lemma implements_small:
  assumes "d < 31" "0 \<le> sint im" "sint im < 0x1000"
  shows "implements (emit_addsub_immediate False AS_ADD d d im) (0x04 OR 0x00) d s im 1"
    "implements (emit_addsub_immediate False AS_SUB d d im) (0x04 OR 0x10) d s im 1"
    "implements (emit_addsub_immediate True AS_ADD d d im) (0x07 OR 0x00) d s im 1"
    "implements (emit_addsub_immediate True AS_SUB d d im) (0x07 OR 0x10) d s im 1"
proof -
  have "unat im < 0x1000" using assms(3) sint_nonneg_unat [OF assms(2)] by linarith
  then have im: "im < 0x1000" by (simp add: word_less_nat_alt)
  have k: "0x00 \<in> set alu_kinds" "0x10 \<in> set alu_kinds" by (simp_all add: alu_kinds_def)
  show "implements (emit_addsub_immediate False AS_ADD d d im) (0x04 OR 0x00) d s im 1"
    by (rule implementsI [OF computes_addsub_immediate(1) [OF assms(1,1) im]], unfold alu_value_imm32 [OF k(1)])
      (simp add: alu_reg_value_def trunc_ring trunc_scast ucast_up_down)
  show "implements (emit_addsub_immediate False AS_SUB d d im) (0x04 OR 0x10) d s im 1"
    by (rule implementsI [OF computes_addsub_immediate(2) [OF assms(1,1) im]], unfold alu_value_imm32 [OF k(2)])
      (simp add: alu_reg_value_def trunc_ring trunc_scast ucast_up_down)
  show "implements (emit_addsub_immediate True AS_ADD d d im) (0x07 OR 0x00) d s im 1"
    by (rule implementsI [OF computes_addsub_immediate(1) [OF assms(1,1) im]], unfold alu_value_imm64 [OF k(1)])
      (simp add: alu_reg_value_def nonneg_scast [OF assms(2)])
  show "implements (emit_addsub_immediate True AS_SUB d d im) (0x07 OR 0x10) d s im 1"
    by (rule implementsI [OF computes_addsub_immediate(2) [OF assms(1,1) im]], unfold alu_value_imm64 [OF k(2)])
      (simp add: alu_reg_value_def nonneg_scast [OF assms(2)])
qed

lemma implements_mov:
  assumes "d < 31"
  shows "implements (emit_movewide_immediate False d (scast im)) (0x04 OR 0xb0) d s im 4"
    "implements (emit_movewide_immediate True d (scast im)) (0x07 OR 0xb0) d s im 4"
proof -
  have k: "0xb0 \<in> set alu_kinds" by (simp add: alu_kinds_def)
  show "implements (emit_movewide_immediate False d (scast im)) (0x04 OR 0xb0) d s im 4"
    by (rule implementsI [OF computes_movewide [OF assms]], unfold alu_value_imm32 [OF k]) (simp add: alu_reg_value_def)
  show "implements (emit_movewide_immediate True d (scast im)) (0x07 OR 0xb0) d s im 4"
    by (rule implementsI [OF computes_movewide [OF assms]], unfold alu_value_imm64 [OF k]) (simp add: alu_reg_value_def)
qed

section \<open>Negation and byte swaps\<close>

text \<open>A negation is right when both registers are the same.\<close>

lemma implements_neg:
  assumes "d < 31"
  shows "implements (emit_addsub_register False AS_SUB d A_RZ d) EBPF_OP_NEG d d im 1"
    "implements (emit_addsub_register True AS_SUB d A_RZ d) EBPF_OP_NEG64 d d im 1"
proof -
  have r: "d \<le> 31" "a64_reg R d = R d" "a64_reg R 31 = 0" for R using assms by (auto simp: a64_reg_def)
  show "implements (emit_addsub_register False AS_SUB d A_RZ d) EBPF_OP_NEG d d im 1"
    by (rule implementsI [OF computes_addsub_register(2) [OF assms order_refl r(1)]])
      (simp add: alu_value_def exec_alu32_def opcode_values r trunc_width_def UINT32_MAX_def and_mask32_eq)
  show "implements (emit_addsub_register True AS_SUB d A_RZ d) EBPF_OP_NEG64 d d im 1"
    by (rule implementsI [OF computes_addsub_register(2) [OF assms order_refl r(1)]])
      (simp add: alu_value_def exec_alu32_def exec_endian_def exec_alu64_def opcode_values r trunc_width_def)
qed

lemma swap_values:
  "take_bit 16 (trunc_width False (a64_rev16 x)) = htobe 2 x"
  "trunc_width False (le_word (rev (le_bytes 4 x))) = htobe 4 x"
proof -
  have "[0..<2] = [0, 1]" "[0..<4] = [0, 1, 2, 3]" by (simp_all add: upt_rec)
  then have b: "le_bytes 2 x = [ucast x, ucast (drop_bit 8 x)]"
    "le_bytes 4 x = [ucast x, ucast (drop_bit 8 x), ucast (drop_bit 16 x), ucast (drop_bit 24 x)]"
    by (simp_all add: le_bytes_def)
  show "take_bit 16 (trunc_width False (a64_rev16 x)) = htobe 2 x"
    unfolding trunc_width_def a64_rev16_def htobe_def b
    by (rule bit_word_eqI) (auto simp: Let_def bit_simps)
  have "bit (le_word (rev (le_bytes 4 x)) :: u64) n \<Longrightarrow> n < 32" for n
    by (simp add: bit_le_word_iff div_less_iff_less_mult)
  then show "trunc_width False (le_word (rev (le_bytes 4 x))) = htobe 4 x"
    by (auto intro!: bit_word_eqI simp: trunc_width_def htobe_def bit_take_bit_iff)
qed

lemma implements_le:
  assumes "d < 31" "im \<in> {16, 32, 64}"
  shows "\<exists>m. translate_alu_a64 EBPF_OP_LE False d s im = Some m \<and> implements m EBPF_OP_LE d s im 1"
proof -
  have a: "alu_value EBPF_OP_LE x y im = Some (take_bit (unat im) x)" for x y
    using assms(2) by (auto simp: alu_value_def exec_alu32_def exec_endian_def opcode_values htole_eq)
  have t: "translate_alu_a64 EBPF_OP_LE False d s im = Some (if im = 16 then emit_instruction (0x53003c00 OR push_bit 5 d OR d)
      else if im = 32 then emit_instruction (0x53007c00 OR push_bit 5 d OR d) else jit_return ())"
    by (simp add: translate_alu_a64_def opcode_lists opcode_values)
  have "take_bit 64 x = x" for x :: u64 by (rule bit_word_eqI) (simp add: bit_simps)
  then have "computes (jit_return ()) (\<lambda>R. R(d := take_bit 64 (R d))) 0"
    using computes_return [of "()"] by simp
  then have "computes (jit_return ()) (\<lambda>R. R(d := take_bit 64 (R d))) 1" by (rule computes_mono) simp
  then have "computes (if im = 16 then emit_instruction (0x53003c00 OR push_bit 5 d OR d)
      else if im = 32 then emit_instruction (0x53007c00 OR push_bit 5 d OR d) else jit_return ())
    (\<lambda>R. R(d := take_bit (unat im) (R d))) 1"
    using assms(2) computes_swaps(1,2) [OF assms(1)] by auto
  then show ?thesis unfolding t using implementsI [OF _ a] by blast
qed

lemma implements_be:
  assumes "d < 31" "im \<in> {16, 32, 64}"
  shows "\<exists>m. translate_alu_a64 EBPF_OP_BE False d s im = Some m \<and> implements m EBPF_OP_BE d s im 2"
proof -
  let ?n = "if im = 16 then 2 else if im = 32 then 4 else 8 :: nat"
  have a: "alu_value EBPF_OP_BE x y im = Some (htobe ?n x)" for x y
    using assms(2) by (auto simp: alu_value_def exec_alu32_def exec_endian_def opcode_values)
  let ?op = "if im = 16 then DP1_REV16 else if im = 32 then DP1_REV32 else DP1_REV64"
  let ?m = "do { emit_dataprocessing_onesource False ?op d d;
    jit_when (im = 16) (emit_instruction (0x53003c00 OR push_bit 5 d OR d)) }"
  have t: "translate_alu_a64 EBPF_OP_BE False d s im = Some ?m"
    using assms(2) by (auto simp: translate_alu_a64_def opcode_lists opcode_values known_Some)
  have "computes ?m (\<lambda>R. R(d := htobe ?n (R d))) 2"
  proof (cases "im = 16")
    case True
    from computes_bind [OF computes_swaps(3) [OF assms(1)] computes_swaps(1) [OF assms(1)]] True show ?thesis
      by (simp add: jit_when_def swap_values numeral_2_eq_2 [symmetric] del: numeral_2_eq_2)
  next
    case False
    then have "computes (emit_dataprocessing_onesource False ?op d d) (\<lambda>R. R(d := htobe ?n (R d))) 1"
      using assms(2) computes_swaps(4,5) [OF assms(1)] by (auto simp: swap_values(2) htobe_def [of 8])
    from computes_mono [OF this, of 2] False show ?thesis by (simp add: jit_when_def)
  qed
  then show ?thesis using t implementsI [OF _ a] by blast
qed

section \<open>The instruction as a whole\<close>

lemma body_direct:
  assumes "\<not> is_imm_op (opcode inst) \<or> is_simple_imm (opcode inst) (imm inst) = Some True"
    and "translate_alu_a64 (opcode inst) (is_alu64_op (opcode inst)) d s (imm inst) = Some m"
  shows "translate_body_a64 vm i inst d s t = do { m; jit_return i }"
proof -
  have "convert_immediate inst s = jit_return (s, opcode inst)"
    using assms(1) by (auto simp: convert_immediate_def known_Some)
  then show ?thesis using assms(2) by (simp add: translate_body_a64_def translate_switch_a64_def)
qed

lemma body_converted:
  assumes "is_imm_op (opcode inst)" "is_simple_imm (opcode inst) (imm inst) = Some False"
    and "to_reg_op (opcode inst) = Some opc" "sf = is_alu64_op (opcode inst)"
    and "translate_alu_a64 opc sf d temp_register (imm inst) = Some m"
  shows "translate_body_a64 vm i inst d s t =
    do { emit_movewide_immediate sf temp_register (scast (imm inst)); m; jit_return i }"
  using assms
  by (simp add: translate_body_a64_def convert_immediate_def known_Some translate_switch_a64_def State_Monad.bind_assoc)

lemma implements_then_return: "implements m opc d s im n \<Longrightarrow> implements (do { m; jit_return i }) opc d s im n"
proof -
  assume "implements m opc d s im n"
  then obtain f where f: "computes m f n" "\<forall>R. alu_value opc (R d) (R s) im = Some (f R d)"
    "\<forall>R r. r \<noteq> d \<longrightarrow> r \<noteq> temp_register \<longrightarrow> r \<noteq> temp_div_register \<longrightarrow> f R r = R r"
    unfolding implements_def by blast
  have "computes (do { m; jit_return i }) f n" using computes_bind [OF f(1) computes_return [of i]] by simp
  with f(2,3) show ?thesis unfolding implements_def by blast
qed

lemma implements_mono: "implements m opc d s im a \<Longrightarrow> a \<le> b \<Longrightarrow> implements m opc d s im b"
  unfolding implements_def using computes_mono by blast

lemma classify_reg:
  "op \<in> set alu_kinds \<Longrightarrow> \<not> is_imm_op (0x0c OR op) \<and> \<not> is_imm_op (0x0f OR op) \<and> \<not> is_alu64_op (0x0c OR op) \<and>
     is_alu64_op (0x0f OR op)"
  unfolding alu_kinds_def list.set insert_iff empty_iff simp_thms
  by (elim disjE; simp add: is_imm_op_def is_alu64_op_def opcode_values)

lemma classify_imm:
  "op \<in> set alu_kinds \<Longrightarrow> is_imm_op (0x04 OR op) \<and> is_imm_op (0x07 OR op) \<and> \<not> is_alu64_op (0x04 OR op) \<and>
     is_alu64_op (0x07 OR op) \<and> to_reg_op (0x04 OR op) = Some (0x0c OR op) \<and> to_reg_op (0x07 OR op) = Some (0x0f OR op)"
  unfolding alu_kinds_def list.set insert_iff empty_iff simp_thms
  by (elim disjE; simp add: is_imm_op_def is_alu64_op_def to_reg_op_def opcode_values)

lemma classify_simple:
  "op \<in> set alu_kinds \<Longrightarrow> is_simple_imm (0x04 OR op) im =
      Some (op = 0xb0 \<or> (op = 0x00 \<or> op = 0x10) \<and> 0 \<le> sint im \<and> sint im < 0x1000) \<and>
    is_simple_imm (0x07 OR op) im = Some (op = 0xb0 \<or> (op = 0x00 \<or> op = 0x10) \<and> 0 \<le> sint im \<and> sint im < 0x1000)"
  unfolding alu_kinds_def list.set insert_iff empty_iff simp_thms
  by (elim disjE; simp add: is_simple_imm_def opcode_lists opcode_values)

lemma alu_opcodes_check:
  "list_all (\<lambda>opc. opc = EBPF_OP_NEG \<or> list_ex (\<lambda>op. opc = 0x04 OR op \<or> opc = 0x0c OR op) alu_kinds) alu32_opcodes"
  "list_all (\<lambda>opc. opc = EBPF_OP_NEG64 \<or> list_ex (\<lambda>op. opc = 0x07 OR op \<or> opc = 0x0f OR op) alu_kinds) alu64_opcodes"
  by code_simp+

lemma alu_value_cases:
  assumes "alu_value opc x y im \<noteq> None"
  obtains (neg) "opc = EBPF_OP_NEG" | (neg64) "opc = EBPF_OP_NEG64" | (le) "opc = EBPF_OP_LE" | (be) "opc = EBPF_OP_BE"
    | (imm32) op where "op \<in> set alu_kinds" "opc = 0x04 OR op" | (reg32) op where "op \<in> set alu_kinds" "opc = 0x0c OR op"
    | (imm64) op where "op \<in> set alu_kinds" "opc = 0x07 OR op" | (reg64) op where "op \<in> set alu_kinds" "opc = 0x0f OR op"
proof -
  have "opc \<in> set alu32_opcodes \<or> opc \<in> {EBPF_OP_LE, EBPF_OP_BE} \<or> opc \<in> set alu64_opcodes"
    using assms exec_alu32_None_iff [of opc x y im] exec_endian_None_iff [of opc x im] exec_alu64_None_iff [of opc x y im]
    unfolding alu_value_def by (auto split: option.splits)
  then show ?thesis
    using alu_opcodes_check unfolding list_all_iff list_ex_iff by (elim disjE) (use that in blast)+
qed

lemma is_alu64_op_special:
  "\<not> is_alu64_op EBPF_OP_NEG" "is_alu64_op EBPF_OP_NEG64" "\<not> is_alu64_op EBPF_OP_LE" "\<not> is_alu64_op EBPF_OP_BE"
  "\<not> is_imm_op EBPF_OP_NEG" "\<not> is_imm_op EBPF_OP_NEG64" "\<not> is_imm_op EBPF_OP_LE" "\<not> is_imm_op EBPF_OP_BE"
  by (simp_all add: is_imm_op_def is_alu64_op_def opcode_values)

lemma body_imm_implements:
  assumes "op \<in> set alu_kinds" "d < 24"
    and "opcode inst = 0x04 OR op \<and> sf = False \<or> opcode inst = 0x07 OR op \<and> sf = True"
  shows "implements (translate_body_a64 vm i inst d s t) (opcode inst) d s (imm inst) 6"
proof -
  have d: "d < 31" using assms(2) by (simp add: word_less_nat_alt)
  note c = classify_imm [OF assms(1)] classify_simple [OF assms(1), of "imm inst"]
  have sf: "is_alu64_op (opcode inst) = sf" "is_imm_op (opcode inst)" using c assms(3) by auto
  have small: "translate_alu_a64 (opcode inst) sf d s (imm inst) = Some (if op = 0xb0
        then emit_movewide_immediate sf d (scast (imm inst))
        else emit_addsub_immediate sf (if op = 0x00 then AS_ADD else AS_SUB) d d (imm inst))"
    if "op = 0xb0 \<or> op = 0x00 \<or> op = 0x10"
    using that assms(3) by (elim disjE conjE) (simp_all add: translate_alu_a64_def opcode_lists opcode_values known_Some)
  show ?thesis
  proof (cases "is_simple_imm (opcode inst) (imm inst) = Some True")
    case True
    then have k: "op = 0xb0 \<or> (op = 0x00 \<or> op = 0x10) \<and> 0 \<le> sint (imm inst) \<and> sint (imm inst) < 0x1000"
      using c assms(3) by auto
    have "implements (if op = 0xb0 then emit_movewide_immediate sf d (scast (imm inst))
        else emit_addsub_immediate sf (if op = 0x00 then AS_ADD else AS_SUB) d d (imm inst)) (opcode inst) d s (imm inst) 6"
      using k assms(3) implements_mov [OF d, of "imm inst" s] implements_small [OF d, of "imm inst" s]
      by (auto elim!: implements_mono)
    with body_direct [OF disjI2 [OF True] small [folded sf(1)]] k show ?thesis
      by (auto simp: sf intro!: implements_then_return)
  next
    case False
    let ?mov = "emit_movewide_immediate sf temp_register (scast (imm inst))" and ?op = "reg_code op sf d temp_register"
    let ?opc = "(if sf then 0x0f else 0x0c) OR op"
    from False have general: "is_simple_imm (opcode inst) (imm inst) = Some False" using c assms(3) by auto
    have reg: "to_reg_op (opcode inst) = Some ?opc" using c assms(3) by (elim disjE conjE) simp_all
    have "translate_alu_a64 ?opc sf d temp_register (imm inst) = Some ?op"
      using translate_reg [OF assms(1), of d temp_register "imm inst"] by (cases sf) simp_all
    from body_converted [OF sf(2) general reg sf(1) [symmetric] this]
    have body: "translate_body_a64 vm i inst d s t = do { ?mov; ?op; jit_return i }" .
    have "implements (do { ?mov; ?op }) (opcode inst) d s (imm inst) 6"
      using assms(3) implements_converted [OF assms(1,2), of "imm inst" s] by (elim disjE conjE) simp_all
    from implements_then_return [OF this, of i] show ?thesis unfolding body State_Monad.bind_assoc .
  qed
qed

lemma body_implements:
  assumes "alu_value (opcode inst) x y (imm inst) \<noteq> None" "d < 24" "s < 24"
    and "opcode inst \<in> {EBPF_OP_NEG, EBPF_OP_NEG64} \<Longrightarrow> s = d"
    and "opcode inst \<in> {EBPF_OP_LE, EBPF_OP_BE} \<Longrightarrow> imm inst \<in> {16, 32, 64}"
  shows "implements (translate_body_a64 vm i inst d s t) (opcode inst) d s (imm inst) 6"
proof -
  have r: "d < 31" "s < 31" "d \<noteq> temp_div_register" "s \<noteq> temp_div_register"
    using assms(2,3) by (auto simp: temp_div_register_def word_less_nat_alt)
  have direct: "implements (translate_body_a64 vm i inst d s t) (opcode inst) d s (imm inst) 6"
    if "\<not> is_imm_op (opcode inst)" "translate_alu_a64 (opcode inst) (is_alu64_op (opcode inst)) d s (imm inst) = Some m"
      "implements m (opcode inst) d s (imm inst) n" "n \<le> 6" for m n
    using implements_then_return [OF implements_mono [OF that(3,4)], of i] body_direct [OF disjI1 [OF that(1)] that(2)] by simp
  show ?thesis
  proof (rule alu_value_cases [OF assms(1)])
    assume o: "opcode inst = EBPF_OP_NEG"
    with assms(4) have "s = d" by simp
    with o show ?thesis using translate_neg_a64 [of EBPF_OP_NEG False d s "imm inst"] implements_neg(1) [OF r(1), of "imm inst"]
      by (intro direct [of _ 1]) (auto simp: is_alu64_op_special)
  next
    assume o: "opcode inst = EBPF_OP_NEG64"
    with assms(4) have "s = d" by simp
    with o show ?thesis using translate_neg_a64 [of EBPF_OP_NEG64 True d s "imm inst"] implements_neg(2) [OF r(1), of "imm inst"]
      by (intro direct [of _ 1]) (auto simp: is_alu64_op_special)
  next
    assume o: "opcode inst = EBPF_OP_LE"
    with assms(5) have im: "imm inst \<in> {16, 32, 64}" by simp
    from implements_le [OF r(1) im, of s] o show ?thesis
      by (elim exE conjE) (rule direct [of _ 1]; simp add: is_alu64_op_special)
  next
    assume o: "opcode inst = EBPF_OP_BE"
    with assms(5) have im: "imm inst \<in> {16, 32, 64}" by simp
    from implements_be [OF r(1) im, of s] o show ?thesis
      by (elim exE conjE) (rule direct [of _ 2]; simp add: is_alu64_op_special)
  next
    fix op
    assume o: "op \<in> set alu_kinds" "opcode inst = 0x0c OR op"
    then show ?thesis
      using classify_reg [OF o(1)] translate_reg(1) [OF o(1), of d s "imm inst"] implements_reg(1) [OF o(1) r(1,2,4,3), of "imm inst"]
      by (intro direct [of _ 2]) auto
  next
    fix op
    assume o: "op \<in> set alu_kinds" "opcode inst = 0x0f OR op"
    then show ?thesis
      using classify_reg [OF o(1)] translate_reg(2) [OF o(1), of d s "imm inst"] implements_reg(2) [OF o(1) r(1,2,4,3), of "imm inst"]
      by (intro direct [of _ 2]) auto
  qed (use body_imm_implements [OF _ assms(2)] in blast)+
qed

text \<open>The registers of the interpreter in those of the target.\<close>

definition holds :: "(4 word \<Rightarrow> u64) \<Rightarrow> (u32 \<Rightarrow> u64) \<Rightarrow> bool" where
  "holds reg R \<longleftrightarrow> (\<forall>r < 11. R (mapped_a64 r) = reg r)"

lemma mapped_range: "mapped_a64 r < 24"
proof -
  have "\<forall>x \<in> set register_map_a64. x < 24" by (simp add: register_map_a64_def)
  moreover have "length register_map_a64 = 11" by (simp add: register_map_a64_def)
  then have "mapped_a64 r \<in> set register_map_a64" unfolding mapped_a64_def by (intro nth_mem) simp
  ultimately show ?thesis by blast
qed

lemma mapped_inject: "r < 11 \<Longrightarrow> r' < 11 \<Longrightarrow> mapped_a64 r = mapped_a64 r' \<longleftrightarrow> r = r'"
proof -
  assume a: "r < 11" "r' < 11"
  have "distinct register_map_a64" "length register_map_a64 = 11" by (simp_all add: register_map_a64_def)
  with a have "mapped_a64 r = mapped_a64 r' \<longleftrightarrow> unat r = unat r'"
    by (simp add: mapped_a64_def nth_eq_iff_index_eq word_less_nat_alt)
  then show ?thesis by (simp add: word_unat_eq_iff)
qed

definition arith_opcodes :: "u8 list" where
  "arith_opcodes = alu32_opcodes @ [EBPF_OP_LE, EBPF_OP_BE] @ alu64_opcodes"

lemma alu_value_defined: "opc \<in> set arith_opcodes \<Longrightarrow> alu_value opc x y im \<noteq> None"
  using exec_alu32_None_iff [of opc x y im] exec_endian_None_iff [of opc x im] exec_alu64_None_iff [of opc x y im]
  unfolding alu_value_def arith_opcodes_def by (auto split: option.splits)

lemma arith_code_correct:
  assumes "opcode inst \<in> set arith_opcodes" "dst inst < 11" "src inst < 11"
    and "opcode inst \<in> {EBPF_OP_NEG, EBPF_OP_NEG64} \<Longrightarrow> src inst = dst inst"
    and "opcode inst \<in> {EBPF_OP_LE, EBPF_OP_BE} \<Longrightarrow> imm inst \<in> {16, 32, 64}"
  shows "\<exists>is. length is \<le> 6 \<and>
    assembles is (translate_body_a64 vm i inst (mapped_a64 (dst inst)) (mapped_a64 (src inst)) t) \<and>
    (\<forall>ex R. holds (ex_reg ex) R \<longrightarrow>
       (\<exists>ex' R'. exec_arith inst ex = Some ex' \<and> a64_run is R = Some R' \<and> holds (ex_reg ex') R'))"
proof -
  let ?d = "mapped_a64 (dst inst)" and ?s = "mapped_a64 (src inst)"
  from body_implements [OF alu_value_defined [OF assms(1)] mapped_range mapped_range] assms(4,5)
  have "implements (translate_body_a64 vm i inst ?d ?s t) (opcode inst) ?d ?s (imm inst) 6" by simp
  then obtain f "is" where f: "length is \<le> 6" "assembles is (translate_body_a64 vm i inst ?d ?s t)"
    "\<And>R. a64_run is R = Some (f R)" "\<And>R. alu_value (opcode inst) (R ?d) (R ?s) (imm inst) = Some (f R ?d)"
    "\<And>R r. r \<noteq> ?d \<Longrightarrow> r \<noteq> temp_register \<Longrightarrow> r \<noteq> temp_div_register \<Longrightarrow> f R r = R r"
    unfolding implements_def computes_def by blast
  have "holds (ex_reg ex') (f R)" if ex: "exec_arith inst ex = Some ex'" and R: "holds (ex_reg ex) R" for ex ex' R
    unfolding holds_def
  proof (intro allI impI)
    fix r :: "4 word"
    assume r: "r < 11"
    obtain v where v: "alu_value (opcode inst) (ex_reg ex (dst inst)) (ex_reg ex (src inst)) (imm inst) = Some v"
      "ex' = set_reg ex (dst inst) v" using ex by (auto simp: exec_arith_value)
    have "mapped_a64 r \<noteq> temp_register" "mapped_a64 r \<noteq> temp_div_register"
      using mapped_range [of r] by (auto simp: temp_register_def temp_div_register_def)
    moreover have "f R ?d = v" using f(4) [of R] v(1) R assms(2,3) by (simp add: holds_def)
    ultimately show "f R (mapped_a64 r) = ex_reg ex' r"
      using f(5) [of "mapped_a64 r" R] R r mapped_inject [OF r assms(2)] by (cases "r = dst inst") (auto simp: v(2) set_reg_def holds_def)
  qed
  moreover have "exec_arith inst ex \<noteq> None" for ex using alu_value_defined [OF assms(1)] by (simp add: exec_arith_value)
  ultimately show ?thesis using f(1-3) by blast
qed

end
