(* ===== verification/Ubpf_Safety.thy ===== *)
theory Ubpf_Safety
  imports Ubpf_Run
begin

text \<open>
  Memory safety of the interpreter with the bounds check on: a program that \<open>ubpf_load\<close> accepted
  cannot make the process fault or abort, and changes no byte outside the memory it was given, its
  stack, the addresses the bounds-check callback grants and those its helpers write themselves.
\<close>

section \<open>What a program may touch\<close>

definition granted :: "host \<Rightarrow> ubpf_vm \<Rightarrow> u64 set" where
  "granted h vm = {x. \<exists>a. \<exists>n \<in> access_sizes. x \<in> region a n \<and> bounds_check_function vm \<noteq> 0 \<and>
     call_bounds_check h (bounds_check_function vm) (bounds_check_user_data vm) a (of_nat n)}"

definition allowed :: "host \<Rightarrow> ubpf_vm \<Rightarrow> exec_args \<Rightarrow> u64 set" where
  "allowed h vm args = region (arg_mem args) (unat (arg_mem_len args)) \<union>
     region (arg_stack_start args) (unat (arg_stack_length args)) \<union> granted h vm"

text \<open>\<open>m\<close> is \<open>m0\<close> with some bytes of \<open>S\<close> changed.\<close>

definition changed_within :: "u64 set \<Rightarrow> memory \<Rightarrow> memory \<Rightarrow> bool" where
  "changed_within S m0 m \<longleftrightarrow> (\<forall>x. m x = None \<longleftrightarrow> m0 x = None) \<and> (\<forall>x. x \<notin> S \<longrightarrow> m x = m0 x)"

lemma changed_within_refl [simp]: "changed_within S m m"
  by (simp add: changed_within_def)

lemma changed_within_trans:
  "changed_within S m0 m1 \<Longrightarrow> changed_within S m1 m2 \<Longrightarrow> changed_within S m0 m2"
  by (auto simp: changed_within_def)

lemma changed_within_mono: "changed_within S m0 m \<Longrightarrow> S \<subseteq> T \<Longrightarrow> changed_within T m0 m"
  by (auto simp: changed_within_def)

text \<open>Helpers keep the address space and write only \<open>H\<close>.\<close>

definition helpers_within :: "host \<Rightarrow> u64 set \<Rightarrow> bool" where
  "helpers_within h H \<longleftrightarrow>
     (\<forall>f a b c d e m. changed_within H m (snd (call_ext h f a b c d e m))) \<and>
     (\<forall>f a b c d e i k m. changed_within H m (snd (call_dispatcher h f a b c d e i k m)))"

text \<open>The promises of the embedding application.\<close>

definition safe_call :: "host \<Rightarrow> ubpf_vm \<Rightarrow> ebpf_inst list \<Rightarrow> exec_args \<Rightarrow> u64 set \<Rightarrow> memory \<Rightarrow> bool" where
  "safe_call h vm insns args H m \<longleftrightarrow> loaded vm insns \<and> bounds_check_enabled vm \<and>
     object_fits (arg_mem args) (arg_mem_len args) \<and>
     object_fits (arg_stack_start args) (arg_stack_length args) \<and>
     (undefined_behavior_check_enabled vm \<longrightarrow> unat (arg_stack_length args) mod 8 = 0) \<and>
     helpers_within h H \<and> (\<forall>x \<in> allowed h vm args. m x \<noteq> None)"

definition safe_state ::
  "host \<Rightarrow> ubpf_vm \<Rightarrow> ebpf_inst list \<Rightarrow> exec_args \<Rightarrow> u64 set \<Rightarrow> memory \<Rightarrow> exec_state \<Rightarrow> bool"
where
  "safe_state h vm insns args H m st \<longleftrightarrow> safe_call h vm insns args H m \<and>
     (undefined_behavior_check_enabled vm \<longrightarrow>
        8 * length (ex_shadow_stack st) = unat (arg_stack_length args)) \<and>
     changed_within (allowed h vm args \<union> H) m (ex_memory st)"

definition safe_stop :: "u64 set \<Rightarrow> memory \<Rightarrow> exec_stop \<Rightarrow> bool" where
  "safe_stop S m stop = (case stop of
     Returned v m' \<Rightarrow> changed_within S m m' | Failed e m' \<Rightarrow> changed_within S m m' | Crashed c \<Rightarrow> False)"

definition safe_result ::
  "host \<Rightarrow> ubpf_vm \<Rightarrow> ebpf_inst list \<Rightarrow> exec_args \<Rightarrow> u64 set \<Rightarrow> memory \<Rightarrow> exec_stop + exec_state \<Rightarrow> bool"
where
  "safe_result h vm insns args H m r = (case r of
     Inl stop \<Rightarrow> safe_stop (allowed h vm args \<union> H) m stop
   | Inr st \<Rightarrow> safe_state h vm insns args H m st)"

lemma safe_result_simps [simp]:
  "safe_result h vm insns args H m (Inl stop) = safe_stop (allowed h vm args \<union> H) m stop"
  "safe_result h vm insns args H m (Inr st) = safe_state h vm insns args H m st"
  by (simp_all add: safe_result_def)

lemma safe_stop_simps [simp]:
  "safe_stop S m (Returned v m') = changed_within S m m'"
  "safe_stop S m (Failed e m') = changed_within S m m'"
  "safe_stop S m (Crashed c) = False"
  by (simp_all add: safe_stop_def)

text \<open>Safety looks at the shadow stack and the memory only.\<close>

lemma safe_state_cong:
  "ex_shadow_stack st' = ex_shadow_stack st \<Longrightarrow> ex_memory st' = ex_memory st \<Longrightarrow>
     safe_state h vm insns args H m st' = safe_state h vm insns args H m st"
  by (simp add: safe_state_def)

lemma safe_state_memory:
  "safe_state h vm insns args H m st \<Longrightarrow> changed_within (allowed h vm args \<union> H) m (ex_memory st)"
  by (simp add: safe_state_def)

section \<open>Accesses\<close>

lemma bounds_check_allowed:
  assumes "safe_state h vm insns args H m st" "n \<in> access_sizes"
    and "bounds_check h vm a n ty pc (arg_mem args) (arg_mem_len args)
      (arg_stack_start args) (arg_stack_length args) = None"
  shows "region a n \<subseteq> allowed h vm args" and "\<And>x. x \<in> region a n \<Longrightarrow> ex_memory st x \<noteq> None"
proof -
  have sc: "safe_call h vm insns args H m" using assms(1) by (simp add: safe_state_def)
  have n: "0 < n" "n \<le> 8" using access_size_le [OF assms(2)] by simp_all
  have "region a n \<subseteq> granted h vm" if "bounds_check_function vm \<noteq> 0"
      "call_bounds_check h (bounds_check_function vm) (bounds_check_user_data vm) a (of_nat n)"
    using that assms(2) unfolding granted_def by blast
  then show sub: "region a n \<subseteq> allowed h vm args"
    using bounds_check_sound [OF assms(3) _ _ _ n] sc
    by (auto simp: safe_call_def allowed_def)
  show "ex_memory st x \<noteq> None" if "x \<in> region a n" for x
    using that sub sc assms(1) by (auto simp: safe_call_def safe_state_def changed_within_def)
qed

lemma safe_shadow:
  assumes "safe_state h vm insns args H m st" "n \<in> access_sizes"
  shows "\<exists>b. ubpf_check_shadow_stack vm (arg_stack_start args) (arg_stack_length args)
      (ex_shadow_stack st) a n = Some b"
    and "\<exists>ss. ubpf_mark_shadow_stack vm (arg_stack_start args) (arg_stack_length args)
      (ex_shadow_stack st) a n = Some ss \<and> length ss = length (ex_shadow_stack st)"
proof -
  have n: "0 < n" "n \<le> 8" using access_size_le [OF assms(2)] by simp_all
  have "(\<exists>b. ubpf_check_shadow_stack vm (arg_stack_start args) (arg_stack_length args)
        (ex_shadow_stack st) a n = Some b) \<and>
      (\<exists>ss. ubpf_mark_shadow_stack vm (arg_stack_start args) (arg_stack_length args)
        (ex_shadow_stack st) a n = Some ss \<and> length ss = length (ex_shadow_stack st))"
  proof (cases "undefined_behavior_check_enabled vm")
    case False
    then show ?thesis by (auto simp: ubpf_check_shadow_stack_def ubpf_mark_shadow_stack_def)
  next
    case True
    then have "object_fits (arg_stack_start args) (arg_stack_length args)"
      "8 * length (ex_shadow_stack st) = unat (arg_stack_length args)"
      using assms(1) by (simp_all add: safe_state_def safe_call_def)
    from check_shadow_stack_eq [OF True this n] mark_shadow_stack_eq [OF True this n]
    show ?thesis by metis
  qed
  then show "\<exists>b. ubpf_check_shadow_stack vm (arg_stack_start args) (arg_stack_length args)
      (ex_shadow_stack st) a n = Some b"
    and "\<exists>ss. ubpf_mark_shadow_stack vm (arg_stack_start args) (arg_stack_length args)
      (ex_shadow_stack st) a n = Some ss \<and> length ss = length (ex_shadow_stack st)"
    by blast+
qed

lemma safe_load:
  assumes st: "safe_state h vm insns args H m st" and n: "n \<in> access_sizes"
  shows "safe_result h vm insns args H m (exec_load h vm args cur_pc inst n st)"
proof -
  let ?a = "ex_reg st (src inst) + scast (offset inst)"
  obtain b where b: "ubpf_check_shadow_stack vm (arg_stack_start args) (arg_stack_length args)
      (ex_shadow_stack st) ?a n = Some b" using safe_shadow(1) [OF st n] by blast
  show ?thesis
  proof (cases "BOUNDS_CHECK_LOAD h vm args cur_pc st ?a n")
    case (Some stop)
    then show ?thesis using b safe_state_memory [OF st]
      by (auto simp: exec_load_def BOUNDS_CHECK_LOAD_def Let_def split: bool.splits option.splits)
  next
    case None
    then have "bounds_check h vm ?a n Load_access cur_pc (arg_mem args) (arg_mem_len args)
        (arg_stack_start args) (arg_stack_length args) = None"
      by (auto simp: BOUNDS_CHECK_LOAD_def split: option.splits bool.splits)
    from bounds_check_allowed(2) [OF st n this] ubpf_mem_load_total [OF n]
    obtain v where "ubpf_mem_load (ex_memory st) ?a n = Inr v" by blast
    with None show ?thesis using st
      by (simp add: exec_load_def Let_def safe_state_cong [of "set_reg _ _ _" st])
  qed
qed

lemma safe_store:
  assumes st: "safe_state h vm insns args H m st" and n: "n \<in> access_sizes"
  shows "safe_result h vm insns args H m (exec_store h vm args cur_pc inst n v st)"
proof -
  let ?a = "ex_reg st (dst inst) + scast (offset inst)"
  obtain ss where ss: "ubpf_mark_shadow_stack vm (arg_stack_start args) (arg_stack_length args)
      (ex_shadow_stack st) ?a n = Some ss" "length ss = length (ex_shadow_stack st)"
    using safe_shadow(2) [OF st n] by blast
  show ?thesis
  proof (cases "bounds_check h vm ?a n Store_access cur_pc (arg_mem args) (arg_mem_len args)
        (arg_stack_start args) (arg_stack_length args)")
    case (Some e)
    then show ?thesis using safe_state_memory [OF st]
      by (simp add: exec_store_def BOUNDS_CHECK_STORE_def Let_def)
  next
    case None
    note in_bounds = bounds_check_allowed [OF st n None]
    obtain m' where m': "ubpf_mem_store (ex_memory st) ?a v n = Inr m'"
      using ubpf_mem_store_total [OF n, of ?a "ex_memory st" v] in_bounds(2) by blast
    have "changed_within (allowed h vm args \<union> H) (ex_memory st) m'"
      using in_bounds(1) ubpf_mem_store_domain [OF n m'] ubpf_mem_store_outside [OF n m']
      unfolding changed_within_def by blast
    then have "changed_within (allowed h vm args \<union> H) m m'"
      using changed_within_trans safe_state_memory [OF st] by blast
    then show ?thesis using None ss m' st
      by (simp add: exec_store_def BOUNDS_CHECK_STORE_def Let_def safe_state_def)
  qed
qed

section \<open>Calls and the loop body\<close>

lemma loaded_fetch:
  assumes "loaded vm insns" "pc < num_insts vm"
  shows "unat pc < length insns" and "ubpf_fetch_instruction vm pc = Some (insns ! unat pc)"
    and "valid_slot vm insns (unat pc)"
  using assms by (auto simp: loaded_def valid_program_def word_less_nat_alt)

lemma loaded_int_funcs:
  assumes "loaded vm insns"
  shows "\<exists>funcs. int_funcs vm = Some funcs \<and> length funcs = unat (num_insts vm)"
proof -
  obtain obj where "insts vm = Some obj" using assms by (auto simp: loaded_def)
  then show ?thesis
    using assms by (cases obj; cases "int_funcs vm") (auto simp: loaded_def wf_vm_def)
qed

lemma loaded_call:
  assumes "loaded vm insns" "i < length insns" "valid_slot vm insns i"
    and "opcode (insns ! i) = EBPF_OP_CALL" "src (insns ! i) = 0" "dispatcher vm = 0"
  shows "unat (imm (insns ! i)) < length (ext_funcs vm) \<and> ext_funcs vm ! unat (imm (insns ! i)) \<noteq> 0"
proof -
  have "valid_call vm insns i"
    using assms(3,4) special_opcodes_distinct by (auto simp: valid_slot_def valid_inst_at_def Let_def)
  then have im: "0 \<le> sint (imm (insns ! i))" "sint (imm (insns ! i)) < 64"
    and fn: "ext_funcs vm ! unat (imm (insns ! i)) \<noteq> 0"
    using assms(5,6) by (auto simp: valid_call_def MAX_EXT_FUNCS_def Let_def)
  moreover have "length (ext_funcs vm) = 64"
    using assms(1) by (simp add: loaded_def wf_vm_def MAX_EXT_FUNCS_def)
  ultimately show ?thesis using sint_nonneg_unat [OF im(1)] by linarith
qed

lemma safe_external_call:
  assumes st: "safe_state h vm insns args H m st"
    and fn: "dispatcher vm = 0 \<Longrightarrow>
      unat (imm inst) < length (ext_funcs vm) \<and> ext_funcs vm ! unat (imm inst) \<noteq> 0"
  shows "safe_result h vm insns args H m (exec_external_call h vm args inst st)"
proof -
  let ?result = "if dispatcher vm \<noteq> 0
    then Some (call_dispatcher h (dispatcher vm) (ex_reg st 1) (ex_reg st 2) (ex_reg st 3) (ex_reg st 4)
           (ex_reg st 5) (imm inst) (arg_mem args) (ex_memory st))
    else ubpf_default_external_dispatcher h (ext_funcs vm) (imm inst) (ex_reg st) (ex_memory st)"
  have within: "helpers_within h H" using st by (simp add: safe_state_def safe_call_def)
  obtain v m' where r: "?result = Some (v, m')" and "changed_within H (ex_memory st) m'"
  proof (cases "dispatcher vm = 0")
    case True
    then show ?thesis
      using fn [OF True] within that unfolding helpers_within_def
      by (simp add: ubpf_default_external_dispatcher_def) (metis prod.collapse)
  next
    case False
    then show ?thesis
      using within that unfolding helpers_within_def by simp (metis prod.collapse)
  qed
  then have "changed_within (allowed h vm args \<union> H) m m'"
    using changed_within_trans [OF safe_state_memory [OF st]] changed_within_mono by blast
  with r st show ?thesis
    unfolding exec_external_call_def Let_def r by (simp add: safe_state_def)
qed

lemma safe_switch:
  assumes st: "safe_state h vm insns args H m st" and pc: "cur_pc < num_insts vm"
    and next_pc: "ex_pc st = cur_pc + 1" and inst: "inst = insns ! unat cur_pc"
  shows "safe_result h vm insns args H m (exec_switch h vm args cur_pc inst st)"
proof -
  have ld: "loaded vm insns" using st by (simp add: safe_state_def safe_call_def)
  note here = loaded_fetch [OF ld pc]
  have regs: "safe_state h vm insns args H m (set_reg st r v)" for r v
    using st by (simp add: safe_state_cong [of "set_reg st r v" st])
  obtain r where r: "exec_switch h vm args cur_pc inst st = r" by blast
  then have "safe_result h vm insns args H m r"
  proof (cases rule: exec_switch_cases)
    case (load n)
    then show ?thesis using safe_load [OF st width_values(1)] by simp
  next
    case (store n v)
    then show ?thesis using safe_store [OF st] by simp
  next
    case lddw
    then have "unat cur_pc + 1 < length insns"
      using here(3) inst special_opcodes_distinct
      by (auto simp: valid_slot_def valid_inst_at_def Let_def)
    moreover from this have "unat (ex_pc st) = unat cur_pc + 1"
      using next_pc here(1) ld by (simp add: unat_word_ariths loaded_def valid_program_def UBPF_MAX_INSTS_def)
    ultimately have "ubpf_fetch_instruction vm (ex_pc st) \<noteq> None"
      using ld by (simp add: loaded_def)
    then show ?thesis using lddw(2) st
      by (auto simp: exec_lddw_def safe_state_cong [of "set_reg st _ _\<lparr> ex_pc := _ \<rparr>" st])
  next
    case exit
    then show ?thesis using st safe_state_memory [OF st]
      by (simp add: exec_exit_def Let_def safe_state_def)
  next
    case call
    have "safe_result h vm insns args H m (exec_external_call h vm args inst st)" if "src inst = 0"
      using loaded_call [OF ld here(1,3)] call(1) inst that by (intro safe_external_call [OF st]) simp
    then show ?thesis using call(2) st safe_state_memory [OF st]
      by (simp add: exec_call_def exec_local_call_def Let_def safe_state_def)
  qed (use st regs safe_state_memory [OF st] in \<open>simp_all add: safe_state_def\<close>)
  with r show ?thesis by simp
qed

lemma safe_head:
  assumes st: "safe_state h vm insns args H m st"
  shows "case exec_head vm st of
      Inl stop \<Rightarrow> safe_stop (allowed h vm args \<union> H) m stop
    | Inr (inst, st1) \<Rightarrow> safe_state h vm insns args H m st1 \<and> ex_pc st < num_insts vm \<and>
        ex_pc st1 = ex_pc st + 1 \<and> inst = insns ! unat (ex_pc st)"
proof (cases "exec_head vm st")
  case (Inl stop)
  have ld: "loaded vm insns" using st by (simp add: safe_state_def safe_call_def)
  obtain funcs where "int_funcs vm = Some funcs" "length funcs = unat (num_insts vm)"
    using loaded_int_funcs [OF ld] by blast
  then have "\<exists>e. stop = Failed e (ex_memory st)"
    using Inl loaded_fetch(2) [OF ld, of "ex_pc st"]
    by (auto simp: exec_head_def enter_function_def Let_def not_le word_less_nat_alt
        split: if_splits option.splits sum.splits)
  then show ?thesis using Inl safe_state_memory [OF st] by auto
next
  case (Inr p)
  obtain inst st1 where p: "p = (inst, st1)" by (cases p)
  have ld: "loaded vm insns" using st by (simp add: safe_state_def safe_call_def)
  from Inr p have "exec_head vm st = Inr (inst, st1)" by simp
  then show ?thesis
    by (rule exec_head_Inr) (use Inr p st loaded_fetch(2) [OF ld] in \<open>auto simp: safe_state_def\<close>)
qed

lemma safe_step:
  assumes "safe_state h vm insns args H m st"
  shows "safe_result h vm insns args H m (exec_step h vm args st)"
proof (cases "exec_head vm st")
  case (Inl stop)
  then show ?thesis using safe_head [OF assms] by (simp add: exec_step_def)
next
  case (Inr p)
  then obtain inst st1 where head: "exec_head vm st = Inr (inst, st1)" by (cases p) simp
  from head safe_head [OF assms]
  have "safe_result h vm insns args H m (exec_switch h vm args (ex_pc st) inst st1)"
    by (intro safe_switch) simp_all
  with head show ?thesis
    by (auto simp: exec_step_def safe_state_def split: sum.split)
qed

interpretation safety: exec_invariant h vm args "safe_state h vm insns args H m"
  "safe_stop (allowed h vm args \<union> H) m" for h vm insns args H m
proof unfold_locales
  fix st st' stop
  assume "safe_state h vm insns args H m st"
  note safe = safe_step [OF this]
  show "safe_state h vm insns args H m st'" if "exec_step h vm args st = Inr st'"
    using safe that by simp
  show "safe_stop (allowed h vm args \<union> H) m stop" if "exec_step h vm args st = Inl stop"
    using safe that by simp
qed

lemma safe_initial:
  "safe_call h vm insns args H m \<Longrightarrow> safe_state h vm insns args H m (initial_state vm args regs0 m)"
  by (auto simp: safe_state_def safe_call_def initial_state_def)

lemma exec_safe:
  assumes "safe_call h vm insns args H m" "ubpf_exec_ex h vm calloc_ok regs0 args m = Some stop"
  shows "safe_stop (allowed h vm args \<union> H) m stop"
  using assms safety.loop_post [OF _ safe_initial [OF assms(1)], of regs0]
  by (auto simp: ubpf_exec_ex_def split: if_splits)

end
