(* ===== verification/Ubpf_Control.thy ===== *)
theory Ubpf_Control
  imports Ubpf_Safety
begin

text \<open>
  Control flow of the interpreter: the stack of call frames and the calling convention of local
  functions, and where the program counter can point when a loaded program runs.
\<close>

section \<open>Call frames\<close>

definition wf_frames :: "exec_state \<Rightarrow> bool" where
  "wf_frames st \<longleftrightarrow> length (ex_frames st) = UBPF_MAX_CALL_DEPTH \<and>
     ex_frame_index st \<le> UBPF_MAX_CALL_DEPTH \<and>
     (\<forall>frame \<in> set (ex_frames st). length (saved_registers frame) = 5)"

text \<open>The effect of one iteration on the frames: none below the current one, a call or a return.\<close>

datatype control = Stay | Enter | Leave

definition control_effect :: "control \<Rightarrow> exec_state \<Rightarrow> exec_state \<Rightarrow> bool" where
  "control_effect c st st' \<longleftrightarrow>
     length (ex_frames st') = length (ex_frames st) \<and>
     (\<forall>i < ex_frame_index st. ex_frames st' ! i = ex_frames st ! i) \<and>
     (case c of
        Stay \<Rightarrow> ex_frame_index st' = ex_frame_index st
      | Enter \<Rightarrow> ex_frame_index st < UBPF_MAX_CALL_DEPTH \<and>
          ex_frame_index st' = Suc (ex_frame_index st) \<and>
          return_address (ex_frames st' ! ex_frame_index st) = ex_pc st + 1 \<and>
          take 4 (saved_registers (ex_frames st' ! ex_frame_index st)) =
            [ex_reg st 6, ex_reg st 7, ex_reg st 8, ex_reg st 9]
      | Leave \<Rightarrow> ex_frame_index st = Suc (ex_frame_index st') \<and>
          ex_pc st' = return_address (ex_frames st ! ex_frame_index st') \<and>
          [ex_reg st' 6, ex_reg st' 7, ex_reg st' 8, ex_reg st' 9] =
            take 4 (saved_registers (ex_frames st ! ex_frame_index st')))"

lemma control_effect_Stay:
  "ex_frames st' = ex_frames st \<Longrightarrow> ex_frame_index st' = ex_frame_index st \<Longrightarrow>
     control_effect Stay st st'"
  by (simp add: control_effect_def)

lemma exec_tail_reg_jmp:
  "opcode inst = EBPF_OP_CALL \<or> opcode inst = EBPF_OP_EXIT \<Longrightarrow> ex_reg (exec_tail inst st) = ex_reg st"
  by (auto simp: exec_tail_def opcode_values)

lemma take_4_eq: "4 \<le> length xs \<Longrightarrow> take 4 xs = [xs ! 0, xs ! 1, xs ! 2, xs ! 3]"
  by (rule nth_equalityI) (auto simp: nth_Cons' less_Suc_eq numeral_eq_Suc)

text \<open>The switch, from the state \<open>st1\<close> the head leaves.\<close>

lemma exec_switch_control:
  assumes sw: "exec_switch h vm args cur_pc inst st1 = Inr st2" and wf: "wf_frames st1"
    and pc: "ex_pc st1 = cur_pc + 1"
  shows "\<exists>c. control_effect c (st1\<lparr> ex_pc := cur_pc \<rparr>) (exec_tail inst st2) \<and> wf_frames st2"
  using sw
proof (cases rule: exec_switch_cases)
  case (load n)
  then obtain v where "st2 = set_reg st1 (dst inst) v"
    using exec_load_Inr [of h vm args cur_pc inst n st1 st2] by auto
  then show ?thesis using wf by (auto intro!: exI [of _ Stay] control_effect_Stay simp: wf_frames_def)
next
  case (store n v)
  then have "exec_store h vm args cur_pc inst n v st1 = Inr st2" by simp
  then show ?thesis
    by (rule exec_store_Inr)
      (use wf in \<open>auto intro!: exI [of _ Stay] control_effect_Stay simp: wf_frames_def\<close>)
next
  case lddw
  then obtain v where "st2 = (set_reg st1 (dst inst) v)\<lparr> ex_pc := ex_pc st1 + 1 \<rparr>"
    using exec_lddw_Inr [of vm inst st1 st2] by auto
  then show ?thesis using wf by (auto intro!: exI [of _ Stay] control_effect_Stay simp: wf_frames_def)
next
  case exit
  then have i: "0 < ex_frame_index st1" by (auto simp: exec_exit_def split: if_splits)
  let ?frame = "ex_frames st1 ! (ex_frame_index st1 - 1)"
  have "?frame \<in> set (ex_frames st1)" using wf i by (auto simp: wf_frames_def intro!: nth_mem)
  then have "4 \<le> length (saved_registers ?frame)" using wf by (simp add: wf_frames_def)
  then show ?thesis
    using exit i wf exec_tail_reg_jmp [of inst st2]
    by (intro exI [of _ Leave]) (auto simp: exec_exit_def control_effect_def wf_frames_def Let_def take_4_eq)
next
  case call
  consider (external) "src inst = 0" "exec_external_call h vm args inst st1 = Inr st2"
    | (local) "exec_local_call cur_pc inst st1 = Inr st2" | (other) "st2 = st1"
    using call(2) by (auto simp: exec_call_def split: if_splits)
  then show ?thesis
  proof cases
    case external
    then obtain v m where "st2 = (set_reg st1 0 v)\<lparr> ex_memory := m \<rparr>"
      using exec_external_call_Inr by blast
    then show ?thesis using wf by (auto intro!: exI [of _ Stay] control_effect_Stay simp: wf_frames_def)
  next
    case local
    then have i: "ex_frame_index st1 < UBPF_MAX_CALL_DEPTH"
      by (auto simp: exec_local_call_def split: if_splits)
    then have "ex_frames st1 ! ex_frame_index st1 \<in> set (ex_frames st1)"
      using wf by (simp add: wf_frames_def)
    then have "length (saved_registers (ex_frames st1 ! ex_frame_index st1)) = 5"
      using wf by (simp add: wf_frames_def)
    then show ?thesis
      using local i wf pc
      by (intro exI [of _ Enter])
        (auto simp: exec_local_call_def control_effect_def wf_frames_def Let_def
          dest!: set_update_subset_insert [THEN subsetD])
  next
    case other
    then show ?thesis using wf by (auto intro!: exI [of _ Stay] control_effect_Stay)
  qed
qed (use wf in \<open>auto intro!: exI [of _ Stay] control_effect_Stay simp: wf_frames_def\<close>)

lemma exec_head_frames:
  assumes "exec_head vm st = Inr (inst, st1)" "wf_frames st"
  shows "wf_frames st1" and "ex_frame_index st1 = ex_frame_index st" and "ex_reg st1 = ex_reg st"
    and "ex_pc st1 = ex_pc st + 1"
    and "i < ex_frame_index st \<Longrightarrow> ex_frames st1 ! i = ex_frames st ! i"
    and "length (ex_frames st1) = length (ex_frames st)"
proof -
  have "wf_frames st1 \<and> ex_frame_index st1 = ex_frame_index st \<and> ex_reg st1 = ex_reg st \<and>
      ex_pc st1 = ex_pc st + 1 \<and> (i < ex_frame_index st \<longrightarrow> ex_frames st1 ! i = ex_frames st ! i) \<and>
      length (ex_frames st1) = length (ex_frames st)"
    using assms(1)
  proof (rule exec_head_Inr)
    fix frames sr limit
    assume st1: "st1 = st\<lparr> ex_pc := ex_pc st + 1, ex_frames := frames, ex_shadow_registers := sr,
        ex_limit := limit \<rparr>"
      and frames: "frames = ex_frames st \<or> frames = (ex_frames st)[ex_frame_index st :=
        (ex_frames st ! ex_frame_index st)
          \<lparr> frame_stack_usage := ubpf_stack_usage_for_local_func vm (ex_pc st) \<rparr>]"
    have "length (saved_registers f) = 5" if "f \<in> set frames" for f
    proof (cases "ex_frame_index st < length (ex_frames st)")
      case True
      then show ?thesis
        using that frames assms(2)
        by (auto simp: wf_frames_def dest!: set_update_subset_insert [THEN subsetD])
    next
      case False
      then have "frames = ex_frames st" using frames by (auto simp: list_update_beyond)
      then show ?thesis using that assms(2) by (simp add: wf_frames_def)
    qed
    then show ?thesis using st1 frames assms(2) by (auto simp: wf_frames_def)
  qed
  then show "wf_frames st1" and "ex_frame_index st1 = ex_frame_index st" and "ex_reg st1 = ex_reg st"
    and "ex_pc st1 = ex_pc st + 1"
    and "i < ex_frame_index st \<Longrightarrow> ex_frames st1 ! i = ex_frames st ! i"
    and "length (ex_frames st1) = length (ex_frames st)"
    by blast+
qed

lemma exec_step_control:
  assumes "exec_step h vm args st = Inr st'" "wf_frames st"
  shows "\<exists>c. control_effect c st st'" and "wf_frames st'"
proof -
  from assms(1) obtain inst st1 st2 where head: "exec_head vm st = Inr (inst, st1)"
    and sw: "exec_switch h vm args (ex_pc st) inst st1 = Inr st2" and st': "st' = exec_tail inst st2"
    by (rule exec_step_Inr)
  note hd = exec_head_frames [OF head assms(2)]
  obtain c where c: "control_effect c (st1\<lparr> ex_pc := ex_pc st \<rparr>) st'" and wf2: "wf_frames st2"
    using exec_switch_control [OF sw hd(1,4)] st' by blast
  show "wf_frames st'" using wf2 st' by (simp add: wf_frames_def)
  have "control_effect c st st'"
    using c hd(2,3,6) hd(5) by (auto simp: control_effect_def split: control.splits)
  then show "\<exists>c. control_effect c st st'" by blast
qed

interpretation frames: exec_invariant h vm args wf_frames "\<lambda>_. True" for h vm args
  by unfold_locales (auto dest: exec_step_control)

lemma initial_wf_frames: "wf_frames (initial_state vm args regs0 m)"
  by (simp add: wf_frames_def initial_state_def empty_frame_def)

section \<open>The calling convention\<close>

text \<open>Iterations that all start and end above depth \<open>d\<close>.\<close>

inductive exec_steps_above ::
  "host \<Rightarrow> ubpf_vm \<Rightarrow> exec_args \<Rightarrow> nat \<Rightarrow> nat \<Rightarrow> exec_state \<Rightarrow> exec_state \<Rightarrow> bool"
  for h vm args d
where
  above_refl: "d < ex_frame_index st \<Longrightarrow> exec_steps_above h vm args d 0 st st"
| above_step: "d < ex_frame_index st \<Longrightarrow> exec_step h vm args st = Inr st1 \<Longrightarrow>
    exec_steps_above h vm args d n st1 st2 \<Longrightarrow> exec_steps_above h vm args d (Suc n) st st2"

lemma above_keeps_frame:
  assumes "exec_steps_above h vm args d n st st'" "wf_frames st"
  shows "ex_frames st' ! d = ex_frames st ! d" and "wf_frames st'" and "d < ex_frame_index st'"
  using assms
proof (induction rule: exec_steps_above.induct)
  case (above_step st st1 n st2)
  {
    case 1
    then show ?case using above_step exec_step_control [OF above_step(2)]
      by (auto simp: control_effect_def)
  next
    case 2
    then show ?case using above_step exec_step_control [OF above_step(2)] by blast
  next
    case 3
    then show ?case using above_step exec_step_control [OF above_step(2)] by blast
  }
qed auto

lemma call_and_return:
  assumes wf: "wf_frames st" and call: "exec_step h vm args st = Inr st1"
    and depth: "ex_frame_index st1 = Suc (ex_frame_index st)"
    and body: "exec_steps_above h vm args (ex_frame_index st) n st1 st2"
    and ret: "exec_step h vm args st2 = Inr st3" and down: "ex_frame_index st3 = ex_frame_index st"
  shows "ex_pc st3 = ex_pc st + 1" and "r \<in> {6, 7, 8, 9} \<Longrightarrow> ex_reg st3 r = ex_reg st r"
proof -
  note above = above_keeps_frame [OF body exec_step_control(2) [OF call wf]]
  obtain c where c: "control_effect c st st1" using exec_step_control(1) [OF call wf] by blast
  with depth have "c = Enter" by (cases c) (auto simp: control_effect_def)
  with c have enter: "return_address (ex_frames st1 ! ex_frame_index st) = ex_pc st + 1"
    "take 4 (saved_registers (ex_frames st1 ! ex_frame_index st)) =
      [ex_reg st 6, ex_reg st 7, ex_reg st 8, ex_reg st 9]"
    by (auto simp: control_effect_def)
  obtain c' where c': "control_effect c' st2 st3" using exec_step_control(1) [OF ret above(2)] by blast
  with down above(3) have "c' = Leave" by (cases c') (auto simp: control_effect_def)
  with c' down above(1) enter have "ex_pc st3 = ex_pc st + 1 \<and>
      [ex_reg st3 6, ex_reg st3 7, ex_reg st3 8, ex_reg st3 9] =
      [ex_reg st 6, ex_reg st 7, ex_reg st 8, ex_reg st 9]"
    by (auto simp: control_effect_def)
  then show "ex_pc st3 = ex_pc st + 1" and "r \<in> {6, 7, 8, 9} \<Longrightarrow> ex_reg st3 r = ex_reg st r"
    by auto
qed

section \<open>The program counter\<close>

text \<open>\<open>p\<close> is not the second slot of an LDDW instruction.\<close>

definition on_boundary :: "ebpf_inst list \<Rightarrow> u16 \<Rightarrow> bool" where
  "on_boundary insns p \<longleftrightarrow> (unat p < length insns \<longrightarrow> opcode (insns ! unat p) \<noteq> 0)"

text \<open>The one property of a program that \<open>validate\<close> does not check.\<close>

definition entries_on_boundary :: "ebpf_inst list \<Rightarrow> bool" where
  "entries_on_boundary insns \<longleftrightarrow> (\<forall>k < length insns. is_local_call (insns ! k) \<longrightarrow>
     opcode (insns ! unat (local_call_target k (insns ! k))) \<noteq> 0)"

lemma next_on_boundary:
  assumes "valid_program vm insns" "unat p < length insns" "opcode (insns ! unat p) \<noteq> EBPF_OP_LDDW"
  shows "on_boundary insns (p + 1)"
proof -
  have "unat (p + 1) = Suc (unat p)"
    using assms(1,2) by (simp add: unat_word_ariths valid_program_def UBPF_MAX_INSTS_def)
  then show ?thesis using next_slot [OF assms(1) _ assms(3)] by (simp add: on_boundary_def)
qed

lemma unat_jump:
  assumes "0 \<le> int (unat p) + 1 + sint off" "int (unat p) + 1 + sint off < 65536"
  shows "unat (p + 1 + off :: u16) = nat (int (unat p) + 1 + sint off)"
proof -
  have "p + 1 + off = word_of_int (uint p + 1 + sint off)" by simp
  then have "uint (p + 1 + off) = (uint p + 1 + sint off) mod 65536"
    by (simp only: uint_word_of_int) simp
  also have "\<dots> = uint p + 1 + sint off" using assms by simp
  finally have "nat (uint (p + 1 + off)) = nat (int (unat p) + 1 + sint off)" by simp
  then show ?thesis by (simp only: unat_eq_nat_uint)
qed

lemma jump_on_boundary:
  assumes "valid_jump insns (unat p)" "length insns < 65536"
  shows "on_boundary insns (p + 1 + offset (insns ! unat p))"
  using assms unat_jump [of p "offset (insns ! unat p)"]
  by (simp add: valid_jump_def on_boundary_def Let_def)

lemma call_on_boundary:
  assumes "valid_program vm insns" "entries_on_boundary insns" "unat p < length insns"
    and "is_local_call (insns ! unat p)"
  shows "on_boundary insns (p + 1 + ucast (imm (insns ! unat p)))"
proof -
  let ?t = "local_call_target (unat p) (insns ! unat p)"
  have "unat ?t < length insns" by (rule valid_local_call_target [OF assms(1,3,4)])
  then have t: "unat (ucast ?t :: u16) = unat ?t"
    using assms(1) by (simp add: valid_program_def UBPF_MAX_INSTS_def unsigned_ucast_eq
        unsigned_take_bit_eq take_bit_nat_eq_self)
  have "(ucast ?t :: u16) = p + 1 + ucast (imm (insns ! unat p))"
    by (simp add: local_call_target_def ucast_u16_add algebra_simps)
  with t show ?thesis using assms(2-4) by (metis entries_on_boundary_def on_boundary_def)
qed

definition pc_state :: "ubpf_vm \<Rightarrow> ebpf_inst list \<Rightarrow> exec_state \<Rightarrow> bool" where
  "pc_state vm insns st \<longleftrightarrow> loaded vm insns \<and> entries_on_boundary insns \<and> wf_frames st \<and>
     on_boundary insns (ex_pc st) \<and>
     (\<forall>i < ex_frame_index st. on_boundary insns (return_address (ex_frames st ! i)))"

text \<open>The two failures the static checks rule out.\<close>

definition checked_stop :: "exec_stop \<Rightarrow> bool" where
  "checked_stop stop \<longleftrightarrow>
     (case stop of Failed (UnknownOpcodeAt opc pc) m \<Rightarrow> False | Failed BtfCall m \<Rightarrow> False | _ \<Rightarrow> True)"

lemma checked_stop_simps [simp]:
  "checked_stop (Returned v m)" "checked_stop (Crashed c)"
  "checked_stop (Failed (InvalidAccess ty pc a n) m)" "checked_stop (Failed (OutOfBounds ty pc a n) m)"
  "checked_stop (Failed (UninitializedStackRead pc) m)" "checked_stop (Failed (CallDepthExceeded pc) m)"
  "checked_stop (Failed (PcOutOfRange pc) m)" "checked_stop (Failed InstructionLimitReached m)"
  "checked_stop (Failed (NotFromCallInstruction pc) m)" "checked_stop (Failed (SourceNotInitialized r) m)"
  "checked_stop (Failed (DestinationNotInitialized r) m)"
  "checked_stop (Failed ReturnValueNotInitialized m)" "checked_stop (Failed ShadowStackAllocation m)"
  by (simp_all add: checked_stop_def)

lemma checked_bounds_check:
  "bounds_check h vm a n ty pc mem mem_len stack stack_len = Some e \<Longrightarrow> checked_stop (Failed e m)"
  by (auto simp: bounds_check_def Let_def split: if_splits)

lemma checked_switch:
  assumes stop: "exec_switch h vm args p inst st = Inl stop"
    and valid: "valid_inst_at vm insns (unat p)" and inst: "inst = insns ! unat p"
  shows "checked_stop stop"
  using stop
proof (cases rule: exec_switch_cases)
  case (load n)
  then show ?thesis using checked_bounds_check
    by (auto simp: exec_load_def BOUNDS_CHECK_LOAD_def Let_def
        split: option.splits bool.splits sum.splits)
next
  case (store n v)
  then show ?thesis using checked_bounds_check
    by (auto simp: exec_store_def BOUNDS_CHECK_STORE_def Let_def split: option.splits sum.splits)
next
  case lddw
  then show ?thesis by (auto simp: exec_lddw_def split: option.splits)
next
  case exit
  then show ?thesis by (auto simp: exec_exit_def Let_def split: if_splits)
next
  case call
  then have "src inst = 0 \<or> src inst = 1"
    using valid inst by (auto simp: valid_inst_at_def valid_call_def Let_def)
  then show ?thesis using call(2)
    by (auto simp: exec_call_def exec_external_call_def exec_local_call_def Let_def
        split: if_splits option.splits prod.splits)
next
  case unknown
  then show ?thesis using valid inst by (simp add: valid_inst_at_def Let_def)
qed auto

lemma checked_shadow_register:
  assumes "ubpf_validate_shadow_register vm sr inst = Inl e"
  shows "checked_stop (Failed e m)"
proof -
  obtain a b c where "shadow_requirements (opcode inst) = (a, b, c)" by (rule prod_cases3)
  with assms show ?thesis
    by (auto simp: ubpf_validate_shadow_register_def Let_def split: if_splits)
qed

lemma checked_enter: "enter_function vm st = Inl stop \<Longrightarrow> checked_stop stop"
  by (auto simp: enter_function_def split: if_splits option.splits)

lemma checked_head:
  assumes "exec_head vm st = Inl stop"
  shows "checked_stop stop"
  using assms checked_enter checked_shadow_register
  by (auto simp: exec_head_def Let_def simp del: split_paired_Ex split: if_splits option.splits sum.splits)

text \<open>The program counter after the switch.\<close>

lemma exec_switch_pc:
  assumes sw: "exec_switch h vm args p inst st1 = Inr st2" and pc: "ex_pc st1 = p + 1"
    and p: "unat p < length insns" and inst: "inst = insns ! unat p"
    and prog: "loaded vm insns" "entries_on_boundary insns" and valid: "valid_inst_at vm insns (unat p)"
    and ret: "\<And>i. i < ex_frame_index st1 \<Longrightarrow> on_boundary insns (return_address (ex_frames st1 ! i))"
  shows "on_boundary insns (ex_pc st2)"
proof -
  have vp: "valid_program vm insns" using prog(1) by (simp add: loaded_def)
  note after = next_on_boundary [OF vp p]
  show ?thesis
    using sw
  proof (cases rule: exec_switch_cases)
    case (load n)
    then show ?thesis using exec_load_Inr [of h vm args p inst n st1 st2] after inst pc by auto
  next
    case (store n v)
    then have "exec_store h vm args p inst n v st1 = Inr st2" by simp
    then show ?thesis by (rule exec_store_Inr) (use after inst pc store(3) in auto)
  next
    case lddw
    then have "opcode (insns ! Suc (unat p)) = 0" "Suc (unat p) < length insns"
      using valid inst by (auto simp: valid_inst_at_def Let_def)
    moreover have "unat (p + 1) = Suc (unat p)"
      using vp p by (simp add: unat_word_ariths valid_program_def UBPF_MAX_INSTS_def)
    ultimately have "on_boundary insns (p + 1 + 1)"
      using next_on_boundary [OF vp, of "p + 1"] special_opcodes_distinct by simp
    then show ?thesis using exec_lddw_Inr [of vm inst st1 st2] lddw(2) pc by auto
  next
    case (jump taken)
    then have "valid_jump insns (unat p)" using valid inst by (simp add: valid_inst_at_def Let_def)
    moreover have "opcode inst \<noteq> EBPF_OP_LDDW" using jump(2) groups_disjoint(3) by blast
    ultimately show ?thesis
      using jump(1) jump_on_boundary [of insns p] after vp inst pc
      by (auto simp: valid_program_def UBPF_MAX_INSTS_def split: if_splits)
  next
    case exit
    then show ?thesis using ret by (auto simp: exec_exit_def Let_def split: if_splits)
  next
    case call
    then have "opcode inst \<noteq> EBPF_OP_LDDW" using special_opcodes_distinct by simp
    moreover have "is_local_call inst" if "src inst = 1"
      using call(1) that by (simp add: is_local_call_def)
    ultimately show ?thesis
      using call(2) exec_external_call_Inr [of h vm args inst st1 st2] after inst pc
        call_on_boundary [OF vp prog(2) p]
      by (auto simp: exec_call_def exec_local_call_def Let_def split: if_splits)
  qed (use after inst pc in auto)
qed

lemma control_effect_returns:
  assumes "control_effect c st st'" "on_boundary insns (ex_pc st + 1) \<or> c \<noteq> Enter"
    and "\<And>i. i < ex_frame_index st \<Longrightarrow> on_boundary insns (return_address (ex_frames st ! i))"
    and "i < ex_frame_index st'"
  shows "on_boundary insns (return_address (ex_frames st' ! i))"
  using assms by (cases c) (auto simp: control_effect_def less_Suc_eq)

lemma pc_state_head:
  assumes "pc_state vm insns st" "exec_head vm st = Inr (inst, st1)"
  shows "ex_pc st1 = ex_pc st + 1" "unat (ex_pc st) < length insns" "inst = insns ! unat (ex_pc st)"
    and "valid_inst_at vm insns (unat (ex_pc st))"
    and "i < ex_frame_index st1 \<Longrightarrow> on_boundary insns (return_address (ex_frames st1 ! i))"
proof -
  have ld: "loaded vm insns" and wf: "wf_frames st" using assms(1) by (simp_all add: pc_state_def)
  have "ex_pc st < num_insts vm \<and> ubpf_fetch_instruction vm (ex_pc st) = Some inst"
    using assms(2) by (rule exec_head_Inr) simp
  then show p: "unat (ex_pc st) < length insns" "inst = insns ! unat (ex_pc st)"
    and "valid_inst_at vm insns (unat (ex_pc st))"
    using loaded_fetch [OF ld, of "ex_pc st"] assms(1)
    by (auto simp: pc_state_def on_boundary_def valid_slot_def)
  note hd = exec_head_frames [OF assms(2) wf]
  show "ex_pc st1 = ex_pc st + 1" by (rule hd(4))
  show "i < ex_frame_index st1 \<Longrightarrow> on_boundary insns (return_address (ex_frames st1 ! i))"
    using hd(2,5) assms(1) by (simp add: pc_state_def)
qed

lemma pc_state_step:
  assumes st: "pc_state vm insns st" and step: "exec_step h vm args st = Inr st'"
  shows "pc_state vm insns st'"
proof -
  have prog: "loaded vm insns" "entries_on_boundary insns" and wf: "wf_frames st"
    using st by (simp_all add: pc_state_def)
  from step obtain inst st1 st2 where head: "exec_head vm st = Inr (inst, st1)"
    and sw: "exec_switch h vm args (ex_pc st) inst st1 = Inr st2" and st': "st' = exec_tail inst st2"
    by (rule exec_step_Inr)
  note hd = pc_state_head [OF st head]
  have "on_boundary insns (ex_pc st2)"
    by (rule exec_switch_pc [OF sw hd(1-3) prog hd(4,5)])
  moreover have "on_boundary insns (return_address (ex_frames st' ! i))"
    if i: "i < ex_frame_index st'" for i
  proof -
    obtain c where c: "control_effect c st st'" using exec_step_control(1) [OF step wf] by blast
    have "opcode inst = EBPF_OP_CALL" if "c = Enter"
      using sw
    proof (cases rule: exec_switch_cases)
      case (load n)
      then show ?thesis using exec_load_Inr [of h vm args "ex_pc st" inst n st1 st2] that c st'
          exec_head_frames(2) [OF head wf] by (auto simp: control_effect_def)
    next
      case (store n v)
      then have "exec_store h vm args (ex_pc st) inst n v st1 = Inr st2" by simp
      then have "ex_frame_index st2 = ex_frame_index st1" by (rule exec_store_Inr) simp
      then show ?thesis using that c st' exec_head_frames(2) [OF head wf]
        by (simp add: control_effect_def)
    next
      case lddw
      then show ?thesis using exec_lddw_Inr [of vm inst st1 st2] that c st'
          exec_head_frames(2) [OF head wf] by (auto simp: control_effect_def)
    next
      case exit
      then show ?thesis using that c st' exec_head_frames(2) [OF head wf]
        by (auto simp: control_effect_def exec_exit_def Let_def split: if_splits)
    qed (use that c st' exec_head_frames(2) [OF head wf] in \<open>auto simp: control_effect_def split: if_splits\<close>)
    then have "on_boundary insns (ex_pc st + 1) \<or> c \<noteq> Enter"
      using next_on_boundary [of vm insns "ex_pc st"] prog(1) hd(2,3) special_opcodes_distinct
      by (auto simp: loaded_def)
    then show ?thesis
      using control_effect_returns [OF c _ _ i] st by (simp add: pc_state_def)
  qed
  ultimately show ?thesis
    using prog exec_step_control(2) [OF step wf] st' by (simp add: pc_state_def)
qed

lemma pc_state_stop:
  assumes st: "pc_state vm insns st" and step: "exec_step h vm args st = Inl stop"
  shows "checked_stop stop"
proof (cases "exec_head vm st")
  case (Inl s)
  then show ?thesis using step checked_head by (auto simp: exec_step_def)
next
  case (Inr p)
  then obtain inst st1 where head: "exec_head vm st = Inr (inst, st1)" by (cases p) simp
  then have "exec_switch h vm args (ex_pc st) inst st1 = Inl stop"
    using step by (simp add: exec_step_def split: sum.splits)
  then show ?thesis by (rule checked_switch [OF _ pc_state_head(4,3) [OF st head]])
qed

interpretation control_flow: exec_invariant h vm args "pc_state vm insns" checked_stop
  for h vm args insns
  by unfold_locales (rule pc_state_step, assumption+, rule pc_state_stop)

lemma initial_pc_state:
  "loaded vm insns \<Longrightarrow> entries_on_boundary insns \<Longrightarrow> pc_state vm insns (initial_state vm args regs0 m)"
  using initial_wf_frames [of vm args regs0 m] valid_program_first [of vm insns]
  by (auto simp: pc_state_def loaded_def on_boundary_def initial_state_def)

lemma exec_checked:
  assumes "loaded vm insns" "entries_on_boundary insns"
    and "ubpf_exec_ex h vm calloc_ok regs0 args m = Some stop"
  shows "checked_stop stop"
proof -
  have "insts vm \<noteq> None" using assms(1) by (simp add: loaded_def)
  then have "stop = Failed ShadowStackAllocation m \<or>
      exec_loop h vm args (initial_state vm args regs0 m) = Some stop"
    using assms(3) by (auto simp: ubpf_exec_ex_def split: if_splits)
  then show ?thesis
    using control_flow.loop_post [OF _ initial_pc_state [OF assms(1,2)]] by auto
qed

end
