(* ===== verification/Ubpf_Uninit.thy ===== *)
theory Ubpf_Uninit
  imports Ubpf_Run
begin

text \<open>
  The undefined-behaviour check makes runs of call-free programs independent of what the
  uninitialised register array holds: two states that agree on the registers marked as initialised
  take the same steps.
\<close>

section \<open>What the shadow register check demands\<close>

definition src_needed :: "u8 \<Rightarrow> bool" where
  "src_needed opc = fst (shadow_requirements opc)"

definition dst_needed :: "u8 \<Rightarrow> bool" where
  "dst_needed opc = fst (snd (shadow_requirements opc))"

definition dst_written :: "u8 \<Rightarrow> bool" where
  "dst_written opc = snd (snd (shadow_requirements opc))"

lemmas need_defs = src_needed_def dst_needed_def dst_written_def shadow_requirements_def

text \<open>Register \<open>r\<close> is marked in the mask \<open>sr\<close>.\<close>

definition initialised :: "u16 \<Rightarrow> 4 word \<Rightarrow> bool" where
  "initialised sr r \<longleftrightarrow> sr AND REGISTER_TO_SHADOW_MASK r \<noteq> 0"

lemma unat_reg_less: "unat (r :: 4 word) < 16"
  using unsigned_less [where ?'a = nat, of r] by simp

lemma initialised_iff: "initialised sr r \<longleftrightarrow> bit sr (unat r)"
proof -
  have "sr AND REGISTER_TO_SHADOW_MASK r = 0 \<longleftrightarrow> \<not> bit sr (unat r)"
    using unat_reg_less [of r]
    by (auto simp: REGISTER_TO_SHADOW_MASK_def bit_eq_iff [of _ 0] bit_simps possible_bit_word
        dest: spec [of _ "unat r"])
  then show ?thesis by (simp add: initialised_def)
qed

lemma initialised_or:
  "initialised (sr OR REGISTER_TO_SHADOW_MASK d) r \<longleftrightarrow> initialised sr r \<or> r = d"
proof -
  have "bit (REGISTER_TO_SHADOW_MASK d) (unat r) \<longleftrightarrow> r = d"
    using unat_reg_less [of r] unat_reg_less [of d]
    by (auto simp: REGISTER_TO_SHADOW_MASK_def bit_simps possible_bit_word word_unat_eq_iff)
  then show ?thesis by (auto simp: initialised_iff bit_simps)
qed

lemma validate_shadow_register_Inr:
  assumes "ubpf_validate_shadow_register vm sr inst = Inr sr'" "undefined_behavior_check_enabled vm"
    and "opcode inst \<noteq> EBPF_OP_CALL"
  shows "src_needed (opcode inst) \<Longrightarrow> initialised sr (src inst)"
    and "dst_needed (opcode inst) \<Longrightarrow> initialised sr (dst inst)"
    and "initialised sr' r \<Longrightarrow> initialised sr r \<or> dst_written (opcode inst) \<and> r = dst inst"
    and "opcode inst = EBPF_OP_EXIT \<Longrightarrow> \<not> dst_written EBPF_OP_EXIT \<Longrightarrow> initialised sr 0"
proof -
  obtain a b c where abc: "shadow_requirements (opcode inst) = (a, b, c)" by (rule prod_cases3)
  let ?sr1 = "if c then sr OR REGISTER_TO_SHADOW_MASK (dst inst) else sr"
  have "ubpf_validate_shadow_register vm sr inst = (if a \<and> \<not> initialised sr (src inst) then Inl (SourceNotInitialized (src inst))
      else if b \<and> \<not> initialised sr (dst inst) then Inl (DestinationNotInitialized (dst inst))
      else if opcode inst = EBPF_OP_EXIT
      then if \<not> initialised ?sr1 0 then Inl ReturnValueNotInitialized
           else Inr (?sr1 AND NOT caller_saved_mask)
      else Inr ?sr1)"
    using assms(2,3) abc
    by (cases c; cases "opcode inst = EBPF_OP_EXIT")
      (simp_all add: ubpf_validate_shadow_register_def initialised_def)
  note run = this [symmetric, unfolded assms(1)]
  show "src_needed (opcode inst) \<Longrightarrow> initialised sr (src inst)"
    using run abc by (auto simp: src_needed_def split: if_splits)
  show "dst_needed (opcode inst) \<Longrightarrow> initialised sr (dst inst)"
    using run abc by (auto simp: dst_needed_def split: if_splits)
  have "initialised sr' r \<Longrightarrow> initialised ?sr1 r"
    using run by (auto simp: initialised_iff bit_simps split: if_splits)
  then show "initialised sr' r \<Longrightarrow> initialised sr r \<or> dst_written (opcode inst) \<and> r = dst inst"
    using abc by (auto simp: dst_written_def initialised_or split: if_splits)
  show "opcode inst = EBPF_OP_EXIT \<Longrightarrow> \<not> dst_written EBPF_OP_EXIT \<Longrightarrow> initialised sr 0"
    using run abc by (auto simp: dst_written_def split: if_splits)
qed

section \<open>What each part of the switch reads\<close>

lemma alu32_reads:
  assumes "opc \<in> set alu32_opcodes"
    and "src_needed opc \<Longrightarrow> s = s'" "dst_needed opc \<Longrightarrow> d = d'"
  shows "exec_alu32 opc d s im = exec_alu32 opc d' s' im" and "dst_written opc"
  using assms unfolding alu32_opcodes_def list.set insert_iff empty_iff
  by (elim disjE; simp add: exec_alu32_def need_defs opcode_values)+

lemma alu64_reads:
  assumes "opc \<in> set alu64_opcodes"
    and "src_needed opc \<Longrightarrow> s = s'" "dst_needed opc \<Longrightarrow> d = d'"
  shows "exec_alu64 opc d s im = exec_alu64 opc d' s' im" and "dst_written opc"
  using assms unfolding alu64_opcodes_def list.set insert_iff empty_iff
  by (elim disjE; simp add: exec_alu64_def need_defs opcode_values)+

lemma endian_reads: "opc \<in> {EBPF_OP_LE, EBPF_OP_BE} \<Longrightarrow> dst_needed opc \<and> dst_written opc"
  by (auto simp: need_defs opcode_values)

lemma jump_needs:
  assumes "opc \<in> set jump_opcodes"
  shows "\<not> dst_written opc" and "\<not> dst_needed opc \<Longrightarrow> opc = EBPF_OP_JA"
  using assms unfolding jump_opcodes_def list.set insert_iff empty_iff
  by (elim disjE; simp add: need_defs opcode_values)+

lemma jump_reads_src:
  assumes "opc \<in> set jump_opcodes" "\<not> src_needed opc"
  shows "jump_taken opc d s im = jump_taken opc d s' im"
  using assms unfolding jump_opcodes_def list.set insert_iff empty_iff
  by (elim disjE; simp add: jump_taken_def jump_taken_unsigned_def jump_taken_signed_def need_defs
      opcode_values)

lemma jump_taken_JA: "jump_taken EBPF_OP_JA d s im = Some True"
  by (simp add: jump_taken_def jump_taken_unsigned_def)

lemma jump_reads:
  assumes opc: "opc \<in> set jump_opcodes"
    and "src_needed opc \<Longrightarrow> s = s'" "dst_needed opc \<Longrightarrow> d = d'"
  shows "jump_taken opc d s im = jump_taken opc d' s' im"
proof (cases "dst_needed opc")
  case True
  then show ?thesis using assms jump_reads_src [OF opc] by (cases "src_needed opc") auto
next
  case False
  then show ?thesis using jump_needs(2) [OF opc] jump_taken_JA by simp
qed

lemma memory_needs:
  "load_width opc = Some n \<Longrightarrow> src_needed opc \<and> dst_written opc"
  "store_imm_width opc = Some n \<Longrightarrow> dst_needed opc \<and> \<not> dst_written opc"
  "store_reg_width opc = Some n \<Longrightarrow> src_needed opc \<and> dst_needed opc \<and> \<not> dst_written opc"
  by (auto simp: load_width_def store_imm_width_def store_reg_width_def need_defs opcode_values
      split: if_splits)

lemma other_needs: "dst_written EBPF_OP_LDDW" "\<not> dst_written EBPF_OP_EXIT"
  by (simp_all add: need_defs opcode_values)

lemma alu_class_written: "opc AND EBPF_CLS_MASK = EBPF_CLS_ALU \<Longrightarrow> dst_written opc"
  by (simp add: need_defs opcode_values)

section \<open>Two runs\<close>

text \<open>\<open>with_regs f st\<close> is \<open>st\<close> with another register array.\<close>

abbreviation with_regs :: "(4 word \<Rightarrow> u64) \<Rightarrow> exec_state \<Rightarrow> exec_state" where
  "with_regs f st \<equiv> st\<lparr> ex_reg := f \<rparr>"

text \<open>
  The results of the switch on \<open>st\<close> and on \<open>with_regs f st\<close>: the same stop, or the same register
  write if the instruction is marked as writing its destination, and no write otherwise.
\<close>

definition same_effect ::
  "ebpf_inst \<Rightarrow> exec_state \<Rightarrow> (4 word \<Rightarrow> u64) \<Rightarrow> exec_stop + exec_state \<Rightarrow> exec_stop + exec_state \<Rightarrow> bool"
where
  "same_effect inst st f r r' \<longleftrightarrow>
     (\<exists>stop. r = Inl stop \<and> r' = Inl stop) \<or>
     (\<exists>st2 f'. r = Inr st2 \<and> r' = Inr (with_regs f' st2) \<and> ex_frame_index st2 = ex_frame_index st \<and>
        ex_shadow_registers st2 = ex_shadow_registers st \<and>
        (if dst_written (opcode inst)
         then \<exists>v. ex_reg st2 = (ex_reg st)(dst inst := v) \<and> f' = f(dst inst := v)
         else ex_reg st2 = ex_reg st \<and> f' = f))"

lemma same_effect_stop: "same_effect inst st f (Inl stop) (Inl stop)"
  by (simp add: same_effect_def)

lemma same_effect_write:
  "dst_written (opcode inst) \<Longrightarrow>
     same_effect inst st f (Inr (set_reg st (dst inst) v)) (Inr (set_reg (with_regs f st) (dst inst) v))"
  by (auto simp: same_effect_def set_reg_def intro!: exI [of _ "set_reg st (dst inst) v"] exI [of _ v])

lemma arith_same:
  assumes "src_needed (opcode inst) \<Longrightarrow> f (src inst) = ex_reg st (src inst)"
    and "dst_needed (opcode inst) \<Longrightarrow> f (dst inst) = ex_reg st (dst inst)"
    and some: "exec_arith inst st \<noteq> None"
  shows "\<exists>v. exec_arith inst st = Some (set_reg st (dst inst) v) \<and>
      exec_arith inst (with_regs f st) = Some (set_reg (with_regs f st) (dst inst) v)"
    and "dst_written (opcode inst)"
proof -
  let ?d = "ex_reg st (dst inst)" and ?s = "ex_reg st (src inst)"
  note a32 = alu32_reads [of "opcode inst" "f (src inst)" ?s "f (dst inst)" ?d, OF _ assms(1,2)]
  note a64 = alu64_reads [of "opcode inst" "f (src inst)" ?s "f (dst inst)" ?d, OF _ assms(1,2)]
  have eq: "exec_alu32 (opcode inst) (f (dst inst)) (f (src inst)) (imm inst) =
      exec_alu32 (opcode inst) ?d ?s (imm inst)"
    "exec_alu64 (opcode inst) (f (dst inst)) (f (src inst)) (imm inst) =
      exec_alu64 (opcode inst) ?d ?s (imm inst)"
    using a32(1) a64(1) exec_alu32_None_iff exec_alu64_None_iff by metis+
  have eqe: "exec_endian (opcode inst) (f (dst inst)) (imm inst) =
      exec_endian (opcode inst) ?d (imm inst)"
    using endian_reads [of "opcode inst"] exec_endian_None_iff assms(2) by metis
  show "\<exists>v. exec_arith inst st = Some (set_reg st (dst inst) v) \<and>
      exec_arith inst (with_regs f st) = Some (set_reg (with_regs f st) (dst inst) v)"
    using some eq eqe by (auto simp: exec_arith_def Let_def split: option.splits)
  show "dst_written (opcode inst)"
    using some a32(2) a64(2) endian_reads unfolding exec_arith_None_iff by blast
qed

lemma load_same:
  assumes "f (src inst) = ex_reg st (src inst)" "dst_written (opcode inst)"
  shows "same_effect inst st f (exec_load h vm args p inst n st) (exec_load h vm args p inst n (with_regs f st))"
proof -
  have b: "BOUNDS_CHECK_LOAD h vm args p (with_regs f st) a n = BOUNDS_CHECK_LOAD h vm args p st a n" for a
    by (simp add: BOUNDS_CHECK_LOAD_def split: option.split bool.split)
  show ?thesis
    using assms same_effect_write [of inst st f] same_effect_stop [of inst st f]
    by (auto simp: exec_load_def b Let_def split: option.splits sum.splits)
qed

lemma store_same:
  assumes "f (dst inst) = ex_reg st (dst inst)" "\<not> dst_written (opcode inst)"
  shows "same_effect inst st f (exec_store h vm args p inst n v st) (exec_store h vm args p inst n v (with_regs f st))"
  using assms
  by (auto simp: exec_store_def BOUNDS_CHECK_STORE_def same_effect_def Let_def
      split: option.splits sum.splits intro!: exI [of _ f])

lemma lddw_same:
  assumes "opcode inst = EBPF_OP_LDDW"
  shows "same_effect inst st f (exec_lddw vm inst st) (exec_lddw vm inst (with_regs f st))"
proof (cases "ubpf_fetch_instruction vm (ex_pc st)")
  case None
  then show ?thesis by (simp add: exec_lddw_def same_effect_stop)
next
  case (Some inst2)
  let ?v = "ucast (u32 (scast (imm inst))) OR push_bit 32 (scast (imm inst2))"
  have "exec_lddw vm inst st = Inr ((set_reg st (dst inst) ?v)\<lparr> ex_pc := ex_pc st + 1 \<rparr>)"
    "exec_lddw vm inst (with_regs f st) =
       Inr (with_regs (f(dst inst := ?v)) ((set_reg st (dst inst) ?v)\<lparr> ex_pc := ex_pc st + 1 \<rparr>))"
    using Some by (simp_all add: exec_lddw_def set_reg_def)
  then show ?thesis
    using other_needs(1) assms unfolding same_effect_def by (simp, blast)
qed

lemma switch_same:
  assumes src: "src_needed (opcode inst) \<Longrightarrow> f (src inst) = ex_reg st (src inst)"
    and dst: "dst_needed (opcode inst) \<Longrightarrow> f (dst inst) = ex_reg st (dst inst)"
    and exit: "opcode inst = EBPF_OP_EXIT \<Longrightarrow> f 0 = ex_reg st 0" and depth: "ex_frame_index st = 0"
    and no_call: "opcode inst \<noteq> EBPF_OP_CALL"
  shows "same_effect inst st f (exec_switch h vm args p inst st) (exec_switch h vm args p inst (with_regs f st))"
proof (cases "exec_arith inst st")
  case (Some s)
  then obtain v where "exec_arith inst st = Some (set_reg st (dst inst) v)"
    "exec_arith inst (with_regs f st) = Some (set_reg (with_regs f st) (dst inst) v)"
    using arith_same(1) [of inst f st] src dst by blast
  then show ?thesis
    using same_effect_write arith_same(2) [of inst f st] src dst Some by (simp add: exec_switch_def)
next
  case None
  then have none: "exec_arith inst st = None" "exec_arith inst (with_regs f st) = None"
    by (simp_all add: exec_arith_None_iff)
  let ?opc = "opcode inst"
  have jump: "jump_taken ?opc (f (dst inst)) (f (src inst)) im = jump_taken ?opc (ex_reg st (dst inst)) (ex_reg st (src inst)) im"
    for im
    using jump_reads [of ?opc "f (src inst)" "ex_reg st (src inst)" "f (dst inst)" "ex_reg st (dst inst)"]
      src dst jump_taken_None_iff by metis
  have not_written: "\<not> dst_written ?opc" if "jump_taken ?opc d s im = Some t" for d s im t
    using jump_needs(1) [of ?opc] jump_taken_None_iff [of ?opc d s im] that by auto
  have ex: "exec_exit (with_regs f st) = exec_exit st" if "?opc = EBPF_OP_EXIT"
    using exit [OF that] depth by (simp add: exec_exit_def)
  obtain stop where stop: "exec_exit st = Inl stop" using depth by (auto simp: exec_exit_def)
  note sw = exec_switch_def [of h vm args p inst] none Let_def
  show ?thesis
  proof (cases "load_width ?opc")
    case (Some n)
    then show ?thesis using memory_needs(1) [OF Some] src by (simp add: sw load_same)
  next
    case no_load: None
    show ?thesis
    proof (cases "store_imm_width ?opc")
      case (Some n)
      then show ?thesis using memory_needs(2) [OF Some] dst no_load by (simp add: sw store_same)
    next
      case no_imm: None
      show ?thesis
      proof (cases "store_reg_width ?opc")
        case (Some n)
        then show ?thesis
          using memory_needs(3) [OF Some] src dst no_load no_imm by (simp add: sw store_same)
      next
        case no_reg: None
        show ?thesis
        proof (cases "?opc = EBPF_OP_LDDW")
          case True
          then show ?thesis using no_load no_imm no_reg lddw_same by (simp add: sw)
        next
          case no_lddw: False
          show ?thesis
          proof (cases "jump_taken ?opc (ex_reg st (dst inst)) (ex_reg st (src inst)) (imm inst)")
            case (Some taken)
            then show ?thesis
              using no_load no_imm no_reg no_lddw not_written [OF Some] jump
              by (auto simp: sw same_effect_def)
          next
            case None
            then show ?thesis
              using no_load no_imm no_reg no_lddw no_call ex stop jump
              by (simp add: sw same_effect_stop)
          qed
        qed
      qed
    qed
  qed
qed

lemma exec_head_with_regs:
  "exec_head vm (with_regs f st) =
     (case exec_head vm st of Inl stop \<Rightarrow> Inl stop | Inr (inst, st1) \<Rightarrow> Inr (inst, with_regs f st1))"
proof (cases "ex_pc st \<ge> num_insts vm \<or> instruction_limit vm \<noteq> 0 \<and> sint (ex_limit st) \<le> 0")
  case True
  then show ?thesis by (auto simp: exec_head_def)
next
  case False
  define s where "s = (if instruction_limit vm \<noteq> 0 then st\<lparr> ex_limit := ex_limit st - 1 \<rparr> else st)"
  have s': "(if instruction_limit vm \<noteq> 0 then (with_regs f st)\<lparr> ex_limit := ex_limit (with_regs f st) - 1 \<rparr>
      else with_regs f st) = with_regs f s"
    by (simp add: s_def)
  have enter: "enter_function vm (with_regs f s) =
      (case enter_function vm s of Inl stop \<Rightarrow> Inl stop | Inr s1 \<Rightarrow> Inr (with_regs f s1))"
    by (simp add: enter_function_def split: option.split)
  show ?thesis
  proof (cases "enter_function vm s")
    case (Inl stop)
    then show ?thesis
      using False enter unfolding exec_head_def Let_def s' s_def [symmetric] by auto
  next
    case (Inr s1)
    then show ?thesis
      using False enter unfolding exec_head_def Let_def s' s_def [symmetric]
      by (auto split: option.split sum.split)
  qed
qed

text \<open>Two states a run of a call-free program cannot tell apart.\<close>

definition alike :: "exec_state \<Rightarrow> exec_state \<Rightarrow> bool" where
  "alike st st' \<longleftrightarrow> st' = with_regs (ex_reg st') st \<and> ex_frame_index st = 0 \<and>
     (\<forall>r. initialised (ex_shadow_registers st) r \<longrightarrow> ex_reg st' r = ex_reg st r)"

definition call_free :: "ubpf_vm \<Rightarrow> bool" where
  "call_free vm \<longleftrightarrow> (\<forall>p inst. ubpf_fetch_instruction vm p = Some inst \<longrightarrow> opcode inst \<noteq> EBPF_OP_CALL)"

lemma exec_step_alike:
  assumes ub: "undefined_behavior_check_enabled vm" and cf: "call_free vm" and al: "alike st st'"
  shows "(\<exists>stop. exec_step h vm args st = Inl stop \<and> exec_step h vm args st' = Inl stop) \<or>
    (\<exists>s s'. exec_step h vm args st = Inr s \<and> exec_step h vm args st' = Inr s' \<and> alike s s')"
proof (cases "exec_head vm st")
  case (Inl stop)
  moreover from Inl al have "exec_head vm st' = Inl stop"
    using exec_head_with_regs [of vm "ex_reg st'" st] unfolding alike_def by simp
  ultimately show ?thesis by (simp add: exec_step_def)
next
  case (Inr q)
  then obtain inst st1 where head: "exec_head vm st = Inr (inst, st1)" by (cases q) simp
  define f where "f = ex_reg st'"
  have st': "st' = with_regs f st" and depth: "ex_frame_index st = 0"
    and agree: "initialised (ex_shadow_registers st) r \<Longrightarrow> f r = ex_reg st r" for r
    using al by (auto simp: alike_def f_def)
  have head': "exec_head vm st' = Inr (inst, with_regs f st1)"
    using head exec_head_with_regs [of vm f st] st' by simp
  have st1: "ex_reg st1 = ex_reg st \<and> ex_frame_index st1 = 0 \<and> opcode inst \<noteq> EBPF_OP_CALL \<and>
      ubpf_validate_shadow_register vm (ex_shadow_registers st) inst = Inr (ex_shadow_registers st1)"
    using head by (rule exec_head_Inr) (use depth cf in \<open>auto simp: call_free_def\<close>)
  note sr = validate_shadow_register_Inr [of vm "ex_shadow_registers st" inst "ex_shadow_registers st1"]
  have "same_effect inst st1 f (exec_switch h vm args (ex_pc st) inst st1)
      (exec_switch h vm args (ex_pc st) inst (with_regs f st1))"
    using st1 sr(1,2,4) agree ub other_needs(2) by (intro switch_same) auto
  then consider (stop) stop where "exec_switch h vm args (ex_pc st) inst st1 = Inl stop"
      "exec_switch h vm args (ex_pc st) inst (with_regs f st1) = Inl stop"
    | (cont) st2 f' where "exec_switch h vm args (ex_pc st) inst st1 = Inr st2"
      "exec_switch h vm args (ex_pc st) inst (with_regs f st1) = Inr (with_regs f' st2)"
      "ex_frame_index st2 = 0" "ex_shadow_registers st2 = ex_shadow_registers st1"
      "if dst_written (opcode inst)
       then \<exists>v. ex_reg st2 = (ex_reg st1)(dst inst := v) \<and> f' = f(dst inst := v)
       else ex_reg st2 = ex_reg st1 \<and> f' = f"
    using st1 unfolding same_effect_def by auto
  then show ?thesis
  proof cases
    case stop
    then show ?thesis using head head' st' by (simp add: exec_step_def)
  next
    case cont
    have "f' r = ex_reg st2 r" if "initialised (ex_shadow_registers st1) r" for r
      using cont(5) sr(3) [OF _ ub _ that] st1 agree [of r] by (auto split: if_splits)
    then have "alike (exec_tail inst st2) (exec_tail inst (with_regs f' st2))"
      using cont(3-5) alu_class_written [of "opcode inst"]
      by (auto simp: alike_def exec_tail_def set_reg_def Let_def)
    then show ?thesis using cont(1,2) head head' st' by (simp add: exec_step_def)
  qed
qed

lemma exec_loop_alike:
  assumes "exec_steps h vm args n st st1" "exec_step h vm args st1 = Inl stop" "alike st st'"
    and "undefined_behavior_check_enabled vm" "call_free vm"
  shows "exec_loop h vm args st' = Some stop"
  using assms
proof (induction arbitrary: st' rule: exec_steps.induct)
  case (exec_steps_refl st)
  then show ?case using exec_step_alike [of vm st st' h args] exec_loop_stop by force
next
  case (exec_steps_step st s n st2)
  then obtain s' where "exec_step h vm args st' = Inr s'" "alike s s'"
    using exec_step_alike [of vm st st' h args] by force
  then show ?case using exec_steps_step exec_loop_step by metis
qed

lemma alike_sym: "alike st st' \<Longrightarrow> alike st' st"
  unfolding alike_def by (metis (no_types) exec_state.ext_inject exec_state.surjective exec_state.update_convs(2))

lemma exec_loop_alike_eq:
  assumes "alike st st'" "undefined_behavior_check_enabled vm" "call_free vm"
  shows "exec_loop h vm args st = exec_loop h vm args st'"
proof -
  have "exec_loop h vm args b = Some stop" if "exec_loop h vm args a = Some stop" "alike a b" for a b stop
    using exec_loop_steps [OF that(1)] exec_loop_alike that(2) assms(2,3) by blast
  from this [of st _ st'] this [of st' _ st] assms(1) alike_sym show ?thesis
    by (metis not_Some_eq)
qed

lemma initial_alike: "alike (initial_state vm args regs0 m) (initial_state vm args regs1 m)"
proof -
  have "initialised sr r \<Longrightarrow> r = 1 \<or> r = 2 \<or> r = 10"
    if "sr = REGISTER_TO_SHADOW_MASK 1 OR REGISTER_TO_SHADOW_MASK 2 OR REGISTER_TO_SHADOW_MASK 10" for sr r
    using that initialised_or [of "REGISTER_TO_SHADOW_MASK 1 OR REGISTER_TO_SHADOW_MASK 2" 10 r]
      initialised_or [of "REGISTER_TO_SHADOW_MASK 1" 2 r] initialised_or [of 0 1 r]
    by (auto simp: initialised_def or.assoc)
  then show ?thesis by (auto simp: alike_def initial_state_def)
qed

lemma exec_regs_irrelevant:
  assumes "undefined_behavior_check_enabled vm" "call_free vm"
  shows "ubpf_exec_ex h vm calloc_ok regs0 args m = ubpf_exec_ex h vm calloc_ok regs1 args m"
  using exec_loop_alike_eq [OF initial_alike assms] by (simp add: ubpf_exec_ex_def)

end
