(* ===== verification/Ubpf_Sample.thy ===== *)
theory Ubpf_Sample
  imports Ubpf_Control Ubpf_Alu Ubpf_Uninit
begin

text \<open>
  Small programs on which the hypotheses of the theorems are checked to hold. The first stores
  a value on its stack, calls a local function that loads it back and changes a callee-saved
  register, and returns; the second only makes a local call; the third returns a constant.
  \<open>null_host\<close> is an embedding application whose callbacks do nothing.
\<close>

definition null_host :: host where
  "null_host = \<lparr> call_ext = (\<lambda>_ _ _ _ _ _ m. (0, m)), call_dispatcher = (\<lambda>_ _ _ _ _ _ _ _ m. (0, m)),
     call_validate = (\<lambda>_ _ _. True), call_bounds_check = (\<lambda>_ _ _ _. False),
     call_stack_usage = (\<lambda>_ _ _ _. 0),
     mprotect = (\<lambda>_ _ _. 0) \<rparr>"

definition sample_insns :: "ebpf_inst list" where
  "sample_insns = [
     \<lparr> opcode = EBPF_OP_MOV64_IMM, dst = 6, src = 0, offset = 0, imm = 5 \<rparr>,
     \<lparr> opcode = EBPF_OP_STXDW, dst = 10, src = 6, offset = - 8, imm = 0 \<rparr>,
     \<lparr> opcode = EBPF_OP_CALL, dst = 0, src = 1, offset = 0, imm = 1 \<rparr>,
     \<lparr> opcode = EBPF_OP_EXIT, dst = 0, src = 0, offset = 0, imm = 0 \<rparr>,
     \<lparr> opcode = EBPF_OP_LDXDW, dst = 0, src = 10, offset = - 8, imm = 0 \<rparr>,
     \<lparr> opcode = EBPF_OP_ADD64_IMM, dst = 0, src = 0, offset = 0, imm = 1 \<rparr>,
     \<lparr> opcode = EBPF_OP_MOV64_IMM, dst = 6, src = 0, offset = 0, imm = 0 \<rparr>,
     \<lparr> opcode = EBPF_OP_EXIT, dst = 0, src = 0, offset = 0, imm = 0 \<rparr>]"

lemma length_sample_insns: "length sample_insns = 8"
  by (simp add: sample_insns_def)

lemma upt_8: "[0..<8] = [0, 1, 2, 3, 4, 5, 6, 7 :: nat]"
  by code_simp

lemma sample_opcodes:
  "EBPF_OP_MOV64_IMM \<in> set store_opcodes" "EBPF_OP_STXDW \<in> set store_opcodes"
  "EBPF_OP_EXIT \<in> set plain_opcodes" "EBPF_OP_LDXDW \<in> set plain_opcodes"
  "EBPF_OP_ADD64_IMM \<in> set plain_opcodes"
  by (simp_all add: plain_opcodes_def store_opcodes_def)

lemma valid_program_list:
  "valid_program vm insns \<longleftrightarrow>
     length insns < UBPF_MAX_INSTS \<and> list_all (valid_slot vm insns) [0..<length insns]"
  by (auto simp: valid_program_def list_all_iff)

lemma sample_valid: "valid_program vm sample_insns"
  unfolding valid_program_list length_sample_insns
  using sample_opcodes groups_disjoint groups_disjoint(3) [of EBPF_OP_CALL] special_opcodes_distinct
  by (auto simp add: sample_insns_def valid_slot_def UBPF_MAX_INSTS_def upt_8
      valid_inst_at_def accepted_cases valid_call_def local_call_target_def Let_def)

text \<open>
  The object that holds it, at the address \<open>0x1000\<close>; the stack usage of its two functions has been
  calculated as \<open>0\<close>, as loading without a callback does.
\<close>

definition sample_vm :: "u32 \<Rightarrow> bool \<Rightarrow> ubpf_vm" where
  "sample_vm limit ub = (fresh_vm Target_x86_64)
     \<lparr> insts := Some (0x1000, map (encode_inst 0x1000 0) sample_insns), num_insts := 8,
       int_funcs := Some [False, False, False, False, True, False, False, False],
       local_func_stack_usage :=
         (\<lambda>p. \<lparr> stack_usage_calculated = (p = 0 \<or> p = 4), stack_usage = 0 \<rparr>),
       undefined_behavior_check_enabled := ub, instruction_limit := limit \<rparr>"

lemma sample_marks:
  "\<forall>t < 8. [False, False, False, False, True, False, False, False] ! t \<longleftrightarrow>
     (\<exists>k < length sample_insns. is_local_call (sample_insns ! k) \<and>
        unat (local_call_target k (sample_insns ! k)) = t)"
proof -
  have "replicate 8 False = [False, False, False, False, False, False, False, False]"
    by code_simp
  then have "mark_targets (replicate 8 False) 0 sample_insns =
      [False, False, False, False, True, False, False, False]"
    by (simp add: sample_insns_def is_local_call_def local_call_target_def opcode_values)
  then show ?thesis
    using nth_mark_targets [of _ "replicate 8 False" 0 sample_insns] by simp
qed

lemma sample_loaded: "loaded (sample_vm limit ub) sample_insns"
proof -
  have "wf_vm (sample_vm limit ub)"
    using fresh_vm_wf by (simp add: sample_vm_def wf_vm_def length_sample_insns)
  moreover have "ubpf_fetch_instruction (sample_vm limit ub) p = Some (sample_insns ! unat p)"
    if "unat p < length sample_insns" for p
    using that decode_encode [of "0x1000" 0]
    by (simp add: ubpf_fetch_instruction_def sample_vm_def fresh_vm_def)
  ultimately show ?thesis
    using sample_marks sample_valid
    by (simp add: loaded_def length_sample_insns) (simp add: sample_vm_def)
qed

lemma fresh_vm_plain: "plain_vm (fresh_vm t)"
  by (simp add: plain_vm_def fresh_vm_def)

section \<open>Loading it\<close>

lemma sample_bytes:
  "length (bytes_of_insts sample_insns) = 64" "source_insts (bytes_of_insts sample_insns) = sample_insns"
  by (simp_all add: length_bytes_of_insts length_sample_insns source_insts_exact insts_of_bytes_of_insts)

lemma sample_load:
  "\<exists>vm' msg. ubpf_load null_host (fresh_vm Target_x86_64) (bytes_of_insts sample_insns) 0x1000
     (\<lambda>_. value_to_inst 0) True = Some (0, vm', msg)"
proof -
  have "insts (fresh_vm Target_x86_64) = None" by (simp add: fresh_vm_def)
  then show ?thesis
    using ubpf_load_iff [OF fresh_vm_wf fresh_vm_plain, of "bytes_of_insts sample_insns" null_host
        Target_x86_64 "0x1000" "\<lambda>_. value_to_inst 0" True] sample_bytes sample_valid
    by (auto simp: insts_of_bytes_of_insts)
qed

section \<open>Running it\<close>

definition sample_args :: exec_args where
  "sample_args = \<lparr> arg_mem = 0, arg_mem_len = 0, arg_stack_start = 0x2000, arg_stack_length = 512 \<rparr>"

definition sample_memory :: memory where
  "sample_memory x = (if unat (x - 0x2000) < 512 then Some 0 else None)"

lemma sample_store: "\<exists>m'. ubpf_mem_store sample_memory 0x2003 0x1122334455 4 = Inr m'"
proof (rule ubpf_mem_store_total)
  fix x
  assume "x \<in> region 0x2003 4"
  then have "x \<in> region 0x2000 512" by (auto simp: region_iff_nowrap)
  then show "sample_memory x \<noteq> None" by (simp add: sample_memory_def region_def)
qed simp

lemma null_host_within: "helpers_within null_host {}"
  by (simp add: helpers_within_def null_host_def)

lemma sample_safe: "safe_call null_host (sample_vm limit ub) sample_insns sample_args {} sample_memory"
proof -
  have "granted null_host (sample_vm limit ub) = {}"
    by (simp add: granted_def sample_vm_def fresh_vm_def)
  then show ?thesis
    using sample_loaded null_host_within
    by (auto simp: safe_call_def allowed_def sample_args_def sample_memory_def region_def object_fits_def
        sample_vm_def fresh_vm_def)
qed

lemma sample_limit: "instruction_limit (sample_vm limit ub) = limit"
  by (simp add: sample_vm_def)

lemma exec_returns:
  "instruction_limit vm \<noteq> 0 \<Longrightarrow> \<exists>stop. ubpf_exec_ex h vm calloc_ok regs0 args m = Some stop"
  using exec_loop_terminates by (auto simp: ubpf_exec_ex_def)

lemma sample_run:
  "\<exists>stop. ubpf_exec_ex null_host (sample_vm 100 True) True (\<lambda>_. 0) sample_args sample_memory = Some stop"
  by (rule exec_returns) (simp add: sample_limit)

lemma sample_entries: "entries_on_boundary sample_insns"
proof -
  have "list_all (\<lambda>k. is_local_call (sample_insns ! k) \<longrightarrow>
      opcode (sample_insns ! unat (local_call_target k (sample_insns ! k))) \<noteq> 0) [0..<8]"
    by (simp add: upt_8 sample_insns_def is_local_call_def local_call_target_def opcode_values)
  then show ?thesis by (simp add: entries_on_boundary_def length_sample_insns list_all_iff)
qed

section \<open>A local call\<close>

definition call_insns :: "ebpf_inst list" where
  "call_insns = [
     \<lparr> opcode = EBPF_OP_CALL, dst = 0, src = 1, offset = 0, imm = 1 \<rparr>,
     \<lparr> opcode = EBPF_OP_EXIT, dst = 0, src = 0, offset = 0, imm = 0 \<rparr>,
     \<lparr> opcode = EBPF_OP_MOV64_IMM, dst = 6, src = 0, offset = 0, imm = 0 \<rparr>,
     \<lparr> opcode = EBPF_OP_EXIT, dst = 0, src = 0, offset = 0, imm = 0 \<rparr>]"

definition call_vm :: ubpf_vm where
  "call_vm = (fresh_vm Target_x86_64)
     \<lparr> insts := Some (0x1000, map (encode_inst 0x1000 0) call_insns), num_insts := 4,
       int_funcs := Some [False, False, True, False], instruction_limit := 100 \<rparr>"

lemma call_vm_fields:
  "num_insts call_vm = 4" "instruction_limit call_vm = 100" "\<not> undefined_behavior_check_enabled call_vm"
  "int_funcs call_vm = Some [False, False, True, False]"
  by (simp_all add: call_vm_def fresh_vm_def)

lemma call_vm_fetch: "unat p < 4 \<Longrightarrow> ubpf_fetch_instruction call_vm p = Some (call_insns ! unat p)"
  using decode_encode [of "0x1000" 0]
  by (simp add: ubpf_fetch_instruction_def call_vm_def call_insns_def fresh_vm_def nth_Cons' split: if_splits)

lemmas call_vm_eval = exec_step_def exec_head_def enter_function_def ubpf_validate_shadow_register_def
  call_vm_fields call_vm_fetch call_insns_def exec_switch_def exec_arith_def exec_alu32_def exec_alu64_def
  exec_endian_def load_width_def store_imm_width_def store_reg_width_def jump_taken_def
  jump_taken_unsigned_def jump_taken_signed_def exec_exit_def exec_call_def exec_local_call_def
  exec_tail_def set_reg_def Let_def opcode_values UBPF_MAX_CALL_DEPTH_def

lemma call_step:
  assumes "ex_pc st = 0" "ex_frame_index st = 0" "length (ex_frames st) = 10" "0 < sint (ex_limit st)"
  shows "\<exists>st1. exec_step h call_vm args st = Inr st1 \<and> ex_pc st1 = 2 \<and> ex_frame_index st1 = 1"
  using assms by (simp add: call_vm_eval)

lemma body_step:
  assumes "ex_pc st = 2" "ex_frame_index st = 1" "length (ex_frames st) = 10" "0 < sint (ex_limit st)"
  shows "\<exists>st1. exec_step h call_vm args st = Inr st1 \<and> ex_pc st1 = 3 \<and> ex_frame_index st1 = 1 \<and> ex_reg st1 6 = 0"
  using assms by (simp add: call_vm_eval)

lemma return_step:
  assumes "ex_pc st = 3" "ex_frame_index st = 1" "length (ex_frames st) = 10" "0 < sint (ex_limit st)"
  shows "\<exists>st1. exec_step h call_vm args st = Inr st1 \<and> ex_frame_index st1 = 0"
  using assms by (simp add: call_vm_eval)

lemma call_run:
  "\<exists>st st1 st2 st3. wf_frames st \<and> ex_pc st = 0 \<and> ex_reg st 6 = 5 \<and>
     exec_step null_host call_vm sample_args st = Inr st1 \<and>
     ex_frame_index st1 = Suc (ex_frame_index st) \<and>
     exec_steps_above null_host call_vm sample_args (ex_frame_index st) (Suc 0) st1 st2 \<and>
     ex_reg st2 6 = 0 \<and> exec_step null_host call_vm sample_args st2 = Inr st3 \<and>
     ex_frame_index st3 = ex_frame_index st"
proof -
  define st where "st = initial_state call_vm sample_args (\<lambda>_. 5) sample_memory"
  have wf: "wf_frames st" unfolding st_def by (rule initial_wf_frames)
  have st: "ex_pc st = 0" "ex_frame_index st = 0" "ex_reg st 6 = 5" "sint (ex_limit st) = 100"
    by (simp_all add: st_def initial_state_def call_vm_fields)
  have len: "length (ex_frames s) = 10" if "wf_frames s" for s
    using that by (simp add: wf_frames_def UBPF_MAX_CALL_DEPTH_def)
  have lim: "instruction_limit call_vm \<noteq> 0" by (simp add: call_vm_fields)
  from call_step [of st null_host sample_args] st len [OF wf]
  obtain st1 where s1: "exec_step null_host call_vm sample_args st = Inr st1" "ex_pc st1 = 2"
    "ex_frame_index st1 = 1" by auto
  note wf1 = exec_step_control(2) [OF s1(1) wf] and l1 = exec_step_limit [OF s1(1) lim]
  from body_step [of st1 null_host sample_args] s1 len [OF wf1] l1 st(4)
  obtain st2 where s2: "exec_step null_host call_vm sample_args st1 = Inr st2" "ex_pc st2 = 3"
    "ex_frame_index st2 = 1" "ex_reg st2 6 = 0" by auto
  note wf2 = exec_step_control(2) [OF s2(1) wf1] and l2 = exec_step_limit [OF s2(1) lim]
  from return_step [of st2 null_host sample_args] s2 len [OF wf2] l1 l2 st(4)
  obtain st3 where s3: "exec_step null_host call_vm sample_args st2 = Inr st3" "ex_frame_index st3 = 0"
    by auto
  have "exec_steps_above null_host call_vm sample_args 0 (Suc 0) st1 st2"
    using s1(3) s2(3) by (intro above_step [OF _ s2(1)] above_refl) simp_all
  with wf st s1 s2 s3 show ?thesis
    by (intro exI [of _ st] exI [of _ st1] exI [of _ st2] exI [of _ st3]) simp
qed

section \<open>A program without calls\<close>

definition straight_vm :: ubpf_vm where
  "straight_vm = (fresh_vm Target_x86_64)
     \<lparr> insts := Some (0x1000, map (encode_inst 0x1000 0)
         [\<lparr> opcode = EBPF_OP_MOV64_IMM, dst = 0, src = 0, offset = 0, imm = 7 \<rparr>,
          \<lparr> opcode = EBPF_OP_EXIT, dst = 0, src = 0, offset = 0, imm = 0 \<rparr>]),
       num_insts := 2, int_funcs := Some [False, False], undefined_behavior_check_enabled := True \<rparr>"

lemma straight_vm_ub: "undefined_behavior_check_enabled straight_vm"
  by (simp add: straight_vm_def)

lemma straight_vm_call_free: "call_free straight_vm"
  using decode_encode [of "0x1000" 0]
  by (auto simp: call_free_def straight_vm_def fresh_vm_def ubpf_fetch_instruction_def opcode_values
      nth_Cons' split: if_splits)

end
