(* ===== verification/Jit_Sample.thy ===== *)
theory Jit_Sample
  imports Jit_Layout Jit_Encode Jit_A64_Alu Ubpf_Sample
begin

text \<open>
  The compilation of the sample program, and of a program of two instructions into a buffer that is
  too small for what follows the code.
\<close>

definition sample_env :: jit_env where
  "sample_env = \<lparr> env_register_map = register_map, env_allocs = (True, True, True, True, True),
     env_locs = (0, 0, 0, 0), env_helper_offset = 0, env_mode = BasicJitMode \<rparr>"

definition sample_os :: os where
  "sample_os = \<lparr> page_size = 4096, page_map = (\<lambda>_ _. 0), page_set_attr = (\<lambda>_ _. 0), os_calloc = (\<lambda>_. True) \<rparr>"

lemma sample_callable: "jit_callable sample_insns"
proof -
  have "list_all (\<lambda>k. is_local_call (sample_insns ! k) \<longrightarrow> unat (local_call_target k (sample_insns ! k)) \<noteq> 257) [0..<8]"
    unfolding upt_8 by (simp add: sample_insns_def is_local_call_def local_call_target_def opcode_values)
  then show ?thesis by (simp add: jit_callable_def length_sample_insns list_all_iff)
qed

lemma sample_willing: "willing sample_env sample_os vm"
  by (simp add: willing_def sample_env_def sample_os_def)

lemma sample_vm_jit:
  "jit_backend (sample_vm limit ub) = Target_x86_64" "jitter_buffer_size (sample_vm limit ub) = 65536"
  "jitted (sample_vm limit ub) = None"
  by (simp_all add: sample_vm_def fresh_vm_def DEFAULT_JITTER_BUFFER_SIZE_def)

lemma sample_bound: "code_bound (length sample_insns) = 1559"
  by (simp add: code_bound_def length_sample_insns)

text \<open>A fresh compilation state over a buffer of \<open>n\<close> bytes.\<close>

definition jit_start :: "nat \<Rightarrow> jit_state" where
  "jit_start n = fst (snd (initialize_jit_state_result (replicate n 0) (of_nat n) BasicJitMode
     (True, True, True, True, True) (0, 0, 0, 0) 0))"

lemma jit_start_fresh:
  assumes "n + 16 < 2 ^ 32"
  shows "fresh_jit (jit_start n)" "unat (js_size (jit_start n)) = n"
  using assms
  by (simp_all add: jit_start_def initialize_jit_state_result_def fresh_jit_def wf_jit_def Let_def unat_of_nat)

lemma sample_embedded: "\<exists>vm. embedded vm"
proof -
  have "\<exists>vm'. ubpf_compile_ex sample_env sample_os (sample_vm 0 False) BasicJitMode =
      Some (Inr jit_code_address, vm') \<and> embedded vm' \<and> jit_mode (jitted_result vm') = BasicJitMode"
    by (rule compile_ok [OF sample_loaded sample_callable])
      (simp_all add: sample_vm_jit sample_willing sample_bound UBPF_MAX_INSTS_def)
  then show ?thesis by blast
qed

lemma null_host_protect: "0 \<le> mprotect null_host x n p"
  by (simp add: null_host_def)

definition straight_insns :: "ebpf_inst list" where
  "straight_insns =
     [\<lparr> opcode = EBPF_OP_MOV64_IMM, dst = 0, src = 0, offset = 0, imm = 7 \<rparr>,
      \<lparr> opcode = EBPF_OP_EXIT, dst = 0, src = 0, offset = 0, imm = 0 \<rparr>]"

lemma straight_callable: "jit_callable straight_insns"
  by (auto simp: jit_callable_def straight_insns_def is_local_call_def opcode_values nth_Cons')

lemma straight_valid: "valid_program vm straight_insns"
proof -
  have "[0..<2] = [0, 1 :: nat]" by code_simp
  then show ?thesis
    unfolding valid_program_list
    using sample_opcodes groups_disjoint special_opcodes_distinct
    by (auto simp add: straight_insns_def valid_slot_def UBPF_MAX_INSTS_def
        valid_inst_at_def accepted_cases Let_def)
qed

lemma straight_loaded: "loaded straight_vm straight_insns"
proof -
  have "wf_vm straight_vm"
    using fresh_vm_wf by (simp add: straight_vm_def wf_vm_def)
  moreover have "ubpf_fetch_instruction straight_vm p = Some (straight_insns ! unat p)"
    if "unat p < 2" for p
    using that decode_encode [of "0x1000" 0]
    by (simp add: ubpf_fetch_instruction_def straight_vm_def straight_insns_def fresh_vm_def nth_Cons')
  moreover have "\<not> is_local_call (straight_insns ! k)" if "k < 2" for k
    using that by (auto simp: straight_insns_def is_local_call_def opcode_values nth_Cons')
  moreover have len: "length straight_insns = 2" by (simp add: straight_insns_def)
  ultimately show ?thesis
    using straight_valid unfolding loaded_def len
    by (auto simp add: straight_vm_def nth_Cons')
qed

end
