(* ===== verification/Ubpf_Loader.thy ===== *)
theory Ubpf_Loader
  imports Ubpf_Load
begin

text \<open>
  The ELF loader \<open>ubpf_loader.c\<close>: header checks, the section table, collection of the function
  symbols, linking of the functions into one program and the two kinds of relocation, then
  \<^const>\<open>ubpf_load\<close>. The file is a list of bytes; the pointers of the source are 64-bit offsets into
  it, so that pointer arithmetic wraps as it does in the source.

  A step ends with a value, an error message, or \<open>Elf_undefined\<close>: an access outside the file or
  outside an array, the use of an array element that was never assigned, or an integer passed for
  a \<open>%s\<close> of a format.
\<close>

section \<open>Results\<close>

datatype elf_error =
    NotEnoughData | WrongMagic | WrongClass | WrongByteOrder | WrongVersion | WrongOsAbi
  | WrongType | WrongMachine u16 | TooManySections | BadSectionHeader | BadSection
  | NoStringTable | NoSymbolTable | NoMemoryForFunctions | BadFunctionName | BadFunctionSection
  | NoMemoryForFunction | MainNotFound | NoMemoryForProgram | BadSymbolTableIndex
  | BadRelocationSymbol | BadRelocationName | BadDataOffset | BadDataSectionIndex
  | BadDataSection u32 u64 | BadDataSize | NotLddw | NoRelocationFunction | UnknownCallTarget
  | FunctionNotFound string
  | LoadError load_error

datatype elf_stop = Elf_error elf_error | Elf_undefined

type_synonym 'a elf = "elf_stop + 'a"

definition elf_bind :: "'a elf \<Rightarrow> ('a \<Rightarrow> 'b elf) \<Rightarrow> 'b elf" where
  "elf_bind m f = (case m of Inl e \<Rightarrow> Inl e | Inr x \<Rightarrow> f x)"

definition elf_check :: "bool \<Rightarrow> elf_error \<Rightarrow> unit elf" where
  "elf_check c e = (if c then Inr () else Inl (Elf_error e))"

definition elf_defined :: "'a option \<Rightarrow> 'a elf" where
  "elf_defined x = (case x of None \<Rightarrow> Inl Elf_undefined | Some v \<Rightarrow> Inr v)"

lemma elf_bind_simps [simp]:
  "elf_bind (Inr x) f = f x" "elf_bind (Inl e) f = Inl e"
  by (simp_all add: elf_bind_def)

lemma elf_bind_cong [fundef_cong]:
  "m = m' \<Longrightarrow> (\<And>x. m' = Inr x \<Longrightarrow> f x = g x) \<Longrightarrow> elf_bind m f = elf_bind m' g"
  by (auto simp: elf_bind_def split: sum.split)

lemma elf_bind_Inr_iff: "elf_bind m f = Inr y \<longleftrightarrow> (\<exists>x. m = Inr x \<and> f x = Inr y)"
  by (auto simp: elf_bind_def split: sum.split)

lemma elf_check_Inr_iff [simp]: "elf_check c e = Inr u \<longleftrightarrow> c"
  by (simp add: elf_check_def)

lemma elf_defined_Inr_iff [simp]: "elf_defined x = Inr v \<longleftrightarrow> x = Some v"
  by (auto simp: elf_defined_def split: option.split)

section \<open>Reading the file\<close>

text \<open>A member of \<open>n\<close> bytes at an offset, and a string up to its terminating NUL.\<close>

definition elf_read :: "nat \<Rightarrow> u8 list \<Rightarrow> u64 \<Rightarrow> 'a::len word elf" where
  "elf_read n elf off = elf_defined (map_option le_word (buf_read elf (unat off) n))"

definition c_string :: "u8 list \<Rightarrow> u64 \<Rightarrow> string option" where
  "c_string elf off =
     (let bs = drop (unat off) elf
      in if 0 \<in> set bs then Some (map (\<lambda>b. char_of (unat b)) (takeWhile (\<lambda>b. b \<noteq> 0) bs)) else None)"

text \<open>\<open>!strcmp(elf + off, needle)\<close>: the comparison ends at the first difference.\<close>

fun c_streq :: "u8 list \<Rightarrow> nat \<Rightarrow> string \<Rightarrow> bool elf" where
  "c_streq elf i [] = elf_bind (elf_defined (buf_get elf i)) (\<lambda>b. Inr (b = 0))"
| "c_streq elf i (c # cs) =
     elf_bind (elf_defined (buf_get elf i)) (\<lambda>b.
       if unat b = of_char c then c_streq elf (Suc i) cs else Inr False)"

text \<open>\<open>bounds_check\<close> of the loader: whether the range lies in the file.\<close>

definition elf_bounds_check :: "u8 list \<Rightarrow> u64 \<Rightarrow> u64 \<Rightarrow> bool" where
  "elf_bounds_check elf off n =
     (\<not> (off + n > of_nat (length elf) \<or> off + n < off))"

text \<open>\<open>section_idx_from_name\<close>; \<^const>\<open>None\<close> when it reads past the array.\<close>

fun section_idx_from_name :: "string list \<Rightarrow> nat \<Rightarrow> nat \<Rightarrow> string \<Rightarrow> int option" where
  "section_idx_from_name names i 0 needle = Some (- 1)"
| "section_idx_from_name names i (Suc n) needle =
     (if i < length names
      then if names ! i = needle then Some (int i) else section_idx_from_name names (Suc i) n needle
      else None)"

section \<open>The header and the sections\<close>

definition MAX_SECTIONS :: nat where "MAX_SECTIONS = 32"

definition EM_BPF :: u16 where "EM_BPF = 247"

definition R_BPF_64_64 :: u64 where "R_BPF_64_64 = 1"

definition R_BPF_64_32 :: u64 where "R_BPF_64_32 = 2"

text \<open>Constants of \<open>elf.h\<close>.\<close>

definition SHT_PROGBITS :: u32 where "SHT_PROGBITS = 1"
definition SHT_SYMTAB :: u32 where "SHT_SYMTAB = 2"
definition SHT_STRTAB :: u32 where "SHT_STRTAB = 3"
definition SHT_REL :: u32 where "SHT_REL = 9"
definition SHF_WRITE :: u64 where "SHF_WRITE = 1"
definition SHF_ALLOC :: u64 where "SHF_ALLOC = 2"
definition SHF_EXECINSTR :: u64 where "SHF_EXECINSTR = 4"
definition SHF_STRINGS :: u64 where "SHF_STRINGS = 0x20"
definition STT_FUNC :: u8 where "STT_FUNC = 2"

text \<open>The members of the header the loader goes on to use.\<close>

record elf_header =
  e_shoff :: u64
  e_shentsize :: u16
  e_shnum :: u16

definition elf_ident :: "u8 list \<Rightarrow> elf_error option" where
  "elf_ident elf =
     (if take 4 elf \<noteq> [0x7f, 0x45, 0x4c, 0x46] then Some WrongMagic
      else if elf ! 4 \<noteq> 2 then Some WrongClass
      else if elf ! 5 \<noteq> 1 then Some WrongByteOrder
      else if elf ! 6 \<noteq> 1 then Some WrongVersion
      else if elf ! 7 \<noteq> 0 then Some WrongOsAbi
      else None)"

definition check_elf_header :: "u8 list \<Rightarrow> elf_header elf" where
  "check_elf_header elf =
     elf_bind (elf_check (elf_bounds_check elf 0 64) NotEnoughData) (\<lambda>_.
     case elf_ident elf of
       Some e \<Rightarrow> Inl (Elf_error e)
     | None \<Rightarrow>
         elf_bind (elf_read 2 elf 16) (\<lambda>e_type :: u16.
         elf_bind (elf_check (e_type = 1) WrongType) (\<lambda>_.
         elf_bind (elf_read 2 elf 18) (\<lambda>e_machine.
         elf_bind (elf_check (e_machine = 0 \<or> e_machine = EM_BPF) (WrongMachine e_machine)) (\<lambda>_.
         elf_bind (elf_read 2 elf 60) (\<lambda>shnum.
         elf_bind (elf_check (unat shnum \<le> MAX_SECTIONS) TooManySections) (\<lambda>_.
         elf_bind (elf_read 8 elf 40) (\<lambda>shoff.
         elf_bind (elf_read 2 elf 58) (\<lambda>shentsize.
         Inr \<lparr> e_shoff = shoff, e_shentsize = shentsize, e_shnum = shnum \<rparr>)))))))))"

text \<open>An entry of the array \<open>sections\<close>: the offsets of the section header and of the contents.\<close>

record elf_section =
  sec_shdr :: u64
  sec_data :: u64
  sec_size :: u64

text \<open>The elements of the array from \<open>section_count\<close> on are not initialised.\<close>

definition section_at :: "elf_section list \<Rightarrow> int \<Rightarrow> elf_section elf" where
  "section_at secs i = (if 0 \<le> i \<and> i < int (length secs) then Inr (secs ! nat i) else Inl Elf_undefined)"

abbreviation (input) sh_name :: "u8 list \<Rightarrow> u64 \<Rightarrow> u32 elf" where "sh_name elf shdr \<equiv> elf_read 4 elf shdr"
abbreviation (input) sh_type :: "u8 list \<Rightarrow> u64 \<Rightarrow> u32 elf" where "sh_type elf shdr \<equiv> elf_read 4 elf (shdr + 4)"
abbreviation (input) sh_flags :: "u8 list \<Rightarrow> u64 \<Rightarrow> u64 elf" where "sh_flags elf shdr \<equiv> elf_read 8 elf (shdr + 8)"
abbreviation (input) sh_link :: "u8 list \<Rightarrow> u64 \<Rightarrow> u32 elf" where "sh_link elf shdr \<equiv> elf_read 4 elf (shdr + 40)"
abbreviation (input) sh_info :: "u8 list \<Rightarrow> u64 \<Rightarrow> u32 elf" where "sh_info elf shdr \<equiv> elf_read 4 elf (shdr + 44)"

text \<open>The size passed to the bounds check is that of a pointer, \<open>sizeof(Elf64_Ehdr*)\<close>.\<close>

fun parse_sections :: "u8 list \<Rightarrow> u16 \<Rightarrow> nat \<Rightarrow> u64 \<Rightarrow> elf_section list elf" where
  "parse_sections elf entsize 0 shdr = Inr []"
| "parse_sections elf entsize (Suc n) shdr =
     elf_bind (elf_check (elf_bounds_check elf shdr 8) BadSectionHeader) (\<lambda>_.
     elf_bind (elf_read 8 elf (shdr + 24)) (\<lambda>sh_offset.
     elf_bind (elf_read 8 elf (shdr + 32)) (\<lambda>sh_size.
     elf_bind (elf_check (elf_bounds_check elf sh_offset sh_size) BadSection) (\<lambda>_.
     elf_bind (parse_sections elf entsize n (shdr + ucast entsize)) (\<lambda>rest.
     Inr (\<lparr> sec_shdr = shdr, sec_data = sh_offset, sec_size = sh_size \<rparr> # rest))))))"

text \<open>The first section of a type: the search for the string table and for the symbol table.\<close>

fun find_section :: "u8 list \<Rightarrow> u32 \<Rightarrow> elf_section list \<Rightarrow> elf_section option elf" where
  "find_section elf ty [] = Inr None"
| "find_section elf ty (sec # secs) =
     elf_bind (sh_type elf (sec_shdr sec)) (\<lambda>t.
       if t = ty then Inr (Some sec) else find_section elf ty secs)"

section \<open>Collecting the functions\<close>

record relocated_function =
  rf_name :: u64
  rf_shdr :: u64
  native_data :: u64
  linked_data :: u64
  native_section_start :: u64
  rf_size :: u64
  landed :: u64

text \<open>Which allocations succeed; \<open>alloc_function\<close> is asked with the number of the symbol.\<close>

record elf_alloc =
  alloc_functions :: bool
  alloc_function :: "nat \<Rightarrow> bool"
  alloc_program :: bool

text \<open>
  What the whole load works on: the file, its sections, the string table (\<open>strtab_size\<close> is an
  \<open>int\<close>, compared as unsigned) and the name of the main function.
\<close>

record elf_file =
  file_bytes :: "u8 list"
  file_sections :: "elf_section list"
  strtab_data :: u64
  strtab_size :: u32
  main_function_name :: "string option"

text \<open>The array \<open>relocated_functions\<close>, the number of functions and the size of the program so far.\<close>

record collected =
  relocated_functions :: "relocated_function option list"
  total_functions :: nat
  linked_program_size :: u32

text \<open>Whether a function is the main function: by its name, or first in \<open>.text\<close> when no name is given.\<close>

definition is_main :: "elf_file \<Rightarrow> relocated_function \<Rightarrow> bool elf" where
  "is_main f rf =
     (case main_function_name f of
        Some name \<Rightarrow> c_streq (file_bytes f) (unat (rf_name rf)) name
      | None \<Rightarrow>
          elf_bind (sh_name (file_bytes f) (rf_shdr rf)) (\<lambda>name.
          elf_bind (c_streq (file_bytes f) (unat (strtab_data f + ucast name)) ''.text'') (\<lambda>text.
          Inr (text \<and> native_section_start rf = 0))))"

text \<open>The members of a function symbol, with the checks of the loop body.\<close>

definition function_of_symbol :: "elf_file \<Rightarrow> u64 \<Rightarrow> relocated_function elf" where
  "function_of_symbol f symbol =
     (let elf = file_bytes f; secs = file_sections f in
     elf_bind (elf_read 4 elf symbol) (\<lambda>st_name :: u32.
     elf_bind (elf_check (st_name < strtab_size f) BadFunctionName) (\<lambda>_.
     elf_bind (elf_read 2 elf (symbol + 6)) (\<lambda>st_shndx :: u16.
     elf_bind (elf_check (unat st_shndx \<le> length secs) BadFunctionSection) (\<lambda>_.
     elf_bind (section_at secs (int (unat st_shndx))) (\<lambda>sec.
     elf_bind (sh_type elf (sec_shdr sec)) (\<lambda>ty.
     elf_bind (sh_flags elf (sec_shdr sec)) (\<lambda>flags.
       if ty \<noteq> SHT_PROGBITS \<or> flags \<noteq> SHF_ALLOC OR SHF_EXECINSTR then Inl Elf_undefined
       else
     elf_bind (elf_read 8 elf (symbol + 8)) (\<lambda>st_value.
     elf_bind (elf_read 8 elf (symbol + 16)) (\<lambda>st_size.
     Inr \<lparr> rf_name = strtab_data f + ucast st_name, rf_shdr = sec_shdr sec,
       native_data = sec_data sec + st_value, linked_data = 0, native_section_start = st_value,
       rf_size = st_size, landed = 0 \<rparr>))))))))))"

definition collect_function :: "elf_alloc \<Rightarrow> elf_file \<Rightarrow> nat \<Rightarrow> u64 \<Rightarrow> collected \<Rightarrow> collected elf" where
  "collect_function al f i symbol c =
     elf_bind (elf_read 1 (file_bytes f) (symbol + 4)) (\<lambda>st_info :: u8.
       if st_info AND 0xf \<noteq> STT_FUNC then Inr c
       else
     elf_bind (function_of_symbol f symbol) (\<lambda>rf.
     elf_bind (is_main f rf) (\<lambda>is_main_function.
       let size = linked_program_size c + ucast (rf_size rf);
           slot = (if is_main_function then 0 else total_functions c);
           total = (if is_main_function then total_functions c else Suc (total_functions c))
       in if length (relocated_functions c) \<le> slot then Inl Elf_undefined
          else if \<not> alloc_function al i then Inl (Elf_error NoMemoryForFunction)
          else Inr \<lparr> relocated_functions = (relocated_functions c)[slot := Some rf],
                 total_functions = total, linked_program_size = size \<rparr>)))"

fun collect_functions :: "elf_alloc \<Rightarrow> elf_file \<Rightarrow> u64 \<Rightarrow> nat \<Rightarrow> nat \<Rightarrow> collected \<Rightarrow> collected elf" where
  "collect_functions al f symbols i 0 c = Inr c"
| "collect_functions al f symbols i (Suc n) c =
     elf_bind (collect_function al f i (symbols + 24 * of_nat i) c)
       (collect_functions al f symbols (Suc i) n)"

section \<open>Linking\<close>

text \<open>
  The functions are copied one after the other; \<open>spot\<close> is \<open>current_landing_spot\<close>. A null pointer in
  the array or a copy outside an object is undefined.
\<close>

fun link_functions ::
  "u8 list \<Rightarrow> relocated_function option list \<Rightarrow> u64 \<Rightarrow> u8 list \<Rightarrow> (relocated_function list \<times> u8 list) elf"
where
  "link_functions elf [] spot linked = Inr ([], linked)"
| "link_functions elf (slot # slots) spot linked =
     elf_bind (elf_defined slot) (\<lambda>rf.
     elf_bind (elf_defined (buf_read elf (unat (native_data rf)) (unat (rf_size rf)))) (\<lambda>code.
     elf_bind (elf_defined (buf_write linked (unat spot) code)) (\<lambda>linked'.
     elf_bind (link_functions elf slots (spot + rf_size rf) linked') (\<lambda>(rfs, linked'').
     Inr (rf\<lparr> landed := spot div 8, linked_data := spot \<rparr> # rfs, linked'')))))"

section \<open>Relocation\<close>

text \<open>
  The callback registered with \<^const>\<open>ubpf_register_data_relocation\<close>, a parameter: the function, the
  user data, the pointer to the section (its offset, and the file from there on), its size, the
  symbol's name (\<^const>\<open>None\<close> if it does not end within the file), value and size, and the immediate. It
  may change the state \<open>'s\<close> of the application; \<^const>\<open>None\<close> is a crash inside it.
\<close>

type_synonym 's data_relocation =
  "u64 \<Rightarrow> u64 \<Rightarrow> u64 \<Rightarrow> u8 list \<Rightarrow> u64 \<Rightarrow> string option \<Rightarrow> u64 \<Rightarrow> u64 \<Rightarrow> u64 \<Rightarrow> 's \<Rightarrow> (u64 \<times> 's) option"

record elf_symbol =
  st_name :: u32
  st_shndx :: u16
  st_value :: u64
  st_size :: u64

definition read_symbol :: "u8 list \<Rightarrow> u64 \<Rightarrow> elf_symbol elf" where
  "read_symbol elf symbol =
     elf_bind (elf_read 4 elf symbol) (\<lambda>name.
     elf_bind (elf_read 2 elf (symbol + 6)) (\<lambda>shndx.
     elf_bind (elf_read 8 elf (symbol + 8)) (\<lambda>val.
     elf_bind (elf_read 8 elf (symbol + 16)) (\<lambda>sz.
     Inr \<lparr> st_name = name, st_shndx = shndx, st_value = val, st_size = sz \<rparr>))))"

definition is_source_function :: "u64 \<Rightarrow> u64 \<Rightarrow> relocated_function \<Rightarrow> bool" where
  "is_source_function shdr r_offset rf \<longleftrightarrow>
     shdr = rf_shdr rf \<and> r_offset > native_section_start rf \<and>
     r_offset < native_section_start rf + rf_size rf"

definition is_target_function :: "u64 \<Rightarrow> u32 \<Rightarrow> relocated_function \<Rightarrow> bool" where
  "is_target_function shdr off rf \<longleftrightarrow> shdr = rf_shdr rf \<and> ucast off = native_section_start rf"

text \<open>The members of the instruction at an offset of the linked program.\<close>

abbreviation (input) inst_opcode :: "u8 list \<Rightarrow> u64 \<Rightarrow> u8 elf" where "inst_opcode linked at \<equiv> elf_read 1 linked at"
abbreviation (input) inst_imm :: "u8 list \<Rightarrow> u64 \<Rightarrow> u32 elf" where "inst_imm linked at \<equiv> elf_read 4 linked (at + 4)"

definition inst_src :: "u8 list \<Rightarrow> u64 \<Rightarrow> u8 elf" where
  "inst_src linked at = elf_bind (elf_read 1 linked (at + 1)) (\<lambda>b. Inr (drop_bit 4 b))"

definition set_inst_imm :: "u8 list \<Rightarrow> u64 \<Rightarrow> u32 \<Rightarrow> u8 list elf" where
  "set_inst_imm linked at v = elf_defined (buf_write linked (unat (at + 4)) (le_bytes 4 v))"

text \<open>\<open>R_BPF_64_64\<close>: everything up to the call of the callback, giving its section and immediate.\<close>

definition check_data_relocation ::
  "ubpf_vm \<Rightarrow> elf_file \<Rightarrow> elf_section \<Rightarrow> elf_symbol \<Rightarrow> u64 \<Rightarrow> u64 \<Rightarrow> u8 list \<Rightarrow> (elf_section \<times> u32) elf"
where
  "check_data_relocation vm f applies_to symbol r_offset at linked =
     (let elf = file_bytes f; secs = file_sections f in
     elf_bind (elf_check (r_offset + 8 \<le> sec_size applies_to) BadDataOffset) (\<lambda>_.
     elf_bind (elf_check (unat (st_shndx symbol) \<le> length secs) BadDataSectionIndex) (\<lambda>_.
     elf_bind (section_at secs (int (unat (st_shndx symbol)))) (\<lambda>map_section.
     elf_bind (sh_type elf (sec_shdr map_section)) (\<lambda>ty.
     elf_bind (sh_flags elf (sec_shdr map_section)) (\<lambda>flags.
     elf_bind (elf_check (\<not> (ty \<noteq> SHT_PROGBITS \<and> flags \<noteq> SHF_ALLOC OR SHF_WRITE \<and> flags \<noteq> SHF_ALLOC \<and>
         flags \<noteq> SHF_ALLOC OR SHF_STRINGS)) (BadDataSection ty flags)) (\<lambda>_.
     elf_bind (elf_check (st_size symbol + st_value symbol \<le> sec_size map_section) BadDataSize) (\<lambda>_.
     elf_bind (inst_opcode linked at) (\<lambda>opc.
     elf_bind (elf_check (opc = EBPF_OP_LDDW) NotLddw) (\<lambda>_.
     elf_bind (elf_check (r_offset + 16 \<le> sec_size applies_to) BadDataOffset) (\<lambda>_.
     elf_bind (elf_check (data_relocation_function vm \<noteq> 0) NoRelocationFunction) (\<lambda>_.
     elf_bind (inst_imm linked at) (\<lambda>im.
     Inr (map_section, im))))))))))))))"

definition relocate_data ::
  "'s data_relocation \<Rightarrow> ubpf_vm \<Rightarrow> elf_file \<Rightarrow> elf_section \<Rightarrow> elf_symbol \<Rightarrow> u64 \<Rightarrow> u64 \<Rightarrow> u8 list \<Rightarrow> 's
     \<Rightarrow> u8 list elf \<times> 's"
where
  "relocate_data reloc vm f applies_to symbol r_offset at linked s =
     (case check_data_relocation vm f applies_to symbol r_offset at linked of
        Inl e \<Rightarrow> (Inl e, s)
      | Inr (map_section, im) \<Rightarrow>
          (case reloc (data_relocation_function vm) (data_relocation_user_data vm) (sec_data map_section)
                 (drop (unat (sec_data map_section)) (file_bytes f)) (sec_size map_section)
                 (c_string (file_bytes f) (strtab_data f + ucast (st_name symbol)))
                 (st_value symbol) (st_size symbol) (scast im) s of
             None \<Rightarrow> (Inl Elf_undefined, s)
           | Some (v, s') \<Rightarrow>
               (elf_bind (set_inst_imm linked at (ucast v)) (\<lambda>linked'.
                  set_inst_imm linked' (at + 8) (ucast (drop_bit 32 v))), s')))"

text \<open>\<open>R_BPF_64_32\<close>: a call of a local function, or of a helper by its name.\<close>

definition relocate_local_call ::
  "elf_file \<Rightarrow> relocated_function list \<Rightarrow> elf_symbol \<Rightarrow> u64 \<Rightarrow> u64 \<Rightarrow> u8 list \<Rightarrow> u8 list elf"
where
  "relocate_local_call f rfs symbol at index linked =
     elf_bind (inst_imm linked at) (\<lambda>im.
     elf_bind (section_at (file_sections f) (int (unat (st_shndx symbol)))) (\<lambda>sec.
     case List.find (is_target_function (sec_shdr sec) ((im + 1) * 8)) rfs of
       None \<Rightarrow> Inl (Elf_error UnknownCallTarget)
     | Some target_function \<Rightarrow>
         set_inst_imm linked at (ucast (landed target_function - (index + 1)))))"

definition relocate_helper_call :: "ubpf_vm \<Rightarrow> elf_file \<Rightarrow> elf_symbol \<Rightarrow> u64 \<Rightarrow> u8 list \<Rightarrow> u8 list elf" where
  "relocate_helper_call vm f symbol at linked =
     elf_bind (elf_defined (c_string (file_bytes f) (strtab_data f + ucast (st_name symbol)))) (\<lambda>name.
     let im = ubpf_lookup_registered_function vm name
     in if im = - 1 then Inl (Elf_error (FunctionNotFound name)) else set_inst_imm linked at im)"

text \<open>One relocation: its symbol and the function it applies to, then the change by its type.\<close>

definition find_relocation ::
  "elf_file \<Rightarrow> relocated_function list \<Rightarrow> elf_section \<Rightarrow> elf_section \<Rightarrow> u64
     \<Rightarrow> (u64 \<times> u64 \<times> elf_symbol \<times> relocated_function) elf"
where
  "find_relocation f rfs applies_to symtab rel =
     (let elf = file_bytes f in
     elf_bind (elf_read 8 elf rel) (\<lambda>r_offset.
     elf_bind (elf_read 8 elf (rel + 8)) (\<lambda>r_info.
     elf_bind (elf_check (drop_bit 32 r_info < ucast (ucast (sec_size symtab div 24) :: u32))
         BadRelocationSymbol) (\<lambda>_.
     elf_bind (read_symbol elf (sec_data symtab + 24 * drop_bit 32 r_info)) (\<lambda>symbol.
     elf_bind (elf_check (st_name symbol < strtab_size f) BadRelocationName) (\<lambda>_.
     case List.find (is_source_function (sec_shdr applies_to) r_offset) rfs of
       None \<Rightarrow> Inl (Elf_error BadRelocationName)
     | Some source_function \<Rightarrow> Inr (r_offset, r_info, symbol, source_function)))))))"

definition apply_relocation ::
  "'s data_relocation \<Rightarrow> ubpf_vm \<Rightarrow> elf_file \<Rightarrow> relocated_function list \<Rightarrow> elf_section \<Rightarrow> u64 \<Rightarrow> u64 \<Rightarrow> elf_symbol
     \<Rightarrow> relocated_function \<Rightarrow> u8 list \<Rightarrow> 's \<Rightarrow> u8 list elf \<times> 's"
where
  "apply_relocation reloc vm f rfs applies_to r_offset r_info symbol source_function linked s =
     (let delta = r_offset - native_section_start source_function;
          at = linked_data source_function + delta;
          index = landed source_function + delta div 8;
          ty = r_info AND 0xffffffff
      in if ty = R_BPF_64_64 then relocate_data reloc vm f applies_to symbol r_offset at linked s
         else if ty = R_BPF_64_32 then
           (elf_bind (inst_src linked at) (\<lambda>src_field.
              if src_field = 1 then relocate_local_call f rfs symbol at index linked
              else relocate_helper_call vm f symbol at linked), s)
         else (Inr linked, s))"

definition relocate_entry ::
  "'s data_relocation \<Rightarrow> ubpf_vm \<Rightarrow> elf_file \<Rightarrow> relocated_function list \<Rightarrow> elf_section \<Rightarrow> elf_section \<Rightarrow> u64
     \<Rightarrow> u8 list \<Rightarrow> 's \<Rightarrow> u8 list elf \<times> 's"
where
  "relocate_entry reloc vm f rfs applies_to symtab rel linked s =
     (case find_relocation f rfs applies_to symtab rel of
        Inl e \<Rightarrow> (Inl e, s)
      | Inr (r_offset, r_info, symbol, source_function) \<Rightarrow>
          apply_relocation reloc vm f rfs applies_to r_offset r_info symbol source_function linked s)"

fun relocate_entries ::
  "'s data_relocation \<Rightarrow> ubpf_vm \<Rightarrow> elf_file \<Rightarrow> relocated_function list \<Rightarrow> elf_section \<Rightarrow> elf_section \<Rightarrow> u64 \<Rightarrow> nat
     \<Rightarrow> u8 list \<Rightarrow> 's \<Rightarrow> u8 list elf \<times> 's"
where
  "relocate_entries reloc vm f rfs applies_to symtab rel 0 linked s = (Inr linked, s)"
| "relocate_entries reloc vm f rfs applies_to symtab rel (Suc n) linked s =
     (case relocate_entry reloc vm f rfs applies_to symtab rel linked s of
        (Inl e, s') \<Rightarrow> (Inl e, s')
      | (Inr linked', s') \<Rightarrow> relocate_entries reloc vm f rfs applies_to symtab (rel + 16) n linked' s')"

text \<open>
  A section: nothing is done unless it holds relocations of an executable section. The result is
  the section they apply to and the symbol table they refer to.
\<close>

definition relocation_sections :: "elf_file \<Rightarrow> elf_section \<Rightarrow> (elf_section \<times> elf_section) option elf" where
  "relocation_sections f sec =
     (let elf = file_bytes f; secs = file_sections f in
     elf_bind (sh_type elf (sec_shdr sec)) (\<lambda>ty.
       if ty \<noteq> SHT_REL then Inr None
       else
     elf_bind (sh_info elf (sec_shdr sec)) (\<lambda>info.
     elf_bind (sh_link elf (sec_shdr sec)) (\<lambda>link.
     elf_bind (section_at secs (sint info)) (\<lambda>applies_to.
     elf_bind (sh_type elf (sec_shdr applies_to)) (\<lambda>applies_type.
     elf_bind (sh_flags elf (sec_shdr applies_to)) (\<lambda>applies_flags.
       if applies_type \<noteq> SHT_PROGBITS \<or> applies_flags \<noteq> SHF_ALLOC OR SHF_EXECINSTR then Inr None
       else
     elf_bind (elf_check (sint link < int (length secs)) BadSymbolTableIndex) (\<lambda>_.
     elf_bind (section_at secs (sint link)) (\<lambda>symtab.
     Inr (Some (applies_to, symtab)))))))))))"

definition relocate_section ::
  "'s data_relocation \<Rightarrow> ubpf_vm \<Rightarrow> elf_file \<Rightarrow> relocated_function list \<Rightarrow> elf_section \<Rightarrow> u8 list \<Rightarrow> 's
     \<Rightarrow> u8 list elf \<times> 's"
where
  "relocate_section reloc vm f rfs sec linked s =
     (case relocation_sections f sec of
        Inl e \<Rightarrow> (Inl e, s)
      | Inr None \<Rightarrow> (Inr linked, s)
      | Inr (Some (applies_to, symtab)) \<Rightarrow>
          relocate_entries reloc vm f rfs applies_to symtab (sec_data sec) (unat (sec_size sec div 16)) linked s)"

fun relocate_sections ::
  "'s data_relocation \<Rightarrow> ubpf_vm \<Rightarrow> elf_file \<Rightarrow> relocated_function list \<Rightarrow> elf_section list \<Rightarrow> u8 list \<Rightarrow> 's
     \<Rightarrow> u8 list elf \<times> 's"
where
  "relocate_sections reloc vm f rfs [] linked s = (Inr linked, s)"
| "relocate_sections reloc vm f rfs (sec # secs) linked s =
     (case relocate_section reloc vm f rfs sec linked s of
        (Inl e, s') \<Rightarrow> (Inl e, s')
      | (Inr linked', s') \<Rightarrow> relocate_sections reloc vm f rfs secs linked' s')"

section \<open>The whole load\<close>

text \<open>Up to the tables: the file, and the symbol table with its size, an \<open>int\<close>.\<close>

definition open_elf :: "u8 list \<Rightarrow> string option \<Rightarrow> (elf_file \<times> u64 \<times> u32) elf" where
  "open_elf elf main_name =
     elf_bind (check_elf_header elf) (\<lambda>ehdr.
     elf_bind (parse_sections elf (e_shentsize ehdr) (unat (e_shnum ehdr)) (e_shoff ehdr)) (\<lambda>secs.
     elf_bind (find_section elf SHT_STRTAB secs) (\<lambda>strtab.
     case strtab of
       None \<Rightarrow> Inl (Elf_error NoStringTable)
     | Some str \<Rightarrow>
         elf_bind (find_section elf SHT_SYMTAB secs) (\<lambda>symtab.
         case symtab of
           None \<Rightarrow> Inl (Elf_error NoSymbolTable)
         | Some symbol \<Rightarrow>
             Inr (\<lparr> file_bytes = elf, file_sections = secs, strtab_data = sec_data str,
                  strtab_size = ucast (sec_size str), main_function_name = main_name \<rparr>,
                sec_data symbol, ucast (sec_size symbol))))))"

text \<open>The number of symbols: the \<open>int\<close> size is converted to \<open>size_t\<close> by the division.\<close>

definition total_symbols :: "u32 \<Rightarrow> nat" where
  "total_symbols symtab_size = unat ((scast symtab_size :: u64) div 24)"

definition link_elf ::
  "elf_alloc \<Rightarrow> elf_file \<Rightarrow> u64 \<Rightarrow> u32 \<Rightarrow> (relocated_function list \<times> u8 list) elf"
where
  "link_elf al f symbols symtab_size =
     (let n = total_symbols symtab_size in
     elf_bind (elf_check (alloc_functions al) NoMemoryForFunctions) (\<lambda>_.
     elf_bind (collect_functions al f symbols 0 n
         \<lparr> relocated_functions = replicate n None, total_functions = 1, linked_program_size = 0 \<rparr>) (\<lambda>c.
     case relocated_functions c of
       [] \<Rightarrow> Inl Elf_undefined
     | None # _ \<Rightarrow> Inl (Elf_error MainNotFound)
     | Some _ # _ \<Rightarrow>
         elf_bind (elf_check (alloc_program al) NoMemoryForProgram) (\<lambda>_.
         link_functions (file_bytes f) (take (total_functions c) (relocated_functions c)) 0
           (replicate (unat (linked_program_size c)) 0)))))"

definition link_and_relocate ::
  "'s data_relocation \<Rightarrow> elf_alloc \<Rightarrow> ubpf_vm \<Rightarrow> u8 list \<Rightarrow> string option \<Rightarrow> 's \<Rightarrow> u8 list elf \<times> 's"
where
  "link_and_relocate reloc al vm elf main_name s =
     (case elf_bind (open_elf elf main_name) (\<lambda>(f, symbols, symtab_size).
             elf_bind (link_elf al f symbols symtab_size) (\<lambda>(rfs, linked). Inr (f, rfs, linked))) of
        Inl e \<Rightarrow> (Inl e, s)
      | Inr (f, rfs, linked) \<Rightarrow> relocate_sections reloc vm f rfs (file_sections f) linked s)"

text \<open>
  The C result, the object, the message and the application's state; \<^const>\<open>None\<close> is undefined
  behaviour. The last three arguments are those of \<^const>\<open>ubpf_load\<close>.
\<close>

definition ubpf_load_elf_ex ::
  "host \<Rightarrow> 's data_relocation \<Rightarrow> elf_alloc \<Rightarrow> ubpf_vm \<Rightarrow> u8 list \<Rightarrow> string option \<Rightarrow> 's
     \<Rightarrow> u64 \<Rightarrow> (nat \<Rightarrow> ebpf_inst) \<Rightarrow> bool \<Rightarrow> (int \<times> ubpf_vm \<times> elf_error option \<times> 's) option"
where
  "ubpf_load_elf_ex h reloc al vm elf main_name s base garbage calloc_ok =
     (case link_and_relocate reloc al vm elf main_name s of
        (Inl Elf_undefined, s') \<Rightarrow> None
      | (Inl (Elf_error e), s') \<Rightarrow> Some (- 1, vm, Some e, s')
      | (Inr linked, s') \<Rightarrow>
          map_option (\<lambda>(rc, vm', msg). (rc, vm', map_option LoadError msg, s'))
            (ubpf_load h vm linked base garbage calloc_ok))"

definition ubpf_load_elf ::
  "host \<Rightarrow> 's data_relocation \<Rightarrow> elf_alloc \<Rightarrow> ubpf_vm \<Rightarrow> u8 list \<Rightarrow> 's
     \<Rightarrow> u64 \<Rightarrow> (nat \<Rightarrow> ebpf_inst) \<Rightarrow> bool \<Rightarrow> (int \<times> ubpf_vm \<times> elf_error option \<times> 's) option"
where
  "ubpf_load_elf h reloc al vm elf s base garbage calloc_ok =
     ubpf_load_elf_ex h reloc al vm elf None s base garbage calloc_ok"

end
