(* ===== verification/Bpf_Maps.thy ===== *)
theory Bpf_Maps
  imports Ubpf_Loader
begin

text \<open>
  The helpers of \<open>libs/ubpf/helper/bpf_helpers.cc\<close>: the maps an eBPF program shares with its host,
  and the relocation callback that creates them while a file is loaded. Keys, values and the
  elements of array maps are bytes in the memory of the process; the \<open>bpf_map\<close> objects and the
  \<open>std::unordered_map\<close>s are values of their own.
\<close>

section \<open>Data\<close>

record bpf_map_def =
  map_type :: u32
  key_size :: u32
  value_size :: u32
  max_entries :: u32
  map_flags :: u32
  inner_map_idx :: u32
  numa_node :: u32

definition BPF_MAP_TYPE_HASH :: u32 where "BPF_MAP_TYPE_HASH = 1"
definition BPF_MAP_TYPE_ARRAY :: u32 where "BPF_MAP_TYPE_ARRAY = 2"

text \<open>
  The member \<open>data\<close>: a hash map from key bytes to the buffer of the value's \<open>std::vector\<close>, or the
  address of the elements.
\<close>

datatype map_data = Hash_data "(u8 list \<times> u64) list" | Array_data u64

record bpf_map =
  map_def :: bpf_map_def
  map_contents :: map_data

record bpf_map_ctx =
  map_by_name :: "string \<rightharpoonup> u64"
  global_data :: "u64 \<rightharpoonup> u64"

text \<open>The memory of the process and the \<open>bpf_map\<close> objects by their address.\<close>

record map_heap =
  heap_memory :: memory
  heap_maps :: "u64 \<rightharpoonup> bpf_map"

text \<open>
  Where the allocator places a block of a size (\<open>0\<close> when \<open>calloc\<close> fails) and a new \<open>bpf_map\<close>, given
  what is in use.
\<close>

record allocator =
  malloc :: "memory \<Rightarrow> nat \<Rightarrow> u64"
  new_map :: "map_heap \<Rightarrow> u64"

definition mem_alloc :: "memory \<Rightarrow> u64 \<Rightarrow> u8 list \<Rightarrow> memory" where
  "mem_alloc m a bs = (\<lambda>x. if unat (x - a) < length bs then Some (bs ! unat (x - a)) else m x)"

definition mem_free :: "memory \<Rightarrow> u64 \<Rightarrow> nat \<Rightarrow> memory" where
  "mem_free m a n = (\<lambda>x. if unat (x - a) < n then None else m x)"

section \<open>Operations\<close>

text \<open>
  \<^const>\<open>None\<close> is an access outside every object. A new value is copied into a buffer of its size; an
  existing one is overwritten in place, the sizes being equal.
\<close>

definition bpf_map_lookup_elem :: "map_heap \<Rightarrow> u64 \<Rightarrow> u64 \<Rightarrow> u64 option" where
  "bpf_map_lookup_elem w raw_map key =
     (case heap_maps w raw_map of
        None \<Rightarrow> None
      | Some mp \<Rightarrow>
          if map_type (map_def mp) = BPF_MAP_TYPE_HASH then
            (case map_contents mp of
               Hash_data tab \<Rightarrow>
                 (case mem_read (heap_memory w) key (unat (key_size (map_def mp))) of
                    None \<Rightarrow> None
                  | Some key_value \<Rightarrow> Some (case map_of tab key_value of None \<Rightarrow> 0 | Some p \<Rightarrow> p))
             | Array_data _ \<Rightarrow> None)
          else if map_type (map_def mp) = BPF_MAP_TYPE_ARRAY then
            (case map_contents mp of
               Array_data data \<Rightarrow>
                 (case mem_read (heap_memory w) key 4 of
                    None \<Rightarrow> None
                  | Some bs \<Rightarrow> Some (data + ucast ((le_word bs :: u32) * value_size (map_def mp))))
             | Hash_data _ \<Rightarrow> None)
          else Some 0)"

definition set_contents :: "map_heap \<Rightarrow> u64 \<Rightarrow> bpf_map \<Rightarrow> map_data \<Rightarrow> memory \<Rightarrow> map_heap" where
  "set_contents w raw_map mp d m =
     w\<lparr> heap_maps := (heap_maps w)(raw_map \<mapsto> mp\<lparr> map_contents := d \<rparr>), heap_memory := m \<rparr>"

definition hash_update :: "allocator \<Rightarrow> map_heap \<Rightarrow> u64 \<Rightarrow> bpf_map \<Rightarrow> (u8 list \<times> u64) list \<Rightarrow> u8 list \<Rightarrow> u8 list
    \<Rightarrow> map_heap option" where
  "hash_update al w raw_map mp tab k v =
     (case map_of tab k of
        Some p \<Rightarrow> map_option (set_contents w raw_map mp (Hash_data tab)) (mem_write (heap_memory w) p v)
      | None \<Rightarrow>
          let p = malloc al (heap_memory w) (length v)
          in Some (set_contents w raw_map mp (Hash_data ((k, p) # tab)) (mem_alloc (heap_memory w) p v)))"

definition bpf_map_update_elem :: "allocator \<Rightarrow> map_heap \<Rightarrow> u64 \<Rightarrow> u64 \<Rightarrow> u64 \<Rightarrow> (int \<times> map_heap) option" where
  "bpf_map_update_elem al w raw_map key val =
     (case heap_maps w raw_map of
        None \<Rightarrow> None
      | Some mp \<Rightarrow>
          let m = heap_memory w; d = map_def mp
          in if map_type d = BPF_MAP_TYPE_HASH then
               (case (map_contents mp, mem_read m key (unat (key_size d)), mem_read m val (unat (value_size d))) of
                  (Hash_data tab, Some k, Some v) \<Rightarrow> map_option (Pair 0) (hash_update al w raw_map mp tab k v)
                | _ \<Rightarrow> None)
             else if map_type d = BPF_MAP_TYPE_ARRAY then
               (case (map_contents mp, mem_read m key 4, mem_read m val (unat (value_size d))) of
                  (Array_data data, Some bs, Some v) \<Rightarrow>
                    map_option (\<lambda>m'. (0, w\<lparr> heap_memory := m' \<rparr>))
                      (mem_write m (data + ucast ((le_word bs :: u32) * value_size d)) v)
                | _ \<Rightarrow> None)
             else Some (0, w))"

definition bpf_map_delete_elem :: "map_heap \<Rightarrow> u64 \<Rightarrow> u64 \<Rightarrow> (int \<times> map_heap) option" where
  "bpf_map_delete_elem w raw_map key =
     (case heap_maps w raw_map of
        None \<Rightarrow> None
      | Some mp \<Rightarrow>
          if map_type (map_def mp) = BPF_MAP_TYPE_HASH then
            (case (map_contents mp, mem_read (heap_memory w) key (unat (key_size (map_def mp)))) of
               (Hash_data tab, Some k) \<Rightarrow>
                 (case map_of tab k of
                    None \<Rightarrow> Some (0, w)
                  | Some p \<Rightarrow> Some (0, set_contents w raw_map mp (Hash_data (filter (\<lambda>e. fst e \<noteq> k) tab))
                      (mem_free (heap_memory w) p (unat (value_size (map_def mp))))))
             | _ \<Rightarrow> None)
          else Some (0, w))"

text \<open>
  \<open>bpf_trace_printk\<close>: the loop that counts the arguments reads a byte before it compares the index with
  the size. The result is the call of \<open>printf\<close>: the format, with the byte that ends it, and how many
  \<open>int\<close>s it is given; the pointers to them are the variable arguments.
\<close>

function count_args :: "memory \<Rightarrow> u64 \<Rightarrow> int \<Rightarrow> nat \<Rightarrow> nat \<Rightarrow> nat option" where
  "count_args m fmt fmt_size i var_args =
     (case m (fmt + of_nat i) of
        None \<Rightarrow> None
      | Some c \<Rightarrow>
          if c = 0 \<or> fmt_size \<le> int i then Some var_args
          else count_args m fmt fmt_size (i + 1) (if c = 37 then var_args + 1 else var_args))"
  by pat_completeness auto
termination by (relation "measure (\<lambda>(m, fmt, fmt_size, i, n). nat (fmt_size - int i))") auto

fun load_ints :: "memory \<Rightarrow> u64 list \<Rightarrow> u32 list option" where
  "load_ints m [] = Some []"
| "load_ints m (p # ps) =
     (case (mem_read m p 4, load_ints m ps) of
        (Some bs, Some is) \<Rightarrow> Some (le_word bs # is)
      | _ \<Rightarrow> None)"

definition bpf_trace_printk :: "memory \<Rightarrow> u64 \<Rightarrow> int \<Rightarrow> u64 list \<Rightarrow> (u8 list \<times> u32 list) option" where
  "bpf_trace_printk m fmt fmt_size args =
     (case count_args m fmt fmt_size 0 0 of
        None \<Rightarrow> None
      | Some var_args \<Rightarrow>
          let n = if 1 \<le> var_args \<and> var_args \<le> 4 then var_args else 0
          in if fmt_size < 0 \<or> length args < n then None
             else (case (mem_read m fmt (nat fmt_size), load_ints m (take n args)) of
                     (Some s, Some is) \<Rightarrow> Some (s @ [0], is)
                   | _ \<Rightarrow> None))"

text \<open>\<open>unwind\<close>, and the clock given as seconds and nanoseconds.\<close>

definition unwind :: "u64 \<Rightarrow> u64" where
  "unwind i = i"

definition bpf_ktime_get_ns :: "u64 \<Rightarrow> u64 \<Rightarrow> u64" where
  "bpf_ktime_get_ns sec nsec = sec * 1000000000 + nsec"

section \<open>Relocation\<close>

text \<open>
  The state of the callback is the context and the heap. The section's bytes are those from the
  pointer on; a section that is not yet known is copied into a block of its own.
\<close>

definition do_data_relocation ::
  "allocator \<Rightarrow> u64 \<Rightarrow> u8 list \<Rightarrow> u64 \<Rightarrow> u64 \<Rightarrow> bpf_map_ctx \<times> map_heap \<Rightarrow> (u64 \<times> bpf_map_ctx \<times> map_heap) option"
where
  "do_data_relocation al data_ptr data data_size im = (\<lambda>(ctx, w).
     case global_data ctx data_ptr of
       Some mem \<Rightarrow> Some (mem + im, ctx, w)
     | None \<Rightarrow>
         let n = unat data_size; mem = malloc al (heap_memory w) n
         in if length data < n \<or> mem = 0 \<and> n \<noteq> 0 then None
            else Some (mem + im, ctx\<lparr> global_data := (global_data ctx)(data_ptr \<mapsto> mem) \<rparr>,
                   w\<lparr> heap_memory := mem_alloc (heap_memory w) mem (take n data) \<rparr>))"

definition read_map_def :: "u8 list \<Rightarrow> nat \<Rightarrow> bpf_map_def option" where
  "read_map_def data off =
     (if off + 28 \<le> length data
      then let word = (\<lambda>i. le_word (take 4 (drop (off + 4 * i) data)))
           in Some \<lparr> map_type = word 0, key_size = word 1, value_size = word 2, max_entries = word 3,
                map_flags = word 4, inner_map_idx = word 5, numa_node = word 6 \<rparr>
      else None)"

definition same_definition :: "bpf_map_def \<Rightarrow> bpf_map_def \<Rightarrow> bool" where
  "same_definition a b \<longleftrightarrow> map_type a = map_type b \<and> key_size a = key_size b \<and>
     value_size a = value_size b \<and> max_entries a = max_entries b"

text \<open>The contents of a new map, with the memory they need; \<^const>\<open>None\<close> for an unsupported definition.\<close>

definition new_contents :: "allocator \<Rightarrow> bpf_map_def \<Rightarrow> memory \<Rightarrow> (map_data \<times> memory) option" where
  "new_contents al d m =
     (if map_type d = BPF_MAP_TYPE_HASH then Some (Hash_data [], m)
      else if map_type d = BPF_MAP_TYPE_ARRAY \<and> key_size d = 4 then
        let n = unat (max_entries d) * unat (value_size d); data = malloc al m n
        in Some (Array_data data, if data = 0 then m else mem_alloc m data (replicate n 0))
      else None)"

definition do_map_relocation ::
  "allocator \<Rightarrow> u64 \<Rightarrow> u8 list \<Rightarrow> u64 \<Rightarrow> string option \<Rightarrow> u64 \<Rightarrow> u64 \<Rightarrow> u64 \<Rightarrow> bpf_map_ctx \<times> map_heap
     \<Rightarrow> (u64 \<times> bpf_map_ctx \<times> map_heap) option"
where
  "do_map_relocation al data_ptr map_data map_data_size symbol_name symbol_offset symbol_size im s =
     (if symbol_size = 0 then do_data_relocation al data_ptr map_data map_data_size im s
      else case read_map_def map_data (unat symbol_offset) of
          None \<Rightarrow> None
        | Some d \<Rightarrow>
            if symbol_size < 28 then Some (0, s)
            else case symbol_name of
                None \<Rightarrow> None
              | Some name \<Rightarrow>
                  (case s of (ctx, w) \<Rightarrow>
                     (case map_by_name ctx name of
                        Some p \<Rightarrow>
                          (case heap_maps w p of
                             None \<Rightarrow> None
                           | Some mp \<Rightarrow> Some (if same_definition (map_def mp) d then p else 0, s))
                      | None \<Rightarrow>
                          (case new_contents al d (heap_memory w) of
                             None \<Rightarrow> Some (0, s)
                           | Some (contents, m) \<Rightarrow>
                               let w1 = w\<lparr> heap_memory := m \<rparr>; p = new_map al w1
                               in Some (p, ctx\<lparr> map_by_name := (map_by_name ctx)(name \<mapsto> p) \<rparr>,
                                    w1\<lparr> heap_maps := (heap_maps w1)(p \<mapsto> \<lparr> map_def = d, map_contents = contents \<rparr>) \<rparr>)))))"

text \<open>The callback the loader is given, for a file at the address \<open>base\<close>.\<close>

definition map_callback :: "allocator \<Rightarrow> u64 \<Rightarrow> (bpf_map_ctx \<times> map_heap) data_relocation" where
  "map_callback al base fn user_context off data data_size name symbol_offset symbol_size im s =
     do_map_relocation al (base + off) data data_size name symbol_offset symbol_size im s"

section \<open>Memory\<close>

lemma mem_read_Some_iff:
  "mem_read m a n = Some bs \<longleftrightarrow> length bs = n \<and> (\<forall>i < n. m (a + of_nat i) = Some (bs ! i))"
proof (induction n arbitrary: a bs)
  case 0
  then show ?case by (auto simp: mem_read_def)
next
  case (Suc n)
  have "mem_read m a (Suc n) = Some bs \<longleftrightarrow>
      (\<exists>b rest. bs = b # rest \<and> m a = Some b \<and> mem_read m (a + 1) n = Some rest)"
    by (auto simp: mem_read_def next_addr_def split: option.splits)
  also have "\<dots> \<longleftrightarrow> length bs = Suc n \<and> (\<forall>i < Suc n. m (a + of_nat i) = Some (bs ! i))"
    unfolding Suc.IH by (cases bs) (auto simp: All_less_Suc2 ac_simps)
  finally show ?case .
qed

lemma mem_read_region:
  "n \<le> 2 ^ 64 \<Longrightarrow> (\<And>x. x \<in> region a n \<Longrightarrow> m x = m' x) \<Longrightarrow> mem_read m a n = mem_read m' a n"
  unfolding mem_read_def by (rule read_bytes_cong) (simp add: span_next_addr)

lemma region_add: "i < n \<Longrightarrow> n \<le> 2 ^ 64 \<Longrightarrow> a + of_nat i \<in> region a n"
  by (simp add: region_def unat_of_nat)

lemma mem_read_alloc: "length bs \<le> 2 ^ 64 \<Longrightarrow> mem_read (mem_alloc m a bs) a (length bs) = Some bs"
  by (simp add: mem_read_Some_iff mem_alloc_def unat_of_nat)

lemma mem_alloc_outside: "x \<notin> region a (length bs) \<Longrightarrow> mem_alloc m a bs x = m x"
  by (simp add: mem_alloc_def region_def)

lemma mem_free_outside: "x \<notin> region a n \<Longrightarrow> mem_free m a n x = m x"
  by (simp add: mem_free_def region_def)

lemma region_mapped_read: "n \<le> 2 ^ 64 \<Longrightarrow> (\<forall>x \<in> region a n. m x \<noteq> None) \<Longrightarrow> \<exists>bs. mem_read m a n = Some bs"
  using mem_read_eq_None_iff [of m a n] by (auto simp: span_next_addr)

section \<open>The interface of a map\<close>

text \<open>
  What a program relies on: every operation keeps the invariant and acts on the abstract map as its
  name says. \<open>get s k r\<close> means that a lookup of \<open>k\<close> in \<open>s\<close> can give \<open>r\<close>.
\<close>

datatype ('k, 'v) map_op = Put 'k 'v | Del 'k

fun apply_op :: "('k, 'v) map_op \<Rightarrow> ('k \<rightharpoonup> 'v) \<Rightarrow> ('k \<rightharpoonup> 'v)" where
  "apply_op (Put k v) f = f(k \<mapsto> v)"
| "apply_op (Del k) f = f(k := None)"

locale key_value_store =
  fixes inv :: "'s \<Rightarrow> bool"
    and abs :: "'s \<Rightarrow> 'k \<rightharpoonup> 'v"
    and step :: "('k, 'v) map_op \<Rightarrow> 's \<Rightarrow> 's \<Rightarrow> bool"
    and get :: "'s \<Rightarrow> 'k \<Rightarrow> 'v option \<Rightarrow> bool"
  assumes step_inv: "inv s \<Longrightarrow> step op s s' \<Longrightarrow> inv s'"
    and step_abs: "inv s \<Longrightarrow> step op s s' \<Longrightarrow> abs s' = apply_op op (abs s)"
    and get_abs: "inv s \<Longrightarrow> get s k r \<Longrightarrow> r = abs s k"
begin

inductive steps :: "('k, 'v) map_op list \<Rightarrow> 's \<Rightarrow> 's \<Rightarrow> bool" where
  steps_Nil: "steps [] s s"
| steps_Cons: "step op s s' \<Longrightarrow> steps ops s' s'' \<Longrightarrow> steps (op # ops) s s''"

lemma steps_refine: "steps ops s s' \<Longrightarrow> inv s \<Longrightarrow> inv s' \<and> abs s' = fold apply_op ops (abs s)"
  by (induction rule: steps.induct) (auto simp: step_inv step_abs)

lemma get_after_steps:
  "steps ops s s' \<Longrightarrow> inv s \<Longrightarrow> get s' k r \<Longrightarrow> r = fold apply_op ops (abs s) k"
  using steps_refine get_abs by metis

end

section \<open>Hash maps\<close>

text \<open>The buffers of the values are mapped, none is NULL, and no two overlap.\<close>

definition wf_table :: "memory \<Rightarrow> nat \<Rightarrow> (u8 list \<times> u64) list \<Rightarrow> bool" where
  "wf_table m n tab \<longleftrightarrow> distinct (map fst tab) \<and>
     (\<forall>(k, p) \<in> set tab. p \<noteq> 0 \<and> (\<forall>x \<in> region p n. m x \<noteq> None)) \<and>
     (\<forall>(k, p) \<in> set tab. \<forall>(k', p') \<in> set tab. k \<noteq> k' \<longrightarrow> region p n \<inter> region p' n = {})"

definition table_abs :: "memory \<Rightarrow> nat \<Rightarrow> (u8 list \<times> u64) list \<Rightarrow> u8 list \<rightharpoonup> u8 list" where
  "table_abs m n tab k = Option.bind (map_of tab k) (\<lambda>p. mem_read m p n)"

lemma table_entry:
  assumes "wf_table m n tab" "map_of tab k = Some p"
  shows "p \<noteq> 0" "\<forall>x \<in> region p n. m x \<noteq> None"
    "map_of tab k' = Some p' \<Longrightarrow> k' \<noteq> k \<Longrightarrow> region p n \<inter> region p' n = {}"
proof -
  have e: "(k, p) \<in> set tab" using assms(2) by (rule map_of_SomeD)
  show "p \<noteq> 0" "\<forall>x \<in> region p n. m x \<noteq> None" using assms(1) e by (auto simp: wf_table_def)
  assume "map_of tab k' = Some p'" "k' \<noteq> k"
  then have "(k', p') \<in> set tab" by (auto dest: map_of_SomeD)
  with e assms(1) \<open>k' \<noteq> k\<close> show "region p n \<inter> region p' n = {}" by (fastforce simp: wf_table_def)
qed

lemma table_abs_None_iff:
  "wf_table m n tab \<Longrightarrow> n \<le> 2 ^ 64 \<Longrightarrow> table_abs m n tab k = None \<longleftrightarrow> map_of tab k = None"
  using table_entry(2) [of m n tab k] region_mapped_read [of n _ m]
  by (cases "map_of tab k") (auto simp: table_abs_def)

text \<open>Overwriting, adding and removing an entry.\<close>

lemma table_overwrite:
  assumes wf: "wf_table m n tab" and p: "map_of tab k = Some p" and n: "length v = n" "n \<le> 2 ^ 64"
    and w: "mem_write m p v = Some m'"
  shows "wf_table m' n tab" "table_abs m' n tab = (table_abs m n tab)(k \<mapsto> v)"
proof -
  show "wf_table m' n tab" using wf by (simp add: wf_table_def mem_write_domain [OF w])
  have "mem_read m' p' n = mem_read m p' n" if "map_of tab k' = Some p'" "k' \<noteq> k" for k' p'
    using table_entry(3) [OF wf p that] n by (intro mem_read_disjoint [OF w]) (simp add: span_next_addr)
  moreover have "mem_read m' p n = Some v" using mem_read_after_write [OF w] n by simp
  ultimately show "table_abs m' n tab = (table_abs m n tab)(k \<mapsto> v)"
    using p by (intro ext) (simp add: table_abs_def split: Option.bind_split)
qed

lemma table_add:
  assumes wf: "wf_table m n tab" and k: "map_of tab k = None" and n: "length v = n" "n \<le> 2 ^ 64"
    and p: "p \<noteq> 0" "\<forall>x \<in> region p n. m x = None"
  shows "wf_table (mem_alloc m p v) n ((k, p) # tab)"
    "table_abs (mem_alloc m p v) n ((k, p) # tab) = (table_abs m n tab)(k \<mapsto> v)"
proof -
  have dis: "region p n \<inter> region p' n = {}" if "(k', p') \<in> set tab" for k' p'
    using wf that p(2) by (fastforce simp: wf_table_def)
  have out: "mem_alloc m p v x = m x" if "x \<notin> region p n" for x
    using mem_alloc_outside [of x p v m] that n by simp
  have old: "mem_alloc m p v x = m x" if "(k', p') \<in> set tab" "x \<in> region p' n" for k' p' x
    using dis [OF that(1)] that(2) by (intro out) blast
  have new: "mem_alloc m p v x \<noteq> None" if "x \<in> region p n" for x
    using that n by (simp add: mem_alloc_def region_def)
  have "k \<notin> fst ` set tab" using k by (simp add: map_of_eq_None_iff)
  moreover have "\<forall>(k', p') \<in> set tab. p' \<noteq> 0 \<and> (\<forall>x \<in> region p' n. mem_alloc m p v x \<noteq> None)"
    using wf old by (fastforce simp: wf_table_def)
  moreover have "\<forall>(k', p') \<in> set tab. region p n \<inter> region p' n = {} \<and> region p' n \<inter> region p n = {}"
    using dis by (auto simp: Int_commute)
  ultimately show "wf_table (mem_alloc m p v) n ((k, p) # tab)"
    using wf p(1) new unfolding wf_table_def by (simp add: case_prod_unfold)
  have "mem_read (mem_alloc m p v) p' n = mem_read m p' n" if "map_of tab k' = Some p'" for k' p'
    using map_of_SomeD [OF that] old n(2) by (intro mem_read_region) auto
  then show "table_abs (mem_alloc m p v) n ((k, p) # tab) = (table_abs m n tab)(k \<mapsto> v)"
    using mem_read_alloc [of v m p] n by (intro ext) (auto simp: table_abs_def split: Option.bind_split)
qed

lemma table_remove:
  assumes wf: "wf_table m n tab" and p: "map_of tab k = Some p" and n: "n \<le> 2 ^ 64"
  shows "wf_table (mem_free m p n) n (filter (\<lambda>e. fst e \<noteq> k) tab)"
    "table_abs (mem_free m p n) n (filter (\<lambda>e. fst e \<noteq> k) tab) = (table_abs m n tab)(k := None)"
proof -
  have keep: "mem_free m p n x = m x" if "(k', p') \<in> set tab" "k' \<noteq> k" "x \<in> region p' n" for k' p' x
  proof (rule mem_free_outside)
    have "region p n \<inter> region p' n = {}"
      using wf that(1,2) map_of_SomeD [OF p] by (fastforce simp: wf_table_def)
    with that(3) show "x \<notin> region p n" by blast
  qed
  have sub: "set (filter (\<lambda>e. fst e \<noteq> k) tab) \<subseteq> set tab" by auto
  show "wf_table (mem_free m p n) n (filter (\<lambda>e. fst e \<noteq> k) tab)"
    using wf keep unfolding wf_table_def by (fastforce intro: distinct_map_filter)
  have "map_of (filter (\<lambda>e. fst e \<noteq> k) tab) k' = (if k' = k then None else map_of tab k')" for k'
    by (induction tab) auto
  moreover have "mem_read (mem_free m p n) p' n = mem_read m p' n" if "map_of tab k' = Some p'" "k' \<noteq> k" for k' p'
    using keep map_of_SomeD [OF that(1)] that(2) n by (intro mem_read_region) auto
  ultimately show "table_abs (mem_free m p n) n (filter (\<lambda>e. fst e \<noteq> k) tab) = (table_abs m n tab)(k := None)"
    by (intro ext) (auto simp: table_abs_def split: Option.bind_split)
qed

text \<open>The hash map at an address: its invariant and the map it stands for.\<close>

definition wf_hash :: "u64 \<Rightarrow> map_heap \<Rightarrow> bool" where
  "wf_hash raw_map w \<longleftrightarrow> (case heap_maps w raw_map of
     None \<Rightarrow> False
   | Some mp \<Rightarrow> map_type (map_def mp) = BPF_MAP_TYPE_HASH \<and> (case map_contents mp of
       Hash_data tab \<Rightarrow> wf_table (heap_memory w) (unat (value_size (map_def mp))) tab
     | Array_data _ \<Rightarrow> False))"

definition hash_abs :: "u64 \<Rightarrow> map_heap \<Rightarrow> u8 list \<rightharpoonup> u8 list" where
  "hash_abs raw_map w = (case heap_maps w raw_map of
     None \<Rightarrow> Map.empty
   | Some mp \<Rightarrow> (case map_contents mp of
       Hash_data tab \<Rightarrow> table_abs (heap_memory w) (unat (value_size (map_def mp))) tab
     | Array_data _ \<Rightarrow> Map.empty))"

lemma wf_hashE:
  assumes "wf_hash raw_map w"
  obtains mp tab where "heap_maps w raw_map = Some mp" "map_type (map_def mp) = BPF_MAP_TYPE_HASH"
    "map_contents mp = Hash_data tab" "wf_table (heap_memory w) (unat (value_size (map_def mp))) tab"
    "hash_abs raw_map w = table_abs (heap_memory w) (unat (value_size (map_def mp))) tab"
  using assms by (auto simp: wf_hash_def hash_abs_def split: option.splits map_data.splits)

lemma set_contents_hash:
  assumes "heap_maps w raw_map = Some mp" "map_type (map_def mp) = BPF_MAP_TYPE_HASH"
    and "wf_table m (unat (value_size (map_def mp))) tab"
  shows "wf_hash raw_map (set_contents w raw_map mp (Hash_data tab) m)"
    "hash_abs raw_map (set_contents w raw_map mp (Hash_data tab) m) = table_abs m (unat (value_size (map_def mp))) tab"
    "map_option map_def (heap_maps (set_contents w raw_map mp (Hash_data tab) m) raw_map) = Some (map_def mp)"
  using assms by (simp_all add: wf_hash_def hash_abs_def set_contents_def)

definition free_block :: "memory \<Rightarrow> u64 \<Rightarrow> nat \<Rightarrow> bool" where
  "free_block m p n \<longleftrightarrow> p \<noteq> 0 \<and> (\<forall>x \<in> region p n. m x = None)"

lemma value_size_bound: "unat (n :: u32) \<le> 2 ^ 64"
  using unat_u32_lt [of n] by simp

text \<open>The three helpers on a hash map, for a readable key and value.\<close>

lemma hash_lookup:
  assumes wf: "wf_hash raw_map w" and mp: "heap_maps w raw_map = Some mp"
    and k: "mem_read (heap_memory w) key (unat (key_size (map_def mp))) = Some k"
  shows "\<exists>p. bpf_map_lookup_elem w raw_map key = Some p \<and>
    hash_abs raw_map w k = (if p = 0 then None else mem_read (heap_memory w) p (unat (value_size (map_def mp))))"
proof -
  obtain tab where t: "map_type (map_def mp) = BPF_MAP_TYPE_HASH" "map_contents mp = Hash_data tab"
    "wf_table (heap_memory w) (unat (value_size (map_def mp))) tab"
    "hash_abs raw_map w = table_abs (heap_memory w) (unat (value_size (map_def mp))) tab"
    using wf mp by (auto elim: wf_hashE)
  show ?thesis
    using table_entry(1) [OF t(3), of k]
    by (cases "map_of tab k") (auto simp: bpf_map_lookup_elem_def mp t k table_abs_def)
qed

lemma hash_put:
  assumes wf: "wf_hash raw_map w" and mp: "heap_maps w raw_map = Some mp"
    and k: "mem_read (heap_memory w) key (unat (key_size (map_def mp))) = Some k"
    and v: "mem_read (heap_memory w) val (unat (value_size (map_def mp))) = Some v"
    and free: "free_block (heap_memory w) (malloc al (heap_memory w) (length v)) (length v)"
  shows "\<exists>w'. bpf_map_update_elem al w raw_map key val = Some (0, w') \<and> wf_hash raw_map w' \<and>
    hash_abs raw_map w' = (hash_abs raw_map w)(k \<mapsto> v)"
proof -
  let ?n = "unat (value_size (map_def mp))" and ?m = "heap_memory w"
  obtain tab where t: "map_type (map_def mp) = BPF_MAP_TYPE_HASH" "map_contents mp = Hash_data tab"
    "wf_table ?m ?n tab" "hash_abs raw_map w = table_abs ?m ?n tab"
    using wf mp by (auto elim: wf_hashE)
  have n: "length v = ?n" using mem_read_length [OF v] .
  have eq: "bpf_map_update_elem al w raw_map key val = map_option (Pair 0) (hash_update al w raw_map mp tab k v)"
    by (simp add: bpf_map_update_elem_def mp t k v Let_def)
  show ?thesis
  proof (cases "map_of tab k")
    case None
    let ?p = "malloc al ?m (length v)"
    have p: "?p \<noteq> 0" "\<forall>x \<in> region ?p ?n. ?m x = None" using free n by (simp_all add: free_block_def)
    note a = table_add [OF t(3) None n value_size_bound p]
    have "hash_update al w raw_map mp tab k v = Some (set_contents w raw_map mp (Hash_data ((k, ?p) # tab)) (mem_alloc ?m ?p v))"
      by (simp add: hash_update_def None Let_def)
    with eq set_contents_hash(1,2) [OF mp t(1) a(1)] a(2) t(4) show ?thesis by auto
  next
    case (Some p)
    have "\<forall>x \<in> region p ?n. ?m x \<noteq> None" by (rule table_entry(2) [OF t(3) Some])
    then obtain m' where w: "mem_write ?m p v = Some m'"
      using mem_write_total [of p v ?m] n value_size_bound by (auto simp: span_next_addr)
    note a = table_overwrite [OF t(3) Some n value_size_bound w]
    have "hash_update al w raw_map mp tab k v = Some (set_contents w raw_map mp (Hash_data tab) m')"
      by (simp add: hash_update_def Some w)
    with eq set_contents_hash(1,2) [OF mp t(1) a(1)] a(2) t(4) show ?thesis by auto
  qed
qed

lemma hash_delete:
  assumes wf: "wf_hash raw_map w" and mp: "heap_maps w raw_map = Some mp"
    and k: "mem_read (heap_memory w) key (unat (key_size (map_def mp))) = Some k"
  shows "\<exists>w'. bpf_map_delete_elem w raw_map key = Some (0, w') \<and> wf_hash raw_map w' \<and>
    hash_abs raw_map w' = (hash_abs raw_map w)(k := None)"
proof -
  let ?n = "unat (value_size (map_def mp))" and ?m = "heap_memory w"
  obtain tab where t: "map_type (map_def mp) = BPF_MAP_TYPE_HASH" "map_contents mp = Hash_data tab"
    "wf_table ?m ?n tab" "hash_abs raw_map w = table_abs ?m ?n tab"
    using wf mp by (auto elim: wf_hashE)
  show ?thesis
  proof (cases "map_of tab k")
    case None
    then have "hash_abs raw_map w k = None" by (simp add: t(4) table_abs_def)
    then have "(hash_abs raw_map w)(k := None) = hash_abs raw_map w" by auto
    with None wf show ?thesis by (simp add: bpf_map_delete_elem_def mp t(1,2) k)
  next
    case (Some p)
    note a = table_remove [OF t(3) Some value_size_bound]
    have "bpf_map_delete_elem w raw_map key =
        Some (0, set_contents w raw_map mp (Hash_data (filter (\<lambda>e. fst e \<noteq> k) tab)) (mem_free ?m p ?n))"
      by (simp add: bpf_map_delete_elem_def mp t(1,2) k Some)
    with set_contents_hash(1,2) [OF mp t(1) a(1)] a(2) t(4) show ?thesis by auto
  qed
qed

text \<open>As steps of the interface, with an allocator that returns blocks that are not in use.\<close>

definition hash_step :: "allocator \<Rightarrow> u64 \<Rightarrow> (u8 list, u8 list) map_op \<Rightarrow> map_heap \<Rightarrow> map_heap \<Rightarrow> bool" where
  "hash_step al raw_map op w w' \<longleftrightarrow> (\<exists>mp key. heap_maps w raw_map = Some mp \<and> (case op of
     Put k v \<Rightarrow> mem_read (heap_memory w) key (unat (key_size (map_def mp))) = Some k \<and>
       free_block (heap_memory w) (malloc al (heap_memory w) (length v)) (length v) \<and>
       (\<exists>val. mem_read (heap_memory w) val (unat (value_size (map_def mp))) = Some v \<and>
          bpf_map_update_elem al w raw_map key val = Some (0, w'))
   | Del k \<Rightarrow> mem_read (heap_memory w) key (unat (key_size (map_def mp))) = Some k \<and>
       bpf_map_delete_elem w raw_map key = Some (0, w')))"

definition hash_get :: "u64 \<Rightarrow> map_heap \<Rightarrow> u8 list \<Rightarrow> u8 list option \<Rightarrow> bool" where
  "hash_get raw_map w k r \<longleftrightarrow> (\<exists>mp key p. heap_maps w raw_map = Some mp \<and>
     mem_read (heap_memory w) key (unat (key_size (map_def mp))) = Some k \<and>
     bpf_map_lookup_elem w raw_map key = Some p \<and>
     r = (if p = 0 then None else mem_read (heap_memory w) p (unat (value_size (map_def mp)))))"

lemma hash_step_refines:
  assumes "wf_hash raw_map w" "hash_step al raw_map op w w'"
  shows "wf_hash raw_map w' \<and> hash_abs raw_map w' = apply_op op (hash_abs raw_map w)"
proof (cases op)
  case (Put k v)
  then show ?thesis using assms hash_put [OF assms(1)] by (fastforce simp: hash_step_def)
next
  case (Del k)
  then show ?thesis using assms hash_delete [OF assms(1)] by (fastforce simp: hash_step_def)
qed

lemma hash_get_refines: "wf_hash raw_map w \<Longrightarrow> hash_get raw_map w k r \<Longrightarrow> r = hash_abs raw_map w k"
  using hash_lookup by (fastforce simp: hash_get_def)

interpretation hash: key_value_store "wf_hash raw_map" "hash_abs raw_map" "hash_step al raw_map" "hash_get raw_map"
  for al raw_map
  by unfold_locales (auto dest: hash_step_refines hash_get_refines)

section \<open>Array maps\<close>

lemma array_lookup:
  assumes "heap_maps w raw_map = Some mp" "map_type (map_def mp) = BPF_MAP_TYPE_ARRAY"
    and "map_contents mp = Array_data data" "mem_read (heap_memory w) key 4 = Some bs"
  shows "bpf_map_lookup_elem w raw_map key = Some (data + ucast ((le_word bs :: u32) * value_size (map_def mp)))"
  using assms by (simp add: bpf_map_lookup_elem_def BPF_MAP_TYPE_HASH_def BPF_MAP_TYPE_ARRAY_def)

text \<open>An element lies in the array exactly when its index is below the number of entries.\<close>

lemma array_element_inside:
  fixes data :: u64 and idx size count :: u32
  assumes size: "0 < unat size" "(unat idx + 1) * unat size < 2 ^ 32" and data: "unat data + 2 ^ 33 < 2 ^ 64"
    and total: "unat count * unat size < 2 ^ 32"
  shows "region (data + ucast (idx * size)) (unat size) \<subseteq> region data (unat count * unat size) \<longleftrightarrow> unat idx < unat count"
proof -
  have "unat idx * unat size < 2 ^ 32" using size(2) by (rule le_less_trans [rotated]) simp
  then have off: "unat (ucast (idx * size) :: u64) = unat idx * unat size"
    by (simp add: unsigned_ucast_eq unsigned_take_bit_eq take_bit_nat_eq_self unat_word_ariths)
  have a: "unat (data + ucast (idx * size)) = unat data + unat idx * unat size"
    using data \<open>unat idx * unat size < 2 ^ 32\<close> by (simp add: unat_word_ariths off)
  have r1: "x \<in> region (data + ucast (idx * size)) (unat size) \<longleftrightarrow>
      unat data + unat idx * unat size \<le> unat x \<and> unat x < unat data + (unat idx + 1) * unat size" for x
    using data size(2) by (subst region_iff_nowrap) (simp_all add: a ac_simps)
  have r2: "x \<in> region data (unat count * unat size) \<longleftrightarrow> unat data \<le> unat x \<and> unat x < unat data + unat count * unat size" for x
    using data total by (subst region_iff_nowrap) simp_all
  show ?thesis
  proof
    assume "unat idx < unat count"
    then have "(unat idx + 1) * unat size \<le> unat count * unat size" by (intro mult_right_mono) simp_all
    then show "region (data + ucast (idx * size)) (unat size) \<subseteq> region data (unat count * unat size)"
      unfolding subset_iff r1 r2 by linarith
  next
    assume sub: "region (data + ucast (idx * size)) (unat size) \<subseteq> region data (unat count * unat size)"
    have "data + ucast (idx * size) \<in> region (data + ucast (idx * size)) (unat size)"
      using size(1) by (simp add: region_def)
    then have "unat data + unat idx * unat size < unat data + unat count * unat size"
      using sub a by (auto simp: subset_iff r2)
    then show "unat idx < unat count" by simp
  qed
qed

section \<open>Maps by name\<close>

text \<open>
  A map found or created by a relocation is the one every later relocation of the same name with
  the same definition gets, of this program or of the next one; another definition gets 0.
\<close>

lemma do_map_relocation_later:
  assumes first: "do_map_relocation al ptr data n name off sz im s = Some (p, s')" and p: "p \<noteq> 0" "sz \<noteq> 0"
    and d: "read_map_def data (unat off) = Some d" "read_map_def data' (unat off') = Some d'"
    and sz': "28 \<le> sz'"
  shows "do_map_relocation al' ptr' data' n' name off' sz' im' s' = Some (if same_definition d d' then p else 0, s')"
proof -
  obtain ctx w where s: "s = (ctx, w)" by fastforce
  have sz: "28 \<le> sz" using first p by (auto simp: do_map_relocation_def d split: if_splits)
  obtain nm where nm: "name = Some nm"
    using first sz p by (auto simp: do_map_relocation_def d split: if_splits option.splits)
  have "sz' \<noteq> 0" using sz' by auto
  then have later: "do_map_relocation al' ptr' data' n' name off' sz' im' s' =
      (case s' of (ctx', w') \<Rightarrow> (case map_by_name ctx' nm of
         Some q \<Rightarrow> (case heap_maps w' q of None \<Rightarrow> None | Some mp \<Rightarrow> Some (if same_definition (map_def mp) d' then q else 0, s'))
       | None \<Rightarrow> do_map_relocation al' ptr' data' n' name off' sz' im' s'))"
    using sz' by (auto simp: do_map_relocation_def d nm split: prod.split option.split)
  obtain ctx' w' mp where "s' = (ctx', w')" "map_by_name ctx' nm = Some p" "heap_maps w' p = Some mp"
    "same_definition (map_def mp) d"
    using first sz p
    by (auto simp: do_map_relocation_def d nm s Let_def same_definition_def split: option.splits if_splits)
  with later show ?thesis by (simp add: same_definition_def)
qed

end
