(* ===== verification/Bpf_Element.thy ===== *)
theory Bpf_Element
  imports Bpf_Maps Ubpf_Jit Ubpf_Exec
begin

text \<open>
  The Click elements that run an eBPF program on every packet: \<open>libs/click/unikraft/bpfelement.cc\<close>
  and the classes \<open>BPFilter\<close>, \<open>BPFClassifier\<close> and \<open>BPFRewriter\<close> derived from it. Click, the
  cryptographic library, the file system and the locks are not part of this code: what they return
  is a parameter, and the calls an element makes on its lock and on packets are recorded in order.
\<close>

section \<open>The element\<close>

datatype event =
    Wlock | Wunlock | Rlock | Runlock
  | Kill u64
  | Output int u64
  | Checked_output int u64

record bpf_element =
  el_vm :: "ubpf_vm option"
  el_id :: u64
  el_jit :: bool
  el_dump_jit :: bool
  el_file :: string
  el_signature_file :: string
  el_map_ctx :: bpf_map_ctx
  el_jit_fn :: u64

datatype bpf_class = BPFilter | BPFClassifier | BPFRewriter

text \<open>The files as \<open>fopen\<close> and \<open>fread\<close> give them: \<^const>\<open>None\<close> cannot be opened or not be read completely.\<close>

type_synonym files = "string \<Rightarrow> u8 list option"

definition read_file :: "files \<Rightarrow> string \<Rightarrow> u8 list" where
  "read_file fs name = (case fs name of None \<Rightarrow> [] | Some contents \<Rightarrow> contents)"

text \<open>\<open>can_write\<close>: whether the file can be opened and written.\<close>

definition write_file :: "(string \<Rightarrow> bool) \<Rightarrow> string \<Rightarrow> u8 list \<Rightarrow> files \<Rightarrow> int \<times> files" where
  "write_file can_write name buffer fs =
     (if can_write name then (0, fs(name \<mapsto> buffer)) else (- 1, fs))"

section \<open>The virtual machine of an element\<close>

text \<open>\<open>code_of\<close> gives the addresses of the functions of the program.\<close>

definition bpf_helpers :: "(u32 \<times> string) list" where
  "bpf_helpers = [(1, ''bpf_map_lookup_elem''), (2, ''bpf_map_update_elem''), (3, ''bpf_map_delete_elem''),
     (5, ''bpf_ktime_get_ns''), (6, ''bpf_trace_printk''), (7, ''bpf_get_prandom_u32''), (20, ''unwind'')]"

definition register_additional_bpf_helpers :: "bpf_class \<Rightarrow> (u32 \<times> string) list" where
  "register_additional_bpf_helpers c =
     (case c of BPFRewriter \<Rightarrow> [(60, ''bpf_packet_add_space'')] | _ \<Rightarrow> [])"

fun register_helpers :: "host \<Rightarrow> (string \<Rightarrow> u64) \<Rightarrow> (u32 \<times> string) list \<Rightarrow> ubpf_vm \<Rightarrow> ubpf_vm option" where
  "register_helpers h code_of [] vm = Some vm"
| "register_helpers h code_of ((idx, name) # rest) vm =
     (case ubpf_register h vm idx name (code_of name) of
        None \<Rightarrow> None
      | Some (rc, vm') \<Rightarrow> register_helpers h code_of rest vm')"

definition element_settings :: "u64 \<Rightarrow> u64 \<Rightarrow> ubpf_vm \<Rightarrow> ubpf_vm" where
  "element_settings ctx relocation vm =
     (let vm1 = snd (ubpf_toggle_bounds_check vm False);
          vm2 = snd (ubpf_toggle_undefined_behavior_check vm1 False);
          vm3 = snd (ubpf_register_data_relocation vm2 ctx relocation)
      in snd (ubpf_set_jit_code_size vm3 (128 * 1024)))"

text \<open>What an element is built with: its class, the target of the JIT, the allocations, the addresses.\<close>

record element_setup =
  setup_class :: bpf_class
  setup_target :: jit_target
  setup_allocs :: "bool \<times> bool \<times> bool \<times> bool"
  setup_code :: "string \<Rightarrow> u64"
  setup_ctx :: u64

definition init_ubpf_vm :: "host \<Rightarrow> element_setup \<Rightarrow> bpf_element \<Rightarrow> bpf_element option" where
  "init_ubpf_vm h st el =
     (case ubpf_create (setup_target st) (setup_allocs st) of
        None \<Rightarrow> Some el
      | Some vm \<Rightarrow>
          let el1 = el\<lparr> el_map_ctx := \<lparr> map_by_name = Map.empty, global_data = Map.empty \<rparr> \<rparr>;
              vm1 = element_settings (setup_ctx st) (setup_code st ''do_map_relocation'') vm
          in case register_helpers h (setup_code st) bpf_helpers vm1 of
               None \<Rightarrow> None
             | Some vm2 \<Rightarrow>
                 let vm3 = snd (ubpf_set_unwind_function_index vm2 20)
                 in map_option (\<lambda>vm4. el1\<lparr> el_vm := Some vm4 \<rparr>)
                      (register_helpers h (setup_code st) (register_additional_bpf_helpers (setup_class st)) vm3))"

section \<open>The signature of a program\<close>

text \<open>
  The outcomes of the cryptographic library, up to the key it reads: the digest of a message and
  whether a signature is one of a digest.
\<close>

record crypto =
  bio_ok :: bool
  pubkey_ok :: bool
  sha256 :: "u8 list \<Rightarrow> u8 list option"
  md_ctx_ok :: bool
  verify_init_ok :: bool
  digest_verify :: "u8 list \<Rightarrow> u8 list \<Rightarrow> bool"

datatype configure_error =
    NoArguments | BadArguments | FileNotRead | VmNotCreated
  | LoadFailed elf_error
  | NoBio | NoPublicKey | SignedFileNotRead | SignatureNotRead | NoDigest | NoDigestContext
  | VerifyNotInitialised | SignatureInvalid
  | CompileFailed compile_error

definition check_bpf_verification_signature :: "crypto \<Rightarrow> files \<Rightarrow> bpf_element \<Rightarrow> configure_error option" where
  "check_bpf_verification_signature cr fs el =
     (if \<not> bio_ok cr then Some NoBio
      else if \<not> pubkey_ok cr then Some NoPublicKey
      else
        let file_contents = read_file fs (el_file el); signature = read_file fs (el_signature_file el)
        in if file_contents = [] then Some SignedFileNotRead
           else if signature = [] then Some SignatureNotRead
           else case sha256 cr file_contents of
               None \<Rightarrow> Some NoDigest
             | Some hash \<Rightarrow>
                 if \<not> md_ctx_ok cr then Some NoDigestContext
                 else if \<not> verify_init_ok cr then Some VerifyNotInitialised
                 else if \<not> digest_verify cr signature hash then Some SignatureInvalid
                 else None)"

section \<open>Configuration\<close>

text \<open>
  The arguments as Click's parser stores them; a keyword that is not given leaves its member alone.
\<close>

record element_args =
  arg_id :: "u64 option"
  arg_jit :: "bool option"
  arg_dump_jit :: "bool option"
  arg_file :: "string option"
  arg_signature :: "string option"

definition or_else :: "'a option \<Rightarrow> 'a \<Rightarrow> 'a" where
  "or_else x y = (case x of None \<Rightarrow> y | Some v \<Rightarrow> v)"

definition set_arguments :: "element_args \<Rightarrow> bpf_element \<Rightarrow> bpf_element" where
  "set_arguments a el = el\<lparr> el_id := or_else (arg_id a) (el_id el), el_jit := or_else (arg_jit a) (el_jit el),
     el_dump_jit := or_else (arg_dump_jit a) (el_dump_jit el), el_file := or_else (arg_file a) (el_file el),
     el_signature_file := or_else (arg_signature a) (el_signature_file el) \<rparr>"

text \<open>
  Everything else a configuration depends on. The files may change between the two reads;
  \<open>cf_dump_size\<close> is the value of a variable that is never initialised.
\<close>

record configure_env =
  cf_host :: host
  cf_setup :: element_setup
  cf_verify :: bool
  cf_crypto :: crypto
  cf_files :: files
  cf_files_later :: files
  cf_relocation :: "(bpf_map_ctx \<times> map_heap) data_relocation"
  cf_elf_alloc :: elf_alloc
  cf_insts :: "u64 \<times> (nat \<Rightarrow> ebpf_inst) \<times> bool"
  cf_jit :: jit_env
  cf_os :: os
  cf_dump_size :: u64
  cf_can_write :: "string \<Rightarrow> bool"

fun decimal :: "nat \<Rightarrow> string" where
  "decimal n = (if n < 10 then [char_of (48 + n)] else decimal (n div 10) @ [char_of (48 + n mod 10)])"

declare decimal.simps [simp del]

text \<open>The object and the files afterwards; \<^const>\<open>None\<close> is a write outside the buffer of 65536 bytes.\<close>

definition handle_jit_dump :: "configure_env \<Rightarrow> u64 \<Rightarrow> ubpf_vm \<Rightarrow> files \<Rightarrow> (ubpf_vm \<times> files) option" where
  "handle_jit_dump env bpfelement_id vm fs =
     (case ubpf_translate (cf_jit env) vm (replicate 65536 0) (cf_dump_size env) of
        None \<Rightarrow> None
      | Some (rc, msg, sz, buffer, vm') \<Rightarrow>
          if rc < 0 then Some (vm', fs)
          else Some (vm', snd (write_file (cf_can_write env)
                 (''jit_dump_'' @ decimal (unat bpfelement_id) @ ''.bin'') buffer fs)))"

text \<open>
  How far a configuration has come: the events so far, the element, the maps, the files and the
  error, if any. \<^const>\<open>None\<close> is a crash.
\<close>

type_synonym configured = "(event list \<times> bpf_element \<times> map_heap \<times> files \<times> configure_error option) option"

text \<open>From the compilation on, with the lock taken.\<close>

definition configure_jit :: "configure_env \<Rightarrow> bpf_element \<Rightarrow> ubpf_vm \<Rightarrow> map_heap \<Rightarrow> configured" where
  "configure_jit env el vm w =
     (case (if el_jit el then ubpf_compile (cf_jit env) (cf_os env) vm else Some (Inr (el_jit_fn el), vm)) of
        None \<Rightarrow> None
      | Some (Inl e, vm1) \<Rightarrow>
          Some ([Wlock], el\<lparr> el_vm := Some vm1, el_jit_fn := 0 \<rparr>, w, cf_files_later env, Some (CompileFailed e))
      | Some (Inr fn, vm1) \<Rightarrow>
          let el1 = el\<lparr> el_vm := Some vm1, el_jit_fn := fn \<rparr>
          in if el_dump_jit el1 then
               map_option (\<lambda>(vm2, fs). ([Wlock, Wunlock], el1\<lparr> el_vm := Some vm2 \<rparr>, w, fs, None))
                 (handle_jit_dump env (el_id el1) vm1 (cf_files_later env))
             else Some ([Wlock, Wunlock], el1, w, cf_files_later env, None))"

text \<open>From the lock on: \<open>vm\<close> is the object, with the old program unless this is the first one.\<close>

definition configure_locked ::
  "configure_env \<Rightarrow> bool \<Rightarrow> u8 list \<Rightarrow> bpf_element \<Rightarrow> ubpf_vm \<Rightarrow> map_heap \<Rightarrow> configured"
where
  "configure_locked env reconfigure buffer el vm w =
     (let vm1 = (if reconfigure then ubpf_unload_code vm else vm); (base, garbage, calloc_ok) = cf_insts env
      in case ubpf_load_elf_ex (cf_host env) (cf_relocation env) (cf_elf_alloc env) vm1 buffer (Some ''main'')
             (el_map_ctx el, w) base garbage calloc_ok of
           None \<Rightarrow> None
         | Some (rc, vm2, error_msg, (ctx, w')) \<Rightarrow>
             let el2 = el\<lparr> el_vm := Some vm2, el_map_ctx := ctx \<rparr>
             in case error_msg of
                  Some e \<Rightarrow> Some ([Wlock], el2, w', cf_files_later env, Some (LoadFailed e))
                | None \<Rightarrow>
                    case (if cf_verify env then check_bpf_verification_signature (cf_crypto env) (cf_files_later env) el2
                          else None) of
                      Some e \<Rightarrow> Some ([Wlock], el2, w', cf_files_later env, Some e)
                    | None \<Rightarrow> configure_jit env el2 vm2 w')"

definition configure :: "configure_env \<Rightarrow> string list \<Rightarrow> element_args option \<Rightarrow> bpf_element \<Rightarrow> map_heap \<Rightarrow> configured" where
  "configure env conf args el w =
     (if conf = [] then Some ([], el, w, cf_files env, Some NoArguments)
      else case args of
          None \<Rightarrow> Some ([], el, w, cf_files env, Some BadArguments)
        | Some a \<Rightarrow>
            let el1 = set_arguments a el; reconfigure = (el_vm el1 \<noteq> None);
                buffer = read_file (cf_files env) (el_file el1)
            in if buffer = [] then Some ([], el1, w, cf_files env, Some FileNotRead)
               else case (if reconfigure then Some el1 else init_ubpf_vm (cf_host env) (cf_setup env) el1) of
                   None \<Rightarrow> None
                 | Some el2 \<Rightarrow>
                     (case el_vm el2 of
                        None \<Rightarrow> Some ([], el2, w, cf_files env, Some VmNotCreated)
                      | Some vm \<Rightarrow> configure_locked env reconfigure buffer el2 vm w))"

section \<open>Execution\<close>

text \<open>
  What a run depends on: the interpreter's parameters, the generated code behind a function pointer,
  and where the locals of the call and the contents of a packet are.
\<close>

record run_env =
  run_host :: host
  run_calloc_ok :: bool
  run_regs :: "4 word \<Rightarrow> u64"
  run_jit :: "u64 \<Rightarrow> u64 \<Rightarrow> u64 \<Rightarrow> memory \<Rightarrow> (u64 \<times> memory) option"
  run_ctx :: u64
  run_padding :: u32
  run_stack :: u64
  run_data :: "u64 \<Rightarrow> memory \<Rightarrow> u64"
  run_end_data :: "u64 \<Rightarrow> memory \<Rightarrow> u64"

text \<open>The object of type \<open>bpfelement_md\<close>: two pointers, the port and four bytes of padding.\<close>

definition bpfelement_md :: "run_env \<Rightarrow> int \<Rightarrow> u64 \<Rightarrow> memory \<Rightarrow> u8 list" where
  "bpfelement_md r port p m = le_bytes 8 (run_data r p m) @ le_bytes 8 (run_end_data r p m) @
     le_bytes 4 (word_of_int port :: u32) @ le_bytes 4 (run_padding r)"

text \<open>
  The verdict and the memory; \<^const>\<open>None\<close> when the call does not return, or crashes. The element has a
  virtual machine once it is configured.
\<close>

definition exec :: "run_env \<Rightarrow> bpf_element \<Rightarrow> int \<Rightarrow> u64 \<Rightarrow> memory \<Rightarrow> (u32 \<times> memory) option" where
  "exec r el port p m =
     (let m1 = mem_alloc m (run_ctx r) (bpfelement_md r port p m)
      in if el_jit el then
           map_option (\<lambda>(ret, m2). (ucast ret, m2)) (run_jit r (el_jit_fn el) (run_ctx r) 24 m1)
         else case el_vm el of
             None \<Rightarrow> None
           | Some vm \<Rightarrow>
               (case ubpf_exec (run_host r) vm (run_calloc_ok r) (run_regs r) (run_ctx r) 24 (run_stack r) m1 of
                  Some (Returned ret m2) \<Rightarrow> Some (ucast ret, m2)
                | Some (Failed e m2) \<Rightarrow> Some (- 1, m2)
                | _ \<Rightarrow> None))"

section \<open>Filtering\<close>

definition XDP_ABORTED :: u32 where "XDP_ABORTED = 0"
definition XDP_DROP :: u32 where "XDP_DROP = 1"
definition XDP_PASS :: u32 where "XDP_PASS = 2"

record bp_filter = bpf_element +
  filter_count :: u64
  filter_filtered :: u64

definition BPFilter_push :: "run_env \<Rightarrow> int \<Rightarrow> u64 \<Rightarrow> bp_filter \<Rightarrow> memory \<Rightarrow> (event list \<times> bp_filter \<times> memory) option" where
  "BPFilter_push r port p f m =
     (let f1 = f\<lparr> filter_count := filter_count f + 1 \<rparr>
      in case exec r (bpf_element.truncate f1) port p m of
           None \<Rightarrow> None
         | Some (ret, m') \<Rightarrow>
             if ret = XDP_DROP then
               Some ([Rlock, Runlock, Kill p], f1\<lparr> filter_filtered := filter_filtered f1 + 1 \<rparr>, m')
             else if ret = XDP_PASS then Some ([Rlock, Runlock, Output 0 p], f1, m')
             else if ret = XDP_ABORTED then Some ([Rlock, Runlock, Kill p], f1, m')
             else Some ([Rlock, Runlock, Kill p], f1, m'))"

text \<open>The handler \<open>reset_count\<close>.\<close>

definition write_handler :: "bp_filter \<Rightarrow> bp_filter" where
  "write_handler f = f\<lparr> filter_count := 0, filter_filtered := 0 \<rparr>"

section \<open>Classification\<close>

text \<open>\<open>uniqueify\<close> gives a packet of its own, or NULL; either way the argument is no longer the caller's.\<close>

definition BPFClassifier_push ::
  "run_env \<Rightarrow> (u64 \<Rightarrow> memory \<Rightarrow> u64 \<times> memory) \<Rightarrow> int \<Rightarrow> u64 \<Rightarrow> bpf_element \<Rightarrow> memory \<Rightarrow> (event list \<times> memory) option"
where
  "BPFClassifier_push r uniqueify port p el m =
     (let (p_out, m1) = uniqueify p m
      in if p_out = 0 then Some ([], m1)
         else case exec r el port p_out m1 of
             None \<Rightarrow> None
           | Some (ret, m2) \<Rightarrow>
               if sint ret = - 1 then Some ([Rlock, Runlock, Kill p], m2)
               else Some ([Rlock, Runlock, Checked_output (sint ret) p_out], m2))"

section \<open>Rewriting\<close>

text \<open>
  The packet operations of Click the helper uses: \<open>push\<close> and \<open>put\<close> give the packet that has the space,
  or NULL; \<open>pull\<close>, \<open>take\<close> and \<open>data\<close> work on the packet itself. Each works on the memory.
\<close>

record packet_ops =
  pk_uniqueify :: "u64 \<Rightarrow> memory \<Rightarrow> u64 \<times> memory"
  pk_push :: "u64 \<Rightarrow> u32 \<Rightarrow> memory \<Rightarrow> u64 \<times> memory"
  pk_pull :: "u64 \<Rightarrow> u32 \<Rightarrow> memory \<Rightarrow> memory"
  pk_put :: "u64 \<Rightarrow> u32 \<Rightarrow> memory \<Rightarrow> u64 \<times> memory"
  pk_take :: "u64 \<Rightarrow> u32 \<Rightarrow> memory \<Rightarrow> memory"
  pk_data :: "u64 \<Rightarrow> memory \<Rightarrow> u64"

text \<open>
  \<open>_current_packet\<close> is a variable at the address \<open>current\<close>. The helper's steps on it: NULL has no
  members, and the negation of the least \<open>int32_t\<close> is undefined.
\<close>

definition current_packet :: "u64 \<Rightarrow> memory \<Rightarrow> u64 option" where
  "current_packet current m = map_option le_word (mem_read m current 8)"

definition set_current_packet :: "u64 \<Rightarrow> u64 \<Rightarrow> memory \<Rightarrow> memory option" where
  "set_current_packet current p m = mem_write m current (le_bytes 8 p)"

definition add_space ::
  "(u64 \<Rightarrow> u32 \<Rightarrow> memory \<Rightarrow> u64 \<times> memory) \<Rightarrow> (u64 \<Rightarrow> u32 \<Rightarrow> memory \<Rightarrow> memory) \<Rightarrow> u64 \<Rightarrow> u32 \<Rightarrow> memory \<Rightarrow> memory option"
where
  "add_space grow shrink current len m =
     (if len = 0 then Some m
      else case current_packet current m of
          None \<Rightarrow> None
        | Some p \<Rightarrow>
            if p = 0 then None
            else if 0 < sint len then (let (p', m') = grow p len m in set_current_packet current p' m')
            else if sint len = - 2147483648 then None
            else Some (shrink p (- len) m))"

definition bpf_packet_add_space :: "packet_ops \<Rightarrow> u64 \<Rightarrow> u32 \<Rightarrow> u32 \<Rightarrow> memory \<Rightarrow> (u64 \<times> memory) option" where
  "bpf_packet_add_space ops current head_len tail_len m =
     (case add_space (pk_push ops) (pk_pull ops) current head_len m of
        None \<Rightarrow> None
      | Some m1 \<Rightarrow>
          (case add_space (pk_put ops) (pk_take ops) current tail_len m1 of
             None \<Rightarrow> None
           | Some m2 \<Rightarrow>
               (case current_packet current m2 of
                  None \<Rightarrow> None
                | Some p \<Rightarrow> if p = 0 then None else Some (pk_data ops p m2, m2))))"

definition REWRITER_ABORT :: u32 where "REWRITER_ABORT = 0"
definition REWRITER_SUCCESS :: u32 where "REWRITER_SUCCESS = 1"

definition rewriter_verdict :: "u32 \<Rightarrow> u64 \<Rightarrow> u64 \<Rightarrow> event" where
  "rewriter_verdict ret p p_out =
     (if ret = REWRITER_SUCCESS then Output 0 p_out
      else if ret = REWRITER_ABORT then Kill p_out
      else Kill p)"

definition BPFRewriter_push ::
  "run_env \<Rightarrow> packet_ops \<Rightarrow> u64 \<Rightarrow> int \<Rightarrow> u64 \<Rightarrow> bpf_element \<Rightarrow> memory \<Rightarrow> (event list \<times> memory) option"
where
  "BPFRewriter_push r ops current port p el m =
     (let (p_out, m1) = pk_uniqueify ops p m
      in if p_out = 0 then Some ([], m1)
         else case set_current_packet current p_out m1 of
             None \<Rightarrow> None
           | Some m2 \<Rightarrow>
               (case exec r el port p_out m2 of
                  None \<Rightarrow> None
                | Some (ret, m3) \<Rightarrow>
                    (case (current_packet current m3, set_current_packet current 0 m3) of
                       (Some p_new, Some m4) \<Rightarrow> Some ([Rlock, Runlock, rewriter_verdict ret p p_new], m4)
                     | _ \<Rightarrow> None)))"

end
