(* ===== verification/Ubpf_Api.thy ===== *)
theory Ubpf_Api
  imports Ubpf_Jit Ubpf_Load Ubpf_Loader
begin

text \<open>
  The interface of the library as a transition system on the virtual machine object: every exported
  function that changes it is a step, in any order and with any arguments. An object reached from
  \<^const>\<open>ubpf_create\<close> is well-formed; the one exception is a load in which the allocation of the
  local-function marks fails.
\<close>

section \<open>The same program\<close>

text \<open>What a run reads of an object, apart from the generated code.\<close>

definition same_program :: "ubpf_vm \<Rightarrow> ubpf_vm \<Rightarrow> bool" where
  "same_program vm vm' \<longleftrightarrow> insts vm' = insts vm \<and> num_insts vm' = num_insts vm \<and> int_funcs vm' = int_funcs vm \<and>
     pointer_secret vm' = pointer_secret vm \<and> ext_funcs vm' = ext_funcs vm \<and>
     ext_func_names vm' = ext_func_names vm \<and> dispatcher vm' = dispatcher vm"

lemma same_program_refl [simp]: "same_program vm vm"
  by (simp add: same_program_def)

lemma same_program_trans: "same_program vm1 vm2 \<Longrightarrow> same_program vm2 vm3 \<Longrightarrow> same_program vm1 vm3"
  by (simp add: same_program_def)

lemma same_program_fetch: "same_program vm vm' \<Longrightarrow> ubpf_fetch_instruction vm' p = ubpf_fetch_instruction vm p"
  by (simp add: same_program_def ubpf_fetch_instruction_def split: option.splits)

lemma same_program_loaded: "same_program vm vm' \<Longrightarrow> wf_vm vm' \<Longrightarrow> loaded vm insns \<Longrightarrow> loaded vm' insns"
  using valid_slot_cong [of vm' vm] same_program_fetch [of vm vm']
  by (auto simp: loaded_def valid_program_def same_program_def)

section \<open>Loading\<close>

lemma ubpf_load_wf:
  assumes wf: "wf_vm vm" and run: "ubpf_load h vm code base garbage True = Some (rc, vm', msg)"
  shows "wf_vm vm'"
proof (cases "rc = 0")
  case True
  then have "loaded vm' (source_insts code)" using ubpf_load_ok [OF wf] run by blast
  then show ?thesis by (simp add: loaded_def)
next
  case False
  then have "vm' = vm \<or> vm' = fst (validate h vm (source_insts code))"
    using run by (auto simp: ubpf_load_def Let_def split: if_splits prod.splits option.splits)
  moreover have "wf_vm (fst (validate h vm (source_insts code)))"
    using validate_keeps(1) [OF wf] by (metis prod.collapse)
  ultimately show ?thesis using wf by auto
qed

lemma ubpf_load_elf_wf:
  assumes "wf_vm vm" "ubpf_load_elf_ex h reloc al vm elf main_name s base garbage True = Some (rc, vm', msg, s')"
  shows "wf_vm vm'"
  using assms ubpf_load_wf [OF assms(1)]
  by (auto simp: ubpf_load_elf_ex_def split: prod.splits sum.splits elf_stop.splits)

text \<open>A load reports an error exactly when it gives a message.\<close>

lemma ubpf_load_elf_result:
  assumes "wf_vm vm" "ubpf_load_elf_ex h reloc al vm elf main_name s base garbage calloc_ok = Some (rc, vm', msg, s')"
  shows "rc = 0 \<longleftrightarrow> msg = None"
proof -
  obtain m s1 where m: "link_and_relocate reloc al vm elf main_name s = (m, s1)" by fastforce
  show ?thesis
  proof (cases m)
    case (Inl e)
    with m assms(2) show ?thesis by (cases e) (auto simp: ubpf_load_elf_ex_def)
  next
    case (Inr linked)
    with ubpf_load_total [OF assms(1), of h linked base garbage calloc_ok] m assms(2) show ?thesis
      by (auto simp: ubpf_load_elf_ex_def)
  qed
qed

section \<open>Generating code\<close>

lemma ubpf_translate_ex_frame:
  assumes "ubpf_translate_ex env vm buffer sz mode = Some (rc, msg, sz', buffer', vm')"
  shows "same_program vm vm'" "wf_vm vm \<Longrightarrow> wf_vm vm'"
  using assms by (auto simp: ubpf_translate_ex_def Let_def same_program_def wf_vm_def split: if_splits)

lemma buf_read_exact: "buf_read buffer i n = Some bs \<Longrightarrow> length bs = n"
  by (auto simp: buf_read_eq split: if_splits)

lemma install_code_frame:
  assumes "install_code k vm buffer sz = Some (r, vm')"
  shows "same_program vm vm'" "wf_vm vm \<Longrightarrow> wf_vm vm'"
  using assms
  by (auto simp: install_code_def Let_def same_program_def wf_vm_def buf_read_exact split: if_splits option.splits)

lemma compile_code_frame:
  assumes "compile_code env k vm mode = Some (r, vm')"
  shows "same_program vm vm'" "wf_vm vm \<Longrightarrow> wf_vm vm'"
  using assms
  by (auto simp: compile_code_def Let_def split: if_splits option.splits prod.splits
      dest: ubpf_translate_ex_frame install_code_frame intro: same_program_trans)

lemma ubpf_compile_ex_frame:
  assumes "ubpf_compile_ex env k vm mode = Some (r, vm')"
  shows "same_program vm vm'" "wf_vm vm \<Longrightarrow> wf_vm vm'"
proof -
  let ?dropped = "vm\<lparr> jitted := None, jitted_size := 0 \<rparr>"
  consider "vm' = vm" | "compile_code env k vm mode = Some (r, vm')" | "compile_code env k ?dropped mode = Some (r, vm')"
    using assms by (auto simp: ubpf_compile_ex_def split: option.splits if_splits)
  then have "same_program vm vm' \<and> (wf_vm vm \<longrightarrow> wf_vm vm')"
  proof cases
    case 2
    then show ?thesis using compile_code_frame by blast
  next
    case 3
    have "same_program vm ?dropped" "wf_vm vm \<Longrightarrow> wf_vm ?dropped"
      by (auto simp: same_program_def wf_vm_def)
    with compile_code_frame [OF 3] show ?thesis by (auto intro: same_program_trans)
  qed simp
  then show "same_program vm vm'" "wf_vm vm \<Longrightarrow> wf_vm vm'" by blast+
qed

section \<open>Steps\<close>

inductive vm_step :: "host \<Rightarrow> 's data_relocation \<Rightarrow> ubpf_vm \<Rightarrow> ubpf_vm \<Rightarrow> bool" for h reloc where
  toggle_bounds: "vm_step h reloc vm (snd (ubpf_toggle_bounds_check vm b))"
| toggle_undefined: "vm_step h reloc vm (snd (ubpf_toggle_undefined_behavior_check vm b))"
| error_print: "vm_step h reloc vm (ubpf_set_error_print vm f)"
| unwind_index: "vm_step h reloc vm (snd (ubpf_set_unwind_function_index vm idx))"
| secret: "vm_step h reloc vm (snd (ubpf_set_pointer_secret vm w))"
| data_relocation: "vm_step h reloc vm (snd (ubpf_register_data_relocation vm ctx f))"
| data_bounds_check: "vm_step h reloc vm (snd (ubpf_register_data_bounds_check vm ctx f))"
| limit: "vm_step h reloc vm (snd (snd (ubpf_set_instruction_limit vm l want)))"
| stack_calculator: "vm_step h reloc vm (snd (ubpf_register_stack_usage_calculator vm f cookie))"
| jit_code_size: "vm_step h reloc vm (snd (ubpf_set_jit_code_size vm n))"
| register_function: "ubpf_register h vm idx name fn = Some (rc, vm') \<Longrightarrow> vm_step h reloc vm vm'"
| register_dispatcher: "ubpf_register_external_dispatcher h vm disp valid = Some (rc, vm') \<Longrightarrow> vm_step h reloc vm vm'"
| load: "ubpf_load h vm code base garbage True = Some (rc, vm', msg) \<Longrightarrow> vm_step h reloc vm vm'"
| load_elf: "ubpf_load_elf_ex h reloc al vm elf main_name s base garbage True = Some (rc, vm', msg, s') \<Longrightarrow> vm_step h reloc vm vm'"
| unload: "vm_step h reloc vm (ubpf_unload_code vm)"
| translate: "ubpf_translate_ex env vm buffer sz mode = Some (rc, jmsg, sz', buffer', vm') \<Longrightarrow> vm_step h reloc vm vm'"
| compile: "ubpf_compile_ex env k vm mode = Some (r, vm') \<Longrightarrow> vm_step h reloc vm vm'"

lemmas vm_settings = ubpf_toggle_bounds_check_def ubpf_toggle_undefined_behavior_check_def ubpf_set_error_print_def
  ubpf_set_unwind_function_index_def ubpf_set_pointer_secret_def ubpf_register_data_relocation_def
  ubpf_register_data_bounds_check_def ubpf_set_instruction_limit_def ubpf_register_stack_usage_calculator_def
  ubpf_set_jit_code_size_def

lemma vm_step_wf: "vm_step h reloc vm vm' \<Longrightarrow> wf_vm vm \<Longrightarrow> wf_vm vm'"
proof (induction rule: vm_step.induct)
  case (register_function vm idx name fn rc vm')
  then show ?case using ubpf_register_wf by blast
next
  case (register_dispatcher vm disp valid rc vm')
  then show ?case using ubpf_register_external_dispatcher_wf by blast
next
  case (load vm code base garbage rc vm' msg)
  then show ?case using ubpf_load_wf by blast
next
  case (load_elf al vm elf main_name s base garbage rc vm' msg s')
  then show ?case by (metis ubpf_load_elf_wf)
next
  case (unload vm)
  then show ?case by (rule ubpf_unload_code_wf)
next
  case (translate env vm buffer sz mode rc jmsg sz' buffer' vm')
  then show ?case using ubpf_translate_ex_frame(2) by blast
next
  case (compile env k vm mode r vm')
  then show ?case using ubpf_compile_ex_frame(2) by blast
qed (simp_all add: vm_settings wf_vm_def)

lemma vm_steps_wf: "(vm_step h reloc)\<^sup>*\<^sup>* vm vm' \<Longrightarrow> wf_vm vm \<Longrightarrow> wf_vm vm'"
  by (induction rule: rtranclp_induct) (auto dest: vm_step_wf)

lemma ubpf_create_wf: "ubpf_create target allocs = Some vm \<Longrightarrow> wf_vm vm"
  by (auto simp: ubpf_create_def fresh_vm_wf split: prod.splits if_splits)

end
