(* ===== verification/Elf_Safety.thy ===== *)
theory Elf_Safety
  imports Ubpf_Loader
begin

text \<open>
  What the ELF loader needs from a file to stay within it and within its own arrays. The format
  guarantees some of it (a terminated string table, a first symbol that is no function); the
  loader checks the rest only in part.
\<close>

section \<open>Steps without undefined behaviour\<close>

definition elf_safe :: "'a elf \<Rightarrow> bool" where
  "elf_safe m \<longleftrightarrow> m \<noteq> Inl Elf_undefined"

lemma elf_safe_simps [simp]:
  "elf_safe (Inr x)" "elf_safe (Inl (Elf_error e))" "\<not> elf_safe (Inl Elf_undefined)" "elf_safe (elf_check c e)"
  by (simp_all add: elf_safe_def elf_check_def)

lemma elf_safe_bind: "elf_safe m \<Longrightarrow> (\<And>x. m = Inr x \<Longrightarrow> elf_safe (f x)) \<Longrightarrow> elf_safe (elf_bind m f)"
  by (auto simp: elf_safe_def elf_bind_def split: sum.splits)

lemma elf_safe_if: "(c \<Longrightarrow> elf_safe a) \<Longrightarrow> (\<not> c \<Longrightarrow> elf_safe b) \<Longrightarrow> elf_safe (if c then a else b)"
  by simp

lemma elf_safe_defined: "x = Some v \<Longrightarrow> elf_safe (elf_defined x)"
  by (simp add: elf_safe_def elf_defined_def)

lemma elf_read_iff:
  "0 < n \<Longrightarrow> elf_read n elf off = Inr v \<longleftrightarrow>
     unat off + n \<le> length elf \<and> v = le_word (take n (drop (unat off) elf))"
  by (auto simp: elf_read_def elf_defined_def buf_read_eq)

lemma elf_read_safe: "unat off + n \<le> length elf \<Longrightarrow> elf_safe (elf_read n elf off)"
  by (simp add: elf_read_def elf_defined_def elf_safe_def buf_read_eq)

text \<open>A read at a member of a structure that lies in the file.\<close>

lemma unat_add_le: "unat (a + b) \<le> unat a + unat b" for a b :: "'a::len word"
  by (simp add: unat_word_ariths)

lemma elf_read_member: "unat off + unat d + n \<le> length elf \<Longrightarrow> elf_safe (elf_read n elf (off + d))"
  using unat_add_le [of off d] by (intro elf_read_safe) linarith

lemma elf_bounds_check_iff:
  assumes "length elf < 2 ^ 64"
  shows "elf_bounds_check elf off n \<longleftrightarrow> unat off + unat n \<le> length elf"
proof -
  have len: "unat (of_nat (length elf) :: u64) = length elf" using assms by (simp add: unat_of_nat)
  show ?thesis
  proof (cases "unat off + unat n < 2 ^ 64")
    case True
    then have "unat (off + n) = unat off + unat n" by (simp add: unat_word_ariths)
    then show ?thesis by (simp add: elf_bounds_check_def word_less_nat_alt len not_less)
  next
    case False
    then have "unat (off + n) < unat off"
      using unat_u64_lt [of off] unat_u64_lt [of n] by (simp add: unat_word_ariths le_mod_geq)
    then show ?thesis using False assms by (simp add: elf_bounds_check_def word_less_nat_alt)
  qed
qed

section \<open>The header and the sections\<close>

lemma check_elf_header_safe:
  assumes "length elf < 2 ^ 64"
  shows "elf_safe (check_elf_header elf)"
proof -
  have "64 \<le> length elf" if "elf_bounds_check elf 0 64"
    using elf_bounds_check_iff [OF assms, of 0 64] that by simp
  then show ?thesis
    unfolding check_elf_header_def
    by (auto intro!: elf_safe_bind elf_read_safe split: option.split)
qed

definition section_inside :: "u8 list \<Rightarrow> elf_section \<Rightarrow> bool" where
  "section_inside elf sec \<longleftrightarrow> unat (sec_shdr sec) + 48 \<le> length elf \<and>
     unat (sec_data sec) + unat (sec_size sec) \<le> length elf"

definition headers_inside :: "u8 list \<Rightarrow> u16 \<Rightarrow> nat \<Rightarrow> u64 \<Rightarrow> bool" where
  "headers_inside elf entsize n shdr \<longleftrightarrow> (\<forall>i < n. unat shdr + i * unat entsize + 48 \<le> length elf)"

lemma headers_inside_Suc:
  assumes "length elf < 2 ^ 64" "headers_inside elf entsize (Suc n) shdr"
  shows "unat shdr + 48 \<le> length elf" "headers_inside elf entsize n (shdr + ucast entsize)"
proof -
  show "unat shdr + 48 \<le> length elf" using assms(2) by (auto simp: headers_inside_def)
  show "headers_inside elf entsize n (shdr + ucast entsize)"
    unfolding headers_inside_def
  proof (intro allI impI)
    fix i
    assume "i < n"
    then have "unat shdr + Suc i * unat entsize + 48 \<le> length elf"
      using assms(2) by (auto simp: headers_inside_def)
    moreover have "unat (shdr + ucast entsize) \<le> unat shdr + unat (ucast entsize :: u64)" by (rule unat_add_le)
    moreover have "unat (ucast entsize :: u64) = unat entsize"
      using unat_u16_lt [of entsize] by (simp add: unsigned_ucast_eq unsigned_take_bit_eq take_bit_nat_eq_self)
    ultimately show "unat (shdr + ucast entsize) + i * unat entsize + 48 \<le> length elf"
      by simp
  qed
qed

lemma parse_sections_safe:
  assumes "length elf < 2 ^ 64" "headers_inside elf entsize n shdr"
  shows "elf_safe (parse_sections elf entsize n shdr)"
    "parse_sections elf entsize n shdr = Inr secs \<Longrightarrow> length secs = n \<and> list_all (section_inside elf) secs"
proof -
  have "elf_safe (parse_sections elf entsize n shdr) \<and>
    (\<forall>secs. parse_sections elf entsize n shdr = Inr secs \<longrightarrow> length secs = n \<and> list_all (section_inside elf) secs)"
    using assms(2)
  proof (induction n arbitrary: shdr)
    case 0
    then show ?case by simp
  next
    case (Suc n)
    note hd = headers_inside_Suc [OF assms(1) Suc.prems]
    have "elf_safe (elf_read 8 elf (shdr + 24))" "elf_safe (elf_read 8 elf (shdr + 32))"
      using hd(1) assms(1) by (auto intro!: elf_read_member)
    with Suc.IH [OF hd(2)] show ?case
      using hd(1) elf_bounds_check_iff [OF assms(1)]
      by (auto intro!: elf_safe_bind simp: elf_bind_Inr_iff section_inside_def)
  qed
  then show "elf_safe (parse_sections elf entsize n shdr)"
    "parse_sections elf entsize n shdr = Inr secs \<Longrightarrow> length secs = n \<and> list_all (section_inside elf) secs" by blast+
qed

text \<open>The members of the header of a section inside the file can be read.\<close>

lemma section_members_safe:
  assumes "length elf < 2 ^ 64" "section_inside elf sec"
  shows "elf_safe (sh_name elf (sec_shdr sec))" "elf_safe (sh_type elf (sec_shdr sec))"
    "elf_safe (sh_flags elf (sec_shdr sec))" "elf_safe (sh_link elf (sec_shdr sec))"
    "elf_safe (sh_info elf (sec_shdr sec))"
proof -
  show "elf_safe (sh_name elf (sec_shdr sec))" using assms by (auto simp: section_inside_def intro!: elf_read_safe)
  show "elf_safe (sh_type elf (sec_shdr sec))" "elf_safe (sh_flags elf (sec_shdr sec))"
    "elf_safe (sh_link elf (sec_shdr sec))" "elf_safe (sh_info elf (sec_shdr sec))"
    using assms by (auto simp: section_inside_def intro!: elf_read_member)
qed

lemma find_section_safe:
  assumes "length elf < 2 ^ 64" "list_all (section_inside elf) secs"
  shows "elf_safe (find_section elf ty secs)"
    "find_section elf ty secs = Inr (Some sec) \<Longrightarrow> sec \<in> set secs"
proof -
  have "elf_safe (find_section elf ty secs) \<and> (find_section elf ty secs = Inr (Some sec) \<longrightarrow> sec \<in> set secs)"
    using assms(2)
  proof (induction secs)
    case Nil
    then show ?case by simp
  next
    case (Cons s secs)
    then show ?case
      using section_members_safe(2) [OF assms(1)]
      by (auto intro!: elf_safe_bind simp: elf_bind_Inr_iff split: if_splits)
  qed
  then show "elf_safe (find_section elf ty secs)"
    "find_section elf ty secs = Inr (Some sec) \<Longrightarrow> sec \<in> set secs" by blast+
qed

section \<open>The opened file\<close>

text \<open>What holds of every file the loader opens: sections and string table inside, sizes that fit an \<open>int\<close>.\<close>

definition wf_file :: "elf_file \<Rightarrow> bool" where
  "wf_file f \<longleftrightarrow> length (file_bytes f) < 2 ^ 31 \<and> length (file_sections f) \<le> MAX_SECTIONS \<and> list_all (section_inside (file_bytes f)) (file_sections f) \<and>
     unat (strtab_data f) + unat (strtab_size f) \<le> length (file_bytes f)"

lemma sint_u32_small:
  fixes w :: u32
  assumes "unat w < 2 ^ 31"
  shows "sint w = uint w"
proof -
  have "uint w = int (unat w)" "unat w < 2147483648" using assms by simp_all
  then have "uint w < 2147483648" "- 2147483648 \<le> uint w" by linarith+
  then have "signed_take_bit 31 (uint w) = uint w" by (intro signed_take_bit_int_eq_self) simp_all
  then show ?thesis by (simp add: sint_uint)
qed

lemma unat_ucast_size:
  fixes n :: u64
  assumes "unat n < 2 ^ 31"
  shows "unat (ucast n :: u32) = unat n" "total_symbols (ucast n) = unat n div 24"
proof -
  show eq: "unat (ucast n :: u32) = unat n"
    using assms by (simp add: unsigned_ucast_eq unsigned_take_bit_eq take_bit_nat_eq_self)
  have "uint (ucast n :: u32) = uint n" using arg_cong [OF eq, of int] by simp
  then have "sint (ucast n :: u32) = uint n" using sint_u32_small [of "ucast n"] assms eq by simp
  then have "scast (ucast n :: u32) = n" by (simp add: scast_eq)
  then show "total_symbols (ucast n) = unat n div 24" by (simp add: total_symbols_def unat_div_distrib)
qed

lemma open_elf_safe:
  assumes len: "length elf < 2 ^ 31"
    and inside: "\<And>h. check_elf_header elf = Inr h \<Longrightarrow> headers_inside elf (e_shentsize h) (unat (e_shnum h)) (e_shoff h)"
  shows "elf_safe (open_elf elf main_name)"
    "open_elf elf main_name = Inr (f, symbols, symtab_size) \<Longrightarrow> wf_file f \<and> file_bytes f = elf \<and>
       main_function_name f = main_name \<and> unat symbols + 24 * total_symbols symtab_size \<le> length elf"
proof -
  have len64: "length elf < 2 ^ 64" using len by simp
  note secs = parse_sections_safe [OF len64 inside]
  show "elf_safe (open_elf elf main_name)"
    unfolding open_elf_def
    using secs find_section_safe(1) [OF len64]
    by (auto intro!: elf_safe_bind check_elf_header_safe [OF len64] split: option.split)
  assume "open_elf elf main_name = Inr (f, symbols, symtab_size)"
  then obtain h secs str symt where
    1: "check_elf_header elf = Inr h" and
    2: "parse_sections elf (e_shentsize h) (unat (e_shnum h)) (e_shoff h) = Inr secs" and
    3: "find_section elf SHT_STRTAB secs = Inr (Some str)" "find_section elf SHT_SYMTAB secs = Inr (Some symt)" and
    4: "f = \<lparr> file_bytes = elf, file_sections = secs, strtab_data = sec_data str,
          strtab_size = ucast (sec_size str), main_function_name = main_name \<rparr>"
      "symbols = sec_data symt" "symtab_size = ucast (sec_size symt)"
    by (auto simp: open_elf_def elf_bind_Inr_iff split: option.splits)
  from secs(2) [OF 1 2] have all: "list_all (section_inside elf) secs" by simp
  have "unat (e_shnum h) \<le> MAX_SECTIONS"
    using 1 by (auto simp: check_elf_header_def elf_bind_Inr_iff split: option.splits)
  then have cnt: "length secs \<le> MAX_SECTIONS" using secs(2) [OF 1 2] by simp
  have "section_inside elf str" "section_inside elf symt"
    using find_section_safe(2) [OF len64 all 3(1)] find_section_safe(2) [OF len64 all 3(2)] all
    by (auto simp: list_all_iff)
  then have in_: "unat (sec_data str) + unat (sec_size str) \<le> length elf"
    "unat (sec_data symt) + unat (sec_size symt) \<le> length elf" by (auto simp: section_inside_def)
  then have "unat (sec_size str) < 2 ^ 31" "unat (sec_size symt) < 2 ^ 31" using len by linarith+
  note sz = unat_ucast_size [OF this(1)] unat_ucast_size [OF this(2)]
  have "24 * (unat (sec_size symt) div 24) \<le> unat (sec_size symt)" by simp
  with in_ sz all len cnt show "wf_file f \<and> file_bytes f = elf \<and> main_function_name f = main_name \<and>
      unat symbols + 24 * total_symbols symtab_size \<le> length elf"
    by (simp add: 4 wf_file_def)
qed

section \<open>Collecting the functions\<close>

definition executable_section :: "elf_file \<Rightarrow> elf_section \<Rightarrow> bool" where
  "executable_section f sec \<longleftrightarrow> sh_type (file_bytes f) (sec_shdr sec) = Inr SHT_PROGBITS \<and>
     sh_flags (file_bytes f) (sec_shdr sec) = Inr (SHF_ALLOC OR SHF_EXECINSTR)"

definition is_function :: "elf_file \<Rightarrow> u64 \<Rightarrow> bool" where
  "is_function f symbol \<longleftrightarrow> (case elf_read 1 (file_bytes f) (symbol + 4) of
     Inr info \<Rightarrow> (info :: u8) AND 0xf = STT_FUNC | Inl _ \<Rightarrow> False)"

definition symbol_size :: "elf_file \<Rightarrow> u64 \<Rightarrow> nat" where
  "symbol_size f symbol = (if is_function f symbol
     then case elf_read 8 (file_bytes f) (symbol + 16) of Inr n \<Rightarrow> unat (n :: u64) | Inl _ \<Rightarrow> 0 else 0)"

text \<open>A function symbol lies in an executable section, and the function within it.\<close>

definition good_symbol :: "elf_file \<Rightarrow> u64 \<Rightarrow> bool" where
  "good_symbol f symbol \<longleftrightarrow> unat symbol + 24 \<le> length (file_bytes f) \<and>
     (is_function f symbol \<longrightarrow> (case read_symbol (file_bytes f) symbol of
        Inl _ \<Rightarrow> False
      | Inr s \<Rightarrow> unat (st_shndx s) < length (file_sections f) \<and>
          (let sec = file_sections f ! unat (st_shndx s)
           in executable_section f sec \<and> unat (st_value s) + unat (st_size s) \<le> unat (sec_size sec))))"

definition strtab_terminated :: "elf_file \<Rightarrow> bool" where
  "strtab_terminated f \<longleftrightarrow> 0 < strtab_size f \<and>
     file_bytes f ! (unat (strtab_data f) + unat (strtab_size f) - 1) = 0"

text \<open>The name asked for is a C string; without one, the names of the sections are in the string table.\<close>

definition names_ok :: "elf_file \<Rightarrow> bool" where
  "names_ok f \<longleftrightarrow> (case main_function_name f of
     Some name \<Rightarrow> list_all (\<lambda>c. of_char c \<noteq> (0 :: nat)) name
   | None \<Rightarrow> list_all (\<lambda>sec. case sh_name (file_bytes f) (sec_shdr sec) of
       Inr n \<Rightarrow> n < strtab_size f | Inl _ \<Rightarrow> False) (file_sections f))"

definition in_strtab :: "elf_file \<Rightarrow> u64 \<Rightarrow> bool" where
  "in_strtab f off \<longleftrightarrow> unat off < unat (strtab_data f) + unat (strtab_size f)"

lemma in_strtab_name:
  "n < strtab_size f \<Longrightarrow> in_strtab f (strtab_data f + ucast n)"
proof -
  assume "n < strtab_size f"
  then have "unat n < unat (strtab_size f)" by (simp add: word_less_nat_alt)
  moreover have "unat (ucast n :: u64) = unat n"
    using unat_u32_lt [of n] by (simp add: unsigned_ucast_eq unsigned_take_bit_eq take_bit_nat_eq_self)
  ultimately show ?thesis using unat_add_le [of "strtab_data f" "ucast n"] by (simp add: in_strtab_def)
qed

lemma c_streq_safe:
  assumes "j < length elf" "elf ! j = 0" "list_all (\<lambda>c. of_char c \<noteq> (0 :: nat)) needle" "i \<le> j"
  shows "elf_safe (c_streq elf i needle)"
  using assms(3,4)
proof (induction needle arbitrary: i)
  case Nil
  then show ?case using assms(1) by (simp add: buf_get_def elf_defined_def)
next
  case (Cons c cs)
  have "Suc i \<le> j" if "unat (elf ! i) = of_char c"
    using that Cons.prems assms(2) by (cases "i = j") auto
  then show ?case using Cons assms(1) by (auto simp: buf_get_def elf_defined_def)
qed

lemma string_safe:
  assumes "wf_file f" "strtab_terminated f" "in_strtab f off"
  shows "list_all (\<lambda>c. of_char c \<noteq> (0 :: nat)) needle \<Longrightarrow> elf_safe (c_streq (file_bytes f) (unat off) needle)"
    "\<exists>name. c_string (file_bytes f) off = Some name"
proof -
  let ?j = "unat (strtab_data f) + unat (strtab_size f) - 1"
  have "0 < unat (strtab_size f)" using assms(2) by (simp add: strtab_terminated_def word_less_nat_alt)
  then have "?j < unat (strtab_data f) + unat (strtab_size f)" by simp
  then have "?j < length (file_bytes f)" "file_bytes f ! ?j = 0" "unat off \<le> ?j"
    using assms unfolding wf_file_def strtab_terminated_def in_strtab_def by linarith+
  then obtain j where j: "j < length (file_bytes f)" "file_bytes f ! j = 0" "unat off \<le> j" by blast
  then show "list_all (\<lambda>c. of_char c \<noteq> (0 :: nat)) needle \<Longrightarrow> elf_safe (c_streq (file_bytes f) (unat off) needle)"
    by (intro c_streq_safe)
  have "drop (unat off) (file_bytes f) ! (j - unat off) = 0" using j by simp
  then have "0 \<in> set (drop (unat off) (file_bytes f))"
    using j by (metis length_drop nth_mem diff_less_mono)
  then show "\<exists>name. c_string (file_bytes f) off = Some name" by (simp add: c_string_def Let_def)
qed

text \<open>A collected function: its bytes lie in the file.\<close>

definition good_function :: "elf_file \<Rightarrow> relocated_function \<Rightarrow> bool" where
  "good_function f rf \<longleftrightarrow> (\<exists>sec \<in> set (file_sections f). rf_shdr rf = sec_shdr sec \<and>
     native_data rf = sec_data sec + native_section_start rf \<and>
     unat (native_section_start rf) + unat (rf_size rf) \<le> unat (sec_size sec))"

lemma good_function_inside:
  assumes "wf_file f" "good_function f rf"
  shows "unat (native_data rf) + unat (rf_size rf) \<le> length (file_bytes f)"
proof -
  obtain sec where "section_inside (file_bytes f) sec" "native_data rf = sec_data sec + native_section_start rf"
    "unat (native_section_start rf) + unat (rf_size rf) \<le> unat (sec_size sec)"
    using assms by (auto simp: good_function_def wf_file_def list_all_iff)
  then show ?thesis
    using unat_add_le [of "sec_data sec" "native_section_start rf"] by (simp add: section_inside_def)
qed

lemma section_at_uint [simp]:
  fixes w :: "'a::len word"
  assumes "unat w < length secs"
  shows "section_at secs (uint w) = Inr (secs ! unat w)"
proof -
  have "uint w = int (unat w)" by simp
  then have "uint w < int (length secs)" "nat (uint w) = unat w" using assms by linarith+
  then show ?thesis by (simp add: section_at_def)
qed

lemma function_of_symbol_safe:
  assumes wf: "wf_file f" and good: "good_symbol f symbol" and func: "is_function f symbol"
  shows "elf_safe (function_of_symbol f symbol)"
    "function_of_symbol f symbol = Inr rf \<Longrightarrow> good_function f rf \<and> in_strtab f (rf_name rf) \<and>
       unat (rf_size rf) = symbol_size f symbol"
proof -
  let ?elf = "file_bytes f"
  have ins: "unat symbol + 24 \<le> length ?elf" using good by (simp add: good_symbol_def)
  have rd: "elf_safe (elf_read 4 ?elf symbol :: u32 elf)" "elf_safe (elf_read 2 ?elf (symbol + 6) :: u16 elf)"
    "elf_safe (elf_read 8 ?elf (symbol + 8) :: u64 elf)" "elf_safe (elf_read 8 ?elf (symbol + 16) :: u64 elf)"
    using ins by (auto intro!: elf_read_safe [of symbol] elf_read_member)
  obtain s where s: "read_symbol ?elf symbol = Inr s" "unat (st_shndx s) < length (file_sections f)"
    "executable_section f (file_sections f ! unat (st_shndx s))"
    "unat (st_value s) + unat (st_size s) \<le> unat (sec_size (file_sections f ! unat (st_shndx s)))"
    using good func by (auto simp: good_symbol_def Let_def split: sum.splits)
  have m: "elf_read 4 ?elf symbol = Inr (st_name s)" "elf_read 2 ?elf (symbol + 6) = Inr (st_shndx s)"
    "elf_read 8 ?elf (symbol + 8) = Inr (st_value s)" "elf_read 8 ?elf (symbol + 16) = Inr (st_size s)"
    using s(1) by (auto simp: read_symbol_def elf_bind_Inr_iff)
  have eq: "function_of_symbol f symbol = elf_bind (elf_check (st_name s < strtab_size f) BadFunctionName) (\<lambda>_.
      Inr \<lparr> rf_name = strtab_data f + ucast (st_name s), rf_shdr = sec_shdr (file_sections f ! unat (st_shndx s)),
        native_data = sec_data (file_sections f ! unat (st_shndx s)) + st_value s, linked_data = 0,
        native_section_start = st_value s, rf_size = st_size s, landed = 0 \<rparr>)"
    using s(2,3) by (simp add: function_of_symbol_def m executable_section_def elf_check_def Let_def)
  show "elf_safe (function_of_symbol f symbol)" unfolding eq by (auto intro!: elf_safe_bind)
  assume "function_of_symbol f symbol = Inr rf"
  then show "good_function f rf \<and> in_strtab f (rf_name rf) \<and> unat (rf_size rf) = symbol_size f symbol"
    using s(2,4) func
    by (auto simp: eq elf_bind_Inr_iff good_function_def in_strtab_name symbol_size_def m)
qed

lemma is_main_safe:
  assumes "wf_file f" "strtab_terminated f" "names_ok f" "good_function f rf" "in_strtab f (rf_name rf)"
  shows "elf_safe (is_main f rf)"
proof (cases "main_function_name f")
  case None
  obtain sec where sec: "sec \<in> set (file_sections f)" "rf_shdr rf = sec_shdr sec"
    using assms(4) by (auto simp: good_function_def)
  then obtain n where n: "sh_name (file_bytes f) (sec_shdr sec) = Inr n" "n < strtab_size f"
    using assms(3) None
    by (cases "sh_name (file_bytes f) (sec_shdr sec) :: u32 elf") (auto simp: names_ok_def list_all_iff)
  have "elf_safe (c_streq (file_bytes f) (unat (strtab_data f + ucast n)) ''.text'')"
    by (rule string_safe [OF assms(1,2) in_strtab_name [OF n(2)]]) simp
  with None n(1) sec(2) show ?thesis by (auto simp: is_main_def intro!: elf_safe_bind)
next
  case (Some name)
  with assms show ?thesis by (auto simp: is_main_def names_ok_def intro!: string_safe(1))
qed

text \<open>The symbols still to come: their offsets, how many are functions and how large these are.\<close>

definition symbol_offsets :: "u64 \<Rightarrow> nat \<Rightarrow> nat \<Rightarrow> u64 list" where
  "symbol_offsets symbols i n = map (\<lambda>k. symbols + 24 * of_nat k) [i..<i + n]"

lemma symbol_offsets_simps [simp]:
  "symbol_offsets symbols i 0 = []"
  "symbol_offsets symbols i (Suc n) = (symbols + 24 * of_nat i) # symbol_offsets symbols (Suc i) n"
proof -
  have "[i..<i + Suc n] = i # [Suc i..<Suc i + n]" by (simp add: upt_conv_Cons del: upt_Suc)
  then show "symbol_offsets symbols i (Suc n) = (symbols + 24 * of_nat i) # symbol_offsets symbols (Suc i) n"
    by (simp add: symbol_offsets_def del: upt_Suc)
qed (simp add: symbol_offsets_def)

definition function_count :: "elf_file \<Rightarrow> u64 list \<Rightarrow> nat" where
  "function_count f offs = length (filter (is_function f) offs)"

definition functions_size :: "elf_file \<Rightarrow> u64 list \<Rightarrow> nat" where
  "functions_size f offs = sum_list (map (symbol_size f) offs)"

definition slot_size :: "relocated_function option \<Rightarrow> nat" where
  "slot_size slot = (case slot of None \<Rightarrow> 0 | Some rf \<Rightarrow> unat (rf_size rf))"

lemma slot_size_simps [simp]: "slot_size None = 0" "slot_size (Some rf) = unat (rf_size rf)"
  by (simp_all add: slot_size_def)

text \<open>The slots from 1 up to the number of functions are filled, and the size covers them.\<close>

definition wf_collected :: "elf_file \<Rightarrow> collected \<Rightarrow> bool" where
  "wf_collected f c \<longleftrightarrow> 1 \<le> total_functions c \<and> total_functions c \<le> length (relocated_functions c) \<and>
     (\<forall>k < length (relocated_functions c). case relocated_functions c ! k of
        Some rf \<Rightarrow> good_function f rf | None \<Rightarrow> k = 0 \<or> total_functions c \<le> k) \<and>
     sum_list (map slot_size (relocated_functions c)) \<le> unat (linked_program_size c)"

lemma sum_list_update_le:
  "sum_list ((xs :: nat list)[k := x]) \<le> sum_list xs + x"
  by (cases "k < length xs") (simp_all add: sum_list_update list_update_beyond)

lemma collect_function_step:
  assumes wf: "wf_file f" "strtab_terminated f" "names_ok f" and good: "good_symbol f symbol"
    and c: "wf_collected f c"
    and room: "total_functions c + (if is_function f symbol then 1 else 0) \<le> length (relocated_functions c)"
      "unat (linked_program_size c) + symbol_size f symbol < 2 ^ 32"
  shows "elf_safe (collect_function al f i symbol c)"
    "collect_function al f i symbol c = Inr c' \<Longrightarrow> wf_collected f c' \<and>
       length (relocated_functions c') = length (relocated_functions c) \<and>
       total_functions c' \<le> total_functions c + (if is_function f symbol then 1 else 0) \<and>
       unat (linked_program_size c') = unat (linked_program_size c) + symbol_size f symbol"
proof -
  have rd: "elf_safe (elf_read 1 (file_bytes f) (symbol + 4) :: u8 elf)"
    using good by (auto simp: good_symbol_def intro!: elf_read_member)
  have func: "is_function f symbol" if "elf_read 1 (file_bytes f) (symbol + 4) = Inr info" "info AND 0xf = STT_FUNC"
    for info using that by (simp add: is_function_def)
  note fn = function_of_symbol_safe [OF wf(1) good]
  show "elf_safe (collect_function al f i symbol c)"
    unfolding collect_function_def Let_def
    using fn room(1) func c is_main_safe [OF wf]
    by (intro elf_safe_bind elf_safe_if rd) (auto simp: wf_collected_def split: if_splits)
  assume run: "collect_function al f i symbol c = Inr c'"
  show "wf_collected f c' \<and> length (relocated_functions c') = length (relocated_functions c) \<and>
       total_functions c' \<le> total_functions c + (if is_function f symbol then 1 else 0) \<and>
       unat (linked_program_size c') = unat (linked_program_size c) + symbol_size f symbol"
  proof (cases "is_function f symbol")
    case False
    with run func have "c' = c" by (auto simp: collect_function_def elf_bind_Inr_iff split: if_splits)
    with False c show ?thesis by (simp add: symbol_size_def)
  next
    case True
    obtain info where info: "elf_read 1 (file_bytes f) (symbol + 4) = Inr info" "info AND 0xf = STT_FUNC"
      using True by (auto simp: is_function_def split: sum.splits)
    from run info obtain rf m where rf: "function_of_symbol f symbol = Inr rf" "is_main f rf = Inr m"
      unfolding collect_function_def by (simp add: elf_bind_Inr_iff) blast
    have slot: "(if m then 0 else total_functions c) < length (relocated_functions c)"
      and c': "c' = \<lparr> relocated_functions = (relocated_functions c)[if m then 0 else total_functions c := Some rf],
        total_functions = (if m then total_functions c else Suc (total_functions c)),
        linked_program_size = linked_program_size c + ucast (rf_size rf) \<rparr>"
      using run unfolding collect_function_def info(1) elf_bind_simps rf Let_def
      by (auto simp: info(2) split: if_split_asm)
    note g = fn(2) [OF True rf(1)]
    have sz: "unat (ucast (rf_size rf) :: u32) = unat (rf_size rf)"
      using g room(2) by (simp add: unsigned_ucast_eq unsigned_take_bit_eq take_bit_nat_eq_self)
    then have lps: "unat (linked_program_size c + ucast (rf_size rf)) = unat (linked_program_size c) + unat (rf_size rf)"
      using g room(2) by (simp add: unat_word_ariths)
    have "sum_list (map slot_size ((relocated_functions c)[k := Some rf])) \<le>
        unat (linked_program_size c) + unat (rf_size rf)" for k
      using sum_list_update_le [of "map slot_size (relocated_functions c)" k "unat (rf_size rf)"] c
      by (simp add: wf_collected_def map_update)
    with g c slot room(1) True lps show ?thesis
      by (auto simp: c' wf_collected_def nth_list_update split: option.splits)
  qed
qed

lemma collect_functions_safe:
  assumes wf: "wf_file f" "strtab_terminated f" "names_ok f"
  shows "list_all (good_symbol f) (symbol_offsets symbols i n) \<Longrightarrow> wf_collected f c \<Longrightarrow>
    total_functions c + function_count f (symbol_offsets symbols i n) \<le> length (relocated_functions c) \<Longrightarrow>
    unat (linked_program_size c) + functions_size f (symbol_offsets symbols i n) < 2 ^ 32 \<Longrightarrow>
    elf_safe (collect_functions al f symbols i n c) \<and>
    (\<forall>c'. collect_functions al f symbols i n c = Inr c' \<longrightarrow> wf_collected f c')"
proof (induction n arbitrary: i c)
  case 0
  then show ?case by simp
next
  case (Suc n)
  let ?o = "symbols + 24 * of_nat i"
  have pre: "good_symbol f ?o"
    "total_functions c + (if is_function f ?o then 1 else 0) \<le> length (relocated_functions c)"
    "unat (linked_program_size c) + symbol_size f ?o < 2 ^ 32"
    using Suc.prems by (auto simp: function_count_def functions_size_def)
  note step = collect_function_step [OF wf pre(1) Suc.prems(2) pre(2,3), of al i]
  have "elf_safe (collect_functions al f symbols (Suc i) n c1) \<and>
      (\<forall>c'. collect_functions al f symbols (Suc i) n c1 = Inr c' \<longrightarrow> wf_collected f c')"
    if "collect_function al f i ?o c = Inr c1" for c1
    using step(2) [OF that] Suc.prems
    by (intro Suc.IH) (auto simp: function_count_def functions_size_def split: if_splits)
  with step(1) show ?case by (auto simp: elf_bind_Inr_iff intro!: elf_safe_bind)
qed

section \<open>Linking\<close>

definition native_bytes :: "u8 list \<Rightarrow> relocated_function \<Rightarrow> u8 list" where
  "native_bytes elf rf = take (unat (rf_size rf)) (drop (unat (native_data rf)) elf)"

text \<open>Where a linked function is, and that it is there whole.\<close>

definition linked_inside :: "nat \<Rightarrow> relocated_function \<Rightarrow> bool" where
  "linked_inside len rf \<longleftrightarrow> unat (linked_data rf) + unat (rf_size rf) \<le> len \<and> landed rf = linked_data rf div 8"

lemma link_functions_spec:
  assumes wf: "wf_file f"
  shows "list_all (\<lambda>slot. \<exists>rf. slot = Some rf \<and> good_function f rf) slots \<Longrightarrow>
    unat spot + sum_list (map slot_size slots) \<le> length linked \<Longrightarrow> length linked < 2 ^ 64 \<Longrightarrow>
    \<exists>rfs linked'. link_functions (file_bytes f) slots spot linked = Inr (rfs, linked') \<and>
      linked' = take (unat spot) linked @ concat (map (native_bytes (file_bytes f) \<circ> the) slots) @
        drop (unat spot + sum_list (map slot_size slots)) linked \<and>
      list_all (good_function f) rfs \<and> list_all (linked_inside (length linked)) rfs \<and>
      list_all (\<lambda>rf. take (unat (rf_size rf)) (drop (unat (linked_data rf)) linked') = native_bytes (file_bytes f) rf) rfs \<and>
      (\<forall>rf rest. slots = Some rf # rest \<longrightarrow> rfs \<noteq> [] \<and> hd rfs = rf\<lparr> landed := spot div 8, linked_data := spot \<rparr>)"
proof (induction slots arbitrary: spot linked)
  case Nil
  then show ?case by simp
next
  case (Cons slot slots)
  obtain rf where rf: "slot = Some rf" "good_function f rf" using Cons.prems(1) by auto
  let ?n = "unat (rf_size rf)" and ?code = "native_bytes (file_bytes f) rf"
  have inside: "unat (native_data rf) + ?n \<le> length (file_bytes f)" by (rule good_function_inside [OF wf rf(2)])
  then have code: "buf_read (file_bytes f) (unat (native_data rf)) ?n = Some ?code" "length ?code = ?n"
    by (simp_all add: buf_read_eq native_bytes_def)
  have fits: "unat spot + ?n + sum_list (map slot_size slots) \<le> length linked"
    using Cons.prems(2) rf(1) by simp
  let ?l = "take (unat spot) linked @ ?code @ drop (unat spot + ?n) linked"
  have w: "buf_write linked (unat spot) ?code = Some ?l" using fits code(2) by (simp add: buf_write_eq)
  have len: "length ?l = length linked" using fits code(2) by simp
  have spot: "unat (spot + rf_size rf) = unat spot + ?n"
    using fits Cons.prems(3) by (simp add: unat_word_ariths)
  have "\<exists>rfs linked'. link_functions (file_bytes f) slots (spot + rf_size rf) ?l = Inr (rfs, linked') \<and>
      linked' = take (unat (spot + rf_size rf)) ?l @ concat (map (native_bytes (file_bytes f) \<circ> the) slots) @
        drop (unat (spot + rf_size rf) + sum_list (map slot_size slots)) ?l \<and>
      list_all (good_function f) rfs \<and> list_all (linked_inside (length ?l)) rfs \<and>
      list_all (\<lambda>rf. take (unat (rf_size rf)) (drop (unat (linked_data rf)) linked') = native_bytes (file_bytes f) rf) rfs \<and>
      (\<forall>rf1 rest. slots = Some rf1 # rest \<longrightarrow> rfs \<noteq> [] \<and>
         hd rfs = rf1\<lparr> landed := (spot + rf_size rf) div 8, linked_data := spot + rf_size rf \<rparr>)"
    using Cons.prems fits len by (intro Cons.IH) (simp_all add: spot)
  moreover have "take (unat spot + ?n) ?l = take (unat spot) linked @ ?code"
    "drop (unat spot + ?n + sum_list (map slot_size slots)) ?l =
       drop (unat spot + (?n + sum_list (map slot_size slots))) linked"
    using fits code(2) by (simp_all add: ac_simps)
  ultimately obtain rfs linked' where r: "link_functions (file_bytes f) slots (spot + rf_size rf) ?l = Inr (rfs, linked')"
    and l': "linked' = take (unat spot) linked @ ?code @ concat (map (native_bytes (file_bytes f) \<circ> the) slots) @
        drop (unat spot + (?n + sum_list (map slot_size slots))) linked"
    and rfs: "list_all (good_function f) rfs" "list_all (linked_inside (length linked)) rfs"
      "list_all (\<lambda>rf. take (unat (rf_size rf)) (drop (unat (linked_data rf)) linked') = native_bytes (file_bytes f) rf) rfs"
    unfolding spot len append_assoc by (elim exE conjE) (simp del: take_append drop_append)
  let ?rf = "rf\<lparr> landed := spot div 8, linked_data := spot \<rparr>"
  have "good_function f ?rf" "linked_inside (length linked) ?rf"
    using rf(2) fits by (simp_all add: good_function_def linked_inside_def)
  moreover have "take ?n (drop (unat spot) linked') = native_bytes (file_bytes f) ?rf"
    using fits code(2) by (simp add: l' native_bytes_def)
  ultimately show ?case
    using r l' rfs
    by (intro exI [of _ "?rf # rfs"] exI [of _ linked']) (simp add: rf(1) code(1) w elf_defined_def comp_def)
qed

lemma link_functions_length:
  "link_functions elf slots spot linked = Inr (rfs, linked') \<Longrightarrow> length linked' = length linked"
  by (induction slots arbitrary: spot linked rfs)
    (auto simp: elf_bind_Inr_iff dest!: buf_write_length)

definition linkable :: "elf_file \<Rightarrow> u64 list \<Rightarrow> bool" where
  "linkable f symbols \<longleftrightarrow> list_all (good_symbol f) symbols \<and> function_count f symbols < length symbols \<and>
     functions_size f symbols < 2 ^ 32"

lemma take_slots:
  assumes "wf_collected f c" "relocated_functions c = Some rf # rest"
  shows "list_all (\<lambda>slot. \<exists>rf. slot = Some rf \<and> good_function f rf) (take (total_functions c) (relocated_functions c))"
    "sum_list (map slot_size (take (total_functions c) (relocated_functions c))) \<le> unat (linked_program_size c)"
proof -
  let ?s = "relocated_functions c" and ?t = "total_functions c"
  have k: "case ?s ! k of Some rf \<Rightarrow> good_function f rf | None \<Rightarrow> k = 0 \<or> ?t \<le> k" if "k < length ?s" for k
    using assms(1) that by (simp add: wf_collected_def)
  have "\<exists>rf. ?s ! k = Some rf \<and> good_function f rf" if "k < ?t" "k < length ?s" for k
    using k [OF that(2)] that(1) assms(2) by (cases k) (auto split: option.splits)
  then show "list_all (\<lambda>slot. \<exists>rf. slot = Some rf \<and> good_function f rf) (take ?t ?s)"
    by (auto simp: list_all_length)
  have "sum_list (map slot_size (take ?t ?s)) \<le> sum_list (map slot_size (take ?t ?s @ drop ?t ?s))"
    unfolding map_append sum_list_append by simp
  with assms(1) show "sum_list (map slot_size (take ?t ?s)) \<le> unat (linked_program_size c)"
    by (simp add: wf_collected_def)
qed

lemma link_elf_safe:
  assumes wf: "wf_file f" "strtab_terminated f" "names_ok f"
    and ok: "linkable f (symbol_offsets symbols 0 (total_symbols symtab_size))"
  shows "elf_safe (link_elf al f symbols symtab_size)"
    "link_elf al f symbols symtab_size = Inr (rfs, linked) \<Longrightarrow>
       list_all (good_function f) rfs \<and> list_all (linked_inside (length linked)) rfs"
proof -
  let ?n = "total_symbols symtab_size"
  let ?c = "\<lparr> relocated_functions = replicate ?n None, total_functions = 1, linked_program_size = 0 \<rparr>"
  have len: "length (symbol_offsets symbols 0 ?n) = ?n" by (simp add: symbol_offsets_def)
  then have "wf_collected f ?c" using ok by (auto simp: linkable_def wf_collected_def sum_list_replicate)
  then have col: "elf_safe (collect_functions al f symbols 0 ?n ?c)"
    "\<And>c'. collect_functions al f symbols 0 ?n ?c = Inr c' \<Longrightarrow> wf_collected f c'"
    using collect_functions_safe [OF wf, of symbols 0 ?n ?c al] ok len by (auto simp: linkable_def)
  have lnk: "\<exists>rfs linked. link_functions (file_bytes f) (take (total_functions c) (relocated_functions c)) 0
        (replicate (unat (linked_program_size c)) 0) = Inr (rfs, linked) \<and>
      list_all (good_function f) rfs \<and> list_all (linked_inside (length linked)) rfs"
    if c: "wf_collected f c" "relocated_functions c = Some rf # rest" for c rf rest
  proof -
    let ?l = "replicate (unat (linked_program_size c)) (0 :: u8)"
    note t = take_slots [OF c]
    have "length ?l < 2 ^ 64" using unat_u32_lt [of "linked_program_size c"] by simp
    from link_functions_spec [OF wf(1) t(1), of 0 ?l, OF _ this] t(2)
    obtain rfs linked' where r: "link_functions (file_bytes f) (take (total_functions c) (relocated_functions c)) 0 ?l =
        Inr (rfs, linked')" "list_all (good_function f) rfs" "list_all (linked_inside (length ?l)) rfs"
      by auto
    moreover have "length linked' = length ?l" by (rule link_functions_length [OF r(1)])
    ultimately show ?thesis by auto
  qed
  show "elf_safe (link_elf al f symbols symtab_size)"
    unfolding link_elf_def Let_def
  proof (intro elf_safe_bind col(1) elf_safe_simps)
    fix c
    assume c: "collect_functions al f symbols 0 ?n ?c = Inr c"
    have ne: "relocated_functions c \<noteq> []" using col(2) [OF c] by (auto simp: wf_collected_def)
    show "elf_safe (case relocated_functions c of
       [] \<Rightarrow> Inl Elf_undefined
     | None # _ \<Rightarrow> Inl (Elf_error MainNotFound)
     | Some _ # _ \<Rightarrow>
         elf_bind (elf_check (alloc_program al) NoMemoryForProgram) (\<lambda>_.
         link_functions (file_bytes f) (take (total_functions c) (relocated_functions c)) 0
           (replicate (unat (linked_program_size c)) 0)))"
    proof (cases "\<exists>rf rest. relocated_functions c = Some rf # rest")
      case True
      then obtain rf rest where s: "relocated_functions c = Some rf # rest" by blast
      obtain r where "link_functions (file_bytes f) (take (total_functions c) (relocated_functions c)) 0
          (replicate (unat (linked_program_size c)) 0) = Inr r"
        using lnk [OF col(2) [OF c] s] by blast
      then show ?thesis by (simp add: s elf_check_def)
    next
      case False
      with ne show ?thesis by (auto split: list.split option.split)
    qed
  qed
  assume "link_elf al f symbols symtab_size = Inr (rfs, linked)"
  then obtain c rf rest where c: "collect_functions al f symbols 0 ?n ?c = Inr c"
    and s: "relocated_functions c = Some rf # rest"
    and run: "link_functions (file_bytes f) (take (total_functions c) (relocated_functions c)) 0
        (replicate (unat (linked_program_size c)) 0) = Inr (rfs, linked)"
    unfolding link_elf_def Let_def elf_bind_Inr_iff
    by (elim exE conjE) (simp add: elf_bind_Inr_iff split: list.splits option.splits)
  from lnk [OF col(2) [OF c] s] run show "list_all (good_function f) rfs \<and> list_all (linked_inside (length linked)) rfs"
    by simp
qed

section \<open>Relocation\<close>

text \<open>
  A relocation refers to a symbol of a section of the file, and the instruction it applies to (two
  slots for \<open>R_BPF_64_64\<close>) lies within its function.
\<close>

definition good_relocation ::
  "elf_file \<Rightarrow> relocated_function list \<Rightarrow> elf_section \<Rightarrow> elf_section \<Rightarrow> u64 \<Rightarrow> bool"
where
  "good_relocation f rfs applies_to symtab rel \<longleftrightarrow>
     (case elf_read 8 (file_bytes f) rel of
        Inl _ \<Rightarrow> False
      | Inr r_offset \<Rightarrow>
     (case elf_read 8 (file_bytes f) (rel + 8) of
        Inl _ \<Rightarrow> False
      | Inr r_info \<Rightarrow>
          drop_bit 32 (r_info :: u64) < ucast (ucast (sec_size symtab div 24) :: u32) \<longrightarrow>
     (case read_symbol (file_bytes f) (sec_data symtab + 24 * drop_bit 32 r_info) of
        Inl _ \<Rightarrow> False
      | Inr s \<Rightarrow> unat (st_shndx s) < length (file_sections f) \<and>
          list_all (\<lambda>rf. unat (r_offset - native_section_start rf) +
              (if r_info AND 0xffffffff = R_BPF_64_64 then 16 else 8) \<le> unat (rf_size rf))
            (filter (is_source_function (sec_shdr applies_to) r_offset) rfs))))"

definition total_callback :: "'s data_relocation \<Rightarrow> bool" where
  "total_callback reloc \<longleftrightarrow> (\<forall>fn u off data k name v n im s. reloc fn u off data k name v n im s \<noteq> None)"

lemma total_callback_Some: "total_callback reloc \<Longrightarrow> reloc fn u off data k name v n im s = None \<Longrightarrow> False"
  unfolding total_callback_def by blast

lemma set_inst_imm_ok:
  assumes "unat at + 8 \<le> length linked"
  shows "\<exists>linked'. set_inst_imm linked at v = Inr linked' \<and> length linked' = length linked"
proof -
  have "unat (at + 4) \<le> unat at + 4" using unat_add_le [of at 4] by simp
  then have "unat (at + 4) + 4 \<le> length linked" using assms by linarith
  then show ?thesis by (simp add: set_inst_imm_def buf_write_eq elf_defined_def)
qed

lemma set_inst_imm_length: "set_inst_imm linked at v = Inr linked' \<Longrightarrow> length linked' = length linked"
  by (auto simp: set_inst_imm_def dest: buf_write_length)

lemma check_data_relocation_safe:
  assumes wf: "wf_file f" and sec: "unat (st_shndx symbol) < length (file_sections f)"
    and at: "unat at + 16 \<le> length linked"
  shows "elf_safe (check_data_relocation vm f applies_to symbol r_offset at linked)"
proof -
  let ?m = "file_sections f ! unat (st_shndx symbol)"
  have "section_inside (file_bytes f) ?m" "length (file_bytes f) < 2 ^ 64"
    using wf sec by (auto simp: wf_file_def list_all_length)
  note m = section_members_safe [OF this(2,1)]
  have "elf_safe (elf_read 1 linked at :: u8 elf)" "elf_safe (elf_read 4 linked (at + 4) :: u32 elf)"
    using at by (auto intro: elf_read_safe elf_read_member)
  with m sec show ?thesis
    unfolding check_data_relocation_def Let_def
    by (auto intro!: elf_safe_bind)
qed

lemma relocate_data_safe:
  assumes "wf_file f" "unat (st_shndx symbol) < length (file_sections f)" "unat at + 16 \<le> length linked"
    and "total_callback reloc"
  shows "elf_safe (fst (relocate_data reloc vm f applies_to symbol r_offset at linked s))"
    "fst (relocate_data reloc vm f applies_to symbol r_offset at linked s) = Inr linked' \<Longrightarrow>
       length linked' = length linked"
proof -
  have "unat (at + 8) \<le> unat at + 8" using unat_add_le [of at 8] by simp
  then have at8: "unat (at + 8) + 8 \<le> length linked" using assms(3) by linarith
  have set: "elf_safe (elf_bind (set_inst_imm linked at v) (\<lambda>l. set_inst_imm l (at + 8) w))" for v w
  proof -
    obtain l where l: "set_inst_imm linked at v = Inr l" "length l = length linked"
      using set_inst_imm_ok [of at linked v] assms(3) by auto
    with set_inst_imm_ok [of "at + 8" l w] at8 show ?thesis by auto
  qed
  show "elf_safe (fst (relocate_data reloc vm f applies_to symbol r_offset at linked s))"
    using check_data_relocation_safe [OF assms(1-3), of vm applies_to r_offset] set assms(4)
    by (auto simp: relocate_data_def elf_safe_def dest: total_callback_Some split: sum.split option.split)
  show "fst (relocate_data reloc vm f applies_to symbol r_offset at linked s) = Inr linked' \<Longrightarrow>
       length linked' = length linked"
    by (auto simp: relocate_data_def elf_bind_Inr_iff dest!: set_inst_imm_length
        split: sum.splits option.splits prod.splits)
qed

lemma relocate_call_safe:
  assumes wf: "wf_file f" "strtab_terminated f" and sec: "unat (st_shndx symbol) < length (file_sections f)"
    and name: "st_name symbol < strtab_size f" and at: "unat at + 8 \<le> length linked"
  shows "elf_safe (relocate_local_call f rfs symbol at index linked)"
    "elf_safe (relocate_helper_call vm f symbol at linked)" "elf_safe (inst_src linked at)"
proof -
  have set: "elf_safe (set_inst_imm linked at v)" for v using set_inst_imm_ok [OF at, of v] by auto
  have "elf_safe (elf_read 4 linked (at + 4) :: u32 elf)" using at by (auto intro!: elf_read_member)
  with set sec show "elf_safe (relocate_local_call f rfs symbol at index linked)"
    by (auto simp: relocate_local_call_def intro!: elf_safe_bind split: option.split)
  show "elf_safe (relocate_helper_call vm f symbol at linked)"
    using set string_safe(2) [OF wf in_strtab_name [OF name]]
    by (auto simp: relocate_helper_call_def elf_defined_def Let_def)
  have "elf_safe (elf_read 1 linked (at + 1) :: u8 elf)" using at by (intro elf_read_member) simp
  then show "elf_safe (inst_src linked at)" by (auto simp: inst_src_def intro!: elf_safe_bind)
qed

lemma relocate_call_length:
  "relocate_local_call f rfs symbol at index linked = Inr linked' \<Longrightarrow> length linked' = length linked"
  "relocate_helper_call vm f symbol at linked = Inr linked' \<Longrightarrow> length linked' = length linked"
  by (auto simp: relocate_local_call_def relocate_helper_call_def elf_bind_Inr_iff Let_def
      dest!: set_inst_imm_length split: option.splits if_splits)

lemma find_relocation_safe:
  assumes good: "good_relocation f rfs applies_to symtab rel"
  shows "elf_safe (find_relocation f rfs applies_to symtab rel)"
    "find_relocation f rfs applies_to symtab rel = Inr (r_offset, r_info, symbol, rf) \<Longrightarrow>
       rf \<in> set rfs \<and> st_name symbol < strtab_size f \<and> unat (st_shndx symbol) < length (file_sections f) \<and>
       unat (r_offset - native_section_start rf) + (if r_info AND 0xffffffff = R_BPF_64_64 then 16 else 8)
         \<le> unat (rf_size rf)"
proof -
  let ?elf = "file_bytes f"
  obtain off info where rd: "elf_read 8 ?elf rel = Inr (off :: u64)" "elf_read 8 ?elf (rel + 8) = Inr (info :: u64)"
    using good by (auto simp: good_relocation_def split: sum.splits)
  let ?ok = "drop_bit 32 info < ucast (ucast (sec_size symtab div 24) :: u32)"
  have sym: "\<exists>s. read_symbol ?elf (sec_data symtab + 24 * drop_bit 32 info) = Inr s \<and>
      unat (st_shndx s) < length (file_sections f) \<and>
      (\<forall>rf \<in> set rfs. is_source_function (sec_shdr applies_to) off rf \<longrightarrow>
        unat (off - native_section_start rf) + (if info AND 0xffffffff = R_BPF_64_64 then 16 else 8)
          \<le> unat (rf_size rf))" if ?ok
    using good that by (auto simp: good_relocation_def rd list_all_iff split: sum.splits)
  then show "elf_safe (find_relocation f rfs applies_to symtab rel)"
    by (auto simp: find_relocation_def rd Let_def intro!: elf_safe_bind split: option.split)
  assume "find_relocation f rfs applies_to symtab rel = Inr (r_offset, r_info, symbol, rf)"
  then have ?ok and f: "r_offset = off" "r_info = info" "st_name symbol < strtab_size f"
    "read_symbol ?elf (sec_data symtab + 24 * drop_bit 32 info) = Inr symbol"
    "List.find (is_source_function (sec_shdr applies_to) off) rfs = Some rf"
    by (auto simp: find_relocation_def rd Let_def elf_bind_Inr_iff split: option.splits)
  with sym [OF \<open>?ok\<close>] show "rf \<in> set rfs \<and> st_name symbol < strtab_size f \<and>
      unat (st_shndx symbol) < length (file_sections f) \<and>
      unat (r_offset - native_section_start rf) + (if r_info AND 0xffffffff = R_BPF_64_64 then 16 else 8)
        \<le> unat (rf_size rf)"
    by (auto simp: find_Some_iff)
qed

lemma relocate_entry_safe:
  assumes wf: "wf_file f" "strtab_terminated f" and rfs: "list_all (linked_inside (length linked)) rfs"
    and cb: "total_callback reloc" and good: "good_relocation f rfs applies_to symtab rel"
  shows "elf_safe (fst (relocate_entry reloc vm f rfs applies_to symtab rel linked s))"
    "fst (relocate_entry reloc vm f rfs applies_to symtab rel linked s) = Inr linked' \<Longrightarrow>
       length linked' = length linked"
proof -
  have app: "elf_safe (fst (apply_relocation reloc vm f rfs applies_to r_offset r_info symbol rf linked s)) \<and>
      (fst (apply_relocation reloc vm f rfs applies_to r_offset r_info symbol rf linked s) = Inr linked' \<longrightarrow>
         length linked' = length linked)"
    if found: "find_relocation f rfs applies_to symtab rel = Inr (r_offset, r_info, symbol, rf)"
    for r_offset r_info symbol rf
  proof -
    note r = find_relocation_safe(2) [OF good found]
    let ?d = "r_offset - native_section_start rf"
    let ?at = "linked_data rf + ?d"
    have "unat (linked_data rf) + unat (rf_size rf) \<le> length linked"
      using r rfs by (auto simp: list_all_iff linked_inside_def)
    then have at: "unat ?at + (if r_info AND 0xffffffff = R_BPF_64_64 then 16 else 8) \<le> length linked"
      using unat_add_le [of "linked_data rf" ?d] r by linarith
    have r': "unat (st_shndx symbol) < length (file_sections f)" "st_name symbol < strtab_size f"
      using r by blast+
    show ?thesis
    proof (cases "r_info AND 0xffffffff = R_BPF_64_64")
      case True
      then have at16: "unat ?at + 16 \<le> length linked" using at by simp
      have eq: "apply_relocation reloc vm f rfs applies_to r_offset r_info symbol rf linked s =
          relocate_data reloc vm f applies_to symbol r_offset ?at linked s"
        unfolding apply_relocation_def Let_def True by (simp only: if_True refl)
      show ?thesis unfolding eq using relocate_data_safe [OF wf(1) r'(1) at16 cb] by blast
    next
      case False
      then have at8: "unat ?at + 8 \<le> length linked" using at by simp
      let ?m = "elf_bind (inst_src linked ?at) (\<lambda>src_field.
          if src_field = 1 then relocate_local_call f rfs symbol ?at (landed rf + ?d div 8) linked
          else relocate_helper_call vm f symbol ?at linked)"
      have "elf_safe ?m"
        by (intro elf_safe_bind elf_safe_if relocate_call_safe [OF wf r' at8])
      moreover have "?m = Inr linked' \<longrightarrow> length linked' = length linked"
        by (auto simp: elf_bind_Inr_iff dest: relocate_call_length split: if_splits)
      ultimately show ?thesis using False unfolding apply_relocation_def Let_def by simp
    qed
  qed
  show "elf_safe (fst (relocate_entry reloc vm f rfs applies_to symtab rel linked s))"
    using find_relocation_safe(1) [OF good] app
    by (auto simp: relocate_entry_def elf_safe_def split: sum.splits)
  show "fst (relocate_entry reloc vm f rfs applies_to symtab rel linked s) = Inr linked' \<Longrightarrow>
       length linked' = length linked"
    using app by (auto simp: relocate_entry_def split: sum.splits)
qed

lemma relocate_entries_safe:
  assumes wf: "wf_file f" "strtab_terminated f" and cb: "total_callback reloc"
  shows "list_all (linked_inside (length linked)) rfs \<Longrightarrow>
    (\<And>k. k < n \<Longrightarrow> good_relocation f rfs applies_to symtab (rel + 16 * of_nat k)) \<Longrightarrow>
    elf_safe (fst (relocate_entries reloc vm f rfs applies_to symtab rel n linked s)) \<and>
    (\<forall>linked'. fst (relocate_entries reloc vm f rfs applies_to symtab rel n linked s) = Inr linked' \<longrightarrow>
       length linked' = length linked)"
proof (induction n arbitrary: rel linked s)
  case 0
  then show ?case by simp
next
  case (Suc n)
  let ?r = "relocate_entry reloc vm f rfs applies_to symtab rel linked s"
  have "good_relocation f rfs applies_to symtab rel" using Suc.prems(2) [of 0] by simp
  note step = relocate_entry_safe [OF wf Suc.prems(1) cb this, of vm s]
  have later: "good_relocation f rfs applies_to symtab (rel + 16 + 16 * of_nat k)" if "k < n" for k
    using Suc.prems(2) [of "Suc k"] that by (simp add: algebra_simps)
  show ?case
  proof (cases "fst ?r")
    case (Inl e)
    with step(1) show ?thesis by (cases ?r) (auto simp: elf_safe_def)
  next
    case (Inr linked1)
    with step(2) have "length linked1 = length linked" by blast
    with Suc.IH [of linked1 "rel + 16" "snd ?r"] Suc.prems(1) later Inr show ?thesis
      by (cases ?r) auto
  qed
qed

text \<open>The section and the symbol table a relocation section names exist.\<close>

definition links_ok :: "elf_file \<Rightarrow> elf_section \<Rightarrow> bool" where
  "links_ok f sec \<longleftrightarrow> (sh_type (file_bytes f) (sec_shdr sec) = Inr SHT_REL \<longrightarrow>
     (case (sh_info (file_bytes f) (sec_shdr sec), sh_link (file_bytes f) (sec_shdr sec)) of
        (Inr info, Inr link) \<Rightarrow> unat info < length (file_sections f) \<and> unat link < length (file_sections f)
      | _ \<Rightarrow> False))"

definition relocations_ok :: "elf_file \<Rightarrow> relocated_function list \<Rightarrow> elf_section \<Rightarrow> bool" where
  "relocations_ok f rfs sec \<longleftrightarrow> (case relocation_sections f sec of
     Inr (Some (applies_to, symtab)) \<Rightarrow>
       list_all (\<lambda>k. good_relocation f rfs applies_to symtab (sec_data sec + 16 * of_nat k))
         [0..<unat (sec_size sec div 16)]
   | _ \<Rightarrow> True)"

lemma relocation_sections_safe:
  assumes wf: "wf_file f" and sec: "section_inside (file_bytes f) sec" and ok: "links_ok f sec"
  shows "elf_safe (relocation_sections f sec)"
proof (cases "sh_type (file_bytes f) (sec_shdr sec) = Inr SHT_REL")
  case False
  have "length (file_bytes f) < 2 ^ 64" using wf by (simp add: wf_file_def)
  with False show ?thesis
    using section_members_safe(2) [OF _ sec] by (auto simp: relocation_sections_def Let_def intro!: elf_safe_bind)
next
  case True
  obtain info link where il: "sh_info (file_bytes f) (sec_shdr sec) = Inr info" "sh_link (file_bytes f) (sec_shdr sec) = Inr link"
    and lt: "unat info < length (file_sections f)" "unat link < length (file_sections f)"
    using ok True by (auto simp: links_ok_def split: sum.splits)
  have signed: "sint w = uint w" if "unat w < length (file_sections f)" for w :: u32
    using that wf by (intro sint_u32_small) (simp add: wf_file_def MAX_SECTIONS_def)
  have "section_inside (file_bytes f) (file_sections f ! unat info)" "length (file_bytes f) < 2 ^ 64"
    using wf lt by (auto simp: wf_file_def list_all_length)
  note m = section_members_safe [OF this(2,1)]
  have "elf_safe (elf_check (sint link < int (length (file_sections f))) BadSymbolTableIndex)" by simp
  with m lt show ?thesis
    by (auto simp: relocation_sections_def True il signed Let_def intro!: elf_safe_bind)
qed

lemma relocate_sections_safe:
  assumes wf: "wf_file f" "strtab_terminated f" and cb: "total_callback reloc"
  shows "list_all (section_inside (file_bytes f)) secs \<Longrightarrow> list_all (links_ok f) secs \<Longrightarrow>
    list_all (relocations_ok f rfs) secs \<Longrightarrow> list_all (linked_inside (length linked)) rfs \<Longrightarrow>
    elf_safe (fst (relocate_sections reloc vm f rfs secs linked s))"
proof (induction secs arbitrary: linked s)
  case Nil
  then show ?case by simp
next
  case (Cons sec secs)
  let ?r = "relocate_section reloc vm f rfs sec linked s"
  have sec: "elf_safe (relocation_sections f sec)"
    using relocation_sections_safe [OF wf(1)] Cons.prems by simp
  have "elf_safe (fst ?r) \<and> (\<forall>linked'. fst ?r = Inr linked' \<longrightarrow> length linked' = length linked)"
  proof (cases "\<exists>a t. relocation_sections f sec = Inr (Some (a, t))")
    case True
    then obtain a t where at: "relocation_sections f sec = Inr (Some (a, t))" by blast
    then have "good_relocation f rfs a t (sec_data sec + 16 * of_nat k)" if "k < unat (sec_size sec div 16)" for k
      using Cons.prems(3) that by (auto simp: relocations_ok_def list_all_iff)
    then have "elf_safe (fst (relocate_entries reloc vm f rfs a t (sec_data sec) (unat (sec_size sec div 16)) linked s)) \<and>
        (\<forall>linked'. fst (relocate_entries reloc vm f rfs a t (sec_data sec) (unat (sec_size sec div 16)) linked s) =
           Inr linked' \<longrightarrow> length linked' = length linked)"
      by (rule relocate_entries_safe [OF wf cb Cons.prems(4)])
    then show ?thesis unfolding relocate_section_def at sum.case option.case prod.case .
  next
    case False
    with sec show ?thesis by (auto simp: relocate_section_def elf_safe_def split: sum.split option.split)
  qed
  then show ?case
    using Cons.IH Cons.prems by (auto simp: elf_safe_def split: prod.split sum.split)
qed

section \<open>The whole load\<close>

definition well_formed_elf :: "elf_alloc \<Rightarrow> u8 list \<Rightarrow> string option \<Rightarrow> bool" where
  "well_formed_elf al elf main_name \<longleftrightarrow> length elf < 2 ^ 31 \<and>
     (case check_elf_header elf of
        Inl _ \<Rightarrow> True | Inr h \<Rightarrow> headers_inside elf (e_shentsize h) (unat (e_shnum h)) (e_shoff h)) \<and>
     (case open_elf elf main_name of
        Inl _ \<Rightarrow> True
      | Inr (f, symbols, symtab_size) \<Rightarrow>
          strtab_terminated f \<and> names_ok f \<and>
          linkable f (symbol_offsets symbols 0 (total_symbols symtab_size)) \<and>
          list_all (links_ok f) (file_sections f) \<and>
          (case link_elf al f symbols symtab_size of
             Inl _ \<Rightarrow> True | Inr (rfs, _) \<Rightarrow> list_all (relocations_ok f rfs) (file_sections f)))"

lemma well_formed_opened:
  assumes ok: "well_formed_elf al elf main_name" and op: "open_elf elf main_name = Inr (f, symbols, symtab_size)"
  shows "wf_file f" "file_bytes f = elf" "strtab_terminated f" "names_ok f"
    "linkable f (symbol_offsets symbols 0 (total_symbols symtab_size))" "list_all (links_ok f) (file_sections f)"
    "link_elf al f symbols symtab_size = Inr (rfs, l) \<Longrightarrow> list_all (relocations_ok f rfs) (file_sections f)"
proof -
  have hd: "headers_inside elf (e_shentsize h) (unat (e_shnum h)) (e_shoff h)" if "check_elf_header elf = Inr h" for h
    using ok that by (simp add: well_formed_elf_def)
  have len: "length elf < 2 ^ 31" using ok by (simp add: well_formed_elf_def)
  show "wf_file f" "file_bytes f = elf" using open_elf_safe(2) [OF len hd op] by blast+
  show "strtab_terminated f" "names_ok f" "linkable f (symbol_offsets symbols 0 (total_symbols symtab_size))"
    "list_all (links_ok f) (file_sections f)"
    "link_elf al f symbols symtab_size = Inr (rfs, l) \<Longrightarrow> list_all (relocations_ok f rfs) (file_sections f)"
    using ok op by (simp_all add: well_formed_elf_def)
qed

lemma link_and_relocate_safe:
  assumes ok: "well_formed_elf al elf main_name" and cb: "total_callback reloc"
  shows "elf_safe (fst (link_and_relocate reloc al vm elf main_name s))"
proof -
  have len: "length elf < 2 ^ 31" using ok by (simp add: well_formed_elf_def)
  have hd: "headers_inside elf (e_shentsize h) (unat (e_shnum h)) (e_shoff h)" if "check_elf_header elf = Inr h" for h
    using ok that by (simp add: well_formed_elf_def)
  note op = open_elf_safe [OF len hd, of main_name]
  show ?thesis
  proof (cases "open_elf elf main_name")
    case (Inl e)
    with op(1) show ?thesis by (simp add: link_and_relocate_def elf_safe_def)
  next
    case (Inr x)
    obtain f symbols n where x: "x = (f, symbols, n)" by (cases x)
    note open_ = Inr [unfolded x]
    note f = well_formed_opened(1) [OF ok open_] and c = well_formed_opened(3-) [OF ok open_]
    note l = link_elf_safe [OF f c(1-3), of al]
    show ?thesis
    proof (cases "link_elf al f symbols n")
      case (Inl e)
      with l(1) open_ show ?thesis by (simp add: link_and_relocate_def elf_safe_def)
    next
      case (Inr y)
      obtain rfs linked where y: "y = (rfs, linked)" by (cases y)
      from l(2) [OF Inr [unfolded y]] c(5) [OF Inr [unfolded y]] f
      have "elf_safe (fst (relocate_sections reloc vm f rfs (file_sections f) linked s))"
        by (intro relocate_sections_safe [OF f c(1) cb _ c(4)]) (auto simp: wf_file_def)
      with open_ Inr y show ?thesis by (simp add: link_and_relocate_def)
    qed
  qed
qed

lemma load_elf_defined:
  assumes "well_formed_elf al elf main_name" "total_callback reloc" "wf_vm vm"
  shows "\<exists>rc vm' msg s'. ubpf_load_elf_ex h reloc al vm elf main_name s base garbage calloc_ok = Some (rc, vm', msg, s') \<and>
    (rc = 0 \<longleftrightarrow> msg = None) \<and> (rc \<noteq> 0 \<longrightarrow> rc = - 1)"
proof -
  obtain m s' where m: "link_and_relocate reloc al vm elf main_name s = (m, s')" by fastforce
  have safe: "m \<noteq> Inl Elf_undefined"
    using link_and_relocate_safe [OF assms(1,2), of vm s] m by (simp add: elf_safe_def)
  show ?thesis
  proof (cases m)
    case (Inl e)
    with safe m show ?thesis by (cases e) (simp_all add: ubpf_load_elf_ex_def)
  next
    case (Inr linked)
    with ubpf_load_total [OF assms(3), of h linked base garbage calloc_ok] m show ?thesis
      by (auto simp: ubpf_load_elf_ex_def)
  qed
qed

text \<open>What a successful load leaves in the object is what was linked.\<close>

lemma load_elf_loaded:
  assumes "wf_vm vm" "ubpf_load_elf_ex h reloc al vm elf main_name s base garbage calloc_ok = Some (0, vm', msg, s')"
  shows "\<exists>linked. link_and_relocate reloc al vm elf main_name s = (Inr linked, s') \<and> loaded vm' (source_insts linked)"
  using assms(2) ubpf_load_ok [OF assms(1)]
  by (auto simp: ubpf_load_elf_ex_def split: prod.splits sum.splits elf_stop.splits)

end
