(* ===== verification/Bpf_Behaviour.thy ===== *)
theory Bpf_Behaviour
  imports Bpf_Element Ubpf_Api Elf_Safety
begin

text \<open>
  How the elements behave: the virtual machine they start from, the lock and the signature in a
  configuration, and what becomes of every packet.
\<close>

section \<open>The initial virtual machine\<close>

text \<open>Registering on an object without generated code only fills the tables.\<close>

lemma ubpf_register_tables:
  assumes "unat idx < MAX_EXT_FUNCS" "compile_result (jitted_result vm) \<noteq> UBPF_JIT_COMPILE_SUCCESS"
  shows "ubpf_register h vm idx name fn = Some (0, vm\<lparr> ext_funcs := (ext_funcs vm)[unat idx := fn],
    ext_func_names := (ext_func_names vm)[unat idx := Some name] \<rparr>)"
  using assms by (simp add: ubpf_register_def)

definition helper_table :: "(string \<Rightarrow> u64) \<Rightarrow> (u32 \<times> string) list \<Rightarrow> u64 list \<Rightarrow> u64 list" where
  "helper_table code_of hs tab = fold (\<lambda>(idx, name) t. t[unat idx := code_of name]) hs tab"

definition name_table :: "(u32 \<times> string) list \<Rightarrow> string option list \<Rightarrow> string option list" where
  "name_table hs tab = fold (\<lambda>(idx, name) t. t[unat idx := Some name]) hs tab"

lemma register_helpers_tables:
  assumes "\<forall>(idx, name) \<in> set hs. unat idx < MAX_EXT_FUNCS"
    and "compile_result (jitted_result vm) \<noteq> UBPF_JIT_COMPILE_SUCCESS"
  shows "register_helpers h code_of hs vm = Some (vm\<lparr> ext_funcs := helper_table code_of hs (ext_funcs vm),
    ext_func_names := name_table hs (ext_func_names vm) \<rparr>)"
  using assms
proof (induction hs arbitrary: vm)
  case Nil
  then show ?case by (simp add: helper_table_def name_table_def)
next
  case (Cons e hs)
  obtain idx name where e: "e = (idx, name)" by fastforce
  then show ?case using Cons by (simp add: ubpf_register_tables helper_table_def name_table_def)
qed

lemma helper_table_length [simp]:
  "length (helper_table code_of hs tab) = length tab"
  "length (name_table hs tab') = length tab'"
  unfolding helper_table_def name_table_def by (induction hs arbitrary: tab tab') (auto split: prod.splits)

definition element_helpers :: "bpf_class \<Rightarrow> (u32 \<times> string) list" where
  "element_helpers c = bpf_helpers @ register_additional_bpf_helpers c"

definition element_vm :: "element_setup \<Rightarrow> ubpf_vm" where
  "element_vm st = (fresh_vm (setup_target st))\<lparr>
     ext_funcs := helper_table (setup_code st) (element_helpers (setup_class st)) (replicate MAX_EXT_FUNCS 0),
     ext_func_names := name_table (element_helpers (setup_class st)) (replicate MAX_EXT_FUNCS None),
     bounds_check_enabled := False, jitter_buffer_size := 131072, unwind_stack_extension_index := 20,
     data_relocation_function := setup_code st ''do_map_relocation'', data_relocation_user_data := setup_ctx st \<rparr>"

lemma init_ubpf_vm_ok:
  assumes "setup_allocs st = (True, True, True, True)"
  shows "init_ubpf_vm h st el =
    Some (el\<lparr> el_vm := Some (element_vm st), el_map_ctx := \<lparr> map_by_name = Map.empty, global_data = Map.empty \<rparr> \<rparr>)"
proof -
  have b: "\<forall>(idx, name) \<in> set bpf_helpers. unat idx < MAX_EXT_FUNCS"
    "\<forall>(idx, name) \<in> set (register_additional_bpf_helpers c). unat idx < MAX_EXT_FUNCS" for c
    by (auto simp: bpf_helpers_def register_additional_bpf_helpers_def MAX_EXT_FUNCS_def split: bpf_class.splits)
  show ?thesis
    using assms b
    by (simp add: init_ubpf_vm_def ubpf_create_def element_settings_def register_helpers_tables Let_def
        ubpf_toggle_bounds_check_def ubpf_toggle_undefined_behavior_check_def ubpf_register_data_relocation_def
        ubpf_set_jit_code_size_def ubpf_set_unwind_function_index_def fresh_vm_def element_vm_def
        element_helpers_def helper_table_def name_table_def)
qed

lemma element_vm_wf: "wf_vm (element_vm st)"
  by (simp add: wf_vm_def element_vm_def fresh_vm_def)

text \<open>The registered functions are those of the list and no others.\<close>

lemma element_vm_helper:
  assumes "i < 64"
  shows "ext_funcs (element_vm st) ! i =
    (case map_of (map (\<lambda>(idx, name). (unat idx, name)) (element_helpers (setup_class st))) i of
       None \<Rightarrow> 0 | Some name \<Rightarrow> setup_code st name)"
  using assms
  by (cases "setup_class st")
    (simp_all add: element_vm_def helper_table_def element_helpers_def bpf_helpers_def
      register_additional_bpf_helpers_def MAX_EXT_FUNCS_def nth_list_update split: if_splits)

section \<open>Configuration\<close>

text \<open>The errors found before the lock is taken.\<close>

definition before_lock :: "configure_error \<Rightarrow> bool" where
  "before_lock e \<longleftrightarrow> e = NoArguments \<or> e = BadArguments \<or> e = FileNotRead \<or> e = VmNotCreated"

lemma signature_error_late: "check_bpf_verification_signature cr fs el = Some e \<Longrightarrow> \<not> before_lock e"
  by (auto simp: check_bpf_verification_signature_def before_lock_def Let_def split: if_splits option.splits)

lemma configure_jit_events:
  assumes "configure_jit env el vm w = Some (evs, el', w', fs, err)"
  shows "evs = (if err = None then [Wlock, Wunlock] else [Wlock]) \<and> (\<forall>e. err = Some e \<longrightarrow> \<not> before_lock e) \<and>
    el_file el' = el_file el \<and> el_signature_file el' = el_signature_file el"
  using assms
  by (auto simp: configure_jit_def Let_def before_lock_def split: if_splits option.splits sum.splits prod.splits)

lemma configure_locked_events:
  assumes "configure_locked env reconfigure buffer el vm w = Some (evs, el', w', fs, err)"
  shows "evs = (if err = None then [Wlock, Wunlock] else [Wlock]) \<and> (\<forall>e. err = Some e \<longrightarrow> \<not> before_lock e)"
  using assms
  by (auto simp: configure_locked_def Let_def before_lock_def split: if_splits option.splits prod.splits
      dest: configure_jit_events signature_error_late)

lemma configure_events:
  assumes "configure env conf args el w = Some (evs, el', w', fs, err)"
  shows "evs = (case err of None \<Rightarrow> [Wlock, Wunlock] | Some e \<Rightarrow> if before_lock e then [] else [Wlock])"
  using assms
  by (auto simp: configure_def Let_def before_lock_def split: if_splits option.splits
      dest: configure_locked_events)

text \<open>
  A configuration keeps the object well-formed, whatever its outcome, as long as the local-function
  marks can be allocated.
\<close>

definition wf_element :: "bpf_element \<Rightarrow> bool" where
  "wf_element el \<longleftrightarrow> (case el_vm el of None \<Rightarrow> True | Some vm \<Rightarrow> wf_vm vm)"

lemma handle_jit_dump_frame:
  assumes "handle_jit_dump env i vm fs = Some (vm', fs')"
  shows "same_program vm vm' \<and> (wf_vm vm \<longrightarrow> wf_vm vm')"
  using assms ubpf_translate_ex_frame [of "cf_jit env" vm _ "cf_dump_size env" BasicJitMode]
  by (auto simp: handle_jit_dump_def ubpf_translate_def split: option.splits if_splits)

lemma configure_jit_frame:
  assumes run: "configure_jit env el vm w = Some (evs, el', w', fs, err)"
  shows "\<exists>vm'. el_vm el' = Some vm' \<and> same_program vm vm' \<and> (wf_vm vm \<longrightarrow> wf_vm vm')"
proof -
  obtain r vm1 where c: "(if el_jit el then ubpf_compile (cf_jit env) (cf_os env) vm else Some (Inr (el_jit_fn el), vm)) = Some (r, vm1)"
    using run by (auto simp: configure_jit_def split: option.splits)
  then have f: "same_program vm vm1" "wf_vm vm \<Longrightarrow> wf_vm vm1"
    using ubpf_compile_ex_frame [of "cf_jit env" "cf_os env" vm BasicJitMode r vm1]
    by (auto simp: ubpf_compile_def split: if_splits)
  show ?thesis
    using run f
    by (auto simp: configure_jit_def c Let_def split: sum.splits if_splits prod.splits
        dest!: handle_jit_dump_frame dest: same_program_trans)
qed

text \<open>The load that a configuration makes.\<close>

definition element_load ::
  "configure_env \<Rightarrow> bool \<Rightarrow> u8 list \<Rightarrow> bpf_element \<Rightarrow> ubpf_vm \<Rightarrow> map_heap
     \<Rightarrow> (int \<times> ubpf_vm \<times> elf_error option \<times> bpf_map_ctx \<times> map_heap) option"
where
  "element_load env reconfigure buffer el vm w =
     ubpf_load_elf_ex (cf_host env) (cf_relocation env) (cf_elf_alloc env)
       (if reconfigure then ubpf_unload_code vm else vm) buffer (Some ''main'') (el_map_ctx el, w)
       (fst (cf_insts env)) (fst (snd (cf_insts env))) (snd (snd (cf_insts env)))"

lemma configure_locked_eq:
  "configure_locked env reconfigure buffer el vm w =
     (case element_load env reconfigure buffer el vm w of
        None \<Rightarrow> None
      | Some (rc, vm2, error_msg, (ctx, w')) \<Rightarrow>
          let el2 = el\<lparr> el_vm := Some vm2, el_map_ctx := ctx \<rparr>
          in case error_msg of
               Some e \<Rightarrow> Some ([Wlock], el2, w', cf_files_later env, Some (LoadFailed e))
             | None \<Rightarrow>
                 case (if cf_verify env then check_bpf_verification_signature (cf_crypto env) (cf_files_later env) el2
                       else None) of
                   Some e \<Rightarrow> Some ([Wlock], el2, w', cf_files_later env, Some e)
                 | None \<Rightarrow> configure_jit env el2 vm2 w')"
  by (simp add: configure_locked_def element_load_def case_prod_unfold Let_def)

lemma element_load_wf:
  assumes "wf_vm vm" "snd (snd (cf_insts env))" "element_load env reconfigure buffer el vm w = Some (rc, vm2, msg, s)"
  shows "wf_vm vm2"
proof -
  have wf: "wf_vm (if reconfigure then ubpf_unload_code vm else vm)" using assms(1) ubpf_unload_code_wf by simp
  have ok: "snd (snd (cf_insts env)) = True" using assms(2) by simp
  show ?thesis by (rule ubpf_load_elf_wf [OF wf assms(3) [unfolded element_load_def ok]])
qed

lemma configure_locked_wf:
  assumes "wf_vm vm" "snd (snd (cf_insts env))"
    and "configure_locked env reconfigure buffer el vm w = Some (evs, el', w', fs, err)"
  shows "wf_element el'"
  using assms(3) element_load_wf [OF assms(1,2), of reconfigure buffer el w]
  by (auto simp: configure_locked_eq wf_element_def Let_def split: option.splits if_splits prod.splits
      dest!: configure_jit_frame)

lemma init_ubpf_vm_cases:
  "init_ubpf_vm h st el = Some el' \<Longrightarrow> el' = el \<or> el_vm el' = Some (element_vm st)"
  by (cases "setup_allocs st = (True, True, True, True)")
    (auto simp: init_ubpf_vm_ok, auto simp: init_ubpf_vm_def ubpf_create_def split: prod.splits if_splits)

lemma init_ubpf_vm_keeps:
  "init_ubpf_vm h st el = Some el' \<Longrightarrow> el_file el' = el_file el \<and> el_signature_file el' = el_signature_file el"
  by (auto simp: init_ubpf_vm_def Let_def split: option.splits)

text \<open>A configuration past its first checks is \<^const>\<open>configure_locked\<close> on some element with an object.\<close>

lemma configure_cases:
  assumes run: "configure env conf args el w = Some (evs, el', w', fs, err)" and wf: "wf_element el"
  obtains (early) e where "err = Some e" "before_lock e" "evs = []" "wf_element el'"
  | (locked) a el2 vm where "args = Some a" "el_vm el2 = Some vm" "wf_vm vm" "el_file el2 = el_file (set_arguments a el)"
      "el_signature_file el2 = el_signature_file (set_arguments a el)"
      "read_file (cf_files env) (el_file el2) \<noteq> []"
      "configure_locked env (el_vm el \<noteq> None) (read_file (cf_files env) (el_file el2)) el2 vm w = Some (evs, el', w', fs, err)"
proof (cases "conf = []")
  case True
  with run wf show thesis by (intro early) (auto simp: configure_def before_lock_def)
next
  case conf: False
  show thesis
  proof (cases args)
    case None
    with conf run wf show thesis by (intro early) (auto simp: configure_def before_lock_def)
  next
    case (Some a)
    let ?el1 = "set_arguments a el"
    have vm1: "el_vm ?el1 = el_vm el" by (simp add: set_arguments_def)
    have wf1: "wf_element ?el1" using wf by (simp add: wf_element_def vm1)
    show thesis
    proof (cases "read_file (cf_files env) (el_file ?el1) = []")
      case True
      with Some conf run wf1 show thesis by (intro early) (auto simp: configure_def before_lock_def Let_def)
    next
      case False
      then obtain el2 where el2: "(if el_vm el \<noteq> None then Some ?el1 else init_ubpf_vm (cf_host env) (cf_setup env) ?el1) = Some el2"
        and rest: "(case el_vm el2 of None \<Rightarrow> Some ([], el2, w, cf_files env, Some VmNotCreated)
           | Some vm \<Rightarrow> configure_locked env (el_vm el \<noteq> None) (read_file (cf_files env) (el_file ?el1)) el2 vm w)
           = Some (evs, el', w', fs, err)"
        using Some conf run by (auto simp: configure_def Let_def vm1 split: option.splits if_splits)
      have files: "el_file el2 = el_file ?el1" "el_signature_file el2 = el_signature_file ?el1"
        using el2 init_ubpf_vm_keeps by (auto split: if_splits)
      have wf2: "wf_element el2"
        using el2 wf1 init_ubpf_vm_cases [of "cf_host env" "cf_setup env" ?el1 el2] element_vm_wf
        by (auto simp: wf_element_def split: if_splits)
      show thesis
      proof (cases "el_vm el2")
        case None
        with rest show thesis by (intro early [of VmNotCreated]) (auto simp: before_lock_def wf_element_def)
      next
        case (Some vm)
        with rest wf2 files False show thesis
          by (intro locked [OF \<open>args = Some a\<close> Some]) (auto simp: wf_element_def)
      qed
    qed
  qed
qed

lemma configure_wf:
  assumes "configure env conf args el w = Some (evs, el', w', fs, err)" "wf_element el" "snd (snd (cf_insts env))"
  shows "wf_element el'"
  using assms(1,2) by (cases rule: configure_cases) (auto dest: configure_locked_wf [OF _ assms(3)])

text \<open>
  A configuration that succeeds has loaded the program it has read; with signatures required, the
  contents of the file named in the element had a valid signature when they were read again.
\<close>

definition signed :: "crypto \<Rightarrow> u8 list \<Rightarrow> u8 list \<Rightarrow> bool" where
  "signed cr contents signature \<longleftrightarrow>
     (\<exists>hash. sha256 cr contents = Some hash \<and> digest_verify cr signature hash)"

lemma check_signature_signed:
  "check_bpf_verification_signature cr fs el = None \<Longrightarrow>
     signed cr (read_file fs (el_file el)) (read_file fs (el_signature_file el))"
  by (auto simp: check_bpf_verification_signature_def signed_def Let_def split: if_splits option.splits)

lemma configure_locked_success:
  assumes wf: "wf_vm vm" "snd (snd (cf_insts env))"
    and run: "configure_locked env reconfigure buffer el vm w = Some (evs, el', w', fs, None)"
  shows "\<exists>vm' linked s. el_vm el' = Some vm' \<and> el_file el' = el_file el \<and> el_signature_file el' = el_signature_file el \<and>
    link_and_relocate (cf_relocation env) (cf_elf_alloc env) (if reconfigure then ubpf_unload_code vm else vm)
      buffer (Some ''main'') (el_map_ctx el, w) = (Inr linked, s) \<and>
    loaded vm' (source_insts linked) \<and>
    (cf_verify env \<longrightarrow> signed (cf_crypto env) (read_file (cf_files_later env) (el_file el))
       (read_file (cf_files_later env) (el_signature_file el)))"
proof -
  obtain rc vm2 ctx w2 where l: "element_load env reconfigure buffer el vm w = Some (rc, vm2, None, (ctx, w2))"
    and sig: "cf_verify env \<Longrightarrow> check_bpf_verification_signature (cf_crypto env) (cf_files_later env)
        (el\<lparr> el_vm := Some vm2, el_map_ctx := ctx \<rparr>) = None"
    and jit: "configure_jit env (el\<lparr> el_vm := Some vm2, el_map_ctx := ctx \<rparr>) vm2 w2 = Some (evs, el', w', fs, None)"
    using run by (auto simp: configure_locked_eq Let_def split: option.splits if_splits prod.splits)
  have wf': "wf_vm (if reconfigure then ubpf_unload_code vm else vm)" using wf(1) ubpf_unload_code_wf by simp
  have rc: "rc = 0" using ubpf_load_elf_result [OF wf' l [unfolded element_load_def]] by simp
  obtain linked where linked: "link_and_relocate (cf_relocation env) (cf_elf_alloc env) (if reconfigure then ubpf_unload_code vm else vm)
      buffer (Some ''main'') (el_map_ctx el, w) = (Inr linked, (ctx, w2))" "loaded vm2 (source_insts linked)"
    using load_elf_loaded [OF wf' l [unfolded element_load_def rc]] by blast
  obtain vm' where vm': "el_vm el' = Some vm'" "same_program vm2 vm'" "wf_vm vm2 \<longrightarrow> wf_vm vm'"
    using configure_jit_frame [OF jit] by blast
  have "loaded vm' (source_insts linked)"
    using same_program_loaded [OF vm'(2)] vm'(3) linked(2) by (auto simp: loaded_def)
  moreover have "cf_verify env \<Longrightarrow> signed (cf_crypto env) (read_file (cf_files_later env) (el_file el))
       (read_file (cf_files_later env) (el_signature_file el))"
    using check_signature_signed [OF sig] by simp
  moreover have "el_file el' = el_file el" "el_signature_file el' = el_signature_file el"
    using configure_jit_events [OF jit] by simp_all
  ultimately show ?thesis using vm'(1) linked(1) by blast
qed

section \<open>Running without a program\<close>

text \<open>After a reconfiguration that could not load its program, an interpreted element aborts on every packet.\<close>

lemma exec_without_program:
  assumes "el_vm el = Some vm" "insts vm = None" "\<not> el_jit el"
  shows "exec r el port p m = Some (- 1, mem_alloc m (run_ctx r) (bpfelement_md r port p m))"
  using assms by (simp add: exec_def ubpf_exec_def ubpf_exec_ex_def)

section \<open>Packets through the filter\<close>

fun disposed :: "event \<Rightarrow> u64 list" where
  "disposed (Kill p) = [p]"
| "disposed (Output port p) = [p]"
| "disposed (Checked_output port p) = [p]"
| "disposed e = []"

fun is_output :: "event \<Rightarrow> bool" where
  "is_output (Output port p) = True"
| "is_output e = False"

fun filter_run :: "run_env \<Rightarrow> (int \<times> u64) list \<Rightarrow> bp_filter \<Rightarrow> memory \<Rightarrow> (event list \<times> bp_filter \<times> memory) option" where
  "filter_run r [] f m = Some ([], f, m)"
| "filter_run r ((port, p) # ps) f m =
     (case BPFilter_push r port p f m of
        None \<Rightarrow> None
      | Some (evs, f', m') \<Rightarrow>
          map_option (\<lambda>(evs', f'', m''). (evs @ evs', f'', m'')) (filter_run r ps f' m'))"

text \<open>One packet: what happens to it and to the counters is decided by the verdict of the program.\<close>

lemma BPFilter_push_eq:
  "BPFilter_push r port p f m =
     map_option (\<lambda>(ret, m'). ([Rlock, Runlock, if ret = XDP_PASS then Output 0 p else Kill p],
        f\<lparr> filter_count := filter_count f + 1, filter_filtered := filter_filtered f + (if ret = XDP_DROP then 1 else 0) \<rparr>, m'))
       (exec r (bpf_element.truncate f) port p m)"
  by (auto simp: BPFilter_push_def Let_def bpf_element.truncate_def XDP_DROP_def XDP_PASS_def XDP_ABORTED_def split: option.split)

lemma filter_run_counters:
  assumes "filter_run r ps f m = Some (evs, f', m')"
  shows "filter_count f' = filter_count f + of_nat (length ps) \<and> concat (map disposed evs) = map snd ps \<and>
    (\<exists>k. filter_filtered f' = filter_filtered f + of_nat k \<and> k + length (filter is_output evs) \<le> length ps) \<and>
    filter (\<lambda>e. e = Rlock \<or> e = Runlock) evs = concat (replicate (length ps) [Rlock, Runlock]) \<and>
    bpf_element.truncate f' = bpf_element.truncate f"
  using assms
proof (induction r ps f m arbitrary: evs f' m' rule: filter_run.induct)
  case (2 r port p ps f m)
  obtain ret m1 where ex: "exec r (bpf_element.truncate f) port p m = Some (ret, m1)"
    using "2.prems" by (auto simp: BPFilter_push_eq split: option.splits)
  let ?f = "f\<lparr> filter_count := filter_count f + 1, filter_filtered := filter_filtered f + (if ret = XDP_DROP then 1 else 0) \<rparr>"
  let ?ev = "[Rlock, Runlock, if ret = XDP_PASS then Output 0 p else Kill p]"
  have step: "BPFilter_push r port p f m = Some (?ev, ?f, m1)" by (simp add: BPFilter_push_eq ex)
  obtain evs1 where rest: "filter_run r ps ?f m1 = Some (evs1, f', m')" and evs: "evs = ?ev @ evs1"
    using "2.prems" by (auto simp: step)
  note IH = "2.IH" [OF step refl refl rest]
  obtain k where k: "filter_filtered f' = filter_filtered ?f + of_nat k" "k + length (filter is_output evs1) \<le> length ps"
    using IH by blast
  have "\<exists>k'. filter_filtered f' = filter_filtered f + of_nat k' \<and> k' + length (filter is_output evs) \<le> length ((port, p) # ps)"
    using k evs
    by (intro exI [of _ "k + (if ret = XDP_DROP then 1 else 0)"]) (auto simp: XDP_DROP_def XDP_PASS_def)
  with IH evs show ?case by (auto simp: bpf_element.truncate_def)
qed (simp add: exI [of _ 0])

section \<open>Packets through the rewriter\<close>

text \<open>
  The packet the element disposes of, for every verdict: the current one after a known verdict, the
  one it was given after any other.
\<close>

lemma BPFRewriter_push_cases:
  assumes "BPFRewriter_push r ops current port p el m = Some (evs, m')" "pk_uniqueify ops p m = (p_out, m1)" "p_out \<noteq> 0"
  obtains m2 ret m3 p_new where "set_current_packet current p_out m1 = Some m2" "exec r el port p_out m2 = Some (ret, m3)"
    "current_packet current m3 = Some p_new" "evs = [Rlock, Runlock, rewriter_verdict ret p p_new]"
  using assms by (auto simp: BPFRewriter_push_def split: option.splits)

end
