(* ===== verification/Bpf_Control.thy ===== *)
theory Bpf_Control
  imports Bpf_Element
begin

text \<open>
  The element \<open>Control\<close> (\<open>libs/click/unikraft/control.cc\<close>): it takes a UDP packet that names an
  element, a program and its signature apart and configures every element with that number again.
\<close>

section \<open>Parsing\<close>

text \<open>
  A packet as Click's accessors give it: the address of the transport header and of the end of the
  data. The bytes are in the memory of the process.
\<close>

record control_packet =
  transport_header :: u64
  end_data :: u64

datatype control_error = InvalidLength | NoPrefix | InvalidNameLength | InvalidSignatureLength

text \<open>A stop is a message, or a read of memory that does not exist.\<close>

datatype control_stop = Control_error control_error | Control_fault

record control_request =
  req_id :: u64
  req_name :: "u8 list"
  req_signature :: "u8 list"

definition control_prefix :: "u8 list" where
  "control_prefix = [99, 111, 110, 116, 114, 111, 108]"

definition read_mem :: "memory \<Rightarrow> u64 \<Rightarrow> nat \<Rightarrow> control_stop + u8 list" where
  "read_mem m a n = (case mem_read m a n of None \<Rightarrow> Inl Control_fault | Some bs \<Rightarrow> Inr bs)"

definition ctl_bind :: "control_stop + 'a \<Rightarrow> ('a \<Rightarrow> control_stop + 'b) \<Rightarrow> control_stop + 'b" where
  "ctl_bind x f = (case x of Inl e \<Rightarrow> Inl e | Inr v \<Rightarrow> f v)"

definition ctl_check :: "bool \<Rightarrow> control_error \<Rightarrow> control_stop + unit" where
  "ctl_check ok e = (if ok then Inr () else Inl (Control_error e))"

text \<open>
  \<open>new_string\<close> is the constructor of Click's \<open>String\<close> from a pointer and an \<open>int\<close> length, which the
  64-bit length of the packet is converted to. The pointer arithmetic wraps around. The field
  \<open>uh_ulen\<close>, in network byte order, is compared as it is stored.
\<close>

type_synonym string_constructor = "memory \<Rightarrow> u64 \<Rightarrow> int \<Rightarrow> u8 list option"

definition string_at :: "string_constructor \<Rightarrow> memory \<Rightarrow> u64 \<Rightarrow> u64 \<Rightarrow> control_stop + u8 list" where
  "string_at new_string m a len =
     (case new_string m a (sint (ucast len :: u32)) of None \<Rightarrow> Inl Control_fault | Some s \<Rightarrow> Inr s)"

definition parse_field ::
  "string_constructor \<Rightarrow> control_packet \<Rightarrow> memory \<Rightarrow> u64 \<Rightarrow> control_error \<Rightarrow> control_stop + (u8 list \<times> u64)"
where
  "parse_field new_string p m a e =
     ctl_bind (read_mem m a 8) (\<lambda>bs. let len = le_word bs in
     ctl_bind (ctl_check (a + 8 + len \<le> end_data p) e) (\<lambda>_.
     ctl_bind (string_at new_string m (a + 8) len) (\<lambda>s. Inr (s, a + 8 + len))))"

definition control_parse :: "string_constructor \<Rightarrow> control_packet \<Rightarrow> memory \<Rightarrow> control_stop + control_request" where
  "control_parse new_string p m =
     (let udp_data_ptr = transport_header p + 8 in
     ctl_bind (read_mem m (transport_header p + 4) 2) (\<lambda>uh_ulen.
     ctl_bind (ctl_check (31 \<le> (le_word uh_ulen :: u16)) InvalidLength) (\<lambda>_.
     ctl_bind (read_mem m udp_data_ptr 7) (\<lambda>prefix.
     ctl_bind (ctl_check (prefix = control_prefix) NoPrefix) (\<lambda>_.
     ctl_bind (read_mem m (udp_data_ptr + 7) 8) (\<lambda>bpfelement_id.
     ctl_bind (parse_field new_string p m (udp_data_ptr + 15) InvalidNameLength) (\<lambda>(program_name, a).
     ctl_bind (parse_field new_string p m a InvalidSignatureLength) (\<lambda>(signature, _).
     Inr \<lparr> req_id = le_word bpfelement_id, req_name = program_name, req_signature = signature \<rparr>))))))))"

section \<open>Configuring the elements\<close>

text \<open>
  An element of the router: its class, its number if it is one of the classes of this program, and
  whether its handler \<open>config\<close> can be written.
\<close>

record router_element =
  class_name :: string
  bpfelement_id :: u64
  config_writable :: bool

text \<open>\<open>%s\<close> prints a string up to its first zero byte.\<close>

definition printed :: "u8 list \<Rightarrow> string" where
  "printed s = map (\<lambda>b. char_of (unat b)) (takeWhile (\<lambda>b. b \<noteq> 0) s)"

definition config_string :: "control_request \<Rightarrow> string" where
  "config_string q = ''ID '' @ decimal (unat (req_id q)) @ '', FILE '' @ printed (req_name q) @
     '', SIGNATURE '' @ printed (req_signature q)"

definition bpf_classes :: "string list" where
  "bpf_classes = [''BPFilter'', ''BPFClassifier'', ''BPFRewriter'']"

definition addressed :: "control_request \<Rightarrow> router_element \<Rightarrow> bool" where
  "addressed q e \<longleftrightarrow> class_name e \<in> set bpf_classes \<and> bpfelement_id e = req_id q \<and> config_writable e"

text \<open>The loop: the elements whose handler is called, by their index, with the string it is given.\<close>

fun configure_elements :: "control_request \<Rightarrow> nat \<Rightarrow> router_element list \<Rightarrow> (nat \<times> string) list" where
  "configure_elements q i [] = []"
| "configure_elements q i (e # es) =
     (if class_name e \<noteq> ''BPFilter'' \<and> class_name e \<noteq> ''BPFClassifier'' \<and> class_name e \<noteq> ''BPFRewriter''
      then configure_elements q (i + 1) es
      else if bpfelement_id e \<noteq> req_id q then configure_elements q (i + 1) es
      else if \<not> config_writable e then configure_elements q (i + 1) es
      else (i, config_string q) # configure_elements q (i + 1) es)"

text \<open>
  The whole handler: the packet, at the address \<open>ptr\<close>, is killed first; \<open>after_kill\<close> is the memory
  from then on.
\<close>

definition Control_push ::
  "string_constructor \<Rightarrow> (u64 \<Rightarrow> memory \<Rightarrow> memory) \<Rightarrow> router_element list \<Rightarrow> u64 \<Rightarrow> control_packet \<Rightarrow> memory
     \<Rightarrow> event list \<times> (control_stop + (nat \<times> string) list)"
where
  "Control_push new_string after_kill elements ptr p m =
     ([Kill ptr], ctl_bind (control_parse new_string p (after_kill ptr m)) (\<lambda>q. Inr (configure_elements q 0 elements)))"

section \<open>Reading back what was sent\<close>

text \<open>What a controller sends, in the format the comment of \<open>Control::push\<close> gives.\<close>

definition encode_control :: "control_request \<Rightarrow> u8 list" where
  "encode_control q = control_prefix @ le_bytes 8 (req_id q) @
     le_bytes 8 (of_nat (length (req_name q)) :: u64) @ req_name q @
     le_bytes 8 (of_nat (length (req_signature q)) :: u64) @ req_signature q"

text \<open>What Click documents of the constructor: a length that is not negative is the number of bytes copied.\<close>

definition copies_bytes :: "string_constructor \<Rightarrow> bool" where
  "copies_bytes new_string \<longleftrightarrow> (\<forall>m a n. 0 \<le> n \<longrightarrow> new_string m a n = mem_read m a (nat n))"

lemma mem_read_sub:
  assumes "mem_read m a n = Some bs" "i + k \<le> n" 
  shows "mem_read m (a + of_nat i) k = Some (take k (drop i bs))"
  using assms by (auto simp: mem_read_Some_iff add.assoc simp flip: of_nat_add)

lemma string_at_copies:
  assumes "copies_bytes new_string" "length s < 2 ^ 31" "mem_read m a (length s) = Some s"
  shows "string_at new_string m a (of_nat (length s)) = Inr s"
proof -
  have "sint (ucast (of_nat (length s) :: u64) :: u32) = int (length s)"
    using assms(2) by (simp add: unsigned_of_nat take_bit_nat_eq_self signed_of_nat signed_take_bit_int_eq_self)
  then show ?thesis using assms by (simp add: string_at_def copies_bytes_def)
qed

lemma parse_field_ok:
  assumes "copies_bytes new_string" "length s < 2 ^ 31"
    and field: "mem_read m a (8 + length s) = Some (le_bytes 8 (of_nat (length s) :: u64) @ s)"
    and fits: "unat a + 8 + length s \<le> unat (end_data p)"
  shows "parse_field new_string p m a e = Inr (s, a + of_nat (8 + length s))"
proof -
  have len: "mem_read m a 8 = Some (le_bytes 8 (of_nat (length s) :: u64))"
    using mem_read_sub [OF field, of 0 8] by simp
  have body: "mem_read m (a + 8) (length s) = Some s"
    using mem_read_sub [OF field, of 8 "length s"] by simp
  have "unat (a + 8 + of_nat (length s)) \<le> unat (end_data p)"
    using fits assms(2) unat_u64_lt [of "end_data p"] by (simp add: unat_word_ariths unat_of_nat)
  then have "a + 8 + of_nat (length s) \<le> end_data p" by (simp add: word_le_nat_alt)
  then show ?thesis
    using string_at_copies [OF assms(1,2) body]
    by (simp add: parse_field_def ctl_bind_def read_mem_def len ctl_check_def Let_def ac_simps)
qed

lemma length_encode_control:
  "length (encode_control q) = 31 + length (req_name q) + length (req_signature q)"
  by (simp add: encode_control_def control_prefix_def)

lemma drop_encode_control:
  "drop (23 + length (req_name q)) (encode_control q) =
     le_bytes 8 (of_nat (length (req_signature q)) :: u64) @ req_signature q"
proof -
  let ?pre = "control_prefix @ le_bytes 8 (req_id q) @ le_bytes 8 (of_nat (length (req_name q)) :: u64) @ req_name q"
  have "drop (length ?pre) (encode_control q) =
      le_bytes 8 (of_nat (length (req_signature q)) :: u64) @ req_signature q"
    by (simp add: encode_control_def)
  moreover have "length ?pre = 23 + length (req_name q)" by (simp add: control_prefix_def)
  ultimately show ?thesis by (simp only:)
qed

text \<open>
  The bytes from the transport header on: eight of the UDP header, of which the fifth and sixth are
  the length, then the request.
\<close>

definition carries :: "control_packet \<Rightarrow> memory \<Rightarrow> control_request \<Rightarrow> bool" where
  "carries p m q \<longleftrightarrow> mem_read m (transport_header p + 8) (length (encode_control q)) = Some (encode_control q) \<and>
     unat (transport_header p) + 8 + length (encode_control q) \<le> unat (end_data p) \<and>
     length (req_name q) < 2 ^ 31 \<and> length (req_signature q) < 2 ^ 31"

text \<open>The parser after the prefix and the number have been read.\<close>

lemma control_parse_fields:
  assumes "d = transport_header p + 8" "mem_read m (transport_header p + 4) 2 = Some ulen" "31 \<le> (le_word ulen :: u16)"
    and "mem_read m d 7 = Some control_prefix" "mem_read m (d + 7) 8 = Some (le_bytes 8 (i :: u64))"
  shows "control_parse new_string p m =
    ctl_bind (parse_field new_string p m (d + 15) InvalidNameLength) (\<lambda>(program_name, a).
    ctl_bind (parse_field new_string p m a InvalidSignatureLength) (\<lambda>(signature, _).
    Inr \<lparr> req_id = i, req_name = program_name, req_signature = signature \<rparr>))"
  unfolding control_parse_def Let_def assms(1) [symmetric]
  using assms(2-5) by (simp add: ctl_bind_def read_mem_def ctl_check_def split: sum.split prod.split)

lemma control_parse_ok:
  assumes copies: "copies_bytes new_string" and q: "carries p m q"
    and ulen: "mem_read m (transport_header p + 4) 2 = Some ulen" "31 \<le> (le_word ulen :: u16)"
  shows "control_parse new_string p m = Inr q"
proof -
  define d where "d = transport_header p + 8"
  let ?n = "length (req_name q)" and ?s = "length (req_signature q)"
  have all: "mem_read m d (31 + ?n + ?s) = Some (encode_control q)"
    and fits: "unat (transport_header p) + 8 + (31 + ?n + ?s) \<le> unat (end_data p)"
    and small: "?n < 2 ^ 31" "?s < 2 ^ 31"
    using q by (simp_all add: carries_def length_encode_control d_def)
  have part: "mem_read m (d + of_nat i) k = Some (take k (drop i (encode_control q)))" if "i + k \<le> 31 + ?n + ?s" for i k
    by (rule mem_read_sub [OF all that])
  have prefix: "mem_read m d 7 = Some control_prefix"
    using part [of 0 7] by (simp add: encode_control_def control_prefix_def)
  have eid: "mem_read m (d + 7) 8 = Some (le_bytes 8 (req_id q))"
    using part [of 7 8] by (simp add: encode_control_def control_prefix_def)
  have nm: "mem_read m (d + 15) (8 + ?n) = Some (le_bytes 8 (of_nat ?n :: u64) @ req_name q)"
    using part [of 15 "8 + ?n"] by (simp add: encode_control_def control_prefix_def)
  have sg: "mem_read m (d + of_nat (23 + ?n)) (8 + ?s) = Some (le_bytes 8 (of_nat ?s :: u64) @ req_signature q)"
    using part [of "23 + ?n" "8 + ?s"] by (simp add: drop_encode_control)
  have pos: "unat (d + of_nat k) = unat (transport_header p) + 8 + k" if "k \<le> 31 + ?n + ?s" for k
    using fits that unat_u64_lt [of "end_data p"] by (simp add: d_def unat_word_ariths unat_of_nat)
  have f1: "parse_field new_string p m (d + 15) InvalidNameLength = Inr (req_name q, d + of_nat (23 + ?n))"
    using parse_field_ok [OF copies small(1) nm, of p] pos [of 15] fits by (simp add: ac_simps)
  have f2: "parse_field new_string p m (d + of_nat (23 + ?n)) InvalidSignatureLength =
      Inr (req_signature q, d + of_nat (31 + ?n + ?s))"
    using parse_field_ok [OF copies small(2) sg, of p] pos [of "23 + ?n"] fits by (simp add: ac_simps)
  show ?thesis
    unfolding control_parse_fields [OF d_def ulen prefix eid] f1 by (simp add: ctl_bind_def f2 del: of_nat_add)
qed

text \<open>
  The length is compared in network byte order: it passes by its low byte, and a length whose low
  byte is 0 fails unless its high byte is at least 31.
\<close>

definition net16 :: "nat \<Rightarrow> u8 list" where
  "net16 n = [of_nat (n div 256), of_nat n]"


lemma le_word_two: "unat (le_word [a, b] :: u16) = unat a + 256 * unat b"
proof -
  have "(le_word [a, b] :: u16) = ucast a OR push_bit 8 (ucast b)" by simp
  also have "\<dots> = ucast a + push_bit 8 (ucast b)"
    by (rule disjunctive_add [symmetric]) (auto simp: bit_simps dest: bit_imp_le_length)
  also have "unat \<dots> = unat a + 256 * unat b"
    using unsigned_less [of a, where ?'a = nat] unsigned_less [of b, where ?'a = nat]
    by (simp add: unat_word_ariths push_bit_eq_mult unsigned_ucast_eq take_bit_nat_eq_self)
  finally show ?thesis .
qed

lemma net16_value:
  assumes "n < 65536"
  shows "unat (le_word (net16 n) :: u16) = n div 256 + 256 * (n mod 256)"
proof -
  have "n div 256 < 256" using assms by (simp add: div_less_iff_less_mult)
  then show ?thesis unfolding net16_def le_word_two by (simp add: unat_of_nat)
qed

lemma control_parse_length:
  assumes "mem_read m (transport_header p + 4) 2 = Some (net16 n)" "n < 65536" "n div 256 + 256 * (n mod 256) < 31"
  shows "control_parse new_string p m = Inl (Control_error InvalidLength)"
proof -
  have "unat (le_word (net16 n) :: u16) < 31" using assms(3) net16_value [OF assms(2)] by simp
  then have "\<not> 31 \<le> (le_word (net16 n) :: u16)" by (simp add: word_le_nat_alt)
  then show ?thesis using assms(1) by (simp add: control_parse_def ctl_bind_def read_mem_def ctl_check_def)
qed

text \<open>The loop calls the handler of exactly the addressed elements, in the order of the router.\<close>

lemma configure_elements_eq:
  "configure_elements q i es =
     map (\<lambda>j. (j, config_string q)) (filter (\<lambda>j. addressed q (es ! (j - i))) [i..<i + length es])"
proof (induction q i es rule: configure_elements.induct)
  case (2 q i e es)
  have up: "[i..<i + length (e # es)] = i # [i + 1..<i + 1 + length es]"
    by (simp add: upt_conv_Cons del: upt_Suc)
  have "filter (\<lambda>j. addressed q ((e # es) ! (j - i))) [i + 1..<i + 1 + length es] =
      filter (\<lambda>j. addressed q (es ! (j - (i + 1)))) [i + 1..<i + 1 + length es]"
    by (rule filter_cong) (auto simp: nth_Cons')
  with 2 up show ?case by (auto simp: addressed_def bpf_classes_def)
qed simp

text \<open>
  A packet that ends where the length of its signature should be: the length is read from behind
  the packet, whatever is there.
\<close>

lemma control_overread:
  assumes copies: "copies_bytes new_string" "length s < 2 ^ 31"
    and ulen: "mem_read m (transport_header p + 4) 2 = Some ulen" "31 \<le> (le_word ulen :: u16)"
    and bytes: "mem_read m (transport_header p + 8) (23 + length s) =
      Some (control_prefix @ le_bytes 8 (i :: u64) @ le_bytes 8 (of_nat (length s) :: u64) @ s)"
    and ends: "unat (transport_header p) + 8 + 23 + length s = unat (end_data p)"
    and unmapped: "m (end_data p) = None"
  shows "control_parse new_string p m = Inl Control_fault"
proof -
  define d where "d = transport_header p + 8"
  let ?n = "length s"
  have part: "mem_read m (d + of_nat i') k = Some (take k (drop i' (control_prefix @ le_bytes 8 i @ le_bytes 8 (of_nat ?n :: u64) @ s)))"
    if "i' + k \<le> 23 + ?n" for i' k
    unfolding d_def by (rule mem_read_sub [OF bytes that])
  have prefix: "mem_read m d 7 = Some control_prefix"
    using part [of 0 7] by (simp add: control_prefix_def)
  have eid: "mem_read m (d + 7) 8 = Some (le_bytes 8 (i :: u64))"
    using part [of 7 8] by (simp add: control_prefix_def)
  have nm: "mem_read m (d + 15) (8 + ?n) = Some (le_bytes 8 (of_nat ?n :: u64) @ s)"
    using part [of 15 "8 + ?n"] by (simp add: control_prefix_def)
  have pos: "unat (d + of_nat k) = unat (transport_header p) + 8 + k" if "k \<le> 23 + ?n" for k
    using ends that unat_u64_lt [of "end_data p"] by (simp add: d_def unat_word_ariths unat_of_nat)
  have "d + of_nat (23 + ?n) = end_data p"
    using pos [of "23 + ?n"] ends by (simp add: word_unat_eq_iff)
  then have f1: "parse_field new_string p m (d + 15) InvalidNameLength = Inr (s, end_data p)"
    using parse_field_ok [OF copies nm, of p] pos [of 15] ends by (simp add: ac_simps)
  have "mem_read m (end_data p) 8 = None"
    using unmapped by (simp add: mem_read_def numeral_eq_Suc)
  then have "parse_field new_string p m (end_data p) InvalidSignatureLength = Inl Control_fault"
    by (simp add: parse_field_def ctl_bind_def read_mem_def)
  then show ?thesis
    unfolding control_parse_fields [OF d_def ulen prefix eid] f1 by (simp add: ctl_bind_def)
qed

end
