(* ===== verification/Elf_Link.thy ===== *)
theory Elf_Link
  imports Elf_Safety
begin

text \<open>
  What the ELF loader builds: the layout of the linked program and the effect of a relocated call;
  and files on which it leaves its arrays.
\<close>

section \<open>The linked program\<close>

definition main_first :: "elf_file \<Rightarrow> collected \<Rightarrow> bool" where
  "main_first f c \<longleftrightarrow> 1 \<le> total_functions c \<and>
     (\<forall>rf rest. relocated_functions c = Some rf # rest \<longrightarrow> is_main f rf = Inr True)"

lemma collect_function_main_first:
  assumes "collect_function al f i symbol c = Inr c'" "main_first f c"
  shows "main_first f c'"
proof -
  obtain info where info: "elf_read 1 (file_bytes f) (symbol + 4) = Inr (info :: u8)"
    using assms(1) by (auto simp: collect_function_def elf_bind_Inr_iff)
  show ?thesis
  proof (cases "info AND 0xf = STT_FUNC")
    case False
    with assms info show ?thesis by (simp add: collect_function_def)
  next
    case True
    obtain rf m where rf: "function_of_symbol f symbol = Inr rf" "is_main f rf = Inr m"
      using assms(1) True info unfolding collect_function_def by (simp add: elf_bind_Inr_iff) blast
    have c': "c' = \<lparr> relocated_functions = (relocated_functions c)[if m then 0 else total_functions c := Some rf],
        total_functions = (if m then total_functions c else Suc (total_functions c)),
        linked_program_size = linked_program_size c + ucast (rf_size rf) \<rparr>"
      using assms(1) unfolding collect_function_def info elf_bind_simps rf Let_def
      by (auto simp: True split: if_split_asm)
    have "is_main f r = Inr True"
      if "(relocated_functions c)[if m then 0 else total_functions c := Some rf] = Some r # rest" for r rest
    proof (cases "relocated_functions c")
      case (Cons slot slots)
      with that rf(2) assms(2) show ?thesis
        by (cases "total_functions c") (auto simp: main_first_def split: if_splits)
    qed (use that in simp)
    with assms(2) show ?thesis by (auto simp: c' main_first_def)
  qed
qed

lemma collect_functions_main_first:
  "collect_functions al f symbols i n c = Inr c' \<Longrightarrow> main_first f c \<Longrightarrow> main_first f c'"
  by (induction n arbitrary: i c) (auto simp: elf_bind_Inr_iff dest: collect_function_main_first)

text \<open>\<^const>\<open>is_main\<close> does not look at where a function was linked.\<close>

lemma is_main_linked: "is_main f (rf\<lparr> landed := a, linked_data := b \<rparr>) = is_main f rf"
  by (simp add: is_main_def split: option.split)

lemma link_elf_layout:
  assumes wf: "wf_file f" "strtab_terminated f" "names_ok f"
    and ok: "linkable f (symbol_offsets symbols 0 (total_symbols symtab_size))"
    and run: "link_elf al f symbols symtab_size = Inr (rfs, linked)"
  shows "rfs \<noteq> []" "is_main f (hd rfs) = Inr True" "linked_data (hd rfs) = 0"
    "rf \<in> set rfs \<Longrightarrow> take (unat (rf_size rf)) (drop (unat (linked_data rf)) linked) = native_bytes (file_bytes f) rf \<and>
       landed rf = linked_data rf div 8"
proof -
  let ?n = "total_symbols symtab_size"
  let ?c = "\<lparr> relocated_functions = replicate ?n None, total_functions = 1, linked_program_size = 0 \<rparr>"
  have len: "length (symbol_offsets symbols 0 ?n) = ?n" by (simp add: symbol_offsets_def)
  from run obtain c rf0 rest where c: "collect_functions al f symbols 0 ?n ?c = Inr c"
    and s: "relocated_functions c = Some rf0 # rest"
    and l: "link_functions (file_bytes f) (take (total_functions c) (relocated_functions c)) 0
        (replicate (unat (linked_program_size c)) 0) = Inr (rfs, linked)"
    unfolding link_elf_def Let_def elf_bind_Inr_iff
    by (elim exE conjE) (simp add: elf_bind_Inr_iff split: list.splits option.splits)
  have "wf_collected f ?c" using ok len by (auto simp: linkable_def wf_collected_def sum_list_replicate)
  then have wc: "wf_collected f c"
    using collect_functions_safe [OF wf, of symbols 0 ?n ?c al] ok len c by (auto simp: linkable_def)
  have "main_first f ?c" by (cases ?n) (auto simp: main_first_def)
  then have "is_main f rf0 = Inr True"
    using collect_functions_main_first [OF c] s by (simp add: main_first_def)
  moreover have "take (total_functions c) (relocated_functions c) = Some rf0 # take (total_functions c - 1) rest"
    using wc s by (cases "total_functions c") (auto simp: wf_collected_def)
  moreover have "length (replicate (unat (linked_program_size c)) (0 :: u8)) < 2 ^ 64"
    using unat_u32_lt [of "linked_program_size c"] by simp
  moreover have "unat (0 :: u64) + sum_list (map slot_size (take (total_functions c) (relocated_functions c))) \<le>
      length (replicate (unat (linked_program_size c)) (0 :: u8))"
    using take_slots(2) [OF wc s] by simp
  note sp = link_functions_spec [OF wf(1) take_slots(1) [OF wc s] this]
  ultimately show "rfs \<noteq> []" "is_main f (hd rfs) = Inr True" "linked_data (hd rfs) = 0"
    "rf \<in> set rfs \<Longrightarrow> take (unat (rf_size rf)) (drop (unat (linked_data rf)) linked) = native_bytes (file_bytes f) rf \<and>
       landed rf = linked_data rf div 8"
    using l by (auto simp: is_main_linked list_all_iff linked_inside_def)
qed

section \<open>A relocated call\<close>

lemma elf_read_after_write:
  assumes "buf_write buf (unat off) (le_bytes 4 v) = Some buf'"
  shows "elf_read 4 buf' off = Inr (v :: u32)"
  using buf_read_after_write [OF assms] by (simp add: elf_read_def elf_defined_def)

lemma ucast_u32_diff: "ucast (x - (y + 1) :: u64) = (ucast x - (ucast y + 1) :: u32)"
proof -
  have down: "ucast (word_of_int k :: u64) = (word_of_int k :: u32)" for k by transfer simp
  have "x - (y + 1) = word_of_int (uint x - (uint y + 1))" by (simp add: word_of_int_uint)
  then have "ucast (x - (y + 1)) = (word_of_int (uint x - (uint y + 1)) :: u32)" by (simp only: down)
  also have "\<dots> = word_of_int (uint x) - (word_of_int (uint y) + 1)" by simp
  also have "\<dots> = ucast x - (ucast y + 1)" using down [of "uint x"] down [of "uint y"] by simp
  finally show ?thesis .
qed

lemma relocated_call_target:
  assumes "relocate_local_call f rfs symbol at index linked = Inr linked'"
  shows "\<exists>sec im im' rf. section_at (file_sections f) (uint (st_shndx symbol)) = Inr sec \<and>
    elf_read 4 linked (at + 4) = Inr im \<and> elf_read 4 linked' (at + 4) = Inr im' \<and> rf \<in> set rfs \<and>
    rf_shdr rf = sec_shdr sec \<and> native_section_start rf = ucast ((im + 1) * 8 :: u32) \<and>
    ucast index + (im' + 1) = (ucast (landed rf) :: u32) \<and>
    (\<forall>a n. a + n \<le> unat (at + 4) \<or> unat (at + 4) + 4 \<le> a \<longrightarrow> buf_read linked' a n = buf_read linked a n)"
proof -
  obtain sec im rf where sec: "section_at (file_sections f) (uint (st_shndx symbol)) = Inr sec"
    and im: "elf_read 4 linked (at + 4) = Inr im"
    and rf: "List.find (is_target_function (sec_shdr sec) ((im + 1) * 8)) rfs = Some rf"
    and set: "set_inst_imm linked at (ucast (landed rf - (index + 1))) = Inr linked'"
    using assms by (auto simp: relocate_local_call_def elf_bind_Inr_iff split: option.splits)
  from set have w: "buf_write linked (unat (at + 4)) (le_bytes 4 (ucast (landed rf - (index + 1)) :: u32)) = Some linked'"
    by (simp add: set_inst_imm_def)
  have "rf \<in> set rfs" "is_target_function (sec_shdr sec) ((im + 1) * 8) rf"
    using rf by (auto simp: find_Some_iff)
  moreover have "ucast index + ((ucast (landed rf - (index + 1)) :: u32) + 1) = ucast (landed rf)"
    by (simp add: ucast_u32_diff)
  moreover have "buf_read linked' a n = buf_read linked a n"
    if "a + n \<le> unat (at + 4) \<or> unat (at + 4) + 4 \<le> a" for a n
    using that by (intro buf_read_disjoint [OF w]) (auto simp: span_Suc_nat)
  ultimately show ?thesis
    using sec im elf_read_after_write [OF w] by (auto simp: is_target_function_def)
qed

section \<open>Files that lead the loader astray\<close>

text \<open>A section header of which only the first bytes are in the file passes the check and is read.\<close>

lemma truncated_header_undefined:
  assumes hd: "check_elf_header elf = Inr h" "0 < e_shnum h" and len: "length elf < 2 ^ 63"
    and trunc: "unat (e_shoff h) + 8 \<le> length elf" "length elf < unat (e_shoff h) + 40"
  shows "open_elf elf main_name = Inl Elf_undefined"
proof -
  obtain n where n: "unat (e_shnum h) = Suc n" using hd(2) by (cases "unat (e_shnum h)") (auto simp: word_less_nat_alt)
  have chk: "elf_bounds_check elf (e_shoff h) 8"
    using trunc(1) len by (subst elf_bounds_check_iff) simp_all
  have un: "unat (e_shoff h + 24) = unat (e_shoff h) + 24" "unat (e_shoff h + 32) = unat (e_shoff h) + 32"
    using trunc(1) len by (simp_all add: unat_word_ariths)
  have "elf_read 8 elf (e_shoff h + 32) = (Inl Elf_undefined :: u64 elf)"
    using trunc(2) by (simp add: elf_read_def elf_defined_def buf_read_eq un)
  moreover have "elf_read 8 elf (e_shoff h + 24) = (Inl Elf_undefined :: u64 elf) \<or>
      (\<exists>v. elf_read 8 elf (e_shoff h + 24) = (Inr v :: u64 elf))"
    by (simp add: elf_read_def elf_defined_def buf_read_eq)
  ultimately have "parse_sections elf (e_shentsize h) (unat (e_shnum h)) (e_shoff h) = Inl Elf_undefined"
    using chk by (auto simp: n elf_check_def)
  with hd(1) show ?thesis by (simp add: open_elf_def)
qed

text \<open>
  The array of functions has one element per symbol, and its first is kept for the main function:
  a table with function symbols only, none of them the main function, is written past the end.
\<close>

definition other_function :: "elf_file \<Rightarrow> u64 \<Rightarrow> bool" where
  "other_function f symbol \<longleftrightarrow> is_function f symbol \<and>
     (case function_of_symbol f symbol of Inl _ \<Rightarrow> False | Inr rf \<Rightarrow> is_main f rf = Inr False)"

lemma collect_other_function:
  assumes "other_function f symbol" "alloc_function al i"
  shows "if length (relocated_functions c) \<le> total_functions c
    then collect_function al f i symbol c = Inl Elf_undefined
    else \<exists>c'. collect_function al f i symbol c = Inr c' \<and> total_functions c' = Suc (total_functions c) \<and>
      length (relocated_functions c') = length (relocated_functions c)"
proof -
  obtain rf info where "function_of_symbol f symbol = Inr rf" "is_main f rf = Inr False"
    "elf_read 1 (file_bytes f) (symbol + 4) = Inr info" "(info :: u8) AND 0xf = STT_FUNC"
    using assms(1) by (auto simp: other_function_def is_function_def split: sum.splits)
  with assms(2) show ?thesis by (simp add: collect_function_def Let_def)
qed

lemma function_table_overflow:
  "list_all (other_function f) (symbol_offsets symbols i n) \<Longrightarrow> (\<And>k. alloc_function al k) \<Longrightarrow>
     length (relocated_functions c) < total_functions c + n \<Longrightarrow> 0 < n \<Longrightarrow>
     collect_functions al f symbols i n c = Inl Elf_undefined"
proof (induction n arbitrary: i c)
  case 0
  then show ?case by simp
next
  case (Suc n)
  note step = collect_other_function [of f "symbols + 24 * of_nat i" al i c]
  show ?case
  proof (cases "length (relocated_functions c) \<le> total_functions c")
    case True
    with step Suc.prems show ?thesis by simp
  next
    case False
    with Suc.prems(3) have "0 < n" by simp
    from False step Suc.prems obtain c' where "collect_function al f i (symbols + 24 * of_nat i) c = Inr c'"
      "total_functions c' = Suc (total_functions c)" "length (relocated_functions c') = length (relocated_functions c)"
      by auto
    with Suc.IH [of "Suc i" c'] Suc.prems \<open>0 < n\<close> show ?thesis by simp
  qed
qed

lemma function_table_undefined:
  assumes "list_all (other_function f) (symbol_offsets symbols 0 (total_symbols symtab_size))"
    and "0 < total_symbols symtab_size" "alloc_functions al" "\<And>k. alloc_function al k"
  shows "link_elf al f symbols symtab_size = Inl Elf_undefined"
  using assms function_table_overflow [OF assms(1,4)] by (simp add: link_elf_def Let_def elf_check_def)

end
