(* ===== verification/Elf_Sample.thy ===== *)
theory Elf_Sample
  imports Elf_Link Ubpf_Sample
begin

text \<open>
  A small relocatable file: a main function that calls a second one, both in one executable section.
  The contents are the string table, the code, the symbol table and one relocation for the call.
\<close>

definition sample_ehdr :: "u8 list" where
  "sample_ehdr =
    [127, 69, 76, 70, 2, 1, 1, 0, 0, 0, 0, 0, 0, 0, 0, 0, 1, 0, 247, 0, 1, 0, 0, 0, 0, 0, 0, 0, 0,
     0, 0, 0, 0, 0, 0, 0, 0, 0, 0, 0, 200, 0, 0, 0, 0, 0, 0, 0, 0, 0, 0, 0, 64, 0, 0, 0, 0, 0, 64,
     0, 4, 0, 0, 0]"

definition sample_contents :: "u8 list" where
  "sample_contents =
    [0, 109, 97, 105, 110, 0, 102, 0] @
    [183, 6, 0, 0, 5, 0, 0, 0, 133, 16, 0, 0, 2, 0, 0, 0, 149, 0, 0, 0, 0, 0, 0, 0, 183, 0, 0, 0, 7,
     0, 0, 0, 149, 0, 0, 0, 0, 0, 0, 0] @
    [0, 0, 0, 0, 0, 0, 0, 0, 0, 0, 0, 0, 0, 0, 0, 0, 0, 0, 0, 0, 0, 0, 0, 0, 1, 0, 0, 0, 2, 0, 1, 0,
     0, 0, 0, 0, 0, 0, 0, 0, 24, 0, 0, 0, 0, 0, 0, 0, 6, 0, 0, 0, 2, 0, 1, 0, 24, 0, 0, 0, 0, 0, 0,
     0, 16, 0, 0, 0, 0, 0, 0, 0] @
    [8, 0, 0, 0, 0, 0, 0, 0, 2, 0, 0, 0, 2, 0, 0, 0]"

definition sample_shdrs :: "u8 list" where
  "sample_shdrs =
    [0, 0, 0, 0, 3, 0, 0, 0, 0, 0, 0, 0, 0, 0, 0, 0, 0, 0, 0, 0, 0, 0, 0, 0, 64, 0, 0, 0, 0, 0, 0,
     0, 8, 0, 0, 0, 0, 0, 0, 0, 0, 0, 0, 0, 0, 0, 0, 0, 0, 0, 0, 0, 0, 0, 0, 0, 0, 0, 0, 0, 0, 0, 0,
     0, 0, 0, 0, 0, 1, 0, 0, 0, 6, 0, 0, 0, 0, 0, 0, 0, 0, 0, 0, 0, 0, 0, 0, 0, 72, 0, 0, 0, 0, 0,
     0, 0, 40, 0, 0, 0, 0, 0, 0, 0, 0, 0, 0, 0, 0, 0, 0, 0, 0, 0, 0, 0, 0, 0, 0, 0, 0, 0, 0, 0, 0,
     0, 0, 0, 0, 0, 0, 0, 2, 0, 0, 0, 0, 0, 0, 0, 0, 0, 0, 0, 0, 0, 0, 0, 0, 0, 0, 0, 112, 0, 0, 0,
     0, 0, 0, 0, 72, 0, 0, 0, 0, 0, 0, 0, 0, 0, 0, 0, 0, 0, 0, 0, 0, 0, 0, 0, 0, 0, 0, 0, 0, 0, 0,
     0, 0, 0, 0, 0, 0, 0, 0, 0, 9, 0, 0, 0, 0, 0, 0, 0, 0, 0, 0, 0, 0, 0, 0, 0, 0, 0, 0, 0, 184, 0,
     0, 0, 0, 0, 0, 0, 16, 0, 0, 0, 0, 0, 0, 0, 2, 0, 0, 0, 1, 0, 0, 0, 0, 0, 0, 0, 0, 0, 0, 0, 0,
     0, 0, 0, 0, 0, 0, 0]"

definition sample_elf :: "u8 list" where
  "sample_elf = sample_ehdr @ sample_contents @ sample_shdrs"

definition sample_alloc :: elf_alloc where
  "sample_alloc = \<lparr> alloc_functions = True, alloc_function = (\<lambda>_. True), alloc_program = True \<rparr>"

definition null_relocation :: "unit data_relocation" where
  "null_relocation = (\<lambda>_ _ _ _ _ _ _ _ _ s. Some (0, s))"

lemma null_relocation_total: "total_callback null_relocation"
  by (simp add: total_callback_def null_relocation_def)

definition sample_sections :: "elf_section list" where
  "sample_sections =
     [\<lparr> sec_shdr = 200, sec_data = 64, sec_size = 8 \<rparr>, \<lparr> sec_shdr = 264, sec_data = 72, sec_size = 40 \<rparr>,
      \<lparr> sec_shdr = 328, sec_data = 112, sec_size = 72 \<rparr>, \<lparr> sec_shdr = 392, sec_data = 184, sec_size = 16 \<rparr>]"

definition sample_file :: "string \<Rightarrow> elf_file" where
  "sample_file name = \<lparr> file_bytes = sample_elf, file_sections = sample_sections, strtab_data = 64,
     strtab_size = 8, main_function_name = Some name \<rparr>"

lemma sample_file_sections: "file_sections (sample_file name) = sample_sections"
  by (simp add: sample_file_def)

definition sample_functions :: "relocated_function list" where
  "sample_functions =
     [\<lparr> rf_name = 65, rf_shdr = 264, native_data = 72, linked_data = 0, native_section_start = 0,
        rf_size = 24, landed = 0 \<rparr>,
      \<lparr> rf_name = 70, rf_shdr = 264, native_data = 96, linked_data = 24, native_section_start = 24,
        rf_size = 16, landed = 3 \<rparr>]"

lemma length_sample_elf: "length sample_elf = 456"
  by code_simp

lemma sample_header: "check_elf_header sample_elf = Inr \<lparr> e_shoff = 200, e_shentsize = 64, e_shnum = 4 \<rparr>"
  by code_simp

lemma sample_open: "open_elf sample_elf (Some ''main'') = Inr (sample_file ''main'', 112, 72)"
  by code_simp

lemma sample_symbols: "total_symbols 72 = 3"
  by code_simp

lemma sample_strtab: "strtab_terminated (sample_file ''main'')" "names_ok (sample_file ''main'')"
  by code_simp+

lemma sample_linkable: "linkable (sample_file ''main'') (symbol_offsets 112 0 3)"
proof -
  have "list_all (good_symbol (sample_file ''main'')) (symbol_offsets 112 0 3)" by code_simp
  moreover have "function_count (sample_file ''main'') (symbol_offsets 112 0 3) = 2" by code_simp
  moreover have "functions_size (sample_file ''main'') (symbol_offsets 112 0 3) = 40" by code_simp
  ultimately show ?thesis by (simp add: linkable_def symbol_offsets_def)
qed

lemma sample_link:
  "link_elf sample_alloc (sample_file ''main'') 112 72 = Inr (sample_functions, take 40 (drop 72 sample_elf))"
  by code_simp

lemma sample_links: "list_all (links_ok (sample_file ''main'')) sample_sections"
  by code_simp

lemma sample_relocations: "list_all (relocations_ok (sample_file ''main'') sample_functions) sample_sections"
  by code_simp

lemma sample_headers_inside: "headers_inside sample_elf 64 (unat (4 :: u16)) 200"
  by (auto simp: headers_inside_def length_sample_elf)

lemma sample_well_formed: "well_formed_elf sample_alloc sample_elf (Some ''main'')"
  using sample_strtab sample_linkable sample_links sample_relocations sample_headers_inside
  by (simp add: well_formed_elf_def length_sample_elf sample_header sample_open sample_symbols sample_link
      sample_file_sections)

text \<open>The call in the second instruction before and after its relocation.\<close>

definition sample_callee :: elf_symbol where
  "sample_callee = \<lparr> st_name = 6, st_shndx = 1, st_value = 24, st_size = 16 \<rparr>"

lemma sample_relocated:
  "relocate_local_call (sample_file ''main'') sample_functions sample_callee 8 1 (take 40 (drop 72 sample_elf)) =
     Inr ((take 40 (drop 72 sample_elf))[12 := 1])"
  by code_simp

text \<open>A header followed by the first eight bytes of a section header.\<close>

definition short_elf :: "u8 list" where
  "short_elf = (take 60 sample_ehdr)[40 := 64] @ [1, 0, 0, 0] @ replicate 8 0"

lemma short_header:
  "check_elf_header short_elf = Inr \<lparr> e_shoff = 64, e_shentsize = 64, e_shnum = 1 \<rparr>" "length short_elf = 72"
  by code_simp+

text \<open>Without the first symbol, and asked for a function that is not there.\<close>

lemma sample_other_functions:
  "list_all (other_function (sample_file ''x'')) (symbol_offsets 136 0 (total_symbols 48))"
  by code_simp

lemma other_symbols: "0 < total_symbols 48"
  by code_simp

end
