(* ===== verification/Bpf_Sample.thy ===== *)
theory Bpf_Sample
  imports Bpf_Behaviour Bpf_Control Elf_Sample
begin

text \<open>
  A heap with one hash map, a filter configured with the file of \<^const>\<open>sample_elf\<close>, and a control
  packet: the inputs on which the hypotheses of the theorems about the application are discharged.
\<close>

section \<open>A hash map\<close>

text \<open>A key of two bytes and a value of two bytes in memory, and an empty map.\<close>

definition hash_def :: bpf_map_def where
  "hash_def = \<lparr> map_type = 1, key_size = 2, value_size = 2, max_entries = 8, map_flags = 0,
     inner_map_idx = 0, numa_node = 0 \<rparr>"

definition hash_memory :: memory where
  "hash_memory = [0x200 \<mapsto> 1, 0x201 \<mapsto> 2, 0x300 \<mapsto> 7, 0x301 \<mapsto> 9]"

definition hash_heap :: map_heap where
  "hash_heap = \<lparr> heap_memory = hash_memory,
     heap_maps = [0x100 \<mapsto> \<lparr> map_def = hash_def, map_contents = Hash_data [] \<rparr>] \<rparr>"

definition hash_alloc :: allocator where
  "hash_alloc = \<lparr> malloc = (\<lambda>_ _. 0x1000), new_map = (\<lambda>_. 0x2000) \<rparr>"

lemma hash_heap_wf: "wf_hash 0x100 hash_heap"
  by (simp add: wf_hash_def hash_heap_def hash_def_def BPF_MAP_TYPE_HASH_def wf_table_def)

lemma hash_heap_map: "heap_maps hash_heap 0x100 = Some \<lparr> map_def = hash_def, map_contents = Hash_data [] \<rparr>"
  by (simp add: hash_heap_def)

lemma hash_heap_key: "mem_read (heap_memory hash_heap) 0x200 (unat (key_size hash_def)) = Some [1, 2]"
  "mem_read (heap_memory hash_heap) 0x300 (unat (value_size hash_def)) = Some [7, 9]"
  by (auto simp: mem_read_Some_iff hash_heap_def hash_memory_def hash_def_def less_2_cases_iff)

lemma hash_heap_free: "free_block (heap_memory hash_heap) (malloc hash_alloc (heap_memory hash_heap) 2) 2"
proof -
  have "x = 0x1000 \<or> x = 0x1001" if "x \<in> region 0x1000 2" for x :: u64
    using that by (auto simp: region_iff_nowrap word_unat_eq_iff)
  then show ?thesis by (force simp: free_block_def hash_alloc_def hash_heap_def hash_memory_def)
qed

definition hash_updated :: map_heap where
  "hash_updated = \<lparr> heap_memory = mem_alloc hash_memory 0x1000 [7, 9],
     heap_maps = [0x100 \<mapsto> \<lparr> map_def = hash_def, map_contents = Hash_data [([1, 2], 0x1000)] \<rparr>] \<rparr>"

lemma hash_heap_updated: "bpf_map_update_elem hash_alloc hash_heap 0x100 0x200 0x300 = Some (0, hash_updated)"
  using hash_heap_key
  by (simp add: bpf_map_update_elem_def hash_heap_map hash_update_def hash_alloc_def set_contents_def Let_def
      hash_def_def BPF_MAP_TYPE_HASH_def) (simp add: hash_heap_def hash_updated_def hash_def_def)

lemma hash_updated_get: "\<exists>r. hash_get 0x100 hash_updated [1, 2] r"
proof -
  have mp: "heap_maps hash_updated 0x100 = Some \<lparr> map_def = hash_def, map_contents = Hash_data [([1, 2], 0x1000)] \<rparr>"
    by (simp add: hash_updated_def)
  have k: "mem_read (heap_memory hash_updated) 0x200 (unat (key_size hash_def)) = Some [1, 2]"
    by (auto simp: mem_read_Some_iff hash_updated_def mem_alloc_def hash_memory_def hash_def_def less_2_cases_iff)
  then have "bpf_map_lookup_elem hash_updated 0x100 0x200 = Some 0x1000"
    by (simp add: bpf_map_lookup_elem_def mp hash_def_def BPF_MAP_TYPE_HASH_def)
  with mp k show ?thesis unfolding hash_get_def by (metis bpf_map.select_convs(1))
qed

section \<open>The definition of a map in a file\<close>

definition map_section :: "u8 list" where
  "map_section = concat (map (le_bytes 4) [1, 4, 8, 16, 0, 0, 0 :: u32])"

definition map_definition :: bpf_map_def where
  "map_definition = \<lparr> map_type = 1, key_size = 4, value_size = 8, max_entries = 16, map_flags = 0,
     inner_map_idx = 0, numa_node = 0 \<rparr>"

lemma map_section_read: "read_map_def map_section 0 = Some map_definition"
  by code_simp

definition empty_heap :: map_heap where
  "empty_heap = \<lparr> heap_memory = Map.empty, heap_maps = Map.empty \<rparr>"

definition no_maps :: bpf_map_ctx where
  "no_maps = \<lparr> map_by_name = Map.empty, global_data = Map.empty \<rparr>"

lemma map_section_created:
  "\<exists>s'. do_map_relocation hash_alloc 0x400 map_section 28 (Some ''m'') 0 28 0 (no_maps, empty_heap) = Some (0x2000, s')"
  by (simp add: do_map_relocation_def map_section_read new_contents_def map_definition_def BPF_MAP_TYPE_HASH_def
      no_maps_def hash_alloc_def Let_def)

section \<open>A configured filter\<close>

definition elf_insns :: "ebpf_inst list" where
  "elf_insns = [
     \<lparr> opcode = EBPF_OP_MOV64_IMM, dst = 6, src = 0, offset = 0, imm = 5 \<rparr>,
     \<lparr> opcode = EBPF_OP_CALL, dst = 0, src = 1, offset = 0, imm = 1 \<rparr>,
     \<lparr> opcode = EBPF_OP_EXIT, dst = 0, src = 0, offset = 0, imm = 0 \<rparr>,
     \<lparr> opcode = EBPF_OP_MOV64_IMM, dst = 0, src = 0, offset = 0, imm = 7 \<rparr>,
     \<lparr> opcode = EBPF_OP_EXIT, dst = 0, src = 0, offset = 0, imm = 0 \<rparr>]"

lemma length_elf_insns: "length elf_insns = 5"
  by (simp add: elf_insns_def)

lemma elf_insns_bytes: "(take 40 (drop 72 sample_elf))[12 := 1] = bytes_of_insts elf_insns"
  by code_simp

lemma elf_insns_source: "source_insts (bytes_of_insts elf_insns) = elf_insns"
  by (simp add: length_bytes_of_insts length_elf_insns source_insts_exact insts_of_bytes_of_insts)

lemma upt_5: "[0..<5] = [0, 1, 2, 3, 4 :: nat]"
  by code_simp

lemma elf_insns_valid: "valid_program vm elf_insns"
  unfolding valid_program_list length_elf_insns
  using sample_opcodes groups_disjoint groups_disjoint(3) [of EBPF_OP_CALL] special_opcodes_distinct
  by (auto simp add: elf_insns_def valid_slot_def UBPF_MAX_INSTS_def upt_5
      valid_inst_at_def accepted_cases valid_call_def local_call_target_def Let_def)

lemma sample_relocation_sections:
  "map (relocation_sections (sample_file ''main'')) sample_sections =
     [Inr None, Inr None, Inr None, Inr (Some (sample_sections ! 1, sample_sections ! 2))]"
  by code_simp

lemma sample_find_relocation:
  "find_relocation (sample_file ''main'') sample_functions (sample_sections ! 1) (sample_sections ! 2) 184 =
     Inr (8, 0x200000002, sample_callee, hd sample_functions)"
  by code_simp

lemma sample_call_source: "inst_src (take 40 (drop 72 sample_elf)) 8 = Inr 1"
  by code_simp

lemma sample_relocate:
  "relocate_sections reloc vm (sample_file ''main'') sample_functions sample_sections (take 40 (drop 72 sample_elf)) s =
     (Inr ((take 40 (drop 72 sample_elf))[12 := 1]), s)"
proof -
  have main: "native_section_start (hd sample_functions) = 0" "linked_data (hd sample_functions) = 0"
    "landed (hd sample_functions) = 0"
    by (simp_all add: sample_functions_def)
  have one: "relocate_entries reloc vm (sample_file ''main'') sample_functions (sample_sections ! 1) (sample_sections ! 2) 184
      (Suc 0) (take 40 (drop 72 sample_elf)) s = (Inr ((take 40 (drop 72 sample_elf))[12 := 1]), s)"
    using sample_call_source sample_relocated
    by (simp add: relocate_entry_def sample_find_relocation apply_relocation_def Let_def R_BPF_64_64_def R_BPF_64_32_def
        main del: One_nat_def)
  obtain a b c d where secs: "sample_sections = [a, b, c, d]" and d: "sec_data d = 184" "unat (sec_size d div 16) = Suc 0"
    by (simp add: sample_sections_def)
  show ?thesis
    using one sample_relocation_sections by (simp add: secs d relocate_section_def)
qed

lemma sample_link_and_relocate:
  "link_and_relocate reloc sample_alloc vm sample_elf (Some ''main'') s = (Inr (bytes_of_insts elf_insns), s)"
  by (simp add: link_and_relocate_def sample_open sample_link sample_file_sections sample_relocate elf_insns_bytes)

text \<open>
  The environment of a configuration: signatures are required, and the key accepts the contents of a
  file as its own signature.
\<close>

definition sample_setup :: element_setup where
  "sample_setup = \<lparr> setup_class = BPFilter, setup_target = Target_x86_64, setup_allocs = (True, True, True, True),
     setup_code = (\<lambda>_. 0x9000), setup_ctx = 0x3000 \<rparr>"

definition sample_crypto :: crypto where
  "sample_crypto = \<lparr> bio_ok = True, pubkey_ok = True, sha256 = Some, md_ctx_ok = True, verify_init_ok = True,
     digest_verify = (\<lambda>sig hash. sig = hash) \<rparr>"

definition sample_files :: files where
  "sample_files = [''p'' \<mapsto> sample_elf, ''s'' \<mapsto> sample_elf, ''bad'' \<mapsto> [0]]"

definition sample_cf :: configure_env where
  "sample_cf = \<lparr> cf_host = null_host, cf_setup = sample_setup, cf_verify = True, cf_crypto = sample_crypto,
     cf_files = sample_files, cf_files_later = sample_files, cf_relocation = map_callback hash_alloc 0,
     cf_elf_alloc = sample_alloc, cf_insts = (0x1000, \<lambda>_. value_to_inst 0, True),
     cf_jit = \<lparr> env_register_map = [], env_allocs = (True, True, True, True, True), env_locs = (0, 0, 0, 0),
       env_helper_offset = 0, env_mode = BasicJitMode \<rparr>,
     cf_os = \<lparr> page_size = 4096, page_map = (\<lambda>_ _. 0), page_set_attr = (\<lambda>_ _. 0), os_calloc = (\<lambda>_. True) \<rparr>,
     cf_dump_size = 0, cf_can_write = (\<lambda>_. True) \<rparr>"

definition blank_element :: bpf_element where
  "blank_element = \<lparr> el_vm = None, el_id = 0, el_jit = False, el_dump_jit = False, el_file = [],
     el_signature_file = [], el_map_ctx = no_maps, el_jit_fn = 0 \<rparr>"

definition file_args :: "string \<Rightarrow> string \<Rightarrow> element_args" where
  "file_args file sig = \<lparr> arg_id = Some 1, arg_jit = None, arg_dump_jit = None, arg_file = Some file,
     arg_signature = Some sig \<rparr>"

lemma blank_element_wf: "wf_element blank_element"
  by (simp add: wf_element_def blank_element_def)

lemma sample_element_vm:
  "plain_vm (element_vm sample_setup)" "insts (element_vm sample_setup) = None"
  by (simp_all add: plain_vm_def element_vm_def fresh_vm_def)

lemma sample_element_load:
  "\<exists>vm'. ubpf_load null_host (element_vm sample_setup) (bytes_of_insts elf_insns) 0x1000 (\<lambda>_. value_to_inst 0) True =
     Some (0, vm', None)"
proof -
  obtain rc vm' msg where l: "ubpf_load null_host (element_vm sample_setup) (bytes_of_insts elf_insns) 0x1000
      (\<lambda>_. value_to_inst 0) True = Some (rc, vm', msg)" "rc = 0 \<longleftrightarrow> msg = None"
    using ubpf_load_total [OF element_vm_wf] by blast
  have "rc = 0"
    using ubpf_load_iff [OF element_vm_wf sample_element_vm(1), of "bytes_of_insts elf_insns" null_host
        "0x1000" "\<lambda>_. value_to_inst 0" True] l(1) sample_element_vm(2) elf_insns_valid
    by (auto simp: insts_of_bytes_of_insts length_bytes_of_insts length_elf_insns)
  with l show ?thesis by auto
qed

lemma sample_configured:
  "\<exists>el' w' fs. configure sample_cf [''c''] (Some (file_args ''p'' ''s'')) blank_element empty_heap =
     Some ([Wlock, Wunlock], el', w', fs, None)"
proof -
  have files: "read_file sample_files ''p'' = sample_elf" "read_file sample_files ''s'' = sample_elf"
    by (simp_all add: read_file_def sample_files_def)
  have nonempty: "sample_elf \<noteq> []" using length_sample_elf by auto
  have st: "setup_allocs sample_setup = (True, True, True, True)" by (simp add: sample_setup_def)
  obtain vm' where l: "ubpf_load null_host (element_vm sample_setup) (bytes_of_insts elf_insns) 0x1000
      (\<lambda>_. value_to_inst 0) True = Some (0, vm', None)"
    using sample_element_load by blast
  show ?thesis
    using init_ubpf_vm_ok [OF st] l files nonempty
    by (simp add: configure_def set_arguments_def or_else_def file_args_def blank_element_def sample_cf_def
        configure_locked_def ubpf_load_elf_ex_def sample_link_and_relocate check_bpf_verification_signature_def
        sample_crypto_def configure_jit_def Let_def)
qed

lemma sample_rejected:
  "\<exists>el' w' fs e. configure sample_cf [''c''] (Some (file_args ''bad'' ''s'')) blank_element empty_heap =
     Some ([Wlock], el', w', fs, Some (LoadFailed e))"
proof -
  have bad: "read_file sample_files ''bad'' = [0]" by (simp add: read_file_def sample_files_def)
  have st: "setup_allocs sample_setup = (True, True, True, True)" by (simp add: sample_setup_def)
  have "open_elf [0] (Some ''main'') = Inl (Elf_error NotEnoughData)" by code_simp
  then show ?thesis
    using init_ubpf_vm_ok [OF st] bad
    by (simp add: configure_def set_arguments_def or_else_def file_args_def blank_element_def sample_cf_def
        configure_locked_def ubpf_load_elf_ex_def link_and_relocate_def Let_def)
qed

section \<open>Packets\<close>

text \<open>A filter whose compiled program passes every packet.\<close>

definition pass_env :: run_env where
  "pass_env = \<lparr> run_host = null_host, run_calloc_ok = True, run_regs = (\<lambda>_. 0), run_jit = (\<lambda>_ _ _ m. Some (2, m)),
     run_ctx = 0x4000, run_padding = 0, run_stack = 0x5000, run_data = (\<lambda>p _. p), run_end_data = (\<lambda>p _. p + 64) \<rparr>"

definition pass_filter :: bp_filter where
  "pass_filter = \<lparr> el_vm = None, el_id = 0, el_jit = True, el_dump_jit = False, el_file = [],
     el_signature_file = [], el_map_ctx = no_maps, el_jit_fn = 0x80000000, filter_count = 17, filter_filtered = 3 \<rparr>"

lemma pass_filter_run:
  "\<exists>f' m'. filter_run pass_env [(0, 0x100), (0, 0x200)] (write_handler pass_filter) Map.empty =
     Some ([Rlock, Runlock, Output 0 0x100, Rlock, Runlock, Output 0 0x200], f', m')"
  by (simp add: BPFilter_push_eq exec_def pass_env_def pass_filter_def write_handler_def bpf_element.truncate_def
      XDP_PASS_def Let_def)

section \<open>A control packet\<close>

definition plain_string :: string_constructor where
  "plain_string m a n = (if 0 \<le> n then mem_read m a (nat n) else None)"

lemma plain_string_copies: "copies_bytes plain_string"
  by (simp add: copies_bytes_def plain_string_def)

definition sample_request :: control_request where
  "sample_request = \<lparr> req_id = 1, req_name = [112], req_signature = [115] \<rparr>"

definition udp_packet :: "u8 list" where
  "udp_packet = [0, 1, 0, 2] @ net16 41 @ [0, 0] @ encode_control sample_request"

definition udp_memory :: memory where
  "udp_memory = mem_alloc Map.empty 0x500 udp_packet"

definition udp_control :: control_packet where
  "udp_control = \<lparr> transport_header = 0x500, end_data = 0x529 \<rparr>"

lemma udp_packet_length: "length udp_packet = 41"
  by (simp add: udp_packet_def net16_def length_encode_control sample_request_def)

lemma udp_memory_read: "mem_read udp_memory 0x500 41 = Some udp_packet"
  using mem_read_alloc [of udp_packet Map.empty "0x500"] udp_packet_length by (simp add: udp_memory_def)

lemma udp_carries:
  "carries udp_control udp_memory sample_request"
  "mem_read udp_memory (transport_header udp_control + 4) 2 = Some (net16 41)"
proof -
  have "mem_read udp_memory 0x508 33 = Some (encode_control sample_request)"
    using mem_read_sub [OF udp_memory_read, of 8 33]
    by (simp add: udp_packet_def net16_def length_encode_control sample_request_def)
  then show "carries udp_control udp_memory sample_request"
    by (simp add: carries_def udp_control_def length_encode_control sample_request_def)
  show "mem_read udp_memory (transport_header udp_control + 4) 2 = Some (net16 41)"
    using mem_read_sub [OF udp_memory_read, of 4 2] by (simp add: udp_packet_def net16_def udp_control_def)
qed

end
