(* ===== verification/Click_Source.thy ===== *)
theory Click_Source
  imports Ubpf_Prelude
begin

text \<open>
  The packet generator \<open>InfiniteSource2\<close> (\<open>infinitesource2.[cc,hh]\<close>). Click is not part of this code:
  the parsed arguments, the checksum routines and the random numbers are parameters, and the calls on
  packets, tasks and notifiers are recorded in order. Counters have 64 bits; time stamps and
  annotations of packets are left out.
\<close>

section \<open>The element\<close>

datatype end_call = Stop_driver | Write_handler string

datatype source_event =
    Source_push "u8 list"
  | Source_kill "u8 list"
  | Fast_reschedule
  | Reschedule
  | End_call end_call
  | Initialize_task
  | Watch_downstream

record infinite_source =
  is_packet :: "u8 list option"
  is_burstsize :: u32
  is_limit :: u64
  is_count :: u64
  is_datasize :: u32
  is_active :: bool
  is_timestamp :: bool
  is_data :: "u8 list"
  is_sipaddr :: u32
  is_dipaddr :: u32
  is_end_h :: "end_call option"
  is_awake :: bool

text \<open>
  What the packet is made of besides: the uninitialised bytes of a new packet, the checksums of Click
  and the two random numbers.
\<close>

record packet_env =
  pe_fill :: "nat \<Rightarrow> u8"
  pe_cksum :: "u8 list \<Rightarrow> u16"
  pe_pseudohdr :: "u32 \<Rightarrow> u8 list \<Rightarrow> u16 \<Rightarrow> u16"
  pe_random :: "u32 \<times> u32"

section \<open>The packet\<close>

definition htons :: "u16 \<Rightarrow> u8 list" where
  "htons w = rev (le_bytes 2 w)"

definition source_ip_header :: "infinite_source \<Rightarrow> nat \<Rightarrow> u16 \<Rightarrow> u8 list" where
  "source_ip_header src len s =
     [0x45, 0] @ htons (of_nat len) @ [0, 0, 0, 0, 250, 17] @ le_bytes 2 s
       @ le_bytes 4 (is_sipaddr src) @ le_bytes 4 (is_dipaddr src)"

definition source_udp_header :: "packet_env \<Rightarrow> u16 \<Rightarrow> u16 \<Rightarrow> u8 list" where
  "source_udp_header env len s =
     le_bytes 2 (ucast (drop_bit 2 (fst (pe_random env)) mod 0xffff) :: u16)
       @ le_bytes 2 (ucast (drop_bit 2 (snd (pe_random env)) mod 0xffff) :: u16)
       @ htons len @ le_bytes 2 s"

definition source_length :: "infinite_source \<Rightarrow> nat" where
  "source_length src = (if sint (is_datasize src) < 0 then length (is_data src) else unat (is_datasize src))"

text \<open>
  The data of the final packet, which begins with the IP header. \<^const>\<open>None\<close>: it is too short for the
  headers, which are written outside it.
\<close>

definition source_packet :: "packet_env \<Rightarrow> infinite_source \<Rightarrow> u8 list option" where
  "source_packet env src =
     (let n = source_length src
      in if n < 28 then None
         else
           let ip = source_ip_header src n (pe_cksum env (source_ip_header src n 0));
               rest = map (pe_fill env) [42..<14 + n];
               len = (of_nat (n - 20) :: u16);
               csum = pe_cksum env (take (unat len) (source_udp_header env len 0 @ rest));
               udp = source_udp_header env len (pe_pseudohdr env (ucast csum) ip len)
           in Some (ip @ udp @ rest))"

definition setup_packet :: "packet_env \<Rightarrow> infinite_source \<Rightarrow> (source_event list \<times> infinite_source) option" where
  "setup_packet env src =
     (let killed = (case is_packet src of None \<Rightarrow> [] | Some p \<Rightarrow> [Source_kill p])
      in case source_packet env src of
           None \<Rightarrow> None
         | Some p \<Rightarrow> Some (killed, src\<lparr> is_packet := Some p \<rparr>))"

section \<open>Configuration\<close>

record source_args =
  sa_data :: "u8 list"
  sa_sipaddr :: u32
  sa_dipaddr :: u32
  sa_limit :: u64
  sa_burst :: u32
  sa_active :: bool
  sa_timestamp :: bool
  sa_datasize :: u32
  sa_stop :: bool
  sa_end :: "string option"

datatype source_error =
    Source_arguments
  | Burst_too_small
  | End_and_stop
  | End_handler
  | Not_an_integer
  | Not_a_boolean

text \<open>\<open>args\<close>: what the argument parser of Click stores, \<^const>\<open>None\<close> for an error it has reported.\<close>

definition source_configure :: "packet_env \<Rightarrow> source_args option \<Rightarrow> infinite_source \<Rightarrow>
  ((source_error + source_event list) \<times> infinite_source) option"
where
  "source_configure env args src =
     (case args of
        None \<Rightarrow> Some (Inl Source_arguments, src)
      | Some a \<Rightarrow>
          let src1 = src\<lparr> is_sipaddr := sa_sipaddr a, is_dipaddr := sa_dipaddr a \<rparr>
          in if sint (sa_burst a) < 1 then Some (Inl Burst_too_small, src1)
             else if sa_stop a \<and> sa_end a \<noteq> None then Some (Inl End_and_stop, src1)
             else
               map_option (\<lambda>(es, src2). (Inr es, src2))
                 (setup_packet env (src1\<lparr> is_data := sa_data a, is_datasize := sa_datasize a,
                    is_limit := sa_limit a, is_burstsize := sa_burst a, is_count := 0,
                    is_active := sa_active a, is_timestamp := sa_timestamp a,
                    is_end_h := (case sa_end a of Some h \<Rightarrow> Some (Write_handler h)
                      | None \<Rightarrow> if sa_stop a then Some Stop_driver else None) \<rparr>)))"

text \<open>\<open>write_ok\<close>: whether \<open>initialize_write\<close> of the end handler succeeds.\<close>

definition source_initialize :: "bool \<Rightarrow> bool \<Rightarrow> infinite_source \<Rightarrow> (source_error option \<times> source_event list)" where
  "source_initialize output_is_push write_ok src =
     (if is_end_h src \<noteq> None \<and> \<not> write_ok then Some End_handler else None,
      if output_is_push then [Initialize_task, Watch_downstream] else [])"

definition source_cleanup :: "infinite_source \<Rightarrow> source_event list" where
  "source_cleanup src = (case is_packet src of None \<Rightarrow> [] | Some p \<Rightarrow> [Source_kill p])"

section \<open>Generating packets\<close>

definition is_limited :: "infinite_source \<Rightarrow> bool" where
  "is_limited src \<longleftrightarrow> 0 \<le> sint (is_limit src)"

text \<open>The local variable \<open>n\<close>: sums and differences have 64 bits, the variable 32.\<close>

definition burst_count :: "infinite_source \<Rightarrow> u32" where
  "burst_count src =
     (if is_limited src \<and> is_limit src \<le> is_count src + scast (is_burstsize src)
      then if is_limit src < is_count src then 0 else ucast (is_limit src - is_count src)
      else is_burstsize src)"

definition call_end :: "infinite_source \<Rightarrow> source_event list" where
  "call_end src = (case is_end_h src of None \<Rightarrow> [] | Some h \<Rightarrow> [End_call h])"

text \<open>\<open>nonfull\<close>: the signal of the elements downstream. \<^const>\<open>None\<close>: there is no packet to clone.\<close>

definition source_run_task :: "bool \<Rightarrow> infinite_source \<Rightarrow> (bool \<times> source_event list \<times> infinite_source) option" where
  "source_run_task nonfull src =
     (if \<not> is_active src \<or> \<not> nonfull then Some (False, [], src)
      else
        let n = burst_count src; src' = src\<lparr> is_count := is_count src + scast n \<rparr>
        in if 0 < sint n then
             map_option (\<lambda>p. (True, replicate (nat (sint n)) (Source_push p) @ [Fast_reschedule], src')) (is_packet src)
           else Some (False,
             if is_limited src \<and> is_limit src \<le> is_count src' then call_end src else [], src'))"

text \<open>The packet returned, the events and the element.\<close>

definition source_pull :: "infinite_source \<Rightarrow> (u8 list option \<times> source_event list \<times> infinite_source) option" where
  "source_pull src =
     (if \<not> is_active src then Some (None, [], src\<lparr> is_awake := False \<rparr>)
      else if is_limited src \<and> is_limit src \<le> is_count src
        then Some (None, call_end src, src\<lparr> is_awake := False \<rparr>)
      else map_option (\<lambda>p. (Some p, [], src\<lparr> is_count := is_count src + 1 \<rparr>)) (is_packet src))"

section \<open>Handlers\<close>

text \<open>The value of a handler after parsing, \<^const>\<open>None\<close> when Click cannot parse it.\<close>

datatype source_param =
    H_data "u8 list"
  | H_limit "u32 option"
  | H_burst "u32 option"
  | H_active "bool option"
  | H_reset
  | H_length "u32 option"

definition restart :: "bool \<Rightarrow> bool \<Rightarrow> infinite_source \<Rightarrow> source_event list \<times> infinite_source" where
  "restart output_is_push scheduled src =
     (if is_active src \<and> (\<not> is_limited src \<or> is_count src < is_limit src)
      then (if output_is_push \<and> \<not> scheduled then [Reschedule] else [],
            if output_is_push then src else src\<lparr> is_awake := True \<rparr>)
      else ([], src))"

fun set_param :: "packet_env \<Rightarrow> source_param \<Rightarrow> infinite_source \<Rightarrow>
  (source_error + source_event list \<times> infinite_source) option"
where
  "set_param env (H_data d) src = map_option Inr (setup_packet env (src\<lparr> is_data := d \<rparr>))"
| "set_param env (H_limit l) src =
     Some (case l of None \<Rightarrow> Inl Not_an_integer | Some v \<Rightarrow> Inr ([], src\<lparr> is_limit := scast v \<rparr>))"
| "set_param env (H_burst b) src =
     Some (case b of None \<Rightarrow> Inl Burst_too_small
       | Some v \<Rightarrow> if sint v < 1 then Inl Burst_too_small else Inr ([], src\<lparr> is_burstsize := v \<rparr>))"
| "set_param env (H_active a) src =
     Some (case a of None \<Rightarrow> Inl Not_a_boolean | Some v \<Rightarrow> Inr ([], src\<lparr> is_active := v \<rparr>))"
| "set_param env H_reset src = Some (Inr ([], src\<lparr> is_count := 0 \<rparr>))"
| "set_param env (H_length l) src =
     (case l of None \<Rightarrow> Some (Inl Not_an_integer)
      | Some v \<Rightarrow> map_option Inr (setup_packet env (src\<lparr> is_datasize := v \<rparr>)))"

definition change_param :: "packet_env \<Rightarrow> bool \<Rightarrow> bool \<Rightarrow> source_param \<Rightarrow> infinite_source \<Rightarrow>
  (source_error + source_event list \<times> infinite_source) option"
where
  "change_param env output_is_push scheduled param src =
     map_option (\<lambda>r. case r of
         Inl e \<Rightarrow> Inl e
       | Inr (es, src1) \<Rightarrow> let (es', src2) = restart output_is_push scheduled src1 in Inr (es @ es', src2))
       (set_param env param src)"

section \<open>The packet has the requested length\<close>

lemma source_packet_length: "source_packet env src = Some p \<Longrightarrow> length p = source_length src"
  by (auto simp: source_packet_def source_ip_header_def source_udp_header_def htons_def Let_def split: if_splits)

lemma source_packet_total: "28 \<le> source_length src \<longleftrightarrow> source_packet env src \<noteq> None"
  by (simp add: source_packet_def Let_def not_less)

lemma source_packet_version: "source_packet env src = Some p \<Longrightarrow> p ! 0 = 0x45 \<and> p ! 9 = 17"
  by (auto simp: source_packet_def source_ip_header_def htons_def Let_def nth_append split: if_splits)

section \<open>The limit\<close>

text \<open>The rest of the limit and the size of a burst, as numbers.\<close>

abbreviation (input) burst_of :: "infinite_source \<Rightarrow> nat" where "burst_of src \<equiv> unat (is_burstsize src)"
abbreviation (input) left_of :: "infinite_source \<Rightarrow> nat" where "left_of src \<equiv> unat (is_limit src) - unat (is_count src)"

definition within_limit :: "infinite_source \<Rightarrow> bool" where
  "within_limit src \<longleftrightarrow> is_limited src \<and> is_count src \<le> is_limit src \<and> 1 \<le> sint (is_burstsize src)"

lemma nonneg_bound: "0 \<le> sint w \<Longrightarrow> unat w < 2 ^ (LENGTH('a) - 1)" for w :: "'a :: len word"
proof -
  assume "0 \<le> sint w"
  then have "int (unat w) < int (2 ^ (LENGTH('a) - 1))" using sint_nonneg_unat [of w] sint_lt [of w] by simp
  then show ?thesis by (simp only: of_nat_less_iff)
qed

lemma small_sint: "unat w < 2 ^ 31 \<Longrightarrow> sint w = int (unat w) \<and> unat (scast w :: u64) = unat w" for w :: u32
proof -
  assume a: "unat w < 2 ^ 31"
  then have "int (unat w) < int (2 ^ 31)" by (simp only: of_nat_less_iff)
  then have "uint w < 2 ^ 31" by simp
  moreover have "- (2 ^ 31) \<le> uint w" by (rule order_trans [OF _ uint_ge_0]) simp
  ultimately have i: "sint w = int (unat w)" by (simp add: sint_uint signed_take_bit_int_eq_self)
  then have "(scast w :: u64) = of_nat (unat w)"
    by (metis of_int_of_nat_eq of_int_sint)
  then show ?thesis using i a by (simp add: unsigned_ucast_eq take_bit_nat_eq_self)
qed

lemma burst_count_within:
  assumes "within_limit src"
  shows "unat (burst_count src) = min (burst_of src) (left_of src)"
    "unat (is_count src + scast (burst_count src)) = unat (is_count src) + min (burst_of src) (left_of src)"
    "sint (burst_count src) = int (min (burst_of src) (left_of src))"
proof -
  have L: "unat (is_limit src) < 2 ^ 63" using assms nonneg_bound [of "is_limit src"] by (simp add: within_limit_def is_limited_def)
  have b: "burst_of src < 2 ^ 31" using assms nonneg_bound [of "is_burstsize src"] by (simp add: within_limit_def)
  have c: "unat (is_count src) \<le> unat (is_limit src)" using assms by (simp add: within_limit_def word_le_nat_alt)
  have sum: "unat (is_count src + scast (is_burstsize src)) = unat (is_count src) + burst_of src"
    using L b c small_sint [OF b] by (simp add: unat_word_ariths)
  show u: "unat (burst_count src) = min (burst_of src) (left_of src)"
  proof (cases "unat (is_limit src) \<le> unat (is_count src) + burst_of src")
    case True
    have "unat (ucast (is_limit src - is_count src) :: u32) = left_of src"
      using True b c by (simp add: unsigned_ucast_eq take_bit_nat_eq_self unat_sub word_le_nat_alt)
    with True assms c show ?thesis
      by (simp add: burst_count_def within_limit_def word_le_nat_alt word_less_nat_alt sum)
  next
    case False
    with assms show ?thesis by (simp add: burst_count_def within_limit_def word_le_nat_alt sum)
  qed
  then have n: "unat (burst_count src) < 2 ^ 31" using b by simp
  show "unat (is_count src + scast (burst_count src)) = unat (is_count src) + min (burst_of src) (left_of src)"
    using L c small_sint [OF n] by (simp add: unat_word_ariths u)
  show "sint (burst_count src) = int (min (burst_of src) (left_of src))" using small_sint [OF n] u by simp
qed

fun is_push :: "source_event \<Rightarrow> bool" where
  "is_push (Source_push p) = True"
| "is_push e = False"

text \<open>The task run \<open>k\<close> times while the elements downstream accept packets.\<close>

fun source_runs :: "nat \<Rightarrow> infinite_source \<Rightarrow> (source_event list \<times> infinite_source) option" where
  "source_runs 0 src = Some ([], src)"
| "source_runs (Suc k) src =
     (case source_run_task True src of
        None \<Rightarrow> None
      | Some (_, es, src1) \<Rightarrow> map_option (\<lambda>(es', src2). (es @ es', src2)) (source_runs k src1))"

lemma run_task_within:
  assumes "within_limit src" "is_active src" "is_packet src = Some p"
  defines "n \<equiv> min (burst_of src) (left_of src)"
  obtains es src' where "source_run_task True src = Some (0 < n, es, src')"
    "filter is_push es = replicate n (Source_push p)" "unat (is_count src') = unat (is_count src) + n"
    "src' = src\<lparr> is_count := is_count src' \<rparr>" "within_limit src'"
proof -
  let ?src = "src\<lparr> is_count := is_count src + scast (burst_count src) \<rparr>"
  note b = burst_count_within [OF assms(1), folded n_def]
  have "unat (is_count ?src) \<le> unat (is_limit src)"
    using b(2) assms(1) by (auto simp: n_def within_limit_def word_le_nat_alt)
  then have w: "within_limit ?src" using assms(1) by (simp add: within_limit_def is_limited_def word_le_nat_alt)
  have "filter is_push (replicate n (Source_push p) @ [Fast_reschedule]) = replicate n (Source_push p)"
    "filter is_push (call_end src) = []" "filter is_push [] = []"
    by (simp_all add: call_end_def split: option.split)
  then show ?thesis
    using assms(2,3) w b that [of _ ?src] by (cases "n = 0") (auto simp: source_run_task_def Let_def)
qed

lemma min_steps: "min b (l - c) + min m (l - (c + min b (l - c))) = min (b + m) (l - c)" for b c l m :: nat
  by (cases "b \<le> l - c") auto

lemma source_runs_within:
  assumes "within_limit src" "is_active src" "is_packet src = Some p"
  shows "\<exists>es src'. source_runs k src = Some (es, src') \<and>
    filter is_push es = replicate (min (k * burst_of src) (left_of src)) (Source_push p) \<and>
    unat (is_count src') = unat (is_count src) + min (k * burst_of src) (left_of src)"
  using assms
proof (induction k arbitrary: src)
  case (Suc k)
  let ?n = "min (burst_of src) (left_of src)"
  from run_task_within [OF Suc.prems] obtain es src1 where 1:
    "source_run_task True src = Some (0 < ?n, es, src1)" "filter is_push es = replicate ?n (Source_push p)"
    "unat (is_count src1) = unat (is_count src) + ?n" "src1 = src\<lparr> is_count := is_count src1 \<rparr>" "within_limit src1" .
  have same: "is_burstsize src1 = is_burstsize src" "is_limit src1 = is_limit src" "is_active src1" "is_packet src1 = Some p"
    using Suc.prems(2,3) by (subst 1(4), simp)+
  from Suc.IH [OF 1(5) same(3,4)] obtain es' src2 where 2: "source_runs k src1 = Some (es', src2)"
    "filter is_push es' = replicate (min (k * burst_of src) (left_of src1)) (Source_push p)"
    "unat (is_count src2) = unat (is_count src1) + min (k * burst_of src) (left_of src1)"
    unfolding same by blast
  have "?n + min (k * burst_of src) (left_of src1) = min (Suc k * burst_of src) (left_of src)"
    unfolding same(2) 1(3) mult_Suc by (rule min_steps)
  with 1 2 show ?case by (simp add: replicate_add [symmetric])
qed simp

end
