(* ===== verification/Click_Devices.thy ===== *)
theory Click_Devices
  imports Ubpf_Prelude
begin

text \<open>
  The elements that exchange packets with network devices: \<open>fromdevice.[cc,hh]\<close> and \<open>todevice.[cc,hh]\<close>.
  The device driver and Click are not part of this code. What they return is a parameter, and the
  calls that hand over packets or change a device are recorded in order. A packet is its data.
\<close>

section \<open>Events and status\<close>

datatype device_event =
    Push "u8 list"
  | Checked_push int "u8 list"
  | Transmit "u8 list"
  | Free_buffer "u8 list"
  | Configure_rx nat
  | Configure_tx nat
  | Start_device
  | Enable_interrupt
  | Disable_interrupt
  | Device_task
  | Yield
  | Task_reschedule
  | Task_fast_reschedule

datatype device_error =
    Device_arguments
  | Negative_id
  | No_device
  | Rx_queue
  | Tx_queue
  | Device_start
  | Rx_interrupt

text \<open>The status macros of the driver interface.\<close>

record status_tests =
  status_notready :: "int \<Rightarrow> bool"
  status_more :: "int \<Rightarrow> bool"

text \<open>The fields of both classes; the device handle and the information on it are one value.\<close>

record device_info =
  ioalign :: u16
  nb_encap_rx :: u16

record device_element =
  de_devid :: u32
  de_dev :: "device_info option"

definition DESC_COUNT :: nat where "DESC_COUNT = 0x100"
definition BUFSIZE :: nat where "BUFSIZE = 2048"

text \<open>
  The common \<open>configure\<close>. \<open>arg\<close> is what the argument parser stores: \<^const>\<open>None\<close> for an error, otherwise the
  device number if one is given.
\<close>

definition device_configure :: "(u32 \<Rightarrow> device_info option) \<Rightarrow> u32 option option \<Rightarrow> device_element \<Rightarrow>
  device_error option \<times> device_element"
where
  "device_configure netdev_get arg el =
     (let el0 = el\<lparr> de_devid := 0 \<rparr>
      in case arg of
           None \<Rightarrow> (Some Device_arguments, el0)
         | Some given \<Rightarrow>
             let devid = (case given of None \<Rightarrow> 0 | Some v \<Rightarrow> v); el1 = el0\<lparr> de_devid := devid \<rparr>
             in if sint devid < 0 then (Some Negative_id, el1)
                else let el2 = el1\<lparr> de_dev := netdev_get devid \<rparr>
                     in (if netdev_get devid = None then Some No_device else None, el2))"

section \<open>FromDevice\<close>

text \<open>
  \<open>take_packets\<close>: each entry of the list is what one call of \<open>uk_netdev_rx_one\<close> returns, the status and the
  data of the buffer. \<^const>\<open>None\<close>: the driver reports an error, which stops the unikernel, or the list ends
  before the loop does.
\<close>

fun take_packets :: "status_tests \<Rightarrow> (int \<times> u8 list) list \<Rightarrow> device_event list option" where
  "take_packets t [] = None"
| "take_packets t ((ret, buf) # rx) =
     (if ret < 0 then None
      else if status_notready t ret then Some []
      else if status_more t ret then map_option (\<lambda>es. Push buf # Free_buffer buf # es) (take_packets t rx)
      else Some [Push buf, Free_buffer buf])"

text \<open>The interrupt callback and the handler \<open>reset\<close>.\<close>

definition click_fromdevice_rx_callback :: "status_tests \<Rightarrow> (int \<times> u8 list) list \<Rightarrow> device_event list option" where
  "click_fromdevice_rx_callback t rx = take_packets t rx"

definition reset_write_handler :: "status_tests \<Rightarrow> (int \<times> u8 list) list \<Rightarrow> (int \<times> device_event list) option" where
  "reset_write_handler t rx = map_option (\<lambda>es. (0, es)) (take_packets t rx)"

text \<open>Buffers for the receive queue: the list says which allocations succeed.\<close>

fun alloc_rxpkts :: "bool list \<Rightarrow> nat \<Rightarrow> nat \<Rightarrow> nat" where
  "alloc_rxpkts (True # oks) (Suc n) i = alloc_rxpkts oks n (Suc i)"
| "alloc_rxpkts oks n i = i"

definition netdev_alloc_rxpkts :: "bool list \<Rightarrow> u16 \<Rightarrow> nat list" where
  "netdev_alloc_rxpkts oks count = replicate (alloc_rxpkts oks (unat count) 0) BUFSIZE"

text \<open>The results of the driver calls in \<open>initialize\<close>.\<close>

record start_results =
  rc_rxq :: int
  rc_txq :: int
  rc_start :: int
  rc_intr :: int

definition fromdevice_initialize :: "status_tests \<Rightarrow> start_results \<Rightarrow> (int \<times> u8 list) list \<Rightarrow>
  (device_error option \<times> device_event list) option"
where
  "fromdevice_initialize t rc rx =
     (if rc_rxq rc \<noteq> 0 then Some (Some Rx_queue, [Configure_rx DESC_COUNT])
      else if rc_txq rc \<noteq> 0 then Some (Some Tx_queue, [Configure_rx DESC_COUNT, Configure_tx DESC_COUNT])
      else if rc_start rc \<noteq> 0 then Some (Some Device_start, [Configure_rx DESC_COUNT, Configure_tx DESC_COUNT, Start_device])
      else if rc_intr rc < 0 then
        Some (Some Rx_interrupt, [Configure_rx DESC_COUNT, Configure_tx DESC_COUNT, Start_device, Enable_interrupt])
      else map_option (\<lambda>es. (None, [Configure_rx DESC_COUNT, Configure_tx DESC_COUNT, Start_device, Enable_interrupt] @ es
               @ [Device_task, Task_reschedule]))
             (if 0 < rc_intr rc then take_packets t rx else Some []))"

definition fromdevice_cleanup :: "bool \<Rightarrow> device_event list" where
  "fromdevice_cleanup initialized = (if initialized then [Disable_interrupt] else [])"

definition fromdevice_run_task :: "bool \<times> device_event list" where
  "fromdevice_run_task = (False, [Yield, Task_fast_reschedule])"

section \<open>ToDevice\<close>

definition todevice_initialize :: "bool \<Rightarrow> device_event list" where
  "todevice_initialize input_is_pull = (if input_is_pull then [Device_task, Task_reschedule] else [])"

text \<open>
  The loop of \<open>push\<close> over the results of \<open>uk_netdev_tx_one\<close>; the result is what the following calls return.
  \<^const>\<open>None\<close>: the loop is still running at the end of the list.
\<close>

fun transmit :: "status_tests \<Rightarrow> int list \<Rightarrow> int list option" where
  "transmit t [] = None"
| "transmit t (ret # tx) = (if status_notready t ret then transmit t tx else Some tx)"

text \<open>What is left of the environment: which allocations succeed and what the driver returns.\<close>

record tx_env =
  tx_alloc :: "bool list"
  tx_status :: "int list"

definition todevice_push :: "status_tests \<Rightarrow> int \<Rightarrow> u8 list \<Rightarrow> tx_env \<Rightarrow> (device_event list \<times> tx_env) option" where
  "todevice_push t port p env =
     (case tx_alloc env of
        [] \<Rightarrow> None
      | False # oks \<Rightarrow> Some ([], env\<lparr> tx_alloc := oks \<rparr>)
      | True # oks \<Rightarrow>
          map_option (\<lambda>tx. ([Transmit p, Checked_push port p], env\<lparr> tx_alloc := oks, tx_status := tx \<rparr>))
            (transmit t (tx_status env)))"

text \<open>
  \<open>input(0).pull()\<close> on the packets waiting upstream; then the loop of \<open>run_task\<close> with \<open>n\<close> rounds left and the
  packet \<open>p\<close> in hand. The result is what was done, what is still in hand, and what still waits.
\<close>

definition pull_input :: "u8 list list \<Rightarrow> u8 list option \<times> u8 list list" where
  "pull_input waiting = (case waiting of [] \<Rightarrow> (None, []) | p # ps \<Rightarrow> (Some p, ps))"

fun todevice_loop :: "status_tests \<Rightarrow> nat \<Rightarrow> u8 list option \<Rightarrow> u8 list list \<Rightarrow> tx_env \<Rightarrow>
  (device_event list \<times> u8 list option \<times> u8 list list \<times> tx_env) option"
where
  "todevice_loop t (Suc n) (Some p) waiting env =
     (case todevice_push t 0 p env of
        None \<Rightarrow> None
      | Some (es, env1) \<Rightarrow>
          let (p', waiting') = pull_input waiting
          in map_option (\<lambda>(es', r). (es @ es', r)) (todevice_loop t n p' waiting' env1))"
| "todevice_loop t n p waiting env = Some ([], p, waiting, env)"

text \<open>
  The loop has its own variable \<open>i\<close>: the one that is compared at the end is still 0. The packet in
  hand is not used any more.
\<close>

definition todevice_run_task :: "status_tests \<Rightarrow> u8 list list \<Rightarrow> tx_env \<Rightarrow>
  (bool \<times> device_event list \<times> u8 list option \<times> u8 list list \<times> tx_env) option"
where
  "todevice_run_task t waiting env =
     (let (p, waiting1) = pull_input waiting
      in map_option (\<lambda>(es, in_hand, rest, env'). (False, es @ [Task_fast_reschedule], in_hand, rest, env'))
           (todevice_loop t 128 p waiting1 env))"

section \<open>What becomes of the packets\<close>

fun transmitted :: "device_event list \<Rightarrow> u8 list list" where
  "transmitted [] = []"
| "transmitted (Transmit p # es) = p # transmitted es"
| "transmitted (e # es) = transmitted es"

lemma transmitted_append [simp]: "transmitted (es @ es') = transmitted es @ transmitted es'"
  by (induction es rule: transmitted.induct) simp_all

text \<open>An environment in which \<open>n\<close> packets can be sent: every buffer is allocated, every packet accepted at once.\<close>

definition ready :: "status_tests \<Rightarrow> nat \<Rightarrow> tx_env \<Rightarrow> bool" where
  "ready t n env \<longleftrightarrow> n \<le> length (tx_alloc env) \<and> (\<forall>ok \<in> set (take n (tx_alloc env)). ok) \<and>
     n \<le> length (tx_status env) \<and> (\<forall>s \<in> set (take n (tx_status env)). \<not> status_notready t s)"

lemma ready_push:
  assumes "ready t (Suc n) env"
  obtains env' where "todevice_push t port p env = Some ([Transmit p, Checked_push port p], env')" "ready t n env'"
proof -
  obtain oks s tx where "tx_alloc env = True # oks" "tx_status env = s # tx" "\<not> status_notready t s"
    using assms by (cases "tx_alloc env"; cases "tx_status env") (auto simp: ready_def)
  with assms that [of "env\<lparr> tx_alloc := oks, tx_status := tx \<rparr>"] show ?thesis
    by (auto simp: todevice_push_def ready_def)
qed

lemma todevice_loop_sends:
  assumes "ready t n env"
  shows "\<exists>es env'. todevice_loop t n (Some p) waiting env =
      Some (es, if n \<le> length waiting then Some ((p # waiting) ! n) else None, drop n waiting, env') \<and>
    transmitted es = take n (p # waiting)"
  using assms
proof (induction n arbitrary: p waiting env)
  case (Suc n)
  from ready_push [OF Suc.prems, of 0 p] obtain env1 where 1:
    "todevice_push t 0 p env = Some ([Transmit p, Checked_push 0 p], env1)" "ready t n env1" .
  show ?case
  proof (cases waiting)
    case Nil
    then show ?thesis using 1 by (cases n) (simp_all add: pull_input_def)
  next
    case (Cons q qs)
    from Suc.IH [OF 1(2), of q qs] obtain es env' where
      "todevice_loop t n (Some q) qs env1 =
        Some (es, if n \<le> length qs then Some ((q # qs) ! n) else None, drop n qs, env')"
      "transmitted es = take n (q # qs)" by blast
    with 1 Cons show ?thesis by (simp add: pull_input_def)
  qed
qed simp

lemma todevice_run_sends:
  assumes "ready t 128 env"
  shows "\<exists>es env'. todevice_run_task t waiting env =
      Some (False, es, if 128 < length waiting then Some (waiting ! 128) else None, drop 129 waiting, env') \<and>
    transmitted es = take 128 waiting"
proof (cases waiting)
  case Nil
  then show ?thesis by (simp add: todevice_run_task_def pull_input_def numeral_eq_Suc)
next
  case (Cons p ps)
  with todevice_loop_sends [OF assms, of p ps] show ?thesis
    by (auto simp: todevice_run_task_def pull_input_def drop_Cons' simp del: todevice_loop.simps)
qed

text \<open>Every packet that is received is handed on once, in order, and its buffer is freed.\<close>

fun received :: "device_event list \<Rightarrow> u8 list list" where
  "received [] = []"
| "received (Push p # es) = p # received es"
| "received (e # es) = received es"

lemma take_packets_order:
  "take_packets t rx = Some es \<Longrightarrow> \<exists>n \<le> length rx. received es = map snd (take n rx) \<and>
     es = concat (map (\<lambda>(_, p). [Push p, Free_buffer p]) (take n rx))"
proof (induction t rx arbitrary: es rule: take_packets.induct)
  case (2 t ret buf rx)
  show ?case
  proof (cases "0 \<le> ret \<and> \<not> status_notready t ret")
    case False
    with 2 show ?thesis by (intro exI [of _ 0]) (auto split: if_splits)
  next
    case True
    show ?thesis
    proof (cases "status_more t ret")
      case True
      with 2 \<open>0 \<le> ret \<and> _\<close> obtain es' n where "es = Push buf # Free_buffer buf # es'" "n \<le> length rx"
        "received es' = map snd (take n rx)" "es' = concat (map (\<lambda>(_, p). [Push p, Free_buffer p]) (take n rx))"
        by fastforce
      then show ?thesis by (intro exI [of _ "Suc n"]) simp
    next
      case False
      with 2 True show ?thesis by (intro exI [of _ 1]) auto
    qed
  qed
qed simp

end
