(* ===== verification/Spec2Isabelle.thy ===== *)
theory Spec2Isabelle
  imports Jit_Sample Bpf_Sample Click_Source Click_Devices
begin

text \<open>
  Verification of the eBPF part of a Click unikernel: the uBPF virtual machine
  (\<open>src/libs/ubpf/vm\<close>), the helpers and maps it offers to programs (\<open>src/libs/ubpf/helper\<close>) and the
  Click elements that run programs on packets (\<open>src/libs/click/unikraft\<close>).

  \<^bold>\<open>The program.\<close> An element (\<open>BPFilter\<close>, \<open>BPFClassifier\<close>, \<open>BPFRewriter\<close>) owns a \<open>struct ubpf_vm\<close>. Its
  \<open>configure\<close> reads an ELF file, links the functions in it into one program, resolves references to
  maps through a callback, validates and stores the program, checks a signature and may compile it
  to x86-64. Its \<open>push\<close> runs the program on each packet, interpreted or compiled, and acts on the
  verdict. \<open>Control\<close> receives packets that make an element load another program. \<open>FromDevice\<close>, \<open>ToDevice\<close>
  and \<open>InfiniteSource2\<close> bring packets into the router and out of it.

  \<^bold>\<open>Theories and sources.\<close>
  \<^item> \<open>Ubpf_Prelude\<close>: the word types, little-endian bytes, and the locale \<open>byte_store\<close> of byte-addressed
    storage, interpreted by the memory of the process (a partial function on 64-bit addresses) and
    by the code buffer.
  \<^item> \<open>Ebpf_ISA\<close>: \<open>ebpf.h\<close>. \<open>Ubpf_VM\<close>: the object, its setters and registration functions (\<open>ubpf_int.h\<close>,
    \<open>ubpf_vm.c\<close>). \<open>Jit_Buffer\<close>: the hooks that patch pointers in generated code.
  \<^item> \<open>Ubpf_Validate\<close>, \<open>Ubpf_Load\<close>: \<open>validate\<close> and \<open>ubpf_load\<close>; \<open>valid_program\<close> is the specification of
    accepted programs, \<open>loaded\<close> says that an object holds one.
  \<^item> \<open>Ubpf_Memory\<close>, \<open>Ubpf_Exec\<close>: loads, stores, bounds check, shadow state, and the interpreter;
    \<open>exec_step\<close> is the body of its loop and \<open>exec_loop\<close> the loop, a partial function into an option.
  \<^item> \<open>Ubpf_Run\<close>, \<open>Ubpf_Safety\<close>, \<open>Ubpf_Control\<close>, \<open>Ubpf_Alu\<close>, \<open>Ubpf_Uninit\<close>: theory of the interpreter. The
    locale \<open>exec_invariant\<close> lifts an invariant of the step to runs; it is interpreted for the call
    frames, the program counter and memory safety.
  \<^item> \<open>Jit_Support\<close>, \<open>Jit_X86_Emit\<close>, \<open>Jit_X86\<close>, \<open>Ubpf_Jit\<close>: the JIT (\<open>ubpf_jit_support.[ch]\<close>,
    \<open>ubpf_jit_x86_64.[ch]\<close>, \<open>ubpf_jit.c\<close>) in the state monad over its compilation state.
  \<^item> \<open>Jit_A64_Emit\<close>, \<open>Jit_A64\<close>: the AArch64 back end \<open>ubpf_jit_arm64.c\<close> over the same state, for a
    little-endian target and with assertions enabled. \<open>Jit_A64_Encode\<close>, \<open>Jit_A64_Machine\<close>: what the
    move-wide and data processing instructions it emits compute, after the architecture manual.
    \<open>Jit_A64_Alu\<close>: the code for arithmetic instructions against the interpreter.
  \<^item> \<open>Jit_Grow\<close>, \<open>Jit_Translate\<close>, \<open>Jit_Resolve\<close>, \<open>Jit_Layout\<close>, \<open>Jit_Encode\<close>: theory of the JIT. The locales
    \<open>jit_seq\<close> and \<open>jit_relation\<close> carry relations between compilation states through sequences and
    branches; they are interpreted for the tables, for growth of the code within a budget and for
    exact output.
  \<^item> \<open>Ubpf_Loader\<close>: \<open>ubpf_loader.c\<close> over the bytes of the file. \<open>Elf_Safety\<close>, \<open>Elf_Link\<close>: its theory.
  \<^item> \<open>Ubpf_Api\<close>: every function of the library that changes the object as a step of a transition system.
  \<^item> \<open>Bpf_Maps\<close>: \<open>bpf_helpers.cc\<close>. The locale \<open>key_value_store\<close> states what a map promises; it is
    interpreted for hash maps.
  \<^item> \<open>Bpf_Element\<close>, \<open>Bpf_Behaviour\<close>: \<open>bpfelement.cc\<close>, \<open>bpfilter.cc\<close>, \<open>bpfclassifier.cc\<close>,
    \<open>bpfrewriter.cc\<close> and their theory. \<open>Bpf_Control\<close>: \<open>control.cc\<close>.
  \<^item> \<open>Click_Source\<close>: the packet generator \<open>infinitesource2.cc\<close>. \<open>Click_Devices\<close>: \<open>fromdevice.cc\<close> and
    \<open>todevice.cc\<close>.
  \<^item> \<open>Ubpf_Sample\<close>, \<open>Jit_Sample\<close>, \<open>Elf_Sample\<close>, \<open>Bpf_Sample\<close>: small programs, files, heaps and packets on
    which the hypotheses of the theorems are discharged.

  \<^bold>\<open>State and errors.\<close> A structure is a record, an enumeration a datatype, an integer a word of its
  width. A function that changes the object returns the new one. Error messages are values of a
  datatype per component. Undefined behaviour, a crash or a call that does not return is a value of
  its own: \<open>Crashed\<close> and \<^const>\<open>None\<close> in the interpreter, \<open>Elf_undefined\<close> in the ELF loader, \<open>comp_crash\<close> in
  the JIT, \<^const>\<open>None\<close> elsewhere. Results of \<open>malloc\<close>, contents of uninitialised variables, system calls
  and callbacks are arguments. Locks and packets belong to Click and Unikraft: the calls made on
  them are recorded as a list of events.

  \<^bold>\<open>What is shown.\<close> The interpreter: memory safety of accepted programs with the bounds check, the
  instruction limit and termination, the calling convention, independence of uninitialised
  registers, arithmetic against its specification. Validation and loading: exact acceptance, and
  what a load stores. Memory: loads after stores, the bounds check, the shadow stack. The JIT: that
  compilation succeeds when the program fits, the layout and size of the code, resolution of every
  relative address, operand encoding, immediates and arithmetic on AArch64, and patching of pointers. The ELF
  loader: absence of undefined behaviour on well-formed files, layout, relocated calls. The
  interface: every reachable object is well-formed. Maps: hash maps implement mathematical maps, and maps keep their names.
  The application: the lock and the signature in a configuration, conservation of packets, control
  packets, the limit of the packet source and the bursts of the network output. Some theorems show
  defects of the source: they state exactly when it goes wrong.

  \<^bold>\<open>Bounds.\<close> The interpreter has no fuel: \<open>exec_loop\<close> is \<^const>\<open>None\<close> for an infinite run, and with an
  instruction limit it is shown to return. All other loops are recursions that end.

  \<^bold>\<open>Not modelled.\<close> What the generated instructions compute, beyond the decoding of the operands on
  x86-64 and the arithmetic on AArch64. The element \<open>ipfilter2\<close>, a copy of Click's filter
  that is a baseline for measurements and rests on classes of Click outside the repository; the
  element \<open>stringmatcher\<close> with the vendored automaton library, which the build leaves out; the element
  \<open>print2\<close>, which only writes to the console; the start of the unikernel in \<open>click.cc\<close>; the offline
  verifier, the example programs and the benchmarks. Text written to the console and time stamps
  are left out of every function.
\<close>

section \<open>The interpreter\<close>

text \<open>
  C1: With the bounds check enabled, running a program that was accepted by \<open>ubpf_load\<close> never makes
  the process fault or abort, whatever the program does: the run ends with a value or an error. Every
  byte outside the memory and stack passed to the call, the addresses the bounds-check callback
  grants and the addresses \<open>H\<close> the helpers write is unchanged, and no address becomes unmapped.
\<close>

theorem exec_memory_safe:
  assumes "safe_call h vm insns args H m" "ubpf_exec_ex h vm calloc_ok regs0 args m = Some stop"
  shows "(\<exists>v m'. stop = Returned v m' \<and> changed_within (allowed h vm args \<union> H) m m') \<or>
    (\<exists>e m'. stop = Failed e m' \<and> changed_within (allowed h vm args \<union> H) m m')"
  using exec_safe [OF assms] by (cases stop) auto

theorem exec_memory_safe_witness:
  "\<exists>stop. ubpf_exec_ex null_host (sample_vm 100 True) True (\<lambda>_. 0) sample_args sample_memory = Some stop \<and>
     ((\<exists>v m'. stop = Returned v m' \<and>
        changed_within (allowed null_host (sample_vm 100 True) sample_args \<union> {}) sample_memory m') \<or>
      (\<exists>e m'. stop = Failed e m' \<and>
        changed_within (allowed null_host (sample_vm 100 True) sample_args \<union> {}) sample_memory m'))"
proof -
  obtain stop where run: "ubpf_exec_ex null_host (sample_vm 100 True) True (\<lambda>_. 0) sample_args
      sample_memory = Some stop"
    using sample_run by blast
  show ?thesis
    by (intro exI [of _ stop] conjI run exec_memory_safe [OF sample_safe run])
qed

text \<open>
  C2: With an instruction limit set, \<open>ubpf_exec_ex\<close> returns for every program, loaded or not, every
  input and every behaviour of the helpers.
\<close>

theorem exec_limited_terminates:
  assumes "instruction_limit vm \<noteq> 0"
  shows "\<exists>stop. ubpf_exec_ex h vm calloc_ok regs0 args m = Some stop"
  by (rule exec_returns [OF assms])

theorem exec_limited_terminates_witness:
  "\<exists>stop. ubpf_exec_ex null_host (sample_vm 100 False) True (\<lambda>_. 0) sample_args sample_memory = Some stop"
  using exec_limited_terminates [of "sample_vm 100 False"] by (simp add: sample_limit)

text \<open>
  C3: A program accepted by \<open>ubpf_load\<close> whose local calls do not enter the second slot of an LDDW
  never reaches an opcode the interpreter does not know nor a call by BTF id: the remaining failures
  are those of run-time checks and of running off the end of the program.
\<close>

theorem exec_no_unknown_opcode:
  assumes "loaded vm insns" "entries_on_boundary insns"
    and "ubpf_exec_ex h vm calloc_ok regs0 args m = Some stop"
  shows "stop \<noteq> Failed (UnknownOpcodeAt opc pc) m' \<and> stop \<noteq> Failed BtfCall m'"
  using exec_checked [OF assms] by (auto simp: checked_stop_def)

theorem exec_no_unknown_opcode_witness:
  "\<exists>stop. ubpf_exec_ex null_host (sample_vm 100 True) True (\<lambda>_. 0) sample_args sample_memory = Some stop \<and>
     stop \<noteq> Failed (UnknownOpcodeAt 0 0) sample_memory \<and> stop \<noteq> Failed BtfCall sample_memory"
proof -
  obtain stop where run: "ubpf_exec_ex null_host (sample_vm 100 True) True (\<lambda>_. 0) sample_args
      sample_memory = Some stop"
    using sample_run by blast
  show ?thesis
    by (intro exI [of _ stop] conjI run exec_no_unknown_opcode [OF sample_loaded sample_entries run])
qed

text \<open>
  C4: The calling convention of local functions. When a call at depth \<open>d\<close> enters a function, and the
  run comes back to depth \<open>d\<close> for the first time, execution continues after the call and
  \<open>r6\<close> to \<open>r9\<close> hold what they held at the call, whatever the function and those it calls did.
\<close>

theorem local_call_preserves:
  assumes "wf_frames st" "exec_step h vm args st = Inr st1"
    and "ex_frame_index st1 = Suc (ex_frame_index st)"
    and "exec_steps_above h vm args (ex_frame_index st) n st1 st2"
    and "exec_step h vm args st2 = Inr st3" "ex_frame_index st3 = ex_frame_index st"
  shows "ex_pc st3 = ex_pc st + 1 \<and> (\<forall>r \<in> {6, 7, 8, 9}. ex_reg st3 r = ex_reg st r)"
  using call_and_return [OF assms] by blast

theorem local_call_preserves_witness:
  "\<exists>st st1 st2 st3. exec_step null_host call_vm sample_args st = Inr st1 \<and>
     exec_steps_above null_host call_vm sample_args (ex_frame_index st) (Suc 0) st1 st2 \<and>
     ex_reg st2 6 = 0 \<and> exec_step null_host call_vm sample_args st2 = Inr st3 \<and>
     ex_pc st3 = 1 \<and> ex_reg st3 6 = 5"
proof -
  obtain st st1 st2 st3 where run: "wf_frames st" "ex_pc st = 0" "ex_reg st 6 = 5"
    "exec_step null_host call_vm sample_args st = Inr st1"
    "ex_frame_index st1 = Suc (ex_frame_index st)"
    "exec_steps_above null_host call_vm sample_args (ex_frame_index st) (Suc 0) st1 st2"
    "ex_reg st2 6 = 0" "exec_step null_host call_vm sample_args st2 = Inr st3"
    "ex_frame_index st3 = ex_frame_index st"
    using call_run by blast
  have "ex_pc st3 = 1 \<and> ex_reg st3 6 = 5"
    using local_call_preserves [OF run(1,4,5,6,8,9)] run(2,3) by simp
  with run show ?thesis by blast
qed

text \<open>
  C5: With the undefined-behaviour check enabled, a program without calls behaves the same whatever
  the uninitialised register array held: the result, the memory and the error do not depend on it.
\<close>

theorem exec_ignores_uninitialised_registers:
  assumes "undefined_behavior_check_enabled vm" "call_free vm"
  shows "ubpf_exec_ex h vm calloc_ok regs0 args m = ubpf_exec_ex h vm calloc_ok regs1 args m"
  by (rule exec_regs_irrelevant [OF assms])

theorem exec_ignores_uninitialised_registers_witness:
  "ubpf_exec_ex null_host straight_vm True (\<lambda>_. 0) sample_args sample_memory =
   ubpf_exec_ex null_host straight_vm True (\<lambda>_. 0xDEAD) sample_args sample_memory"
  by (rule exec_ignores_uninitialised_registers [OF straight_vm_ub straight_vm_call_free])



text \<open>
  C7: The limit is a \<open>uint32_t\<close> argument kept in an \<open>int\<close>: a limit of \<open>2 ^ 31\<close> or more makes every
  run of a loaded, nonempty program fail before its first instruction.
\<close>

theorem exec_huge_limit_fails:
  assumes "loaded vm insns" "insns \<noteq> []" "2 ^ 31 \<le> unat (instruction_limit vm)"
  shows "ubpf_exec_ex h vm True regs0 args m = Some (Failed InstructionLimitReached m)"
proof -
  have "\<not> 0 \<le> sint (instruction_limit vm)"
  proof
    assume "0 \<le> sint (instruction_limit vm)"
    moreover have "sint (instruction_limit vm) < 2147483648"
      using sint_lt [of "instruction_limit vm"] by simp
    moreover have "2147483648 \<le> unat (instruction_limit vm)" using assms(3) by simp
    ultimately show False using sint_nonneg_unat [of "instruction_limit vm"] by linarith
  qed
  moreover have "instruction_limit vm \<noteq> 0" using assms(3) by auto
  moreover have "0 < num_insts vm" "insts vm \<noteq> None"
    using assms(1,2) by (auto simp: loaded_def word_less_nat_alt)
  ultimately have "exec_step h vm args (initial_state vm args regs0 m) =
      Inl (Failed InstructionLimitReached m)"
    by (auto simp: exec_step_def exec_head_def initial_state_def)
  then show ?thesis using \<open>insts vm \<noteq> None\<close> by (simp add: ubpf_exec_ex_def exec_loop_stop)
qed

theorem exec_huge_limit_fails_witness:
  "loaded (sample_vm 0x80000000 False) sample_insns \<and>
   ubpf_exec_ex null_host (sample_vm 0x80000000 False) True (\<lambda>_. 0) sample_args sample_memory =
     Some (Failed InstructionLimitReached sample_memory)"
  using exec_huge_limit_fails [OF sample_loaded] sample_loaded
  by (simp add: sample_limit sample_insns_def)

section \<open>Validation and loading\<close>

text \<open>
  C8: For an object without an external dispatcher or a stack usage callback, \<open>validate\<close>
  accepts exactly the valid programs: fewer than 65536 slots, each slot a valid instruction or the
  second half of an LDDW, every jump and local call inside the program, no jump to itself or into
  an LDDW, every external call registered, and register fields in range.
\<close>

theorem validate_accepts_iff:
  assumes "plain_vm vm"
  shows "snd (validate h vm insns) = None \<longleftrightarrow> valid_program vm insns"
  using validate_sound [of h vm insns] validate_complete [OF _ assms, of insns h]
  by (cases "validate h vm insns") auto

theorem validate_accepts_iff_witness:
  "plain_vm (fresh_vm Target_x86_64) \<and>
   snd (validate null_host (fresh_vm Target_x86_64) sample_insns) = None"
  using validate_accepts_iff [OF fresh_vm_plain] fresh_vm_plain sample_valid by simp

text \<open>
  C9: A successful load leaves the program in the object: each slot can be fetched back exactly, the
  number of slots is recorded, the marks of local functions are the targets of the local calls, the
  program is valid and the object well formed.
\<close>

theorem load_stores_program:
  assumes "wf_vm vm" "ubpf_load h vm code base garbage calloc_ok = Some (0, vm', msg)"
  shows "loaded vm' (source_insts code)"
  by (rule ubpf_load_ok [OF assms])

theorem load_stores_program_witness:
  "\<exists>vm' msg. ubpf_load null_host (fresh_vm Target_x86_64) (bytes_of_insts sample_insns) 0x1000
     (\<lambda>_. value_to_inst 0) True = Some (0, vm', msg) \<and> loaded vm' sample_insns"
  using sample_load load_stores_program [OF fresh_vm_wf] sample_bytes(2) by metis

text \<open>
  C10: Loading succeeds exactly when nothing is loaded yet, the length is a multiple of eight, the
  program is valid and both allocations succeed (no dispatcher, no stack usage callback); otherwise
  it reports an error and the result \<open>-1\<close>. It never writes outside its arrays.
\<close>

theorem load_succeeds_iff:
  assumes "wf_vm vm" "plain_vm vm" "length code < 2 ^ 32"
  shows "\<exists>rc vm' msg. ubpf_load h vm code base garbage calloc_ok = Some (rc, vm', msg) \<and>
    (rc = 0 \<longleftrightarrow> insts vm = None \<and> length code mod 8 = 0 \<and>
       valid_program vm (insts_of_bytes code) \<and> base \<noteq> 0 \<and> calloc_ok) \<and>
    (rc \<noteq> 0 \<longrightarrow> rc = - 1 \<and> msg \<noteq> None)"
  by (rule ubpf_load_iff [OF assms])

theorem load_succeeds_iff_witness:
  "\<exists>vm' msg. ubpf_load null_host (fresh_vm Target_x86_64) (bytes_of_insts sample_insns) 0x1000
     (\<lambda>_. value_to_inst 0) True = Some (0, vm', msg)"
proof -
  have "insts (fresh_vm Target_x86_64) = None" by (simp add: fresh_vm_def)
  then show ?thesis
    using load_succeeds_iff [OF fresh_vm_wf fresh_vm_plain, of "bytes_of_insts sample_insns" null_host
        Target_x86_64 "0x1000" "\<lambda>_. value_to_inst 0" True] sample_bytes(1) sample_valid
    by (auto simp: insts_of_bytes_of_insts)
qed

text \<open>
  C11: The instruction store is a map with obfuscated contents: what was stored at a slot is fetched
  back there, and every other slot is unchanged.
\<close>

theorem fetch_after_store:
  assumes "ubpf_store_instruction vm p inst = Some vm'"
  shows "ubpf_fetch_instruction vm' q =
    (if q = p then Some inst else ubpf_fetch_instruction vm q)"
  using fetch_store_same [OF assms] fetch_store_other [OF assms] by simp

theorem fetch_after_store_witness:
  "\<exists>vm'. ubpf_store_instruction straight_vm 1 (value_to_inst 0) = Some vm' \<and>
     ubpf_fetch_instruction vm' 1 = Some (value_to_inst 0)"
proof -
  obtain vm' where "ubpf_store_instruction straight_vm 1 (value_to_inst 0) = Some vm'"
    by (simp add: ubpf_store_instruction_def straight_vm_def)
  with fetch_after_store [OF this] show ?thesis by simp
qed

section \<open>Arithmetic\<close>

text \<open>
  C12: Every 32-bit arithmetic instruction, written in the source on 64-bit registers with masks, is
  the operation of the instruction set on 32-bit integers (division by zero gives zero, remainder by
  zero the dividend, shifts are modulo 32), zero-extended: the upper halves of the operands never
  matter.
\<close>

theorem alu32_is_32_bit:
  "exec_alu32 opc d s im = map_option ucast (alu32_spec opc (ucast d) (ucast s) im)"
  by (rule exec_alu32_spec)

text \<open>
  The byte swaps: converting twice to big endian keeps the low 16, 32 or 64 bits, converting to
  little endian is truncation.
\<close>

lemma endian_involutive:
  assumes "im \<in> {16, 32, 64}"
  shows "Option.bind (exec_endian EBPF_OP_BE d im) (\<lambda>v. exec_endian EBPF_OP_BE v im) =
      exec_endian EBPF_OP_LE d im \<and>
    exec_endian EBPF_OP_LE d im = Some (take_bit (unat im) d)"
  using assms special_opcodes_distinct(1)
  by (auto simp: exec_endian_def htobe_htobe htole_eq)

lemma endian_involutive_sample:
  "Option.bind (exec_endian EBPF_OP_BE 0x11223344 16) (\<lambda>v. exec_endian EBPF_OP_BE v 16) =
     exec_endian EBPF_OP_LE 0x11223344 16"
  using endian_involutive [of 16 "0x11223344"] by simp

section \<open>Memory accesses\<close>

text \<open>
  C13: A load of 1, 2, 4 or 8 bytes at any alignment returns the low bytes of the value last stored
  there with the same size, zero-extended.
\<close>

theorem load_after_store:
  assumes "n \<in> access_sizes" "ubpf_mem_store m a v n = Inr m'"
  shows "ubpf_mem_load m' a n = Inr (take_bit (8 * n) v)"
  by (rule ubpf_mem_load_store [OF assms])

theorem load_after_store_witness:
  "\<exists>m'. ubpf_mem_store sample_memory 0x2003 0x1122334455 4 = Inr m' \<and>
     ubpf_mem_load m' 0x2003 4 = Inr (take_bit 32 0x1122334455)"
proof -
  obtain m' where store: "ubpf_mem_store sample_memory 0x2003 0x1122334455 4 = Inr m'"
    using sample_store by blast
  with load_after_store [OF _ store] show ?thesis by simp
qed

text \<open>
  C14: A store changes no byte outside the bytes it covers, so a load of other bytes is unaffected;
  a store of a supported size succeeds exactly when every byte it covers is mapped.
\<close>

theorem store_frame:
  assumes "n \<in> access_sizes" "k \<in> access_sizes" "region a n \<inter> region b k = {}"
  shows "(case ubpf_mem_store m a v n of
      Inr m' \<Rightarrow> (\<forall>x \<in> region a n. m x \<noteq> None) \<and> ubpf_mem_load m' b k = ubpf_mem_load m b k
    | Inl c \<Rightarrow> c = Fault \<and> (\<exists>x \<in> region a n. m x = None))"
  by (rule ubpf_mem_store_cases [OF assms])

theorem store_frame_witness:
  "\<exists>m'. ubpf_mem_store sample_memory 0x2003 0x1122334455 4 = Inr m' \<and>
     ubpf_mem_load m' 0x2007 8 = ubpf_mem_load sample_memory 0x2007 8"
proof -
  obtain m' where store: "ubpf_mem_store sample_memory 0x2003 0x1122334455 4 = Inr m'"
    using sample_store by blast
  moreover have "region 0x2003 4 \<inter> region 0x2007 8 = {}" by (auto simp: region_iff_nowrap)
  ultimately show ?thesis
    using store_frame [of 4 8 "0x2003" "0x2007" sample_memory "0x1122334455"] by simp
qed

text \<open>
  C15: The bounds check grants an access exactly when it is disabled, or the accessed bytes do not wrap
  around the address space and lie inside the program's memory, inside its stack, or are granted by
  the callback.
\<close>

theorem bounds_check_grants_iff:
  assumes "object_fits mem mem_len" "object_fits stack stack_len" "n \<in> access_sizes"
  shows "bounds_check h vm a n ty pc mem mem_len stack stack_len = None \<longleftrightarrow>
    \<not> bounds_check_enabled vm \<or> unat a + n < 2 ^ 64 \<and>
      (region a n \<subseteq> region mem (unat mem_len) \<or> region a n \<subseteq> region stack (unat stack_len) \<or>
       bounds_check_function vm \<noteq> 0 \<and>
       call_bounds_check h (bounds_check_function vm) (bounds_check_user_data vm) a (of_nat n))"
  by (rule bounds_check_None_iff [OF assms])

theorem bounds_check_grants_iff_witness:
  "object_fits 0 0 \<and> object_fits 0x2000 512 \<and>
   bounds_check null_host (sample_vm 0 False) 0x21f8 8 Load_access 0 0 0 0x2000 512 = None \<and>
   bounds_check null_host (sample_vm 0 False) 0x21f9 8 Load_access 0 0 0 0x2000 512 \<noteq> None"
proof -
  have fits: "object_fits 0 0" "object_fits 0x2000 512" by (simp_all add: object_fits_def)
  have "region 0x21f8 8 \<subseteq> region 0x2000 (unat (512 :: u64))" "\<not> region 0x21f9 8 \<subseteq> region 0x2000 (unat (512 :: u64))"
    "\<not> region 0x21f9 8 \<subseteq> region 0 (unat (0 :: u64))"
    using region_subset_iff [OF fits(2), of 8 "0x21f8"] region_subset_iff [OF fits(2), of 8 "0x21f9"]
      region_subset_iff [OF fits(1), of 8 "0x21f9"] by simp_all
  moreover have "bounds_check_enabled (sample_vm 0 False)" "bounds_check_function (sample_vm 0 False) = 0"
    by (simp_all add: sample_vm_def fresh_vm_def)
  ultimately show ?thesis
    using fits bounds_check_grants_iff [OF fits, of 8 null_host "sample_vm 0 False" "0x21f8" Load_access 0]
      bounds_check_grants_iff [OF fits, of 8 null_host "sample_vm 0 False" "0x21f9" Load_access 0]
    by simp
qed

text \<open>
  C16: The shadow stack tracks a set of initialised stack bytes: marking an access adds its bytes when
  they lie in the stack, and a check succeeds exactly when the access is not inside the stack or all
  its bytes have been marked. Neither leaves the shadow array.
\<close>

theorem shadow_stack_tracks_bytes:
  assumes "undefined_behavior_check_enabled vm" "object_fits stack len" "8 * length ss = unat len"
    and "n \<in> access_sizes" "k \<in> access_sizes"
  shows "\<exists>ss'. ubpf_mark_shadow_stack vm stack len ss a n = Some ss' \<and> length ss' = length ss \<and>
    ubpf_check_shadow_stack vm stack len ss' b k =
      Some (region b k \<subseteq> region stack (unat len) \<longrightarrow>
        region b k \<subseteq> initialised_bytes stack ss \<union>
          (if region a n \<subseteq> region stack (unat len) then region a n else {}))"
  by (rule mark_then_check [OF assms])

theorem shadow_stack_tracks_bytes_witness:
  "\<exists>ss'. ubpf_mark_shadow_stack (sample_vm 0 True) 0x2000 512 (replicate 64 0) 0x2010 8 = Some ss' \<and>
     ubpf_check_shadow_stack (sample_vm 0 True) 0x2000 512 ss' 0x2014 4 = Some True"
proof -
  have "region 0x2014 4 \<subseteq> region 0x2010 8" "region 0x2010 8 \<subseteq> region 0x2000 512"
    by (auto simp: region_iff_nowrap)
  moreover have "undefined_behavior_check_enabled (sample_vm 0 True)" by (simp add: sample_vm_def)
  ultimately show ?thesis
    using shadow_stack_tracks_bytes [of "sample_vm 0 True" "0x2000" 512 "replicate 64 0" 8 4 "0x2010" "0x2014"]
    by (auto simp: object_fits_def)
qed

section \<open>The JIT compiler for x86-64\<close>

text \<open>
  C17: Compilation succeeds for every loaded program that fits: one without a local function at PC
  257, for which \<open>623 + 117 n\<close> bytes are available. The object then holds executable code that
  embeds the registered functions and the dispatcher.
\<close>

theorem jit_compiles:
  assumes "loaded vm insns" "jit_callable insns" "jit_backend vm = Target_x86_64" "willing env k vm"
    and "unat (jitter_buffer_size vm) + 16 < 2 ^ 32" "jitted vm = None"
    and "code_bound (length insns) \<le> unat (jitter_buffer_size vm)"
    and "code_bound (length insns) \<le> UBPF_MAX_INSTS"
  shows "\<exists>vm'. ubpf_compile_ex env k vm mode = Some (Inr jit_code_address, vm') \<and> embedded vm' \<and>
    jit_mode (jitted_result vm') = mode"
  using compile_ok [OF assms(1-5,7,8)] assms(6) by blast

theorem jit_compiles_witness:
  "\<exists>vm'. ubpf_compile_ex sample_env sample_os (sample_vm 0 False) BasicJitMode =
     Some (Inr jit_code_address, vm') \<and> embedded vm' \<and> jit_mode (jitted_result vm') = BasicJitMode"
  by (rule jit_compiles [OF sample_loaded sample_callable])
    (simp_all add: sample_vm_jit sample_willing sample_bound UBPF_MAX_INSTS_def)

text \<open>
  C18: The layout of the generated code. The translation reports success without an error message;
  the code is followed by the dispatcher's address and the table of the 64 registered functions at
  the offsets in the result record, and ends with that table; its size is at most \<open>623 + 117 n\<close>.
\<close>

theorem jit_code_layout:
  assumes "loaded vm insns" "jit_callable insns" "length buffer = unat sz" "unat sz + 16 < 2 ^ 32"
    and "code_bound (length insns) \<le> unat sz" "code_bound (length insns) \<le> UBPF_MAX_INSTS"
  shows "let c = ubpf_translate_x86_64 rm (True, True, True, True, True) locs0 h0 vm buffer sz mode in
    comp_crash c = None \<and> compile_result (comp_result c) = UBPF_JIT_COMPILE_SUCCESS \<and>
    errmsg (comp_result c) = None \<and> unat (comp_size c) \<le> code_bound (length insns) \<and>
    unat (external_helper_offset (comp_result c)) = unat (external_dispatcher_offset (comp_result c)) + 8 \<and>
    unat (comp_size c) = unat (external_helper_offset (comp_result c)) + 8 * MAX_EXT_FUNCS \<and>
    buf_read (comp_buf c) (unat (external_dispatcher_offset (comp_result c))) 8 = Some (le_bytes 8 (dispatcher vm)) \<and>
    (\<forall>i < MAX_EXT_FUNCS. buf_read (comp_buf c) (unat (external_helper_offset (comp_result c)) + 8 * i) 8 =
       Some (le_bytes 8 (ext_funcs vm ! i)))"
proof -
  have fs: "length (ext_funcs vm) = MAX_EXT_FUNCS" using assms(1) by (simp add: loaded_def wf_vm_def)
  note c = translate_x86_64_ok [OF assms, of rm locs0 h0 mode]
  show ?thesis
    using c(1-3,5,6) read_pointers [OF fs c(5,8)] by (simp add: Let_def pointer_layout_def MAX_EXT_FUNCS_def)
qed

theorem jit_code_layout_witness:
  "let c = ubpf_translate_x86_64 register_map (True, True, True, True, True) (0, 0, 0, 0) 0 (sample_vm 0 False)
     (replicate 4096 0) 4096 BasicJitMode in compile_result (comp_result c) = UBPF_JIT_COMPILE_SUCCESS \<and>
     unat (comp_size c) \<le> 1559"
  using jit_code_layout [OF sample_loaded [of 0 False] sample_callable, of "replicate 4096 0" 4096 register_map
      "(0, 0, 0, 0)" 0 BasicJitMode]
  by (simp add: sample_bound UBPF_MAX_INSTS_def Let_def)

text \<open>
  C19: After compilation, registering a function at an index below 63 or a dispatcher succeeds and
  the generated code embeds the new address, the others being kept.
\<close>

theorem jit_register_updates:
  assumes "embedded vm" "unat idx < 63" "\<And>x n p. 0 \<le> mprotect h x n p"
  shows "(\<exists>vm'. ubpf_register h vm idx name fn = Some (0, vm') \<and> embedded vm' \<and>
      ext_funcs vm' = (ext_funcs vm)[unat idx := fn]) \<and>
    (\<exists>vm'. ubpf_register_external_dispatcher h vm fn v = Some (0, vm') \<and> embedded vm' \<and> dispatcher vm' = fn)"
  using register_embedded [OF assms] register_dispatcher_embedded [OF assms(1,3)] by blast

theorem jit_register_updates_witness:
  "\<exists>vm vm'. embedded vm \<and> ubpf_register null_host vm 5 ''helper'' 0x1234 = Some (0, vm') \<and> embedded vm' \<and>
     ext_funcs vm' = (ext_funcs vm)[5 := 0x1234]"
proof -
  obtain vm where emb: "embedded vm" using sample_embedded by blast
  have "unat (5 :: u32) < 63" by simp
  from jit_register_updates [OF emb this null_host_protect, of "''helper''" "0x1234" 0] emb
  show ?thesis by auto
qed

text \<open>
  C20: The comparison in the update hook is strict: registering the last function, number 63, after
  compilation fails and leaves the generated code with the old address, while the object has the new.
\<close>

theorem jit_last_helper_not_updated:
  assumes "embedded vm" "\<And>x n p. 0 \<le> mprotect h x n p"
  shows "\<exists>vm'. ubpf_register h vm 63 name fn = Some (- 1, vm') \<and> jitted vm' = jitted vm \<and>
    ext_funcs vm' = (ext_funcs vm)[63 := fn]"
  by (rule register_last_fails [OF assms])

theorem jit_last_helper_not_updated_witness:
  "\<exists>vm vm'. embedded vm \<and> ubpf_register null_host vm 63 ''helper'' 0x1234 = Some (- 1, vm') \<and> jitted vm' = jitted vm"
  using sample_embedded jit_last_helper_not_updated [OF _ null_host_protect, of _ "''helper''" "0x1234"] by blast



text \<open>
  C22: The status is not looked at after the epilogue. In a buffer with room for the instructions but
  not for the pointers, \<open>translate\<close> runs out of space and still returns success.
\<close>

theorem jit_truncated_epilogue:
  assumes "loaded vm insns" "jit_callable insns" "fresh_jit st"
    and "60 + 117 * length insns \<le> unat (js_size st)" "unat (js_size st) < 520"
  shows "\<exists>st'. translate rm vm st = (0, st') \<and> js_status st' \<noteq> NoError"
  using assms by (rule translate_truncated)

theorem jit_truncated_epilogue_witness:
  "\<exists>st'. translate register_map straight_vm (jit_start 400) = (0, st') \<and> js_status st' \<noteq> NoError"
proof -
  have "fresh_jit (jit_start 400)" "unat (js_size (jit_start 400)) = 400" by (rule jit_start_fresh; simp)+
  then show ?thesis
    by (intro jit_truncated_epilogue [OF straight_loaded straight_callable]) (simp_all add: straight_insns_def)
qed



text \<open>
  C24: The memory operands of the eBPF registers. For every base register but \<open>r7\<close> the bytes decode to
  the base, the displacement and nothing more; \<open>r7\<close> is mapped to \<open>R12\<close>, whose number announces a SIB
  byte that is not emitted, and the operand takes a byte of the following instruction.
\<close>

theorem jit_memory_operands:
  assumes "r < 11"
  defines "m \<equiv> mapped register_map r"
  shows "\<exists>bs. writes bs (emit_modrm_and_displacement x m d) \<and>
    (\<forall>rest X. decode_memory X (m AND 8 \<noteq> 0) (bs @ rest) = Some (ucast (x AND 7), Mem (Some m) None d, rest)
       \<longleftrightarrow> r \<noteq> 7)"
proof -
  have m: "m < 16" "m AND 7 = 4 \<longleftrightarrow> r = 7" using register_map_base [OF assms(1)] by (simp_all add: m_def)
  show ?thesis
    using writes_displacement [of x m d] decode_memory_base [OF m(1)] decode_memory_sib [of m] m(2) by blast
qed

theorem jit_memory_operands_witness:
  "\<exists>bs. writes bs (emit_modrm_and_displacement RAX (mapped register_map 7) 8) \<and>
     decode_memory False (mapped register_map 7 AND 8 \<noteq> 0) (bs @ [0xc3]) \<noteq>
       Some (0, Mem (Some R12) None 8, [0xc3])"
proof -
  have "(7 :: 4 word) < 11" "mapped register_map 7 = R12" by (simp_all add: mapped_def register_map_def)
  with jit_memory_operands [of 7 RAX 8] show ?thesis by fastforce
qed

text \<open>
  The register map stays injective: with a nonnegative argument \<open>ubpf_set_register_offset\<close>
  permutes it, whatever \<open>rand_r\<close> returns.
\<close>

lemma register_map_permuted:
  assumes "0 \<le> sint x" "length rm = 11" "distinct rm"
  shows "\<exists>rm'. ubpf_set_register_offset rand_r rm x = Some rm' \<and> mset rm' = mset rm \<and> distinct rm'"
  using set_register_offset_mset [OF assms(2,1), of rand_r] assms(3) mset_eq_imp_distinct_iff by blast

lemma register_map_permuted_sample:
  "\<exists>rm'. ubpf_set_register_offset (\<lambda>s. (unat s, s + 1)) register_map 42 = Some rm' \<and>
     mset rm' = mset register_map \<and> distinct rm'"
  by (rule register_map_permuted) (simp_all add: register_map_def)

section \<open>The JIT compiler for AArch64\<close>

text \<open>
  C26: Immediates on AArch64. With room for them, \<open>emit_movewide_immediate\<close> appends at most four move-wide
  instructions (two for 32 bits) to the code; by the rules of the architecture manual they put the
  immediate, for a 32-bit operation its low half, into the register and change no other.
\<close>

theorem arm64_immediates:
  assumes "wf_jit st" "rd < 31" "unat (js_offset st) + (if sixty_four then 16 else 8) \<le> unat (js_size st)"
  shows "\<exists>is. jit_exec (emit_movewide_immediate sixty_four rd im) st = put_bytes (code_bytes is) st \<and>
    length is \<le> (if sixty_four then 4 else 2) \<and>
    (\<forall>R. a64_moves is R = Some (R(rd := if sixty_four then im else take_bit 32 im)))"
proof -
  have "unat (js_offset st) + 4 * (if sixty_four then 4 else 2) \<le> unat (js_size st)"
    using assms(3) by (simp split: if_splits)
  then show ?thesis
    using emit_movewide_exec [OF assms(1,2)] movewide_insts_length [of sixty_four rd im]
      movewide_insts_moves [OF assms(2), of sixty_four im]
    by (intro exI [of _ "movewide_insts sixty_four rd im"]) (simp add: trunc_width_def)
qed

theorem arm64_immediates_witness:
  "\<exists>is. jit_exec (emit_movewide_immediate True temp_register 0xffffffff12345678) (jit_start 64) =
      put_bytes (code_bytes is) (jit_start 64) \<and> length is \<le> 4 \<and>
    (\<forall>R. a64_moves is R = Some (R(temp_register := 0xffffffff12345678)))"
proof -
  have "wf_jit (jit_start 64)" "js_offset (jit_start 64) = 0" "unat (js_size (jit_start 64)) = 64"
    using jit_start_fresh [of 64] by (simp_all add: fresh_jit_def)
  then show ?thesis
    using arm64_immediates [of "jit_start 64" temp_register True "0xffffffff12345678"]
    by (simp add: temp_register_def)
qed

text \<open>
  C25: Arithmetic on AArch64. With room for it, the code that \<open>translate\<close> emits for an arithmetic
  instruction has at most six instructions and computes what the interpreter computes: started with the
  eBPF registers in the target registers assigned to them, it ends with the registers the interpreter
  leaves, for both widths, register and immediate operands, division by zero and shifts by any amount.
  A negation is right only if it names its destination as source.
\<close>

theorem arm64_arithmetic:
  assumes "opcode inst \<in> set arith_opcodes" "dst inst < 11" "src inst < 11"
    and "opcode inst \<in> {EBPF_OP_NEG, EBPF_OP_NEG64} \<Longrightarrow> src inst = dst inst"
    and "opcode inst \<in> {EBPF_OP_LE, EBPF_OP_BE} \<Longrightarrow> imm inst \<in> {16, 32, 64}"
    and "wf_jit st" "unat (js_offset st) + 24 \<le> unat (js_size st)"
  shows "\<exists>is. length is \<le> 6 \<and>
    jit_exec (translate_body_a64 vm i inst (mapped_a64 (dst inst)) (mapped_a64 (src inst)) t) st =
      put_bytes (code_bytes is) st \<and>
    (\<forall>ex R. holds (ex_reg ex) R \<longrightarrow>
       (\<exists>ex' R'. exec_arith inst ex = Some ex' \<and> a64_run is R = Some R' \<and> holds (ex_reg ex') R'))"
proof -
  from arith_code_correct [OF assms(1-5), of vm i t] obtain "is" where "length is \<le> 6"
    "assembles is (translate_body_a64 vm i inst (mapped_a64 (dst inst)) (mapped_a64 (src inst)) t)"
    "\<forall>ex R. holds (ex_reg ex) R \<longrightarrow>
       (\<exists>ex' R'. exec_arith inst ex = Some ex' \<and> a64_run is R = Some R' \<and> holds (ex_reg ex') R')" by auto
  with assms(6,7) show ?thesis unfolding assembles_def by (intro exI [of _ "is"]) simp
qed

theorem arm64_arithmetic_witness:
  "\<exists>is. length is \<le> 6 \<and>
    jit_exec (translate_body_a64 (fresh_vm Target_arm64) 0 \<lparr> opcode = EBPF_OP_MOD64_IMM, dst = 3, src = 0, offset = 0, imm = 10 \<rparr>
      (mapped_a64 3) (mapped_a64 0) 1) (jit_start 64) = put_bytes (code_bytes is) (jit_start 64) \<and>
    (\<forall>ex R. holds (ex_reg ex) R \<longrightarrow>
       (\<exists>ex' R'. exec_arith \<lparr> opcode = EBPF_OP_MOD64_IMM, dst = 3, src = 0, offset = 0, imm = 10 \<rparr> ex = Some ex' \<and>
          a64_run is R = Some R' \<and> holds (ex_reg ex') R'))"
proof -
  let ?inst = "\<lparr> opcode = EBPF_OP_MOD64_IMM, dst = 3, src = 0, offset = 0, imm = 10 \<rparr> :: ebpf_inst"
  have "wf_jit (jit_start 64)" "unat (js_offset (jit_start 64)) + 24 \<le> unat (js_size (jit_start 64))"
    using jit_start_fresh [of 64] by (simp_all add: fresh_jit_def)
  moreover have "opcode ?inst \<in> set arith_opcodes" by (simp add: arith_opcodes_def alu64_opcodes_def)
  ultimately have "\<exists>is. length is \<le> 6 \<and>
    jit_exec (translate_body_a64 (fresh_vm Target_arm64) 0 ?inst (mapped_a64 (dst ?inst)) (mapped_a64 (src ?inst)) 1)
      (jit_start 64) = put_bytes (code_bytes is) (jit_start 64) \<and>
    (\<forall>ex R. holds (ex_reg ex) R \<longrightarrow>
       (\<exists>ex' R'. exec_arith ?inst ex = Some ex' \<and> a64_run is R = Some R' \<and> holds (ex_reg ex') R'))"
    by (intro arm64_arithmetic) (simp_all add: opcode_values)
  then show ?thesis by (simp only: ebpf_inst.select_convs)
qed

section \<open>The ELF loader\<close>

text \<open>
  C27: On a well-formed file, whatever the relocation callback returns, the ELF loader stays within
  the file and its own arrays. It returns \<open>0\<close> without a message, and then the object holds a valid
  program, or \<open>-1\<close> with a message.
\<close>

theorem elf_load_defined:
  assumes "well_formed_elf al elf main_name" "total_callback reloc" "wf_vm vm"
  shows "\<exists>rc vm' msg s'. ubpf_load_elf_ex h reloc al vm elf main_name s base garbage calloc_ok = Some (rc, vm', msg, s') \<and>
    (rc = 0 \<longleftrightarrow> msg = None) \<and> (rc \<noteq> 0 \<longrightarrow> rc = - 1) \<and>
    (rc = 0 \<longrightarrow> (\<exists>linked. link_and_relocate reloc al vm elf main_name s = (Inr linked, s') \<and>
       loaded vm' (source_insts linked)))"
  using load_elf_defined [OF assms] load_elf_loaded [OF assms(3)] by metis

theorem elf_load_defined_witness:
  "\<exists>rc vm' msg. ubpf_load_elf_ex null_host null_relocation sample_alloc (fresh_vm Target_x86_64) sample_elf
     (Some ''main'') () 0x1000 (\<lambda>_. value_to_inst 0) True = Some (rc, vm', msg, ()) \<and> (rc = 0 \<longleftrightarrow> msg = None)"
  using elf_load_defined [OF sample_well_formed null_relocation_total fresh_vm_wf, of null_host Target_x86_64 "()"
      "0x1000" "\<lambda>_. value_to_inst 0" True] by auto

text \<open>
  C28: The layout of the linked program: the main function is first, at offset 0, and the bytes of
  every function are at the place recorded for it, before relocation.
\<close>

theorem elf_link_layout:
  assumes "well_formed_elf al elf main_name" "open_elf elf main_name = Inr (f, symbols, symtab_size)"
    and "link_elf al f symbols symtab_size = Inr (rfs, linked)"
  shows "rfs \<noteq> [] \<and> is_main f (hd rfs) = Inr True \<and> linked_data (hd rfs) = 0 \<and>
    (\<forall>rf \<in> set rfs. landed rf = linked_data rf div 8 \<and>
       take (unat (rf_size rf)) (drop (unat (linked_data rf)) linked) =
       take (unat (rf_size rf)) (drop (unat (native_data rf)) elf))"
proof -
  note ok = well_formed_opened [OF assms(1,2)]
  show ?thesis using link_elf_layout [OF ok(1,3-5) assms(3)] ok(2) by (auto simp: native_bytes_def)
qed

theorem elf_link_layout_witness:
  "is_main (sample_file ''main'') (hd sample_functions) = Inr True \<and>
   take 16 (drop 24 (take 40 (drop 72 sample_elf))) = take 16 (drop 96 sample_elf)"
  using elf_link_layout [OF sample_well_formed sample_open sample_link] by (simp add: sample_functions_def)



text \<open>
  The check of a section header covers the size of a pointer only. A file that ends within its
  first section header, after at least eight bytes of it, is read past its end.
\<close>

lemma elf_truncated_header:
  assumes "check_elf_header elf = Inr ehdr" "0 < e_shnum ehdr" "length elf < 2 ^ 63"
    and "unat (e_shoff ehdr) + 8 \<le> length elf" "length elf < unat (e_shoff ehdr) + 40"
  shows "ubpf_load_elf_ex h reloc al vm elf main_name s base garbage calloc_ok = None"
  using truncated_header_undefined [OF assms] by (simp add: ubpf_load_elf_ex_def link_and_relocate_def)

lemma elf_truncated_header_sample:
  "length short_elf = 72 \<and> ubpf_load_elf_ex null_host null_relocation sample_alloc (fresh_vm Target_x86_64)
     short_elf (Some ''main'') () 0x1000 (\<lambda>_. value_to_inst 0) True = None"
  using elf_truncated_header [OF short_header(1)] by (simp add: short_header(2))

text \<open>
  C30: The table of functions has one entry per symbol and the first is kept for the main function.
  When every symbol is a function and none the main function, the last is written past the table.
\<close>

theorem elf_function_table_overflow:
  assumes "list_all (other_function f) (symbol_offsets symbols 0 (total_symbols symtab_size))"
    and "0 < total_symbols symtab_size" "alloc_functions al" "\<And>k. alloc_function al k"
  shows "link_elf al f symbols symtab_size = Inl Elf_undefined"
  by (rule function_table_undefined [OF assms])

theorem elf_function_table_overflow_witness:
  "link_elf sample_alloc (sample_file ''x'') 136 48 = Inl Elf_undefined"
  by (rule elf_function_table_overflow [OF sample_other_functions])
    (simp_all add: sample_alloc_def other_symbols)

section \<open>The interface of the library\<close>



section \<open>Maps\<close>

text \<open>
  C32: The three helpers on a hash map, for a key and a value in readable memory and an allocator that
  returns unused memory: a lookup returns NULL or the address of the bytes stored under the key, an
  update stores a copy of the value, a delete removes the key; nothing else in the map changes.
\<close>

theorem hash_map_operations:
  assumes "wf_hash raw_map w" "heap_maps w raw_map = Some mp"
    and "mem_read (heap_memory w) key (unat (key_size (map_def mp))) = Some k"
    and "mem_read (heap_memory w) val (unat (value_size (map_def mp))) = Some v"
    and "free_block (heap_memory w) (malloc al (heap_memory w) (length v)) (length v)"
  shows "(\<exists>p. bpf_map_lookup_elem w raw_map key = Some p \<and>
      hash_abs raw_map w k = (if p = 0 then None else mem_read (heap_memory w) p (unat (value_size (map_def mp))))) \<and>
    (\<exists>w'. bpf_map_update_elem al w raw_map key val = Some (0, w') \<and> wf_hash raw_map w' \<and>
      hash_abs raw_map w' = (hash_abs raw_map w)(k \<mapsto> v)) \<and>
    (\<exists>w'. bpf_map_delete_elem w raw_map key = Some (0, w') \<and> wf_hash raw_map w' \<and>
      hash_abs raw_map w' = (hash_abs raw_map w)(k := None))"
  by (intro conjI, rule hash_lookup [OF assms(1-3)], rule hash_put [OF assms], rule hash_delete [OF assms(1-3)])

theorem hash_map_operations_witness:
  "\<exists>w'. bpf_map_update_elem hash_alloc hash_heap 0x100 0x200 0x300 = Some (0, w') \<and> wf_hash 0x100 w' \<and>
     hash_abs 0x100 w' = (hash_abs 0x100 hash_heap)([1, 2] \<mapsto> [7, 9])"
  using hash_map_operations [OF hash_heap_wf hash_heap_map, of "0x200" "[1, 2]" "0x300" "[7, 9]" hash_alloc]
    hash_heap_key hash_heap_free by (simp add: eval_nat_numeral)



text \<open>
  C34: Maps survive a reconfiguration by their names: once a relocation has produced a map, every later
  relocation for the same name, in whatever file, gets the same map when its definition agrees in type,
  key size, value size and number of entries, and 0 when it does not; it changes nothing.
\<close>

theorem map_relocation_by_name:
  assumes "do_map_relocation al ptr data n name off sz im s = Some (p, s')" "p \<noteq> 0" "sz \<noteq> 0"
    and "read_map_def data (unat off) = Some d" "read_map_def data' (unat off') = Some d'" "28 \<le> sz'"
  shows "do_map_relocation al' ptr' data' n' name off' sz' im' s' = Some (if same_definition d d' then p else 0, s')"
  by (rule do_map_relocation_later [OF assms])

theorem map_relocation_by_name_witness:
  "\<exists>s'. do_map_relocation hash_alloc 0x400 map_section 28 (Some ''m'') 0 28 0 (no_maps, empty_heap) = Some (0x2000, s') \<and>
     do_map_relocation hash_alloc 0x800 map_section 28 (Some ''m'') 0 28 0 s' = Some (0x2000, s')"
proof -
  obtain s' where s': "do_map_relocation hash_alloc 0x400 map_section 28 (Some ''m'') 0 28 0 (no_maps, empty_heap) = Some (0x2000, s')"
    using map_section_created by blast
  have r: "read_map_def map_section (unat (0 :: u64)) = Some map_definition" by (simp add: map_section_read)
  show ?thesis
    using map_relocation_by_name [OF s' _ _ r r, of 28 hash_alloc "0x800" 28 0] s' by (simp add: same_definition_def)
qed

section \<open>The elements\<close>

text \<open>
  C35: The lock of an element in \<open>BPFElement::configure\<close>: a configuration releases the write lock it
  takes exactly when it succeeds. Errors before the lock do not take it; after every later error (the
  file cannot be loaded, the signature is not valid, the program cannot be compiled) it stays locked.
\<close>

theorem configure_lock_kept_on_error:
  assumes "configure env conf args el w = Some (evs, el', w', fs, err)"
  shows "evs = (case err of None \<Rightarrow> [Wlock, Wunlock] | Some e \<Rightarrow> if before_lock e then [] else [Wlock])"
  by (rule configure_events [OF assms])

theorem configure_lock_kept_on_error_witness:
  "\<exists>evs el' w' fs e. configure sample_cf [''c''] (Some (file_args ''bad'' ''s'')) blank_element empty_heap =
     Some (evs, el', w', fs, Some (LoadFailed e)) \<and> evs = [Wlock]"
proof -
  obtain el' w' fs e where c: "configure sample_cf [''c''] (Some (file_args ''bad'' ''s'')) blank_element empty_heap =
      Some ([Wlock], el', w', fs, Some (LoadFailed e))"
    using sample_rejected by blast
  show ?thesis using configure_lock_kept_on_error [OF c] c by (auto simp: before_lock_def)
qed





section \<open>Control packets\<close>



section \<open>Packet source and devices\<close>

text \<open>
  C39: The packet source and its limit. Scheduled \<open>k\<close> times while the elements downstream accept
  packets, an active source with a limit that is not negative pushes exactly as many copies of its
  packet as \<open>k\<close> bursts have, but never more than are left of the limit, and counts them.
\<close>

theorem source_respects_limit:
  assumes "0 \<le> sint (is_limit source)" "is_count source \<le> is_limit source" "1 \<le> sint (is_burstsize source)"
    and "is_active source" "is_packet source = Some p"
  shows "\<exists>n es source'. n = min (k * unat (is_burstsize source)) (unat (is_limit source) - unat (is_count source)) \<and>
    source_runs k source = Some (es, source') \<and> filter is_push es = replicate n (Source_push p) \<and>
    unat (is_count source') = unat (is_count source) + n"
  using source_runs_within [of source p k] assms by (simp add: within_limit_def is_limited_def)

theorem source_respects_limit_witness:
  "\<exists>es source'. source_runs 4 \<lparr> is_packet = Some [0x45], is_burstsize = 3, is_limit = 10, is_count = 0, is_datasize = 1,
      is_active = True, is_timestamp = False, is_data = [], is_sipaddr = 0, is_dipaddr = 0, is_end_h = None,
      is_awake = True \<rparr> = Some (es, source') \<and>
    filter is_push es = replicate 10 (Source_push [0x45]) \<and> unat (is_count source') = 10"
  using source_respects_limit [of "\<lparr> is_packet = Some [0x45], is_burstsize = 3, is_limit = 10, is_count = 0,
    is_datasize = 1, is_active = True, is_timestamp = False, is_data = [], is_sipaddr = 0, is_dipaddr = 0,
    is_end_h = None, is_awake = True \<rparr>" "[0x45]" 4] by simp

text \<open>
  C40: \<open>ToDevice::run_task\<close>. When buffers can be allocated and the device accepts packets at once, the
  first 128 waiting packets are transmitted, in order. If more are waiting, the next one has been
  taken from the queue and is neither transmitted nor killed. The task always reports that it did
  nothing.
\<close>

theorem todevice_burst:
  assumes "ready t 128 env"
  shows "\<exists>es env'. todevice_run_task t waiting env =
      Some (False, es, if 128 < length waiting then Some (waiting ! 128) else None, drop 129 waiting, env') \<and>
    transmitted es = take 128 waiting"
  by (rule todevice_run_sends [OF assms])

theorem todevice_burst_witness:
  "\<exists>es env'. todevice_run_task \<lparr> status_notready = (\<lambda>s. s = 0), status_more = (\<lambda>s. 1 < s) \<rparr> (replicate 200 [7])
      \<lparr> tx_alloc = replicate 128 True, tx_status = replicate 128 1 \<rparr> =
      Some (False, es, Some [7], replicate 71 [7], env') \<and> transmitted es = replicate 128 [7]"
proof -
  have "ready \<lparr> status_notready = (\<lambda>s. s = 0), status_more = (\<lambda>s. 1 < s) \<rparr> 128
      \<lparr> tx_alloc = replicate 128 True, tx_status = replicate 128 1 \<rparr>"
    by (simp add: ready_def)
  from todevice_burst [OF this, of "replicate 200 [7]"] show ?thesis by simp
qed

end
